(* ===== verification/CKE_Prelude.thy ===== *)
theory CKE_Prelude
  imports Main "HOL-Library.Monad_Syntax" "HOL-Library.AList" "HOL-Library.Char_ord"
    "HOL-Library.List_Lexorder" "HOL-Library.Sublist"
begin

text \<open>
  Shared material of the development: the Go constructs that the components use (strings,
  integers, maps, loops over slices that may dereference a nil pointer) and the generic lemmas
  about them.

  Conventions:
  \<^item> A Go panic (nil dereference, index out of range, an explicit \<^verbatim>\<open>panic\<close>) is \<open>None\<close>;
    code that may panic is written in the option monad.
  \<^item> A Go map that the code iterates over is an association list: its order stands for the
    iteration order of the execution, which Go leaves open, and \<open>wf_map\<close> says that the keys
    are distinct. A Go map that is only looked up is a function.
  \<^item> A Go error is a value of a sum type, the error on the left.
  \<^item> \<^verbatim>\<open>time.Time\<close> is an integer number of nanoseconds; the zero time is \<open>zero_time\<close>.
    \<^verbatim>\<open>time.Now()\<close> is an argument.
\<close>

section \<open>Collections of facts\<close>

named_theorems go_total \<open>operations that do not panic on well-formed input, as rewrite rules\<close>
named_theorems go_returns \<open>what an operation returns when it does not panic, as introduction rules\<close>
named_theorems cke_defs \<open>definitions of constants and small accessors of the program\<close>

section \<open>Loops over slices that may panic\<close>

fun go_filter :: "('a \<Rightarrow> bool option) \<Rightarrow> 'a list \<Rightarrow> 'a list option" where
  "go_filter P [] = Some []"
| "go_filter P (x # xs) = do {
     b \<leftarrow> P x;
     ys \<leftarrow> go_filter P xs;
     Some (if b then x # ys else ys) }"

fun go_any :: "('a \<Rightarrow> bool option) \<Rightarrow> 'a list \<Rightarrow> bool option" where
  "go_any P [] = Some False"
| "go_any P (x # xs) = do { b \<leftarrow> P x; if b then Some True else go_any P xs }"

fun go_find :: "('a \<Rightarrow> bool option) \<Rightarrow> 'a list \<Rightarrow> 'a option option" where
  "go_find P [] = Some None"
| "go_find P (x # xs) = do { b \<leftarrow> P x; if b then Some (Some x) else go_find P xs }"

text \<open>Indexing a slice panics out of range.\<close>

definition go_index :: "'a list \<Rightarrow> nat \<Rightarrow> 'a option" where
  "go_index xs i = (if i < length xs then Some (xs ! i) else None)"

lemma go_index_Cons [simp]:
  "go_index (x # xs) 0 = Some x" "go_index (x # xs) (Suc i) = go_index xs i" "go_index [] i = None"
  by (simp_all add: go_index_def)

lemma bind_Some_iff [simp]: "(Option.bind m f = Some y) = (\<exists>x. m = Some x \<and> f x = Some y)"
  by (cases m) auto

lemma go_filter_total:
  "(\<And>x. x \<in> set xs \<Longrightarrow> P x = Some (Q x)) \<Longrightarrow> go_filter P xs = Some (filter Q xs)"
  by (induction xs) auto

lemma go_filter_pure [simp]: "go_filter (\<lambda>x. Some (Q x)) xs = Some (filter Q xs)"
  by (rule go_filter_total) simp

lemma go_filter_Some:
  "go_filter P xs = Some ys \<Longrightarrow>
     ys = filter (\<lambda>x. P x = Some True) xs \<and> (\<forall>x \<in> set xs. P x \<noteq> None)"
  by (induction xs arbitrary: ys) auto

lemma go_filter_subset: "go_filter P xs = Some ys \<Longrightarrow> set ys \<subseteq> set xs"
  by (drule go_filter_Some) auto

lemma go_filter_memD:
  "go_filter P xs = Some ys \<Longrightarrow> x \<in> set ys \<Longrightarrow> x \<in> set xs \<and> P x = Some True"
  by (drule go_filter_Some) auto

lemma go_filter_empty:
  "go_filter P xs = Some [] \<Longrightarrow> x \<in> set xs \<Longrightarrow> P x = Some False"
  by (induction xs) (auto split: if_splits)

lemma go_filter_subseq: "go_filter P xs = Some ys \<Longrightarrow> subseq ys xs"
  by (drule go_filter_Some) (auto simp: subseq_filter_left)

lemma go_filter_distinct: "go_filter P xs = Some ys \<Longrightarrow> distinct xs \<Longrightarrow> distinct ys"
  by (drule go_filter_Some) auto

lemma go_filter_not_None: "go_filter P xs \<noteq> None \<longleftrightarrow> (\<forall>x \<in> set xs. P x \<noteq> None)"
  by (induction xs) (auto simp: bind_eq_None_conv)

lemma go_filter_defined: "(\<exists>ys. go_filter P xs = Some ys) \<longleftrightarrow> (\<forall>x \<in> set xs. \<exists>b. P x = Some b)"
  using go_filter_not_None [of P xs] by auto

lemma go_filter_sel:
  "go_filter P xs = Some ys \<Longrightarrow> (\<And>x. P x = Some True \<longleftrightarrow> Q x) \<Longrightarrow> ys = filter Q xs"
  by (drule go_filter_Some) simp

lemma go_any_total:
  "(\<And>x. x \<in> set xs \<Longrightarrow> P x = Some (Q x)) \<Longrightarrow> go_any P xs = Some (\<exists>x \<in> set xs. Q x)"
  by (induction xs) auto

lemma go_any_True: "go_any P xs = Some True \<Longrightarrow> \<exists>x \<in> set xs. P x = Some True"
  by (induction xs) (auto split: if_splits)

lemma go_any_False: "go_any P xs = Some False \<Longrightarrow> \<forall>x \<in> set xs. P x = Some False"
  by (induction xs) (auto split: if_splits)

lemma go_find_total:
  "(\<And>x. x \<in> set xs \<Longrightarrow> P x = Some (Q x)) \<Longrightarrow> go_find P xs = Some (find Q xs)"
  by (induction xs) auto

lemma go_find_Some:
  "go_find P xs = Some (Some x) \<Longrightarrow> x \<in> set xs \<and> P x = Some True"
  by (induction xs) (auto split: if_splits)

lemma go_find_None:
  "go_find P xs = Some None \<Longrightarrow> \<forall>x \<in> set xs. P x = Some False"
  by (induction xs) (auto split: if_splits)

text \<open>Code that does not panic, with rules that follow its structure.\<close>

definition defined :: "'a option \<Rightarrow> bool" where
  "defined m \<longleftrightarrow> m \<noteq> None"

lemma defined_Some [simp, go_total]: "defined (Some x)"
  by (simp add: defined_def)

lemma definedI: "m = Some x \<Longrightarrow> defined m"
  by (simp add: defined_def)

lemma definedE: "defined m \<Longrightarrow> (\<And>x. m = Some x \<Longrightarrow> P) \<Longrightarrow> P"
  by (auto simp: defined_def)

lemma defined_ex: "defined m \<longleftrightarrow> (\<exists>x. m = Some x)"
  by (simp add: defined_def)

lemma defined_bind [go_total]:
  "defined m \<Longrightarrow> (\<And>x. m = Some x \<Longrightarrow> defined (f x)) \<Longrightarrow> defined (Option.bind m f)"
  by (cases m) (auto simp: defined_def)

lemma defined_if [go_total]: "(b \<Longrightarrow> defined x) \<Longrightarrow> (\<not> b \<Longrightarrow> defined y) \<Longrightarrow> defined (if b then x else y)"
  by simp

lemma defined_map_option [go_total]: "defined m \<Longrightarrow> defined (map_option f m)"
  by (cases m) (auto simp: defined_def)

lemma defined_case_list [go_total]:
  "(xs = [] \<Longrightarrow> defined a) \<Longrightarrow> (\<And>y ys. xs = y # ys \<Longrightarrow> defined (f y ys)) \<Longrightarrow>
     defined (case xs of [] \<Rightarrow> a | y # ys \<Rightarrow> f y ys)"
  by (cases xs) auto

lemma defined_case_option [go_total]:
  "(x = None \<Longrightarrow> defined a) \<Longrightarrow> (\<And>y. x = Some y \<Longrightarrow> defined (f y)) \<Longrightarrow>
     defined (case x of None \<Rightarrow> a | Some y \<Rightarrow> f y)"
  by (cases x) auto

text \<open>Partial correctness of a computation: whatever it returns satisfies the predicate.\<close>

definition returns :: "('a \<Rightarrow> bool) \<Rightarrow> 'a option \<Rightarrow> bool" where
  "returns P m \<longleftrightarrow> (\<forall>x. m = Some x \<longrightarrow> P x)"

lemma returnsI: "(\<And>x. m = Some x \<Longrightarrow> P x) \<Longrightarrow> returns P m"
  by (simp add: returns_def)

lemma returnsD: "returns P m \<Longrightarrow> m = Some x \<Longrightarrow> P x"
  by (simp add: returns_def)

lemma returns_Some [simp]: "returns P (Some x) \<longleftrightarrow> P x"
  by (simp add: returns_def)

lemma returns_SomeI [go_returns]: "P x \<Longrightarrow> returns P (Some x)"
  by simp

lemma returns_None [simp, go_returns]: "returns P None"
  by (simp add: returns_def)

lemma returns_bind [go_returns]: "(\<And>x. m = Some x \<Longrightarrow> returns P (f x)) \<Longrightarrow> returns P (Option.bind m f)"
  by (cases m) (auto simp: returns_def)

lemma returns_if [go_returns]:
  "(b \<Longrightarrow> returns P x) \<Longrightarrow> (\<not> b \<Longrightarrow> returns P y) \<Longrightarrow> returns P (if b then x else y)"
  by simp

lemma returns_map_option [go_returns]: "(\<And>x. m = Some x \<Longrightarrow> P (f x)) \<Longrightarrow> returns P (map_option f m)"
  by (cases m) (auto simp: returns_def)

lemma returns_case_list [go_returns]:
  "(xs = [] \<Longrightarrow> returns P a) \<Longrightarrow> (\<And>y ys. xs = y # ys \<Longrightarrow> returns P (f y ys)) \<Longrightarrow>
     returns P (case xs of [] \<Rightarrow> a | y # ys \<Rightarrow> f y ys)"
  by (cases xs) auto

lemma returns_case_option [go_returns]:
  "(x = None \<Longrightarrow> returns P a) \<Longrightarrow> (\<And>y. x = Some y \<Longrightarrow> returns P (f y)) \<Longrightarrow>
     returns P (case x of None \<Rightarrow> a | Some y \<Rightarrow> f y)"
  by (cases x) auto

section \<open>Go integers and time\<close>

text \<open>Signed 64-bit wrap-around, for the few places where the code can overflow.\<close>

definition wrap64 :: "int \<Rightarrow> int" where
  "wrap64 i = (i + 2 ^ 63) mod 2 ^ 64 - 2 ^ 63"

lemma wrap64_id: "- (2 ^ 63) \<le> i \<Longrightarrow> i < 2 ^ 63 \<Longrightarrow> wrap64 i = i"
  by (simp add: wrap64_def)

lemma wrap64_range: "- (2 ^ 63) \<le> wrap64 i \<and> wrap64 i < 2 ^ 63"
  by (simp add: wrap64_def)

definition second :: int where "second = 1000000000"

text \<open>\<^verbatim>\<open>time.Duration(n) * time.Second\<close>, a product of two \<^verbatim>\<open>int64\<close> values.\<close>

definition seconds :: "int \<Rightarrow> int" where
  "seconds n = wrap64 (n * second)"

lemma seconds_id: "0 \<le> n \<Longrightarrow> n \<le> 9000000000 \<Longrightarrow> seconds n = n * second"
  unfolding seconds_def second_def by (rule wrap64_id) auto

definition zero_time :: int where "zero_time = 0"

definition truncate_second :: "int \<Rightarrow> int" where
  "truncate_second t = t - t mod second"

section \<open>Go strings\<close>

definition HasPrefix :: "string \<Rightarrow> string \<Rightarrow> bool" where
  "HasPrefix s p \<longleftrightarrow> take (length p) s = p"

fun Contains :: "string \<Rightarrow> string \<Rightarrow> bool" where
  "Contains [] sub \<longleftrightarrow> sub = []"
| "Contains (c # cs) sub \<longleftrightarrow> HasPrefix (c # cs) sub \<or> Contains cs sub"

lemma HasPrefix_append [simp]: "HasPrefix (p @ s) p"
  by (simp add: HasPrefix_def)

lemma HasPrefix_iff: "HasPrefix s p \<longleftrightarrow> (\<exists>r. s = p @ r)"
  by (auto simp: HasPrefix_def) (metis append_take_drop_id)

fun Join :: "string list \<Rightarrow> string \<Rightarrow> string" where
  "Join [] sep = []"
| "Join [x] sep = x"
| "Join (x # xs) sep = x @ sep @ Join xs sep"

definition digit :: "nat \<Rightarrow> char" where
  "digit n = char_of (48 + n)"

fun nat_digits :: "nat \<Rightarrow> string" where
  "nat_digits n = (if n < 10 then [digit n] else nat_digits (n div 10) @ [digit (n mod 10)])"

declare nat_digits.simps [simp del]

text \<open>\<^verbatim>\<open>strconv.Itoa\<close>, \<^verbatim>\<open>strconv.FormatInt(_, 10)\<close> and the verb \<^verbatim>\<open>%d\<close>.\<close>

definition Itoa :: "int \<Rightarrow> string" where
  "Itoa i = (if i < 0 then ''-'' @ nat_digits (nat (- i)) else nat_digits (nat i))"

section \<open>Go maps\<close>

type_synonym ('k, 'v) gomap = "('k \<times> 'v) list"

definition wf_map :: "('k, 'v) gomap \<Rightarrow> bool" where
  "wf_map m \<longleftrightarrow> distinct (map fst m)"

definition mput :: "'k \<Rightarrow> 'v \<Rightarrow> ('k, 'v) gomap \<Rightarrow> ('k, 'v) gomap" where
  "mput k v m = AList.update k v m"

text \<open>\<^verbatim>\<open>maps.Copy(dst, src)\<close>.\<close>

definition maps_Copy :: "('k, 'v) gomap \<Rightarrow> ('k, 'v) gomap \<Rightarrow> ('k, 'v) gomap" where
  "maps_Copy dst src = fold (\<lambda>(k, v) m. mput k v m) src dst"

text \<open>Reading a missing key gives the zero value of the element type.\<close>

definition mget_bool :: "('k, bool) gomap \<Rightarrow> 'k \<Rightarrow> bool" where
  "mget_bool m k = (map_of m k = Some True)"

definition mget_str :: "('k, string) gomap \<Rightarrow> 'k \<Rightarrow> string" where
  "mget_str m k = (case map_of m k of None \<Rightarrow> [] | Some v \<Rightarrow> v)"

lemma map_of_mput [simp]: "map_of (mput k v m) = (map_of m)(k \<mapsto> v)"
  by (simp add: mput_def update_conv')

lemma wf_map_mput [intro]: "wf_map m \<Longrightarrow> wf_map (mput k v m)"
  by (simp add: wf_map_def mput_def distinct_update)

lemma wf_map_Nil [simp]: "wf_map []"
  by (simp add: wf_map_def)

lemma wf_map_filter [intro]: "wf_map m \<Longrightarrow> wf_map (filter P m)"
  by (auto simp: wf_map_def distinct_map intro: inj_on_subset)

lemma map_of_maps_Copy:
  "wf_map src \<Longrightarrow> map_of (maps_Copy dst src) k =
     (case map_of src k of Some v \<Rightarrow> Some v | None \<Rightarrow> map_of dst k)"
proof (induction src arbitrary: dst)
  case Nil
  then show ?case by (simp add: maps_Copy_def)
next
  case (Cons a src)
  obtain k' v' where a: "a = (k', v')" by (cases a)
  from Cons.prems a have wf: "wf_map src" and new: "map_of src k' = None"
    by (auto simp: wf_map_def map_of_eq_None_iff)
  have "maps_Copy dst (a # src) = maps_Copy (mput k' v' dst) src"
    by (simp add: maps_Copy_def a)
  with Cons.IH [OF wf, of "mput k' v' dst"] a new show ?case
    by (auto split: option.splits)
qed

lemma wf_map_maps_Copy [intro]: "wf_map dst \<Longrightarrow> wf_map (maps_Copy dst src)"
  unfolding maps_Copy_def by (induction src arbitrary: dst) auto

lemma map_of_filter_keys:
  "map_of (filter (\<lambda>(k, v). P k) m) k = (if P k then map_of m k else None)"
  by (induction m) auto

lemma in_set_map_of: "wf_map m \<Longrightarrow> (k, v) \<in> set m \<longleftrightarrow> map_of m k = Some v"
  unfolding wf_map_def by (rule map_of_eq_Some_iff [symmetric])

text \<open>
  A map comparison in the style of the code (same size, and every entry of one found in the
  other) is equality as maps.
\<close>

lemma map_eq_by_inclusion:
  assumes wf: "wf_map m" "wf_map m'" and len: "length m = length m'"
    and sub: "\<And>k v. map_of m k = Some v \<Longrightarrow> map_of m' k = Some v"
  shows "map_of m = map_of m'"
proof -
  have "set m \<subseteq> set m'"
    using sub wf by (auto simp: in_set_map_of)
  moreover have "card (set m) = card (set m')"
    using wf len by (simp add: wf_map_def distinct_map distinct_card)
  ultimately have eq: "set m = set m'"
    by (simp add: card_subset_eq)
  show ?thesis
    using eq wf by (simp add: wf_map_def map_of_inject_set)
qed

section \<open>Sorting slices of strings\<close>

text \<open>
  \<^verbatim>\<open>slices.Compact\<close> after \<^verbatim>\<open>slices.Sort\<close>: consecutive duplicates are removed. Strings compare
  byte-wise and lexicographically, which is the order of the library on character lists.
\<close>

definition slices_Compact :: "'a list \<Rightarrow> 'a list" where
  "slices_Compact xs = remdups_adj xs"

lemma distinct_remdups_adj_sorted: "sorted xs \<Longrightarrow> distinct (remdups_adj xs)"
proof (induction xs rule: remdups_adj.induct)
  case (3 x y xs)
  then show ?case by (cases "x = y") (auto dest: order_antisym)
qed auto

lemma sort_compact_distinct: "distinct (slices_Compact (sort xs))"
  by (simp add: slices_Compact_def distinct_remdups_adj_sorted)

lemma sort_compact_set [simp]: "set (slices_Compact (sort xs)) = set xs"
  by (simp add: slices_Compact_def)

end
