(* ===== verification/CKE_Cluster.thy ===== *)
theory CKE_Cluster
  imports CKE_Prelude
begin

text \<open>
  The cluster definition: \<^verbatim>\<open>cluster.go\<close> (its structs, the comparison of service parameters and the
  partition of the nodes), \<^verbatim>\<open>collections.go\<close>, \<^verbatim>\<open>constraints.go\<close> and \<^verbatim>\<open>images.go\<close>.

  A struct is a record whose fields carry the Go names with a short prefix; an embedded struct is a
  field. The Kubernetes configuration types are third-party: a record has the fields this program
  reads or writes and one opaque field for the rest.
\<close>

section \<open>Nodes and service parameters\<close>

record Taint =
  tKey :: string
  tValue :: string
  tEffect :: string

abbreviation "TaintEffectNoSchedule \<equiv> ''NoSchedule''"
abbreviation "TaintEffectPreferNoSchedule \<equiv> ''PreferNoSchedule''"
abbreviation "TaintEffectNoExecute \<equiv> ''NoExecute''"

record Node =
  nAddress :: string
  nHostname :: string
  nUser :: string
  nControlPlane :: bool
  nAnnotations :: "(string, string) gomap"
  nLabels :: "(string, string) gomap"
  nTaints :: "Taint list"

definition Nodename :: "Node \<Rightarrow> string" where
  "Nodename n = (if length (nHostname n) = 0 then nAddress n else nHostname n)"

record Mount =
  mSource :: string
  mDestination :: string
  mReadOnly :: bool
  mPropagation :: string
  mLabel :: string

definition Mount_Equal :: "Mount \<Rightarrow> Mount \<Rightarrow> bool" where
  "Mount_Equal m o' \<longleftrightarrow>
     mSource m = mSource o' \<and> mDestination m = mDestination o' \<and> mReadOnly m = mReadOnly o'"

record ServiceParams =
  spExtraArguments :: "string list"
  spExtraBinds :: "Mount list"
  spExtraEnvvar :: "(string, string) gomap"

text \<open>The loops of \<^verbatim>\<open>collections.go\<close>, which compare index by index after comparing lengths.\<close>

definition compareStrings :: "string list \<Rightarrow> string list \<Rightarrow> bool" where
  "compareStrings s1 s2 =
     (if length s1 \<noteq> length s2 then False
      else list_all (\<lambda>i. s1 ! i = s2 ! i) [0..<length s1])"

definition compareStringMap :: "(string, string) gomap \<Rightarrow> (string, string) gomap \<Rightarrow> bool" where
  "compareStringMap m1 m2 =
     (if length m1 \<noteq> length m2 then False
      else list_all (\<lambda>(k, v). case map_of m2 k of None \<Rightarrow> False | Some v2 \<Rightarrow> v = v2) m1)"

definition compareMounts :: "Mount list \<Rightarrow> Mount list \<Rightarrow> bool" where
  "compareMounts m1 m2 =
     (if length m1 \<noteq> length m2 then False
      else list_all (\<lambda>i. Mount_Equal (m1 ! i) (m2 ! i)) [0..<length m1])"

definition ServiceParams_Equal :: "ServiceParams \<Rightarrow> ServiceParams \<Rightarrow> bool" where
  "ServiceParams_Equal s o' \<longleftrightarrow>
     compareStrings (spExtraArguments s) (spExtraArguments o') \<and>
     compareMounts (spExtraBinds s) (spExtraBinds o') \<and>
     compareStringMap (spExtraEnvvar s) (spExtraEnvvar o')"

section \<open>Component configurations\<close>

text \<open>\<^verbatim>\<open>unstructured.Unstructured\<close>: the API version and kind that the code reads, and the content.\<close>

record Unstructured =
  uAPIVersion :: string
  uKind :: string
  uContent :: string

text \<open>The fields of a kubelet configuration that must not change while the node runs.\<close>

record KubeletKeptFields =
  kkKubeletCgroups :: string
  kkSystemCgroups :: string
  kkCgroupRoot :: string
  kkCgroupsPerQOS :: "bool option"
  kkCgroupDriver :: string
  kkCPUManagerPolicy :: string
  kkTopologyManagerPolicy :: string
  kkQOSReserved :: "(string, string) gomap"
  kkSystemReservedCgroup :: string
  kkKubeReservedCgroup :: string

record KubeletConfiguration =
  kcClusterDomain :: string
  kcRuntimeRequestTimeout :: int
  kcHealthzBindAddress :: string
  kcVolumePluginDir :: string
  kcTLSCertFile :: string
  kcTLSPrivateKeyFile :: string
  kcAuthentication :: "string \<times> bool"
  kcAuthorizationMode :: string
  kcClusterDNS :: "string list"
  kcRegisterWithTaints :: "Taint list"
  kcKept :: KubeletKeptFields
  kcOther :: string

record SchedulerConfiguration =
  scKubeconfig :: string
  scLeaderElect :: "bool option"
  scOther :: string

record ProxyConfiguration =
  pcHostnameOverride :: string
  pcMetricsBindAddress :: string
  pcTCPEstablishedTimeout :: "int option"
  pcTCPCloseWaitTimeout :: "int option"
  pcKubeconfig :: string
  pcMode :: string
  pcOther :: string

text \<open>
  The third-party functions the modelled code calls: the compilation of a label selector (an error or
  the predicate on labels it stands for), the JSON round trip that overlays a user's
  \<^verbatim>\<open>Unstructured\<close> on a default configuration (\<open>None\<close> when it does not decode), the semantic
  comparison of configurations (\<^verbatim>\<open>equality.Semantic.DeepEqual\<close>, the running one may be nil), and the
  rendering of an MD5 digest in hexadecimal.
\<close>

type_synonym LabelSelector = string

record third_party =
  tpLabelSelectorAsSelector ::
    "LabelSelector option \<Rightarrow> string + ((string, string) gomap \<Rightarrow> bool)"
  tpOverlayKubelet :: "KubeletConfiguration \<Rightarrow> Unstructured \<Rightarrow> KubeletConfiguration option"
  tpOverlayScheduler :: "SchedulerConfiguration \<Rightarrow> Unstructured \<Rightarrow> SchedulerConfiguration option"
  tpOverlayProxy :: "ProxyConfiguration \<Rightarrow> Unstructured \<Rightarrow> ProxyConfiguration option"
  tpEqualKubelet :: "KubeletConfiguration \<Rightarrow> KubeletConfiguration option \<Rightarrow> bool"
  tpEqualScheduler :: "SchedulerConfiguration \<Rightarrow> SchedulerConfiguration option \<Rightarrow> bool"
  tpEqualProxy :: "ProxyConfiguration \<Rightarrow> ProxyConfiguration option \<Rightarrow> bool"
  tpMD5 :: "string \<Rightarrow> string"
  tpURLHost :: "string \<Rightarrow> string + string"

text \<open>Documented behaviour: a configuration is semantically equal to itself.\<close>

definition DeepEqual_refl :: "third_party \<Rightarrow> bool" where
  "DeepEqual_refl T \<longleftrightarrow>
     (\<forall>c. tpEqualKubelet T c (Some c)) \<and> (\<forall>c. tpEqualScheduler T c (Some c)) \<and>
     (\<forall>c. tpEqualProxy T c (Some c))"

record EtcdParams =
  epServiceParams :: ServiceParams
  epVolumeName :: string

record APIServerParams =
  apServiceParams :: ServiceParams
  apAuditLogEnabled :: bool
  apAuditLogPolicy :: string
  apAuditLogPath :: string

record CNIConfFile =
  cniName :: string
  cniContent :: string

record SchedulerParams =
  schServiceParams :: ServiceParams
  schConfig :: "Unstructured option"

record ProxyParams =
  prServiceParams :: ServiceParams
  prDisable :: bool
  prConfig :: "Unstructured option"

record KubeletParams =
  klServiceParams :: ServiceParams
  klBootTaints :: "Taint list"
  klCNIConfFile :: CNIConfFile
  klConfig :: "Unstructured option"
  klCRIEndpoint :: string
  klInPlaceUpdate :: bool

definition Kubelet_MergeConfig ::
  "third_party \<Rightarrow> KubeletParams \<Rightarrow> KubeletConfiguration \<Rightarrow> string + KubeletConfiguration" where
  "Kubelet_MergeConfig T p base = (case klConfig p of
      None \<Rightarrow> Inr base
    | Some u \<Rightarrow>
        if uAPIVersion u \<noteq> ''kubelet.config.k8s.io/v1beta1''
        then Inl (''unexpected kubelet API version: '' @ uAPIVersion u)
        else if uKind u \<noteq> ''KubeletConfiguration''
        then Inl (''wrong kind for kubelet config: '' @ uKind u)
        else (case tpOverlayKubelet T base u of None \<Rightarrow> Inl ''unmarshal'' | Some c \<Rightarrow> Inr c))"

definition Scheduler_MergeConfig ::
  "third_party \<Rightarrow> SchedulerParams \<Rightarrow> SchedulerConfiguration \<Rightarrow> string + SchedulerConfiguration" where
  "Scheduler_MergeConfig T p base = (case schConfig p of
      None \<Rightarrow> Inr base
    | Some u \<Rightarrow>
        if uAPIVersion u \<noteq> ''kubescheduler.config.k8s.io/v1''
        then Inl (''unexpected kube-scheduler API version: '' @ uAPIVersion u)
        else if uKind u \<noteq> ''KubeSchedulerConfiguration''
        then Inl (''wrong kind for kube-scheduler config: '' @ uKind u)
        else (case tpOverlayScheduler T base u of None \<Rightarrow> Inl ''unmarshal'' | Some c \<Rightarrow> Inr c))"

definition Proxy_MergeConfig ::
  "third_party \<Rightarrow> ProxyParams \<Rightarrow> ProxyConfiguration \<Rightarrow> string + ProxyConfiguration" where
  "Proxy_MergeConfig T p base = (case prConfig p of
      None \<Rightarrow> Inr base
    | Some u \<Rightarrow>
        if uAPIVersion u \<noteq> ''kubeproxy.config.k8s.io/v1alpha1''
        then Inl (''unexpected kube-proxy API version: '' @ uAPIVersion u)
        else if uKind u \<noteq> ''KubeProxyConfiguration''
        then Inl (''wrong kind for kube-proxy config: '' @ uKind u)
        else (case tpOverlayProxy T base u of None \<Rightarrow> Inl ''unmarshal'' | Some c \<Rightarrow> Inr c))"

section \<open>The cluster\<close>

record Reboot =
  rbRebootCommand :: "string list"
  rbBootCheckCommand :: "string list"
  rbMaxConcurrentReboots :: "int option"
  rbEvictionTimeoutSeconds :: "int option"
  rbCommandTimeoutSeconds :: "int option"
  rbCommandRetries :: "int option"
  rbCommandInterval :: "int option"
  rbEvictRetries :: "int option"
  rbEvictInterval :: "int option"
  rbProtectedNamespaces :: "LabelSelector option"
  rbProtectedJobPods :: "LabelSelector option"

definition DefaultRebootEvictionTimeoutSeconds :: int where
  "DefaultRebootEvictionTimeoutSeconds = 600"
definition DefaultMaxConcurrentReboots :: int where
  "DefaultMaxConcurrentReboots = 1"

record RepairStep =
  rsRepairCommand :: "string list"
  rsCommandTimeoutSeconds :: "int option"
  rsCommandRetries :: "int option"
  rsCommandInterval :: "int option"
  rsNeedDrain :: bool
  rsWatchSeconds :: "int option"

record RepairOperation =
  roOperation :: string
  roRepairSteps :: "RepairStep list"
  roHealthCheckCommand :: "string list"
  roCommandTimeoutSeconds :: "int option"
  roSuccessCommand :: "string list option"
  roSuccessCommandTimeout :: "int option"

record RepairProcedure =
  rpMachineTypes :: "string list"
  rpRepairOperations :: "RepairOperation list"

record Repair =
  rpRepairProcedures :: "RepairProcedure list"
  rpMaxConcurrentRepairs :: "int option"
  rpProtectedNamespaces :: "LabelSelector option"
  rpEvictRetries :: "int option"
  rpEvictInterval :: "int option"
  rpEvictionTimeoutSeconds :: "int option"
  rpProtectedJobPods :: "LabelSelector option"

definition DefaultMaxConcurrentRepairs :: int where
  "DefaultMaxConcurrentRepairs = 1"
definition DefaultRepairEvictionTimeoutSeconds :: int where
  "DefaultRepairEvictionTimeoutSeconds = 600"

record TrustedRESTMapping =
  trGroup :: string
  trVersion :: string
  trKind :: string
  trResource :: string
  trNamespaced :: bool

record Options =
  oEtcd :: EtcdParams
  oRivers :: ServiceParams
  oEtcdRivers :: ServiceParams
  oAPIServer :: APIServerParams
  oControllerManager :: ServiceParams
  oScheduler :: SchedulerParams
  oProxy :: ProxyParams
  oKubelet :: KubeletParams

record Cluster =
  cName :: string
  cNodes :: "Node list"
  cTaintCP :: bool
  cCPTolerations :: "string list"
  cServiceSubnet :: string
  cDNSServers :: "string list"
  cDNSService :: string
  cReboot :: Reboot
  cRepair :: Repair
  cSpareNodeTaintKey :: string
  cOptions :: Options
  cTrustedRESTMappings :: "TrustedRESTMapping list"

definition filterNodes :: "Node list \<Rightarrow> (Node \<Rightarrow> bool) \<Rightarrow> Node list" where
  "filterNodes nodes f = filter f nodes"

definition ControlPlanes :: "Node list \<Rightarrow> Node list" where
  "ControlPlanes nodes = filterNodes nodes nControlPlane"

definition Workers :: "Node list \<Rightarrow> Node list" where
  "Workers nodes = filterNodes nodes (\<lambda>n. \<not> nControlPlane n)"

definition validateTrustedRESTMappings :: "TrustedRESTMapping list \<Rightarrow> string option" where
  "validateTrustedRESTMappings mappings =
     (let key = (\<lambda>m. trGroup m @ ''/'' @ trVersion m @ ''/'' @ trKind m);
          check = (\<lambda>i. let m = mappings ! i; at = ''trusted_rest_mappings['' @ Itoa (int i) @ '']: '' in
            if length (trVersion m) = 0 then Some (at @ ''version is empty'')
            else if length (trKind m) = 0 then Some (at @ ''kind is empty'')
            else if length (trResource m) = 0 then Some (at @ ''resource is empty'')
            else if key m \<in> set (map key (take i mappings))
            then Some (at @ ''duplicate mapping for '' @ key m)
            else None)
      in case filter (\<lambda>e. e \<noteq> None) (map check [0..<length mappings]) of
           [] \<Rightarrow> None
         | e # _ \<Rightarrow> e)"

definition validateSelectors :: "third_party \<Rightarrow> LabelSelector option list \<Rightarrow> string option" where
  "validateSelectors T ls =
     (case filter isl (map (tpLabelSelectorAsSelector T) ls) of
        [] \<Rightarrow> None
      | e # _ \<Rightarrow> Some (''invalid label selector: '' @ projl e))"

definition validateReboot :: "third_party \<Rightarrow> Reboot \<Rightarrow> string option" where
  "validateReboot T r =
    (let neg = (\<lambda>x. case x of None \<Rightarrow> False | Some v \<Rightarrow> v < (0::int));
         nonpos = (\<lambda>x. case x of None \<Rightarrow> False | Some v \<Rightarrow> v \<le> (0::int)) in
     if nonpos (rbEvictionTimeoutSeconds r) then Some ''eviction_timeout_seconds must be positive''
     else if neg (rbCommandTimeoutSeconds r) then Some ''command_timeout_seconds must not be negative''
     else if neg (rbCommandRetries r) then Some ''command_retries must not be negative''
     else if neg (rbCommandInterval r) then Some ''command_interval must not be negative''
     else if neg (rbEvictRetries r) then Some ''evict_retries must not be negative''
     else if neg (rbEvictInterval r) then Some ''evict_interval must not be negative''
     else if nonpos (rbMaxConcurrentReboots r) then Some ''max_concurrent_reboots must be positive''
     else validateSelectors T [rbProtectedNamespaces r, rbProtectedJobPods r])"

definition validateRepair :: "third_party \<Rightarrow> Repair \<Rightarrow> string option" where
  "validateRepair T r =
    (let neg = (\<lambda>x. case x of None \<Rightarrow> False | Some v \<Rightarrow> v < (0::int));
         nonpos = (\<lambda>x. case x of None \<Rightarrow> False | Some v \<Rightarrow> v \<le> (0::int)) in
     if nonpos (rpMaxConcurrentRepairs r) then Some ''max_concurrent_repairs must be positive''
     else if neg (rpEvictRetries r) then Some ''evict_retries must not be negative''
     else if neg (rpEvictInterval r) then Some ''evict_interval must not be negative''
     else if nonpos (rpEvictionTimeoutSeconds r) then Some ''eviction_timeout_seconds must be positive''
     else validateSelectors T [rpProtectedNamespaces r, rpProtectedJobPods r])"

record Constraints =
  ctControlPlaneCount :: int
  ctMinimumWorkersRate :: int
  ctRebootMaximumUnreachable :: int
  ctMaximumRepairs :: int
  ctRepairRebootingSeconds :: int

fun cpCount :: "Node list \<Rightarrow> int" where
  "cpCount [] = 0"
| "cpCount (n # ns) = (if nControlPlane n then 1 + cpCount ns else cpCount ns)"

definition Constraints_Check :: "Constraints \<Rightarrow> Cluster \<Rightarrow> string option" where
  "Constraints_Check c cluster =
     (if cpCount (cNodes cluster) \<noteq> ctControlPlaneCount c
      then Some ''number of control planes is not equal to the constraint'' else None)"

definition DefaultConstraints :: Constraints where
  "DefaultConstraints = \<lparr>ctControlPlaneCount = 1, ctMinimumWorkersRate = 80,
     ctRebootMaximumUnreachable = 0, ctMaximumRepairs = 0, ctRepairRebootingSeconds = 0\<rparr>"

section \<open>Images and versions\<close>

definition EtcdImage :: string where "EtcdImage = ''ghcr.io/cybozu/etcd:3.6.11.1''"
definition KubernetesImage :: string where "KubernetesImage = ''ghcr.io/cybozu/kubernetes:1.35.5.1''"
definition ToolsImage :: string where "ToolsImage = ''ghcr.io/cybozu-go/cke-tools:1.35.0''"
definition ConfigVersion :: string where "ConfigVersion = ''2''"

section \<open>Lemmas\<close>

lemma compareStrings_iff: "compareStrings s1 s2 \<longleftrightarrow> s1 = s2"
  by (auto simp: compareStrings_def list_all_iff intro: nth_equalityI)

lemma compareStringMap_iff:
  assumes "wf_map m1" "wf_map m2"
  shows "compareStringMap m1 m2 \<longleftrightarrow> map_of m1 = map_of m2"
proof
  assume c: "compareStringMap m1 m2"
  then have len: "length m1 = length m2"
    and all: "\<And>k v. (k, v) \<in> set m1 \<Longrightarrow> map_of m2 k = Some v"
    by (auto simp: compareStringMap_def list_all_iff split: if_splits option.splits)
  show "map_of m1 = map_of m2"
    by (rule map_eq_by_inclusion [OF assms len]) (auto intro: all map_of_SomeD)
next
  assume eq: "map_of m1 = map_of m2"
  then have "set m1 = set m2"
    using assms by (simp add: wf_map_def map_of_inject_set)
  then have "length m1 = length m2"
    using assms by (metis distinct_card distinct_map wf_map_def)
  moreover have "map_of m2 k = Some v" if "(k, v) \<in> set m1" for k v
    using that assms eq by (simp add: in_set_map_of)
  ultimately show "compareStringMap m1 m2"
    by (auto simp: compareStringMap_def list_all_iff)
qed

lemma compareMounts_iff: "compareMounts m1 m2 \<longleftrightarrow> list_all2 Mount_Equal m1 m2"
  by (auto simp: compareMounts_def list_all_iff list_all2_conv_all_nth)

lemma Mount_Equal_refl [simp]: "Mount_Equal m m"
  by (simp add: Mount_Equal_def)

lemma compareStringMap_refl: "wf_map m \<Longrightarrow> compareStringMap m m"
  by (simp add: compareStringMap_iff)

definition wf_params :: "ServiceParams \<Rightarrow> bool" where
  "wf_params p \<longleftrightarrow> wf_map (spExtraEnvvar p)"

lemma ServiceParams_Equal_refl [simp]: "wf_params p \<Longrightarrow> ServiceParams_Equal p p"
  by (simp add: ServiceParams_Equal_def compareStrings_iff compareMounts_iff list_all2_refl
      compareStringMap_refl wf_params_def)

lemma cpCount_length: "cpCount ns = int (length (ControlPlanes ns))"
  by (induction ns) (auto simp: ControlPlanes_def filterNodes_def)

end
