(* ===== verification/CKE_Queue.thy ===== *)
theory CKE_Queue
  imports CKE_Cluster
begin

text \<open>
  The entries of the reboot queue (\<^verbatim>\<open>reboot.go\<close>) and of the repair queue (\<^verbatim>\<open>repair.go\<close>), with the
  functions on them: construction, deduplication, counting, the status tables for the metrics, and
  the lookup of the current repair step. A status is a string, as in the source.
\<close>

section \<open>Reboot queue entries\<close>

definition RebootStatusQueued :: string where "RebootStatusQueued = ''queued''"
definition RebootStatusDraining :: string where "RebootStatusDraining = ''draining''"
definition RebootStatusRebooting :: string where "RebootStatusRebooting = ''rebooting''"
definition RebootStatusCancelled :: string where "RebootStatusCancelled = ''cancelled''"

lemmas RebootStatus_defs = RebootStatusQueued_def RebootStatusDraining_def
  RebootStatusRebooting_def RebootStatusCancelled_def

lemma RebootStatus_distinct [simp]:
  "RebootStatusQueued \<noteq> RebootStatusDraining" "RebootStatusDraining \<noteq> RebootStatusQueued"
  "RebootStatusQueued \<noteq> RebootStatusRebooting" "RebootStatusRebooting \<noteq> RebootStatusQueued"
  "RebootStatusQueued \<noteq> RebootStatusCancelled" "RebootStatusCancelled \<noteq> RebootStatusQueued"
  "RebootStatusDraining \<noteq> RebootStatusRebooting" "RebootStatusRebooting \<noteq> RebootStatusDraining"
  "RebootStatusDraining \<noteq> RebootStatusCancelled" "RebootStatusCancelled \<noteq> RebootStatusDraining"
  "RebootStatusRebooting \<noteq> RebootStatusCancelled" "RebootStatusCancelled \<noteq> RebootStatusRebooting"
  by (simp_all add: RebootStatus_defs)

definition rebootStatuses :: "string list" where
  "rebootStatuses =
     [RebootStatusQueued, RebootStatusDraining, RebootStatusRebooting, RebootStatusCancelled]"

record RebootQueueEntry =
  rqIndex :: int
  rqNode :: string
  rqStatus :: string
  rqLastTransitionTime :: int
  rqDrainBackOffCount :: int
  rqDrainBackOffExpire :: int

definition NewRebootQueueEntry :: "string \<Rightarrow> RebootQueueEntry" where
  "NewRebootQueueEntry node = \<lparr>rqIndex = 0, rqNode = node, rqStatus = RebootStatusQueued,
     rqLastTransitionTime = zero_time, rqDrainBackOffCount = 0, rqDrainBackOffExpire = zero_time\<rparr>"

definition ClusterMember :: "RebootQueueEntry \<Rightarrow> Cluster \<Rightarrow> bool" where
  "ClusterMember entry c \<longleftrightarrow> list_ex (\<lambda>n. rqNode entry = nAddress n) (cNodes c)"

fun dedup_loop :: "string list \<Rightarrow> RebootQueueEntry list \<Rightarrow> RebootQueueEntry list" where
  "dedup_loop nodes [] = []"
| "dedup_loop nodes (entry # entries) =
     (if rqNode entry \<notin> set nodes then entry # dedup_loop (rqNode entry # nodes) entries
      else dedup_loop nodes entries)"

definition DedupRebootQueueEntries :: "RebootQueueEntry list \<Rightarrow> RebootQueueEntry list" where
  "DedupRebootQueueEntries entries = dedup_loop [] entries"

text \<open>\<^verbatim>\<open>m[k]++\<close> on a map of integers.\<close>

definition mincr :: "string \<Rightarrow> (string, nat) gomap \<Rightarrow> (string, nat) gomap" where
  "mincr k m = mput k (Suc (case map_of m k of None \<Rightarrow> 0 | Some c \<Rightarrow> c)) m"

definition CountRebootQueueEntries :: "RebootQueueEntry list \<Rightarrow> (string, nat) gomap" where
  "CountRebootQueueEntries entries =
     fold (\<lambda>entry ret. mincr (rqStatus entry) ret) entries
       (fold (\<lambda>status ret. mput status 0 ret) rebootStatuses [])"

definition init_flags :: "string list \<Rightarrow> (string, bool) gomap" where
  "init_flags sts = fold (\<lambda>status m. mput status False m) sts []"

text \<open>\<^verbatim>\<open>ret[name][status] = true\<close>, a write to a nil map (a panic) when the name is missing.\<close>

definition set_flag ::
  "string \<Rightarrow> string \<Rightarrow> (string, (string, bool) gomap) gomap \<Rightarrow>
   (string, (string, bool) gomap) gomap option" where
  "set_flag name status ret =
     (case map_of ret name of
        None \<Rightarrow> None
      | Some m \<Rightarrow> Some (mput name (mput status True m) ret))"

fun set_flags ::
  "('e \<Rightarrow> string option) \<Rightarrow> ('e \<Rightarrow> string) \<Rightarrow> 'e list \<Rightarrow>
   (string, (string, bool) gomap) gomap \<Rightarrow> (string, (string, bool) gomap) gomap option" where
  "set_flags name status [] ret = Some ret"
| "set_flags name status (entry # entries) ret =
     (case name entry of
        None \<Rightarrow> set_flags name status entries ret
      | Some nm \<Rightarrow> do {
          ret' \<leftarrow> set_flag nm (status entry) ret;
          set_flags name status entries ret' })"

definition BuildNodeRebootStatus ::
  "Node list \<Rightarrow> RebootQueueEntry list \<Rightarrow> (string, (string, bool) gomap) gomap option" where
  "BuildNodeRebootStatus nodes entries =
     (let ret = fold (\<lambda>n m. mput (Nodename n) (init_flags rebootStatuses) m) nodes [];
          addr2name = fold (\<lambda>n m. mput (nAddress n) (Nodename n) m) nodes []
      in set_flags (\<lambda>entry. map_of addr2name (rqNode entry)) rqStatus entries ret)"

section \<open>Repair queue entries\<close>

definition RepairStatusQueued :: string where "RepairStatusQueued = ''queued''"
definition RepairStatusProcessing :: string where "RepairStatusProcessing = ''processing''"
definition RepairStatusSucceeded :: string where "RepairStatusSucceeded = ''succeeded''"
definition RepairStatusFailed :: string where "RepairStatusFailed = ''failed''"

lemmas RepairStatus_defs = RepairStatusQueued_def RepairStatusProcessing_def
  RepairStatusSucceeded_def RepairStatusFailed_def

lemma RepairStatus_distinct [simp]:
  "RepairStatusQueued \<noteq> RepairStatusProcessing" "RepairStatusProcessing \<noteq> RepairStatusQueued"
  "RepairStatusQueued \<noteq> RepairStatusSucceeded" "RepairStatusSucceeded \<noteq> RepairStatusQueued"
  "RepairStatusQueued \<noteq> RepairStatusFailed" "RepairStatusFailed \<noteq> RepairStatusQueued"
  "RepairStatusProcessing \<noteq> RepairStatusSucceeded" "RepairStatusSucceeded \<noteq> RepairStatusProcessing"
  "RepairStatusProcessing \<noteq> RepairStatusFailed" "RepairStatusFailed \<noteq> RepairStatusProcessing"
  "RepairStatusSucceeded \<noteq> RepairStatusFailed" "RepairStatusFailed \<noteq> RepairStatusSucceeded"
  by (simp_all add: RepairStatus_defs)

definition repairStatuses :: "string list" where
  "repairStatuses =
     [RepairStatusQueued, RepairStatusProcessing, RepairStatusSucceeded, RepairStatusFailed]"

definition RepairStepStatusWaiting :: string where "RepairStepStatusWaiting = ''waiting''"
definition RepairStepStatusDraining :: string where "RepairStepStatusDraining = ''draining''"
definition RepairStepStatusWatching :: string where "RepairStepStatusWatching = ''watching''"

lemmas RepairStepStatus_defs = RepairStepStatusWaiting_def RepairStepStatusDraining_def
  RepairStepStatusWatching_def

lemma RepairStepStatus_distinct [simp]:
  "RepairStepStatusWaiting \<noteq> RepairStepStatusDraining"
  "RepairStepStatusDraining \<noteq> RepairStepStatusWaiting"
  "RepairStepStatusWaiting \<noteq> RepairStepStatusWatching"
  "RepairStepStatusWatching \<noteq> RepairStepStatusWaiting"
  "RepairStepStatusDraining \<noteq> RepairStepStatusWatching"
  "RepairStepStatusWatching \<noteq> RepairStepStatusDraining"
  by (simp_all add: RepairStepStatus_defs)

record RepairQueueEntry =
  reIndex :: int
  reAddress :: string
  reNodename :: string
  reSerial :: string
  reMachineType :: string
  reOperation :: string
  reStatus :: string
  reStep :: int
  reStepStatus :: string
  reDeleted :: bool
  reLastTransitionTime :: int
  reDrainBackOffCount :: int
  reDrainBackOffExpire :: int

datatype RepairError = ErrRepairProcedureNotFound | ErrRepairOperationNotFound | ErrRepairStepOutOfRange

definition NewRepairQueueEntry ::
  "string \<Rightarrow> string \<Rightarrow> string \<Rightarrow> string \<Rightarrow> RepairQueueEntry" where
  "NewRepairQueueEntry operation machineType address serial =
     \<lparr>reIndex = 0, reAddress = address, reNodename = [], reSerial = serial,
      reMachineType = machineType, reOperation = operation, reStatus = RepairStatusQueued,
      reStep = 0, reStepStatus = RepairStepStatusWaiting, reDeleted = False,
      reLastTransitionTime = zero_time, reDrainBackOffCount = 0, reDrainBackOffExpire = zero_time\<rparr>"

definition FillNodename :: "Cluster \<Rightarrow> RepairQueueEntry \<Rightarrow> RepairQueueEntry" where
  "FillNodename cluster entry =
     (case find (\<lambda>n. nAddress n = reAddress entry) (cNodes cluster) of
        Some n \<Rightarrow> entry\<lparr>reNodename := Nodename n\<rparr>
      | None \<Rightarrow> entry\<lparr>reNodename := []\<rparr>)"

definition IsInCluster :: "RepairQueueEntry \<Rightarrow> bool" where
  "IsInCluster entry \<longleftrightarrow> reNodename entry \<noteq> []"

definition HasFinished :: "RepairQueueEntry \<Rightarrow> bool" where
  "HasFinished entry \<longleftrightarrow>
     reStatus entry = RepairStatusSucceeded \<or> reStatus entry = RepairStatusFailed"

definition getMatchingRepairProcedure ::
  "Cluster \<Rightarrow> RepairQueueEntry \<Rightarrow> RepairError + RepairProcedure" where
  "getMatchingRepairProcedure cluster entry =
     (case find (\<lambda>p. reMachineType entry \<in> set (rpMachineTypes p))
              (rpRepairProcedures (cRepair cluster)) of
        Some p \<Rightarrow> Inr p
      | None \<Rightarrow> Inl ErrRepairProcedureNotFound)"

definition GetMatchingRepairOperation ::
  "Cluster \<Rightarrow> RepairQueueEntry \<Rightarrow> RepairError + RepairOperation" where
  "GetMatchingRepairOperation cluster entry =
     (case getMatchingRepairProcedure cluster entry of
        Inl e \<Rightarrow> Inl e
      | Inr proc \<Rightarrow>
          (case find (\<lambda>op. roOperation op = reOperation entry) (rpRepairOperations proc) of
             Some op \<Rightarrow> Inr op
           | None \<Rightarrow> Inl ErrRepairOperationNotFound))"

text \<open>A negative step would index the slice out of range, which panics.\<close>

definition GetCurrentRepairStep ::
  "Cluster \<Rightarrow> RepairQueueEntry \<Rightarrow> (RepairError + RepairStep) option" where
  "GetCurrentRepairStep cluster entry =
     (case GetMatchingRepairOperation cluster entry of
        Inl e \<Rightarrow> Some (Inl e)
      | Inr op \<Rightarrow>
          if reStep entry \<ge> int (length (roRepairSteps op)) then Some (Inl ErrRepairStepOutOfRange)
          else if reStep entry < 0 then None
          else Some (Inr (roRepairSteps op ! nat (reStep entry))))"

definition CountRepairQueueEntries :: "RepairQueueEntry list \<Rightarrow> (string, nat) gomap" where
  "CountRepairQueueEntries entries =
     fold (\<lambda>entry ret. mincr (reStatus entry) ret) entries
       (fold (\<lambda>status ret. mput status 0 ret) repairStatuses [])"

definition BuildMachineRepairStatus ::
  "Node list \<Rightarrow> RepairQueueEntry list \<Rightarrow> (string, (string, bool) gomap) gomap option" where
  "BuildMachineRepairStatus nodes entries =
     (let ret = fold (\<lambda>n m. mput (nAddress n) [] m) nodes [];
          ret = fold (\<lambda>e m. case map_of m (reAddress e) of
                   Some _ \<Rightarrow> m | None \<Rightarrow> mput (reAddress e) [] m) entries ret;
          ret = map (\<lambda>(address, _). (address, init_flags repairStatuses)) ret
      in set_flags (\<lambda>entry. Some (reAddress entry)) reStatus entries ret)"

section \<open>Deduplication\<close>

lemma dedup_loop_mem: "e \<in> set (dedup_loop seen es) \<Longrightarrow> e \<in> set es"
  by (induction seen es rule: dedup_loop.induct) (auto split: if_splits)

lemma dedup_loop_fresh: "e \<in> set (dedup_loop seen es) \<Longrightarrow> rqNode e \<notin> set seen"
  by (induction seen es rule: dedup_loop.induct) (auto split: if_splits)

lemma dedup_loop_distinct: "distinct (map rqNode (dedup_loop seen es))"
  by (induction seen es rule: dedup_loop.induct) (auto dest: dedup_loop_fresh)

lemma dedup_loop_find:
  "node \<notin> set seen \<Longrightarrow>
     find (\<lambda>e. rqNode e = node) (dedup_loop seen es) = find (\<lambda>e. rqNode e = node) es"
  by (induction seen es rule: dedup_loop.induct) auto

lemma dedup_loop_subseq: "subseq (dedup_loop seen es) es"
  by (induction seen es rule: dedup_loop.induct) auto

lemma dedup_set: "set (DedupRebootQueueEntries es) \<subseteq> set es"
  by (auto simp: DedupRebootQueueEntries_def dest: dedup_loop_mem)

lemma dedup_distinct: "distinct (map rqNode (DedupRebootQueueEntries es))"
  by (simp add: DedupRebootQueueEntries_def dedup_loop_distinct)

lemma dedup_find:
  "find (\<lambda>e. rqNode e = node) (DedupRebootQueueEntries es) = find (\<lambda>e. rqNode e = node) es"
  by (simp add: DedupRebootQueueEntries_def dedup_loop_find)

section \<open>Counting and status tables\<close>

text \<open>\<open>mcount m k\<close> is the value the Go expression \<^verbatim>\<open>m[k]\<close> reads.\<close>

definition mcount :: "(string, nat) gomap \<Rightarrow> string \<Rightarrow> nat" where
  "mcount m k = (case map_of m k of None \<Rightarrow> 0 | Some c \<Rightarrow> c)"

lemma mcount_mincr: "mcount (mincr k m) j = mcount m j + (if j = k then 1 else 0)"
  by (simp add: mcount_def mincr_def split: option.splits)

lemma mcount_fold_mincr:
  "mcount (fold (\<lambda>e ret. mincr (f e) ret) es m) s = mcount m s + length (filter (\<lambda>e. f e = s) es)"
  by (induction es arbitrary: m) (auto simp: mcount_mincr)

lemma mcount_fold_zero:
  "mcount m s = 0 \<Longrightarrow> mcount (fold (\<lambda>st ret. mput st 0 ret) sts m) s = 0"
  by (induction sts arbitrary: m) (auto simp: mcount_def)

lemma mcount_Nil [simp]: "mcount [] s = 0"
  by (simp add: mcount_def)

lemma dom_fold_mincr:
  "dom (map_of (fold (\<lambda>e ret. mincr (f e) ret) es m)) = dom (map_of m) \<union> f ` set es"
  by (induction es arbitrary: m) (auto simp: mincr_def)

end
