(* ===== verification/CKE_Status.thy ===== *)
theory CKE_Status
  imports CKE_Queue
begin

text \<open>
  What CKE observes of the cluster: the structs of \<^verbatim>\<open>status.go\<close>, the Kubernetes and etcd objects they
  hold (with the fields the program uses), \<^verbatim>\<open>KubernetesClusterStatus.IsReady\<close>, and from \<^verbatim>\<open>resource.go\<close>
  the user-defined resources with the decision whether one needs an update and the order in which
  resources are created.
\<close>

section \<open>Observed objects\<close>

record Member =
  mbID :: nat
  mbName :: string
  mbPeerURLs :: "string list"

record EtcdClusterStatus =
  ecIsHealthy :: bool
  ecMembers :: "(string, Member) gomap"
  ecInSyncMembers :: "(string, bool) gomap"

record K8sNode =
  knName :: string
  knLabels :: "(string, string) gomap"
  knAnnotations :: "(string, string) gomap"
  knTaints :: "Taint list"
  knUnschedulable :: bool
  knConditions :: "(string \<times> string) list"
  knOther :: string

record Service =
  svType :: string
  svClusterIP :: string
  svPorts :: "int list"

record EndpointSubset =
  sbAddresses :: "string list"
  sbNotReadyAddresses :: "string list"
  sbPorts :: "(string \<times> int) list"

record Endpoints =
  epsNamespace :: string
  epsName :: string
  epsLabels :: "(string, string) gomap"
  epsSubsets :: "EndpointSubset list"

record Endpoint =
  edAddresses :: "string list"
  edReady :: "bool option"

record EndpointSlice =
  slNamespace :: string
  slName :: string
  slLabels :: "(string, string) gomap"
  slAddressType :: string
  slEndpoints :: "Endpoint list"
  slPorts :: "(string option \<times> int option) list"

text \<open>A \<^verbatim>\<open>ConfigMap\<close> is its data.\<close>

type_synonym ConfigMap = "(string, string) gomap"

record ClusterDNSStatus =
  cdConfigMap :: "ConfigMap option"
  cdClusterIP :: string

record ResourceStatus =
  rtAnnotations :: "(string, string) gomap"
  rtHasBeenSSA :: bool

record KubernetesClusterStatus =
  ksIsControlPlaneReady :: bool
  ksNodes :: "K8sNode list"
  ksDNSService :: "Service option"
  ksClusterDNS :: ClusterDNSStatus
  ksNodeDNS :: "ConfigMap option"
  ksMasterEndpoints :: "Endpoints option"
  ksMasterEndpointSlice :: "EndpointSlice option"
  ksEtcdService :: "Service option"
  ksEtcdEndpoints :: "Endpoints option"
  ksEtcdEndpointSlice :: "EndpointSlice option"
  ksResourceStatuses :: "(string, ResourceStatus) gomap"

section \<open>Node and queue statuses\<close>

record ServiceStatus =
  ssRunning :: bool
  ssImage :: string
  ssBuiltInParams :: ServiceParams
  ssExtraParams :: ServiceParams

record EtcdStatus =
  esServiceStatus :: ServiceStatus
  esHasData :: bool
  esIsAddedMember :: bool

record KubeComponentStatus =
  kcServiceStatus :: ServiceStatus
  kcIsHealthy :: bool

record SchedulerStatus =
  shServiceStatus :: ServiceStatus
  shIsHealthy :: bool
  shConfig :: "SchedulerConfiguration option"

record KubeletStatus =
  ktServiceStatus :: ServiceStatus
  ktIsHealthy :: bool
  ktConfig :: "KubeletConfiguration option"

record ProxyStatus =
  pxServiceStatus :: ServiceStatus
  pxIsHealthy :: bool
  pxConfig :: "ProxyConfiguration option"

record NodeStatus =
  nsSSHConnected :: bool
  nsEtcd :: EtcdStatus
  nsRivers :: ServiceStatus
  nsEtcdRivers :: ServiceStatus
  nsAPIServer :: KubeComponentStatus
  nsControllerManager :: KubeComponentStatus
  nsScheduler :: SchedulerStatus
  nsProxy :: ProxyStatus
  nsKubelet :: KubeletStatus

record RepairQueueStatus =
  rqsEnabled :: bool
  rqsEntries :: "RepairQueueEntry list"
  rqsRepairCompleted :: "(string, bool) gomap"
  rqsDrainCompleted :: "(string, bool) gomap"

record RebootQueueStatus =
  bqsEnabled :: bool
  bqsEntries :: "RebootQueueEntry list"
  bqsNextCandidates :: "RebootQueueEntry list"
  bqsDrainCompleted :: "RebootQueueEntry list"
  bqsDrainTimedout :: "RebootQueueEntry list"
  bqsRebootDequeued :: "RebootQueueEntry list"
  bqsRebootCancelled :: "RebootQueueEntry list"

record ClusterStatus =
  csConfigVersion :: string
  csNodeStatuses :: "string \<Rightarrow> NodeStatus option"
  csEtcd :: EtcdClusterStatus
  csKubernetes :: KubernetesClusterStatus
  csRepairQueue :: RepairQueueStatus
  csRebootQueue :: RebootQueueStatus

section \<open>Readiness\<close>

text \<open>The inner loop of \<^verbatim>\<open>IsReady\<close> counts a node at its first condition \<^verbatim>\<open>Ready\<close> with status \<^verbatim>\<open>True\<close>.\<close>

fun node_ready :: "(string \<times> string) list \<Rightarrow> bool" where
  "node_ready [] = False"
| "node_ready ((ty, st) # conds) =
     (if ty \<noteq> ''Ready'' then node_ready conds
      else if st = ''True'' then True else node_ready conds)"

definition IsReady :: "KubernetesClusterStatus \<Rightarrow> Cluster \<Rightarrow> bool" where
  "IsReady s cluster =
     (if \<not> ksIsControlPlaneReady s then False
      else if length (cNodes cluster) = 0 then False
      else length (cNodes cluster) div 2 < length (filter (node_ready \<circ> knConditions) (ksNodes s)))"

definition SetResourceStatus ::
  "KubernetesClusterStatus \<Rightarrow> string \<Rightarrow> (string, string) gomap \<Rightarrow> bool \<Rightarrow> KubernetesClusterStatus" where
  "SetResourceStatus s rkey ann isManaged =
     s\<lparr>ksResourceStatuses :=
       mput rkey \<lparr>rtAnnotations = ann, rtHasBeenSSA = isManaged\<rparr> (ksResourceStatuses s)\<rparr>"

section \<open>Resources\<close>

definition AnnotationResourceImage :: string where
  "AnnotationResourceImage = ''cke.cybozu.com/image''"
definition AnnotationResourceRevision :: string where
  "AnnotationResourceRevision = ''cke.cybozu.com/revision''"

record ResourceDefinition =
  rdKey :: string
  rdKind :: string
  rdNamespace :: string
  rdName :: string
  rdRevision :: int
  rdImage :: string
  rdDefinition :: string

definition NeedUpdate :: "ResourceDefinition \<Rightarrow> ResourceStatus option \<Rightarrow> bool" where
  "NeedUpdate d rs = (case rs of
      None \<Rightarrow> True
    | Some rs \<Rightarrow>
       (case map_of (rtAnnotations rs) AnnotationResourceRevision of
          None \<Rightarrow> True
        | Some curRev \<Rightarrow>
            if curRev \<noteq> Itoa (rdRevision d) then True
            else if rdImage d = [] then False
            else (case map_of (rtAnnotations rs) AnnotationResourceImage of
                    None \<Rightarrow> True
                  | Some curImage \<Rightarrow> curImage \<noteq> rdImage d)))"

definition rank :: "ResourceDefinition \<Rightarrow> nat" where
  "rank d =
    (if rdKind d = ''Namespace'' then 10
     else if rdKind d = ''ServiceAccount'' then 20
     else if rdKind d = ''CustomResourceDefinition'' then 30
     else if rdKind d = ''ClusterRole'' then 40
     else if rdKind d = ''ClusterRoleBinding'' then 50
     else if rdKind d = ''Role'' then 2000
     else if rdKind d = ''RoleBinding'' then 2010
     else if rdKind d = ''NetworkPolicy'' then 2020
     else if rdKind d = ''Secret'' then 2030
     else if rdKind d = ''ConfigMap'' then 2040
     else if rdNamespace d = [] then 1000
     else 3000)"

definition resource_less :: "ResourceDefinition \<Rightarrow> ResourceDefinition \<Rightarrow> bool" where
  "resource_less a b =
     (if rank a = rank b then rdKey a < rdKey b else rank a < rank b)"

text \<open>
  \<^verbatim>\<open>SortResources\<close>: with distinct keys the order \<^verbatim>\<open>less\<close> is total, so every correct sort gives the
  same slice; the model inserts one element after the other.
\<close>

fun insert_resource :: "ResourceDefinition \<Rightarrow> ResourceDefinition list \<Rightarrow> ResourceDefinition list" where
  "insert_resource d [] = [d]"
| "insert_resource d (x # xs) =
     (if resource_less x d then x # insert_resource d xs else d # x # xs)"

definition SortResources :: "ResourceDefinition list \<Rightarrow> ResourceDefinition list" where
  "SortResources res = foldr insert_resource res []"

record GroupVersionKind =
  gvGroup :: string
  gvVersion :: string
  gvKind :: string

record GroupVersionResource =
  grGroup :: string
  grVersion :: string
  grResource :: string

record RESTMapping =
  rmResource :: GroupVersionResource
  rmGVK :: GroupVersionKind
  rmNamespaced :: bool

definition LookupTrustedRESTMapping ::
  "TrustedRESTMapping list \<Rightarrow> GroupVersionKind \<Rightarrow> string + RESTMapping" where
  "LookupTrustedRESTMapping mappings gvk =
     (case find (\<lambda>m. trGroup m = gvGroup gvk \<and> trVersion m = gvVersion gvk \<and> trKind m = gvKind gvk)
              mappings of
        Some m \<Rightarrow> Inr \<lparr>rmResource = \<lparr>grGroup = trGroup m, grVersion = trVersion m, grResource = trResource m\<rparr>,
                     rmGVK = gvk, rmNamespaced = trNamespaced m\<rparr>
      | None \<Rightarrow> Inl (''no trusted REST mapping found for '' @ gvGroup gvk @ ''/'' @ gvVersion gvk
                    @ '', Kind='' @ gvKind gvk))"

text \<open>The discovery mapper is third-party code and comes as the first argument.\<close>

definition RESTMappingWithFallback ::
  "(GroupVersionKind \<Rightarrow> string + RESTMapping) \<Rightarrow> GroupVersionKind \<Rightarrow> TrustedRESTMapping list \<Rightarrow>
   string + RESTMapping" where
  "RESTMappingWithFallback mapper gvk trusted =
     (case mapper gvk of Inr m \<Rightarrow> Inr m | Inl _ \<Rightarrow> LookupTrustedRESTMapping trusted gvk)"

section \<open>Lemmas\<close>

lemma node_ready_iff: "node_ready conds \<longleftrightarrow> (''Ready'', ''True'') \<in> set conds"
  by (induction conds rule: node_ready.induct) auto

lemma resource_less_total:
  "rdKey a \<noteq> rdKey b \<Longrightarrow> resource_less a b \<or> resource_less b a"
  by (auto simp: resource_less_def)

lemma resource_less_trans:
  "resource_less a b \<Longrightarrow> resource_less b c \<Longrightarrow> resource_less a c"
  by (auto simp: resource_less_def split: if_splits)

lemma resource_less_irrefl: "\<not> resource_less a a"
  by (simp add: resource_less_def)

lemma resource_less_asym: "resource_less a b \<Longrightarrow> \<not> resource_less b a"
  by (auto simp: resource_less_def split: if_splits)

end
