(* ===== verification/CKE_Params.thy ===== *)
theory CKE_Params
  imports CKE_Status
begin

text \<open>
  The parameters and configurations with which CKE runs each service: \<^verbatim>\<open>op/constants.go\<close>,
  \<^verbatim>\<open>op/rivers_boot.go\<close>, \<^verbatim>\<open>op/etcd.go\<close>, \<^verbatim>\<open>op/etcd/common.go\<close> and the functions of \<^verbatim>\<open>op/k8s\<close>
  that build parameters (\<^verbatim>\<open>APIServerParams\<close>, \<^verbatim>\<open>ControllerManagerParams\<close>, \<^verbatim>\<open>SchedulerParams\<close>, \<^verbatim>\<open>ProxyParams\<close>,
  \<^verbatim>\<open>KubeletServiceParams\<close>) and configurations (\<^verbatim>\<open>Generate*Configuration\<close>). A configuration that does not
  merge makes the code panic, so the generators return an option.
\<close>

section \<open>Constants\<close>

definition EtcdEndpointsName :: string where "EtcdEndpointsName = ''cke-etcd''"
definition EtcdServiceName :: string where "EtcdServiceName = EtcdEndpointsName"
definition RiversContainerName :: string where "RiversContainerName = ''rivers''"
definition EtcdRiversContainerName :: string where "EtcdRiversContainerName = ''etcd-rivers''"
definition EtcdContainerName :: string where "EtcdContainerName = ''etcd''"
definition KubeAPIServerContainerName :: string where "KubeAPIServerContainerName = ''kube-apiserver''"
definition KubeControllerManagerContainerName :: string where
  "KubeControllerManagerContainerName = ''kube-controller-manager''"
definition KubeProxyContainerName :: string where "KubeProxyContainerName = ''kube-proxy''"
definition KubeSchedulerContainerName :: string where "KubeSchedulerContainerName = ''kube-scheduler''"
definition KubeletContainerName :: string where "KubeletContainerName = ''kubelet''"
definition RiversUpstreamPort :: int where "RiversUpstreamPort = 6443"
definition RiversListenPort :: int where "RiversListenPort = 16443"
definition EtcdRiversUpstreamPort :: int where "EtcdRiversUpstreamPort = 2379"
definition EtcdRiversListenPort :: int where "EtcdRiversListenPort = 12379"
definition DefaultEtcdVolumeName :: string where "DefaultEtcdVolumeName = ''etcd-cke''"
definition EtcdAddedMemberVolumeName :: string where "EtcdAddedMemberVolumeName = ''etcd-added-member''"
definition CKELabelMaster :: string where "CKELabelMaster = ''cke.cybozu.com/master''"
definition CKETaintMaster :: string where "CKETaintMaster = ''cke.cybozu.com/master''"
definition CKEAnnotationReboot :: string where "CKEAnnotationReboot = ''cke.cybozu.com/reboot''"
definition SchedulerConfigPath :: string where
  "SchedulerConfigPath = ''/etc/kubernetes/scheduler/config.yml''"
definition SchedulerKubeConfigPath :: string where
  "SchedulerKubeConfigPath = ''/etc/kubernetes/scheduler/kubeconfig''"
definition ControllerManagerKubeConfigPath :: string where
  "ControllerManagerKubeConfigPath = ''/etc/kubernetes/controller-manager/kubeconfig''"
definition proxyKubeconfigPath :: string where "proxyKubeconfigPath = ''/etc/kubernetes/proxy/kubeconfig''"
definition proxyConfigPath :: string where "proxyConfigPath = ''/etc/kubernetes/proxy/config.yml''"
definition encryptionConfigFile :: string where
  "encryptionConfigFile = ''/etc/kubernetes/apiserver'' @ ''/encryption.yml''"
definition cniBinDir :: string where "cniBinDir = ''/opt/cni/bin''"
definition cniConfDir :: string where "cniConfDir = ''/etc/cni/net.d''"
definition cniVarDir :: string where "cniVarDir = ''/var/lib/cni''"

text \<open>\<^verbatim>\<open>filepath.Join\<close> of a clean directory and a plain file name, the only use here.\<close>

definition EtcdPKIPath :: "string \<Rightarrow> string" where
  "EtcdPKIPath p = ''/etc/etcd/pki/'' @ p"

definition K8sPKIPath :: "string \<Rightarrow> string" where
  "K8sPKIPath p = ''/etc/kubernetes/pki/'' @ p"

definition EtcdVolumeName :: "EtcdParams \<Rightarrow> string" where
  "EtcdVolumeName e = (if length (epVolumeName e) = 0 then DefaultEtcdVolumeName else epVolumeName e)"

definition bind_mount :: "string \<Rightarrow> bool \<Rightarrow> string \<Rightarrow> string \<Rightarrow> Mount" where
  "bind_mount path ro propagation lbl =
     \<lparr>mSource = path, mDestination = path, mReadOnly = ro, mPropagation = propagation, mLabel = lbl\<rparr>"

section \<open>Rivers and etcd\<close>

definition RiversParams :: "Node list \<Rightarrow> int \<Rightarrow> int \<Rightarrow> ServiceParams" where
  "RiversParams upstreams upstreamPort listenPort =
     (let ups = map (\<lambda>n. nAddress n @ '':'' @ Itoa upstreamPort) upstreams in
      \<lparr>spExtraArguments =
         [''rivers'',
          ''--upstreams='' @ Join ups '','',
          ''--listen='' @ ''127.0.0.1:'' @ Itoa listenPort],
       spExtraBinds = [], spExtraEnvvar = []\<rparr>)"

definition etcdEndpoints :: "Node list \<Rightarrow> string list" where
  "etcdEndpoints nodes = map (\<lambda>n. ''https://'' @ nAddress n @ '':2379'') nodes"

definition etcd_base_args :: "Node \<Rightarrow> string list" where
  "etcd_base_args node =
     [''--name='' @ nAddress node,
      ''--listen-peer-urls=https://0.0.0.0:2380'',
      ''--listen-client-urls=https://0.0.0.0:2379'',
      ''--advertise-client-urls=https://'' @ nAddress node @ '':2379'',
      ''--cert-file='' @ EtcdPKIPath ''server.crt'',
      ''--key-file='' @ EtcdPKIPath ''server.key'',
      ''--client-cert-auth=true'',
      ''--trusted-ca-file='' @ EtcdPKIPath ''ca-client.crt'',
      ''--peer-cert-file='' @ EtcdPKIPath ''peer.crt'',
      ''--peer-key-file='' @ EtcdPKIPath ''peer.key'',
      ''--peer-client-cert-auth=true'',
      ''--peer-trusted-ca-file='' @ EtcdPKIPath ''ca-peer.crt'',
      ''--enable-pprof=true'',
      ''--feature-gates=InitialCorruptCheck=true,CompactHashCheck=true'',
      ''--corrupt-check-time=3h'']"

definition etcd_initial_args :: "Node \<Rightarrow> string list \<Rightarrow> string \<Rightarrow> string list" where
  "etcd_initial_args node initialCluster state =
     [''--initial-advertise-peer-urls=https://'' @ nAddress node @ '':2380'',
      ''--initial-cluster='' @ Join initialCluster '','',
      ''--initial-cluster-token=cke'',
      ''--initial-cluster-state='' @ state]"

definition BuiltInParams :: "Node \<Rightarrow> string list \<Rightarrow> string \<Rightarrow> ServiceParams" where
  "BuiltInParams node initialCluster state =
     \<lparr>spExtraArguments = etcd_base_args node @
        (if length initialCluster > 0 then etcd_initial_args node initialCluster state else []),
      spExtraBinds = [bind_mount ''/etc/etcd/pki'' True '''' ''Z''],
      spExtraEnvvar = []\<rparr>"

section \<open>Kubernetes control plane\<close>

definition admissionPlugins :: "string list" where
  "admissionPlugins = [''NodeRestriction'', ''DenyServiceExternalIPs'']"

definition auditPolicyFilePath :: "third_party \<Rightarrow> string \<Rightarrow> string" where
  "auditPolicyFilePath T policy =
     ''/etc/kubernetes/apiserver/audit-policy-'' @ tpMD5 T policy @ ''.yaml''"

definition APIServerParams ::
  "third_party \<Rightarrow> string \<Rightarrow> string \<Rightarrow> bool \<Rightarrow> string \<Rightarrow> string \<Rightarrow> string \<Rightarrow> ServiceParams" where
  "APIServerParams T advertiseAddress serviceSubnet auditLogEnabled auditLogPolicy auditLogPath
     clusterDomain =
     \<lparr>spExtraArguments =
        [''kube-apiserver'',
         ''--allow-privileged'',
         ''--etcd-servers=https://127.0.0.1:12379'',
         ''--etcd-cafile='' @ K8sPKIPath ''etcd-ca.crt'',
         ''--etcd-certfile='' @ K8sPKIPath ''apiserver-etcd-client.crt'',
         ''--etcd-keyfile='' @ K8sPKIPath ''apiserver-etcd-client.key'',
         ''--etcd-compaction-interval=5m'',
         ''--bind-address=0.0.0.0'',
         ''--client-ca-file='' @ K8sPKIPath ''ca.crt'',
         ''--tls-cert-file='' @ K8sPKIPath ''apiserver.crt'',
         ''--tls-private-key-file='' @ K8sPKIPath ''apiserver.key'',
         ''--kubelet-certificate-authority='' @ K8sPKIPath ''ca.crt'',
         ''--kubelet-client-certificate='' @ K8sPKIPath ''apiserver.crt'',
         ''--kubelet-client-key='' @ K8sPKIPath ''apiserver.key'',
         ''--enable-admission-plugins='' @ Join admissionPlugins '','',
         ''--service-account-issuer=https://kubernetes.default.svc.'' @ clusterDomain,
         ''--service-account-key-file='' @ K8sPKIPath ''service-account.crt'',
         ''--service-account-signing-key-file='' @ K8sPKIPath ''service-account.key'',
         ''--service-account-lookup'',
         ''--requestheader-client-ca-file='' @ K8sPKIPath ''aggregation-ca.crt'',
         ''--requestheader-allowed-names='' @ ''front-proxy-client'',
         ''--requestheader-extra-headers-prefix=X-Remote-Extra-'',
         ''--requestheader-group-headers=X-Remote-Group'',
         ''--requestheader-username-headers=X-Remote-User'',
         ''--proxy-client-cert-file='' @ K8sPKIPath ''aggregation.crt'',
         ''--proxy-client-key-file='' @ K8sPKIPath ''aggregation.key'',
         ''--authorization-mode=Node,RBAC'',
         ''--advertise-address='' @ advertiseAddress,
         ''--endpoint-reconciler-type=none'',
         ''--service-cluster-ip-range='' @ serviceSubnet,
         ''--encryption-provider-config='' @ encryptionConfigFile,
         ''--feature-gates=CoordinatedLeaderElection=true'',
         ''--runtime-config=coordination.k8s.io/v1beta1=true''] @
        (if auditLogEnabled then
           [''--audit-log-path='' @ (if auditLogPath \<noteq> [] then auditLogPath else ''-''),
            ''--audit-policy-file='' @ auditPolicyFilePath T auditLogPolicy]
         else []),
      spExtraBinds =
        [bind_mount ''/etc/machine-id'' True '''' '''', bind_mount ''/etc/kubernetes'' True '''' ''z''],
      spExtraEnvvar = []\<rparr>"

definition ControllerManagerParams :: "string \<Rightarrow> string \<Rightarrow> ServiceParams" where
  "ControllerManagerParams clusterName serviceSubnet =
     \<lparr>spExtraArguments =
        [''kube-controller-manager'',
         ''--cluster-name='' @ clusterName,
         ''--service-cluster-ip-range='' @ serviceSubnet,
         ''--kubeconfig='' @ ControllerManagerKubeConfigPath,
         ''--authentication-kubeconfig='' @ ControllerManagerKubeConfigPath,
         ''--authorization-kubeconfig='' @ ControllerManagerKubeConfigPath,
         ''--tls-cert-file='' @ K8sPKIPath ''apiserver.crt'',
         ''--tls-private-key-file='' @ K8sPKIPath ''apiserver.key'',
         ''--root-ca-file='' @ K8sPKIPath ''ca.crt'',
         ''--service-account-private-key-file='' @ K8sPKIPath ''service-account.key'',
         ''--use-service-account-credentials=true''],
      spExtraBinds =
        [bind_mount ''/etc/machine-id'' True '''' '''', bind_mount ''/etc/kubernetes'' True '''' ''z''],
      spExtraEnvvar = []\<rparr>"

definition SchedulerParams :: ServiceParams where
  "SchedulerParams =
     \<lparr>spExtraArguments =
        [''kube-scheduler'',
         ''--config='' @ SchedulerConfigPath,
         ''--authentication-kubeconfig='' @ SchedulerKubeConfigPath,
         ''--authorization-kubeconfig='' @ SchedulerKubeConfigPath,
         ''--tls-cert-file='' @ K8sPKIPath ''apiserver.crt'',
         ''--tls-private-key-file='' @ K8sPKIPath ''apiserver.key''],
      spExtraBinds =
        [bind_mount ''/etc/machine-id'' True '''' '''', bind_mount ''/etc/kubernetes'' True '''' ''z''],
      spExtraEnvvar = []\<rparr>"

definition GenerateSchedulerConfiguration ::
  "third_party \<Rightarrow> SchedulerParams \<Rightarrow> SchedulerConfiguration option" where
  "GenerateSchedulerConfiguration T params =
     (let base = \<lparr>scKubeconfig = [], scLeaderElect = None, scOther = []\<rparr> in
      case Scheduler_MergeConfig T params base of
        Inl _ \<Rightarrow> None
      | Inr c \<Rightarrow> Some (c\<lparr>scKubeconfig := SchedulerKubeConfigPath, scLeaderElect := Some True\<rparr>))"

section \<open>Node services\<close>

definition ProxyParams :: ServiceParams where
  "ProxyParams =
     \<lparr>spExtraArguments = [''kube-proxy'', ''--config='' @ proxyConfigPath],
      spExtraBinds =
        [bind_mount ''/etc/machine-id'' True '''' '''', bind_mount ''/etc/kubernetes'' True '''' ''z'',
         bind_mount ''/lib/modules'' True '''' ''''],
      spExtraEnvvar = []\<rparr>"

definition GenerateProxyConfiguration ::
  "third_party \<Rightarrow> ProxyParams \<Rightarrow> Node \<Rightarrow> ProxyConfiguration option" where
  "GenerateProxyConfiguration T params n =
     (let base = \<lparr>pcHostnameOverride = Nodename n, pcMetricsBindAddress = ''0.0.0.0'',
                  pcTCPEstablishedTimeout = Some (24 * 3600 * second),
                  pcTCPCloseWaitTimeout = Some (3600 * second),
                  pcKubeconfig = [], pcMode = [], pcOther = []\<rparr> in
      case Proxy_MergeConfig T params base of
        Inl _ \<Rightarrow> None
      | Inr c \<Rightarrow> Some (c\<lparr>pcKubeconfig := proxyKubeconfigPath\<rparr>))"

definition KubeletServiceParams :: "Node \<Rightarrow> KubeletParams \<Rightarrow> ServiceParams" where
  "KubeletServiceParams n params =
     \<lparr>spExtraArguments =
        [''kubelet'',
         ''--config=/etc/kubernetes/kubelet/config.yml'',
         ''--kubeconfig=/etc/kubernetes/kubelet/kubeconfig'',
         ''--hostname-override='' @ Nodename n] @
        (if length (klCRIEndpoint params) \<noteq> 0
         then [''--container-runtime-endpoint='' @ klCRIEndpoint params] else []),
      spExtraBinds =
        [bind_mount ''/etc/machine-id'' True '''' '''',
         bind_mount ''/etc/os-release'' True '''' '''',
         bind_mount ''/etc/kubernetes'' True '''' ''z'',
         bind_mount ''/var/lib/kubelet'' False ''rshared'' ''z'',
         bind_mount ''/var/lib/docker'' False '''' ''Z'',
         bind_mount ''/opt/volume/bin'' False ''shared'' ''z'',
         bind_mount ''/var/log/pods'' False '''' ''z'',
         bind_mount ''/var/log/containers'' False '''' ''z'',
         bind_mount ''/run'' False '''' '''',
         bind_mount ''/sys'' False '''' '''',
         bind_mount ''/dev'' False '''' '''',
         bind_mount cniBinDir True '''' ''z'',
         bind_mount cniConfDir True '''' ''z'',
         bind_mount cniVarDir False '''' ''z''],
      spExtraEnvvar = []\<rparr>"

text \<open>The index of the last taint with a given key, as the loop over \<^verbatim>\<open>RegisterWithTaints\<close> builds it.\<close>

definition taintIndex :: "Taint list \<Rightarrow> string \<Rightarrow> nat option" where
  "taintIndex taints = fold (\<lambda>i m. m(tKey (taints ! i) \<mapsto> i)) [0..<length taints] Map.empty"

definition addBootTaints :: "Taint list \<Rightarrow> Taint list \<Rightarrow> Taint list" where
  "addBootTaints taints bootTaints =
     fold (\<lambda>t acc. case taintIndex taints (tKey t) of
             Some index \<Rightarrow> acc[index := t]
           | None \<Rightarrow> acc @ [t]) bootTaints taints"

definition keepRunning :: "KubeletConfiguration \<Rightarrow> KubeletConfiguration \<Rightarrow> KubeletConfiguration" where
  "keepRunning running c = c\<lparr>kcKept :=
     \<lparr>kkKubeletCgroups = kkKubeletCgroups (kcKept running),
      kkSystemCgroups = kkSystemCgroups (kcKept running),
      kkCgroupRoot = kkCgroupRoot (kcKept running),
      kkCgroupsPerQOS = kkCgroupsPerQOS (kcKept running),
      kkCgroupDriver = kkCgroupDriver (kcKept running),
      kkCPUManagerPolicy = kkCPUManagerPolicy (kcKept running),
      kkTopologyManagerPolicy = kkTopologyManagerPolicy (kcKept running),
      kkQOSReserved = kkQOSReserved (kcKept running),
      kkSystemReservedCgroup = kkSystemReservedCgroup (kcKept running),
      kkKubeReservedCgroup = kkKubeReservedCgroup (kcKept running)\<rparr>\<rparr>"

definition kubelet_base :: KubeletConfiguration where
  "kubelet_base =
     \<lparr>kcClusterDomain = ''cluster.local'', kcRuntimeRequestTimeout = 15 * 60 * second,
      kcHealthzBindAddress = ''0.0.0.0'', kcVolumePluginDir = ''/opt/volume/bin'',
      kcTLSCertFile = [], kcTLSPrivateKeyFile = [], kcAuthentication = ([], False),
      kcAuthorizationMode = [], kcClusterDNS = [], kcRegisterWithTaints = [],
      kcKept = \<lparr>kkKubeletCgroups = [], kkSystemCgroups = [], kkCgroupRoot = [],
        kkCgroupsPerQOS = None, kkCgroupDriver = [], kkCPUManagerPolicy = [],
        kkTopologyManagerPolicy = [], kkQOSReserved = [], kkSystemReservedCgroup = [],
        kkKubeReservedCgroup = []\<rparr>,
      kcOther = []\<rparr>"

definition GenerateKubeletConfiguration ::
  "third_party \<Rightarrow> KubeletParams \<Rightarrow> string \<Rightarrow> KubeletConfiguration option \<Rightarrow> KubeletConfiguration option"
where
  "GenerateKubeletConfiguration T params nodeAddress running =
     (case Kubelet_MergeConfig T params kubelet_base of
        Inl _ \<Rightarrow> None
      | Inr c \<Rightarrow>
         (let c = c\<lparr>kcTLSCertFile := K8sPKIPath ''kubelet.crt'',
                    kcTLSPrivateKeyFile := K8sPKIPath ''kubelet.key'',
                    kcAuthentication := (K8sPKIPath ''ca.crt'', True),
                    kcAuthorizationMode := ''Webhook'',
                    kcClusterDNS := [nodeAddress],
                    kcRegisterWithTaints :=
                      addBootTaints (kcRegisterWithTaints c) (klBootTaints params)\<rparr>
          in Some (case running of None \<Rightarrow> c | Some r \<Rightarrow> keepRunning r c)))"

end
