(* ===== verification/CKE_Samples.thy ===== *)
theory CKE_Samples
  imports CKE_Params
begin

text \<open>
  Concrete data for the witnesses: third-party functions that satisfy the documented laws, small
  clusters, and the status of a node on which every service runs as CKE would start it.
\<close>

definition sample_T :: third_party where
  "sample_T = \<lparr>tpLabelSelectorAsSelector = (\<lambda>_. Inr (\<lambda>_. True)),
     tpOverlayKubelet = (\<lambda>base _. Some base), tpOverlayScheduler = (\<lambda>base _. Some base),
     tpOverlayProxy = (\<lambda>base _. Some base),
     tpEqualKubelet = (\<lambda>c r. r = Some c), tpEqualScheduler = (\<lambda>c r. r = Some c),
     tpEqualProxy = (\<lambda>c r. r = Some c), tpMD5 = (\<lambda>s. s),
     tpURLHost = (\<lambda>s. Inr (drop 8 s))\<rparr>"

lemma sample_T_refl: "DeepEqual_refl sample_T"
  by (simp add: DeepEqual_refl_def sample_T_def)

definition sample_node :: "string \<Rightarrow> bool \<Rightarrow> Node" where
  "sample_node address cp = \<lparr>nAddress = address, nHostname = [], nUser = ''cke'', nControlPlane = cp,
     nAnnotations = [], nLabels = [(''rack'', ''1'')], nTaints = []\<rparr>"

definition no_params :: ServiceParams where
  "no_params = \<lparr>spExtraArguments = [], spExtraBinds = [], spExtraEnvvar = []\<rparr>"

definition sample_options :: Options where
  "sample_options =
     \<lparr>oEtcd = \<lparr>epServiceParams = no_params, epVolumeName = []\<rparr>,
      oRivers = no_params, oEtcdRivers = no_params,
      oAPIServer = \<lparr>apServiceParams = no_params, apAuditLogEnabled = False, apAuditLogPolicy = [],
        apAuditLogPath = []\<rparr>,
      oControllerManager = no_params,
      oScheduler = \<lparr>schServiceParams = no_params, schConfig = None\<rparr>,
      oProxy = \<lparr>prServiceParams = no_params, prDisable = False, prConfig = None\<rparr>,
      oKubelet = \<lparr>klServiceParams = no_params, klBootTaints = [],
        klCNIConfFile = \<lparr>cniName = [], cniContent = []\<rparr>, klConfig = None,
        klCRIEndpoint = ''/run/cri.sock'', klInPlaceUpdate = True\<rparr>\<rparr>"

definition sample_reboot :: Reboot where
  "sample_reboot = \<lparr>rbRebootCommand = [''reboot''], rbBootCheckCommand = [''check''],
     rbMaxConcurrentReboots = Some 2, rbEvictionTimeoutSeconds = None, rbCommandTimeoutSeconds = None,
     rbCommandRetries = None, rbCommandInterval = None, rbEvictRetries = None, rbEvictInterval = None,
     rbProtectedNamespaces = None, rbProtectedJobPods = None\<rparr>"

definition sample_step :: RepairStep where
  "sample_step = \<lparr>rsRepairCommand = [''fix''], rsCommandTimeoutSeconds = None, rsCommandRetries = None,
     rsCommandInterval = None, rsNeedDrain = False, rsWatchSeconds = Some 60\<rparr>"

definition sample_repair :: Repair where
  "sample_repair = \<lparr>rpRepairProcedures =
       [\<lparr>rpMachineTypes = [''type1''], rpRepairOperations =
          [\<lparr>roOperation = ''unreachable'', roRepairSteps = [sample_step, sample_step],
            roHealthCheckCommand = [''health''], roCommandTimeoutSeconds = None,
            roSuccessCommand = None, roSuccessCommandTimeout = None\<rparr>]\<rparr>],
     rpMaxConcurrentRepairs = Some 2, rpProtectedNamespaces = None, rpEvictRetries = None,
     rpEvictInterval = None, rpEvictionTimeoutSeconds = None, rpProtectedJobPods = None\<rparr>"

definition sample_cluster :: "Node list \<Rightarrow> Cluster" where
  "sample_cluster nodes = \<lparr>cName = ''test'', cNodes = nodes, cTaintCP = True, cCPTolerations = [],
     cServiceSubnet = ''10.1.0.0/16'', cDNSServers = [''8.8.8.8''], cDNSService = [],
     cReboot = sample_reboot, cRepair = sample_repair, cSpareNodeTaintKey = [],
     cOptions = sample_options, cTrustedRESTMappings = []\<rparr>"

definition running_as :: "string \<Rightarrow> ServiceParams \<Rightarrow> ServiceStatus" where
  "running_as img builtIn =
     \<lparr>ssRunning = True, ssImage = img, ssBuiltInParams = builtIn, ssExtraParams = no_params\<rparr>"

definition stopped_service :: ServiceStatus where
  "stopped_service = \<lparr>ssRunning = False, ssImage = [], ssBuiltInParams = no_params, ssExtraParams = no_params\<rparr>"

text \<open>
  A node of the sample cluster on which everything it should run runs and is up to date: the control
  plane services only on a control plane.
\<close>

definition sample_node_status :: "Cluster \<Rightarrow> Node \<Rightarrow> NodeStatus" where
  "sample_node_status c n =
     (let cps = filter nControlPlane (cNodes c);
          cp_service = (\<lambda>img params. if nControlPlane n then running_as img params else stopped_service) in
     \<lparr>nsSSHConnected = True,
      nsEtcd = \<lparr>esServiceStatus = cp_service EtcdImage (BuiltInParams n [] ''new''), esHasData = nControlPlane n,
        esIsAddedMember = nControlPlane n\<rparr>,
      nsRivers = running_as ToolsImage (RiversParams cps RiversUpstreamPort RiversListenPort),
      nsEtcdRivers = cp_service ToolsImage (RiversParams cps EtcdRiversUpstreamPort EtcdRiversListenPort),
      nsAPIServer = \<lparr>kcServiceStatus = cp_service KubernetesImage
        (APIServerParams sample_T (nAddress n) (cServiceSubnet c) False [] [] ''cluster.local''),
        kcIsHealthy = nControlPlane n\<rparr>,
      nsControllerManager = \<lparr>kcServiceStatus = cp_service KubernetesImage
        (ControllerManagerParams (cName c) (cServiceSubnet c)), kcIsHealthy = nControlPlane n\<rparr>,
      nsScheduler = \<lparr>shServiceStatus = cp_service KubernetesImage SchedulerParams, shIsHealthy = nControlPlane n,
        shConfig = (if nControlPlane n then GenerateSchedulerConfiguration sample_T (oScheduler (cOptions c)) else None)\<rparr>,
      nsProxy = \<lparr>pxServiceStatus = running_as KubernetesImage ProxyParams, pxIsHealthy = True,
        pxConfig = GenerateProxyConfiguration sample_T (oProxy (cOptions c)) n\<rparr>,
      nsKubelet = \<lparr>ktServiceStatus =
          running_as KubernetesImage (KubeletServiceParams n (oKubelet (cOptions c))),
        ktIsHealthy = True,
        ktConfig = GenerateKubeletConfiguration sample_T (oKubelet (cOptions c)) (nAddress n) None\<rparr>\<rparr>)"

definition sample_k8s_node :: "Node \<Rightarrow> K8sNode" where
  "sample_k8s_node n = \<lparr>knName = Nodename n,
     knLabels = [(''rack'', ''1'')], knAnnotations = [],
     knTaints = [], knUnschedulable = False, knConditions = [(''Ready'', ''True'')], knOther = []\<rparr>"

definition sample_kubernetes :: "Cluster \<Rightarrow> KubernetesClusterStatus" where
  "sample_kubernetes c =
     \<lparr>ksIsControlPlaneReady = True, ksNodes = map sample_k8s_node (cNodes c), ksDNSService = None,
      ksClusterDNS = \<lparr>cdConfigMap = None, cdClusterIP = []\<rparr>, ksNodeDNS = None,
      ksMasterEndpoints = None, ksMasterEndpointSlice = None, ksEtcdService = None,
      ksEtcdEndpoints = None, ksEtcdEndpointSlice = None, ksResourceStatuses = []\<rparr>"

definition sample_status :: "Cluster \<Rightarrow> ClusterStatus" where
  "sample_status c =
     \<lparr>csConfigVersion = ConfigVersion,
      csNodeStatuses = map_of (map (\<lambda>n. (nAddress n, sample_node_status c n)) (cNodes c)),
      csEtcd = \<lparr>ecIsHealthy = True,
        ecMembers = map (\<lambda>n. (nAddress n, \<lparr>mbID = 1, mbName = nAddress n, mbPeerURLs = []\<rparr>))
          (filter nControlPlane (cNodes c)),
        ecInSyncMembers = map (\<lambda>n. (nAddress n, True)) (filter nControlPlane (cNodes c))\<rparr>,
      csKubernetes = sample_kubernetes c,
      csRepairQueue = \<lparr>rqsEnabled = True, rqsEntries = [], rqsRepairCompleted = [], rqsDrainCompleted = []\<rparr>,
      csRebootQueue = \<lparr>bqsEnabled = True, bqsEntries = [], bqsNextCandidates = [], bqsDrainCompleted = [],
        bqsDrainTimedout = [], bqsRebootDequeued = [], bqsRebootCancelled = []\<rparr>\<rparr>"

text \<open>Three control planes and a worker.\<close>

definition cp1 :: Node where "cp1 = sample_node ''10.0.0.1'' True"
definition cp2 :: Node where "cp2 = sample_node ''10.0.0.2'' True"
definition cp3 :: Node where "cp3 = sample_node ''10.0.0.3'' True"
definition worker1 :: Node where "worker1 = sample_node ''10.0.0.4'' False"

definition cluster1 :: Cluster where "cluster1 = sample_cluster [cp1, cp2, cp3, worker1]"
definition status1 :: ClusterStatus where "status1 = sample_status cluster1"

end
