(* ===== verification/CKE_NodeFilter.thy ===== *)
theory CKE_NodeFilter
  imports CKE_Samples
begin

text \<open>
  \<^verbatim>\<open>server/node_filter.go\<close> up to the node attributes: \<^verbatim>\<open>NodeFilter\<close>, the filters that select the nodes
  on which a service is stopped or outdated, and the views of the etcd cluster. A filter reads the
  status of every node it is given and panics on a node without one, so it returns an option.

  The locale \<open>node_filter\<close> is the contract that the decision code relies on: a filter keeps the nodes
  whose status satisfies its condition, in order. Every filter below interprets it.
\<close>

section \<open>The filter object\<close>

record NodeFilter =
  nfCluster :: Cluster
  nfStatus :: ClusterStatus
  nfNodeMap :: "string \<Rightarrow> Node option"
  nfAddressMap :: "string \<Rightarrow> string option"
  nfCp :: "Node list"

definition NewNodeFilter :: "Cluster \<Rightarrow> ClusterStatus \<Rightarrow> NodeFilter" where
  "NewNodeFilter cluster status =
     \<lparr>nfCluster = cluster, nfStatus = status,
      nfNodeMap = fold (\<lambda>n m. m(nAddress n \<mapsto> n)) (cNodes cluster) Map.empty,
      nfAddressMap = fold (\<lambda>n m. if length (nHostname n) \<noteq> 0 then m(nHostname n \<mapsto> nAddress n) else m)
        (cNodes cluster) Map.empty,
      nfCp = filter nControlPlane (cNodes cluster)\<rparr>"

definition nodeStatus :: "NodeFilter \<Rightarrow> Node \<Rightarrow> NodeStatus option" where
  "nodeStatus nf n = csNodeStatuses (nfStatus nf) (nAddress n)"

definition InCluster :: "NodeFilter \<Rightarrow> string \<Rightarrow> bool" where
  "InCluster nf address \<longleftrightarrow> nfNodeMap nf address \<noteq> None"

definition AllNodes :: "NodeFilter \<Rightarrow> Node list" where
  "AllNodes nf = cNodes (nfCluster nf)"

definition ControlPlaneNodes :: "NodeFilter \<Rightarrow> Node list" where
  "ControlPlaneNodes nf = nfCp nf"

text \<open>The loop that all simple filters share: append the targets whose status satisfies a condition.\<close>

definition by_status :: "NodeFilter \<Rightarrow> (NodeStatus \<Rightarrow> bool) \<Rightarrow> Node list \<Rightarrow> Node list option" where
  "by_status nf P targets = go_filter (\<lambda>n. do { st \<leftarrow> nodeStatus nf n; Some (P st) }) targets"

text \<open>The \<^verbatim>\<open>switch\<close> with its fallthroughs that decides whether a running service is outdated.\<close>

definition svc_outdated :: "string \<Rightarrow> ServiceParams \<Rightarrow> ServiceParams \<Rightarrow> ServiceStatus \<Rightarrow> bool" where
  "svc_outdated img builtIn extra st =
     (if \<not> ssRunning st then False
      else if img \<noteq> ssImage st then True
      else if \<not> ServiceParams_Equal builtIn (ssBuiltInParams st) then True
      else \<not> ServiceParams_Equal extra (ssExtraParams st))"

section \<open>Rivers\<close>

definition RiversStopped :: "NodeFilter \<Rightarrow> Node list \<Rightarrow> Node list option" where
  "RiversStopped nf = by_status nf (\<lambda>st. \<not> ssRunning (nsRivers st))"

definition RiversOutdated :: "NodeFilter \<Rightarrow> Node list \<Rightarrow> Node list option" where
  "RiversOutdated nf =
     (let currentBuiltIn = RiversParams (ControlPlaneNodes nf) RiversUpstreamPort RiversListenPort;
          currentExtra = oRivers (cOptions (nfCluster nf))
      in by_status nf (\<lambda>st. svc_outdated ToolsImage currentBuiltIn currentExtra (nsRivers st)))"

definition EtcdRiversStopped :: "NodeFilter \<Rightarrow> Node list \<Rightarrow> Node list option" where
  "EtcdRiversStopped nf = by_status nf (\<lambda>st. \<not> ssRunning (nsEtcdRivers st))"

definition EtcdRiversOutdated :: "NodeFilter \<Rightarrow> Node list \<Rightarrow> Node list option" where
  "EtcdRiversOutdated nf =
     (let currentBuiltIn = RiversParams (ControlPlaneNodes nf) EtcdRiversUpstreamPort EtcdRiversListenPort;
          currentExtra = oEtcdRivers (cOptions (nfCluster nf))
      in by_status nf (\<lambda>st. svc_outdated ToolsImage currentBuiltIn currentExtra (nsEtcdRivers st)))"

section \<open>The etcd cluster\<close>

definition EtcdBootstrapped :: "NodeFilter \<Rightarrow> bool option" where
  "EtcdBootstrapped nf =
     go_any (\<lambda>n. do { st \<leftarrow> nodeStatus nf n; Some (esHasData (nsEtcd st)) }) (ControlPlaneNodes nf)"

definition EtcdIsGood :: "NodeFilter \<Rightarrow> bool" where
  "EtcdIsGood nf =
     (let st = csEtcd (nfStatus nf) in
      if \<not> ecIsHealthy st then False
      else list_all (\<lambda>(k, _). mget_bool (ecInSyncMembers st) k) (ecMembers st))"

text \<open>
  The loop of \<^verbatim>\<open>EtcdIsGoodForRepair\<close> over the in-sync flags: \<open>Some None\<close> is the early return of false,
  \<open>Some (Some n)\<close> the number of in-sync members counted.
\<close>

fun countInSync :: "NodeFilter \<Rightarrow> (string, bool) gomap \<Rightarrow> int option option" where
  "countInSync nf [] = Some (Some 0)"
| "countInSync nf ((address, inSync) # rest) =
     (if inSync then do {
        r \<leftarrow> countInSync nf rest;
        Some (case r of None \<Rightarrow> None | Some k \<Rightarrow> Some (k + 1)) }
      else (case nfNodeMap nf address of
              None \<Rightarrow> Some None
            | Some n \<Rightarrow>
                if \<not> nControlPlane n then Some None
                else do {
                  st \<leftarrow> nodeStatus nf n;
                  if nsSSHConnected st then Some None else countInSync nf rest }))"

definition EtcdIsGoodForRepair :: "NodeFilter \<Rightarrow> int \<Rightarrow> bool option" where
  "EtcdIsGoodForRepair nf controlPlaneCount =
     (if \<not> ecIsHealthy (csEtcd (nfStatus nf)) then Some False
      else do {
        r \<leftarrow> countInSync nf (ecInSyncMembers (csEtcd (nfStatus nf)));
        Some (case r of None \<Rightarrow> False | Some inSyncCP \<Rightarrow> controlPlaneCount - 1 \<le> inSyncCP) })"

definition EtcdStopped :: "NodeFilter \<Rightarrow> Node list \<Rightarrow> Node list option" where
  "EtcdStopped nf =
     go_filter (\<lambda>n.
       if map_of (ecMembers (csEtcd (nfStatus nf))) (nAddress n) = None
          \<and> ecIsHealthy (csEtcd (nfStatus nf)) then Some False
       else do {
         st \<leftarrow> nodeStatus nf n;
         if ssRunning (esServiceStatus (nsEtcd st)) then Some False
         else if \<not> esIsAddedMember (nsEtcd st) then Some False
         else Some True })"

definition EtcdNonClusterMembers :: "NodeFilter \<Rightarrow> bool \<Rightarrow> Member list" where
  "EtcdNonClusterMembers nf healthy =
     (let st = csEtcd (nfStatus nf) in
      map snd (filter (\<lambda>(k, v). \<not> InCluster nf k \<and> mget_bool (ecInSyncMembers st) k = healthy)
        (ecMembers st)))"

text \<open>The two result slices of \<^verbatim>\<open>EtcdNonCPMembers\<close> are the components of one list of pairs.\<close>

definition EtcdNonCPMembers :: "NodeFilter \<Rightarrow> bool \<Rightarrow> Node list \<times> nat list" where
  "EtcdNonCPMembers nf healthy =
     (let st = csEtcd (nfStatus nf);
          r = List.map_filter (\<lambda>(k, v). case nfNodeMap nf k of
                None \<Rightarrow> None
              | Some n \<Rightarrow> if nControlPlane n then None
                          else if mget_bool (ecInSyncMembers st) k \<noteq> healthy then None
                          else Some (n, mbID v)) (ecMembers st)
      in (map fst r, map snd r))"

definition EtcdUnstartedMembers :: "NodeFilter \<Rightarrow> Node list" where
  "EtcdUnstartedMembers nf =
     List.map_filter (\<lambda>(k, v). case nfNodeMap nf k of
          None \<Rightarrow> None
        | Some n \<Rightarrow> if \<not> nControlPlane n then None
                    else if length (mbName v) > 0 then None
                    else Some n) (ecMembers (csEtcd (nfStatus nf)))"

fun unmarked_loop :: "NodeFilter \<Rightarrow> (string, bool) gomap \<Rightarrow> Node list option" where
  "unmarked_loop nf [] = Some []"
| "unmarked_loop nf ((k, v) # rest) =
     (if \<not> v then unmarked_loop nf rest
      else (case nfNodeMap nf k of
              None \<Rightarrow> unmarked_loop nf rest
            | Some n \<Rightarrow>
                if \<not> nControlPlane n then unmarked_loop nf rest
                else do {
                  st \<leftarrow> nodeStatus nf n;
                  ns \<leftarrow> unmarked_loop nf rest;
                  Some (if esIsAddedMember (nsEtcd st) then ns else n # ns) }))"

definition EtcdUnmarkedMembers :: "NodeFilter \<Rightarrow> Node list option" where
  "EtcdUnmarkedMembers nf = unmarked_loop nf (ecInSyncMembers (csEtcd (nfStatus nf)))"

definition EtcdNewMembers :: "NodeFilter \<Rightarrow> Node list" where
  "EtcdNewMembers nf =
     filter (\<lambda>n. map_of (ecMembers (csEtcd (nfStatus nf))) (nAddress n) = None) (ControlPlaneNodes nf)"

definition etcdEqualParams :: "ServiceParams \<Rightarrow> ServiceParams \<Rightarrow> bool" where
  "etcdEqualParams running current =
     (let keep = filter (\<lambda>s. \<not> HasPrefix s ''--initial-'') in
      ServiceParams_Equal
        (running\<lparr>spExtraArguments := keep (spExtraArguments running)\<rparr>)
        (current\<lparr>spExtraArguments := keep (spExtraArguments current)\<rparr>))"

definition EtcdOutdatedMembers :: "NodeFilter \<Rightarrow> Node list option" where
  "EtcdOutdatedMembers nf =
     go_filter (\<lambda>n. do {
       st \<leftarrow> nodeStatus nf n;
       let s = esServiceStatus (nsEtcd st);
       Some (if \<not> ssRunning s then False
             else if EtcdImage \<noteq> ssImage s then True
             else if \<not> etcdEqualParams (ssBuiltInParams s) (BuiltInParams n [] ''new'') then True
             else \<not> etcdEqualParams (ssExtraParams s) (epServiceParams (oEtcd (cOptions (nfCluster nf)))))
     }) (ControlPlaneNodes nf)"

section \<open>API servers and controllers\<close>

definition HealthyAPIServer :: "NodeFilter \<Rightarrow> Node option option" where
  "HealthyAPIServer nf =
     go_find (\<lambda>n. do { st \<leftarrow> nodeStatus nf n; Some (kcIsHealthy (nsAPIServer st)) }) (ControlPlaneNodes nf)"

definition APIServerHealthy :: "NodeFilter \<Rightarrow> Node list \<Rightarrow> Node list option" where
  "APIServerHealthy nf = by_status nf (\<lambda>st. kcIsHealthy (nsAPIServer st))"

definition APIServerUnhealthy :: "NodeFilter \<Rightarrow> Node list \<Rightarrow> Node list option" where
  "APIServerUnhealthy nf = by_status nf (\<lambda>st. \<not> kcIsHealthy (nsAPIServer st))"

definition APIServerStopped :: "NodeFilter \<Rightarrow> Node list \<Rightarrow> Node list option" where
  "APIServerStopped nf = by_status nf (\<lambda>st. \<not> ssRunning (kcServiceStatus (nsAPIServer st)))"

definition APIServerOutdated :: "third_party \<Rightarrow> NodeFilter \<Rightarrow> Node list \<Rightarrow> Node list option" where
  "APIServerOutdated T nf targets = do {
     let currentExtra = oAPIServer (cOptions (nfCluster nf));
     kubeletConfig \<leftarrow>
       GenerateKubeletConfiguration T (oKubelet (cOptions (nfCluster nf))) ''0.0.0.0'' None;
     go_filter (\<lambda>n. do {
       st \<leftarrow> nodeStatus nf n;
       let currentBuiltIn = APIServerParams T (nAddress n) (cServiceSubnet (nfCluster nf))
         (apAuditLogEnabled currentExtra) (apAuditLogPolicy currentExtra)
         (apAuditLogPath currentExtra) (kcClusterDomain kubeletConfig);
       Some (svc_outdated KubernetesImage currentBuiltIn (apServiceParams currentExtra)
               (kcServiceStatus (nsAPIServer st))) }) targets }"

definition ControllerManagerStopped :: "NodeFilter \<Rightarrow> Node list \<Rightarrow> Node list option" where
  "ControllerManagerStopped nf =
     by_status nf (\<lambda>st. \<not> ssRunning (kcServiceStatus (nsControllerManager st)))"

definition ControllerManagerOutdated :: "NodeFilter \<Rightarrow> Node list \<Rightarrow> Node list option" where
  "ControllerManagerOutdated nf =
     (let currentBuiltIn =
            ControllerManagerParams (cName (nfCluster nf)) (cServiceSubnet (nfCluster nf));
          currentExtra = oControllerManager (cOptions (nfCluster nf))
      in by_status nf (\<lambda>st. svc_outdated KubernetesImage currentBuiltIn currentExtra
           (kcServiceStatus (nsControllerManager st))))"

definition SchedulerStopped :: "NodeFilter \<Rightarrow> Node list \<Rightarrow> Node list option" where
  "SchedulerStopped nf = by_status nf (\<lambda>st. \<not> ssRunning (shServiceStatus (nsScheduler st)))"

definition SchedulerOutdated ::
  "third_party \<Rightarrow> NodeFilter \<Rightarrow> Node list \<Rightarrow> SchedulerParams \<Rightarrow> Node list option" where
  "SchedulerOutdated T nf targets params = do {
     let currentExtra = schServiceParams (oScheduler (cOptions (nfCluster nf)));
     currentConfig \<leftarrow> GenerateSchedulerConfiguration T params;
     by_status nf (\<lambda>st.
       let s = shServiceStatus (nsScheduler st) in
       svc_outdated KubernetesImage SchedulerParams currentExtra s
       \<or> ssRunning s \<and> \<not> tpEqualScheduler T currentConfig (shConfig (nsScheduler st))) targets }"

section \<open>Kubelets and kube-proxies\<close>

definition KubeletStopped :: "NodeFilter \<Rightarrow> Node list \<Rightarrow> Node list option" where
  "KubeletStopped nf = by_status nf (\<lambda>st. \<not> ssRunning (ktServiceStatus (nsKubelet st)))"

definition RegisteredNodes :: "NodeFilter \<Rightarrow> Node list \<Rightarrow> Node list" where
  "RegisteredNodes nf targets =
     filter (\<lambda>n. Nodename n \<in> knName ` set (ksNodes (csKubernetes (nfStatus nf)))) targets"

definition runtimeEndpoint :: "ServiceParams \<Rightarrow> string" where
  "runtimeEndpoint p =
     (case find (\<lambda>arg. HasPrefix arg ''--container-runtime-endpoint='') (spExtraArguments p) of
        None \<Rightarrow> [] | Some arg \<Rightarrow> arg)"

definition kubeletRuntimeChanged :: "ServiceParams \<Rightarrow> ServiceParams \<Rightarrow> bool" where
  "kubeletRuntimeChanged running current \<longleftrightarrow> runtimeEndpoint running \<noteq> runtimeEndpoint current"

text \<open>The body of the loop of \<^verbatim>\<open>KubeletOutdated\<close>; a changed runtime endpoint is only logged.\<close>

definition kubelet_check :: "third_party \<Rightarrow> NodeFilter \<Rightarrow> Node \<Rightarrow> bool option" where
  "kubelet_check T nf n = do {
     let currentOpts = oKubelet (cOptions (nfCluster nf));
     let currentExtra = klServiceParams currentOpts;
     ns \<leftarrow> nodeStatus nf n;
     let st = nsKubelet ns;
     currentConfig \<leftarrow> GenerateKubeletConfiguration T currentOpts (nAddress n) (ktConfig st);
     let currentBuiltIn = KubeletServiceParams n currentOpts;
     Some (if \<not> ssRunning (ktServiceStatus st) then False
           else if kubeletRuntimeChanged (ssBuiltInParams (ktServiceStatus st)) currentBuiltIn
           then False
           else svc_outdated KubernetesImage currentBuiltIn currentExtra (ktServiceStatus st)
                \<or> \<not> tpEqualKubelet T currentConfig (ktConfig st)) }"

definition KubeletOutdated :: "third_party \<Rightarrow> NodeFilter \<Rightarrow> Node list \<Rightarrow> Node list option" where
  "KubeletOutdated T nf targets = go_filter (kubelet_check T nf) targets"

definition existsNodeResource :: "NodeFilter \<Rightarrow> string \<Rightarrow> bool" where
  "existsNodeResource nf name \<longleftrightarrow>
     list_ex (\<lambda>kn. knName kn = name) (ksNodes (csKubernetes (nfStatus nf)))"

definition KubeletUnrecognized :: "NodeFilter \<Rightarrow> Node list \<Rightarrow> Node list option" where
  "KubeletUnrecognized nf =
     go_filter (\<lambda>n. do {
       st \<leftarrow> nodeStatus nf n;
       Some (ssRunning (ktServiceStatus (nsKubelet st)) \<and> \<not> existsNodeResource nf (Nodename n)) })"

definition NonClusterNodes :: "NodeFilter \<Rightarrow> K8sNode list" where
  "NonClusterNodes nf =
     filter (\<lambda>member.
       let address = (case nfAddressMap nf (knName member) of Some a \<Rightarrow> a | None \<Rightarrow> knName member)
       in \<not> InCluster nf address) (ksNodes (csKubernetes (nfStatus nf)))"

definition ProxyStopped :: "NodeFilter \<Rightarrow> Node list \<Rightarrow> Node list option" where
  "ProxyStopped nf targets =
     (if prDisable (oProxy (cOptions (nfCluster nf))) then Some []
      else by_status nf (\<lambda>st. \<not> ssRunning (pxServiceStatus (nsProxy st))) targets)"

definition ProxyRunningUnexpectedly :: "NodeFilter \<Rightarrow> Node list \<Rightarrow> Node list option" where
  "ProxyRunningUnexpectedly nf targets =
     (if \<not> prDisable (oProxy (cOptions (nfCluster nf))) then Some []
      else by_status nf (\<lambda>st. ssRunning (pxServiceStatus (nsProxy st))) targets)"

definition proxy_check :: "third_party \<Rightarrow> NodeFilter \<Rightarrow> ProxyParams \<Rightarrow> Node \<Rightarrow> bool option" where
  "proxy_check T nf params n = do {
     ns \<leftarrow> nodeStatus nf n;
     let st = nsProxy ns;
     currentConfig \<leftarrow> GenerateProxyConfiguration T params n;
     Some (svc_outdated KubernetesImage ProxyParams
             (prServiceParams (oProxy (cOptions (nfCluster nf)))) (pxServiceStatus st)
           \<or> ssRunning (pxServiceStatus st) \<and> \<not> tpEqualProxy T currentConfig (pxConfig st)) }"

definition ProxyOutdated ::
  "third_party \<Rightarrow> NodeFilter \<Rightarrow> Node list \<Rightarrow> ProxyParams \<Rightarrow> Node list option" where
  "ProxyOutdated T nf targets params =
     (if prDisable (oProxy (cOptions (nfCluster nf))) then Some []
      else go_filter (proxy_check T nf params) targets)"

section \<open>Reachability and cordoned nodes\<close>

definition CordonedNodes :: "NodeFilter \<Rightarrow> K8sNode list" where
  "CordonedNodes nf =
     filter (\<lambda>n. knUnschedulable n \<and> mget_str (knAnnotations n) CKEAnnotationReboot = ''true'')
       (ksNodes (csKubernetes (nfStatus nf)))"

definition SSHConnected :: "NodeFilter \<Rightarrow> Node list \<Rightarrow> Node list option" where
  "SSHConnected nf = by_status nf nsSSHConnected"

definition SSHNotConnected :: "NodeFilter \<Rightarrow> Node list \<Rightarrow> Node list option" where
  "SSHNotConnected nf = by_status nf (\<lambda>st. \<not> nsSSHConnected st)"

section \<open>The contract of a node filter\<close>

text \<open>Every target has a status.\<close>

definition covered :: "NodeFilter \<Rightarrow> Node list \<Rightarrow> bool" where
  "covered nf ts \<longleftrightarrow> (\<forall>n \<in> set ts. nodeStatus nf n \<noteq> None)"

definition has_status :: "NodeFilter \<Rightarrow> (Node \<Rightarrow> NodeStatus \<Rightarrow> bool) \<Rightarrow> Node \<Rightarrow> bool" where
  "has_status nf P n \<longleftrightarrow> (\<exists>st. nodeStatus nf n = Some st \<and> P n st)"

lemma covered_subset: "covered nf ts \<Longrightarrow> set ns \<subseteq> set ts \<Longrightarrow> covered nf ns"
  by (auto simp: covered_def)

locale node_filter =
  fixes filt :: "NodeFilter \<Rightarrow> Node list \<Rightarrow> Node list option"
    and sel :: "NodeFilter \<Rightarrow> Node \<Rightarrow> NodeStatus \<Rightarrow> bool"
    and ok :: "NodeFilter \<Rightarrow> bool"
  assumes filt_sound: "filt nf ts = Some ns \<Longrightarrow> ns = filter (has_status nf (sel nf)) ts"
    and filt_defined: "ok nf \<Longrightarrow> covered nf ts \<Longrightarrow> \<exists>ns. filt nf ts = Some ns"
begin

lemma filt_value:
  "ok nf \<Longrightarrow> covered nf ts \<Longrightarrow> filt nf ts = Some (filter (has_status nf (sel nf)) ts)"
  using filt_defined [of nf ts] filt_sound [of nf ts] by auto

lemma filt_mem:
  "filt nf ts = Some ns \<Longrightarrow>
     n \<in> set ns \<longleftrightarrow> n \<in> set ts \<and> (\<exists>st. nodeStatus nf n = Some st \<and> sel nf n st)"
  by (drule filt_sound) (auto simp: has_status_def)

lemma filt_subset: "filt nf ts = Some ns \<Longrightarrow> set ns \<subseteq> set ts"
  by (drule filt_sound) auto

lemma filt_covered: "filt nf ts = Some ns \<Longrightarrow> covered nf ns"
  by (auto simp: covered_def filt_mem)

lemma filt_distinct: "filt nf ts = Some ns \<Longrightarrow> distinct ts \<Longrightarrow> distinct ns"
  by (drule filt_sound) simp

lemma filt_empty:
  "filt nf ts = Some [] \<Longrightarrow> n \<in> set ts \<Longrightarrow> nodeStatus nf n = Some st \<Longrightarrow> \<not> sel nf n st"
  by (drule filt_mem [of nf ts "[]" n]) auto

lemma filt_idem: "filt nf ts = Some ns \<Longrightarrow> filt nf ns = Some ms \<Longrightarrow> ms = ns"
  by (auto dest!: filt_sound)

end

lemma by_status_sound:
  "by_status nf P ts = Some ns \<Longrightarrow> ns = filter (has_status nf (\<lambda>_. P)) ts"
  unfolding by_status_def by (erule go_filter_sel) (auto simp: has_status_def)

lemma by_status_defined: "covered nf ts \<Longrightarrow> \<exists>ns. by_status nf P ts = Some ns"
  unfolding by_status_def covered_def
  by (rule exI, rule go_filter_total [where Q = "\<lambda>n. P (the (nodeStatus nf n))"]) auto

text \<open>
  When the configurations that the options give do not fail to merge, no generator panics: this is
  what \<^verbatim>\<open>validateOptions\<close> checks before a cluster is stored.
\<close>

definition configs_merge :: "third_party \<Rightarrow> Cluster \<Rightarrow> bool" where
  "configs_merge T c \<longleftrightarrow>
     (\<exists>k. Kubelet_MergeConfig T (oKubelet (cOptions c)) kubelet_base = Inr k) \<and>
     GenerateSchedulerConfiguration T (oScheduler (cOptions c)) \<noteq> None \<and>
     (\<forall>n. GenerateProxyConfiguration T (oProxy (cOptions c)) n \<noteq> None)"

lemma GenerateKubelet_defined:
  "configs_merge T c \<Longrightarrow> \<exists>k. GenerateKubeletConfiguration T (oKubelet (cOptions c)) a r = Some k"
  by (auto simp: configs_merge_def GenerateKubeletConfiguration_def Let_def split: option.splits)

lemma GenerateScheduler_defined:
  "configs_merge T c \<Longrightarrow> \<exists>k. GenerateSchedulerConfiguration T (oScheduler (cOptions c)) = Some k"
  by (auto simp: configs_merge_def)

lemma GenerateProxy_defined:
  "configs_merge T c \<Longrightarrow> \<exists>k. GenerateProxyConfiguration T (oProxy (cOptions c)) n = Some k"
  by (auto simp: configs_merge_def)

section \<open>The filters satisfy the contract\<close>

interpretation rivers_stopped: node_filter RiversStopped
  "\<lambda>nf n st. \<not> ssRunning (nsRivers st)" "\<lambda>nf. True"
  by unfold_locales (auto simp: RiversStopped_def by_status_defined dest: by_status_sound)

interpretation rivers_outdated: node_filter RiversOutdated
  "\<lambda>nf n st. svc_outdated ToolsImage
     (RiversParams (ControlPlaneNodes nf) RiversUpstreamPort RiversListenPort)
     (oRivers (cOptions (nfCluster nf))) (nsRivers st)" "\<lambda>nf. True"
  by unfold_locales (auto simp: RiversOutdated_def Let_def by_status_defined dest: by_status_sound)

interpretation etcd_rivers_stopped: node_filter EtcdRiversStopped
  "\<lambda>nf n st. \<not> ssRunning (nsEtcdRivers st)" "\<lambda>nf. True"
  by unfold_locales (auto simp: EtcdRiversStopped_def by_status_defined dest: by_status_sound)

interpretation etcd_rivers_outdated: node_filter EtcdRiversOutdated
  "\<lambda>nf n st. svc_outdated ToolsImage
     (RiversParams (ControlPlaneNodes nf) EtcdRiversUpstreamPort EtcdRiversListenPort)
     (oEtcdRivers (cOptions (nfCluster nf))) (nsEtcdRivers st)" "\<lambda>nf. True"
  by unfold_locales (auto simp: EtcdRiversOutdated_def Let_def by_status_defined dest: by_status_sound)

interpretation etcd_stopped: node_filter EtcdStopped
  "\<lambda>nf n st. \<not> (map_of (ecMembers (csEtcd (nfStatus nf))) (nAddress n) = None
       \<and> ecIsHealthy (csEtcd (nfStatus nf)))
     \<and> \<not> ssRunning (esServiceStatus (nsEtcd st)) \<and> esIsAddedMember (nsEtcd st)" "\<lambda>nf. True"
proof unfold_locales
  fix nf ts ns
  assume "EtcdStopped nf ts = Some ns"
  then show "ns = filter (has_status nf (\<lambda>n st.
      \<not> (map_of (ecMembers (csEtcd (nfStatus nf))) (nAddress n) = None
         \<and> ecIsHealthy (csEtcd (nfStatus nf)))
      \<and> \<not> ssRunning (esServiceStatus (nsEtcd st)) \<and> esIsAddedMember (nsEtcd st))) ts"
    unfolding EtcdStopped_def by (rule go_filter_sel) (auto simp: has_status_def split: if_splits)
next
  fix nf ts
  assume "covered nf ts"
  then have "EtcdStopped nf ts \<noteq> None"
    unfolding EtcdStopped_def go_filter_not_None covered_def
    by (auto simp del: not_None_eq bind_Some_iff simp: bind_eq_None_conv split: if_splits)
  then show "\<exists>ns. EtcdStopped nf ts = Some ns" by auto
qed

interpretation apiserver_healthy: node_filter APIServerHealthy
  "\<lambda>nf n st. kcIsHealthy (nsAPIServer st)" "\<lambda>nf. True"
  by unfold_locales (auto simp: APIServerHealthy_def by_status_defined dest: by_status_sound)

interpretation apiserver_unhealthy: node_filter APIServerUnhealthy
  "\<lambda>nf n st. \<not> kcIsHealthy (nsAPIServer st)" "\<lambda>nf. True"
  by unfold_locales (auto simp: APIServerUnhealthy_def by_status_defined dest: by_status_sound)

interpretation apiserver_stopped: node_filter APIServerStopped
  "\<lambda>nf n st. \<not> ssRunning (kcServiceStatus (nsAPIServer st))" "\<lambda>nf. True"
  by unfold_locales (auto simp: APIServerStopped_def by_status_defined dest: by_status_sound)

interpretation cm_stopped: node_filter ControllerManagerStopped
  "\<lambda>nf n st. \<not> ssRunning (kcServiceStatus (nsControllerManager st))" "\<lambda>nf. True"
  by unfold_locales (auto simp: ControllerManagerStopped_def by_status_defined dest: by_status_sound)

interpretation cm_outdated: node_filter ControllerManagerOutdated
  "\<lambda>nf n st. svc_outdated KubernetesImage
     (ControllerManagerParams (cName (nfCluster nf)) (cServiceSubnet (nfCluster nf)))
     (oControllerManager (cOptions (nfCluster nf))) (kcServiceStatus (nsControllerManager st))"
  "\<lambda>nf. True"
  by unfold_locales
    (auto simp: ControllerManagerOutdated_def Let_def by_status_defined dest: by_status_sound)

interpretation scheduler_stopped: node_filter SchedulerStopped
  "\<lambda>nf n st. \<not> ssRunning (shServiceStatus (nsScheduler st))" "\<lambda>nf. True"
  by unfold_locales (auto simp: SchedulerStopped_def by_status_defined dest: by_status_sound)

interpretation kubelet_stopped: node_filter KubeletStopped
  "\<lambda>nf n st. \<not> ssRunning (ktServiceStatus (nsKubelet st))" "\<lambda>nf. True"
  by unfold_locales (auto simp: KubeletStopped_def by_status_defined dest: by_status_sound)

interpretation kubelet_unrecognized: node_filter KubeletUnrecognized
  "\<lambda>nf n st. ssRunning (ktServiceStatus (nsKubelet st)) \<and> \<not> existsNodeResource nf (Nodename n)"
  "\<lambda>nf. True"
  by unfold_locales (auto simp: KubeletUnrecognized_def go_filter_defined covered_def has_status_def
      intro!: go_filter_sel)

interpretation proxy_stopped: node_filter ProxyStopped
  "\<lambda>nf n st. \<not> prDisable (oProxy (cOptions (nfCluster nf))) \<and> \<not> ssRunning (pxServiceStatus (nsProxy st))"
  "\<lambda>nf. True"
  by unfold_locales (auto simp: ProxyStopped_def has_status_def by_status_defined split: if_splits
      dest: by_status_sound)

interpretation proxy_unexpected: node_filter ProxyRunningUnexpectedly
  "\<lambda>nf n st. prDisable (oProxy (cOptions (nfCluster nf))) \<and> ssRunning (pxServiceStatus (nsProxy st))"
  "\<lambda>nf. True"
  by unfold_locales (auto simp: ProxyRunningUnexpectedly_def has_status_def by_status_defined
      split: if_splits dest: by_status_sound)

interpretation ssh: node_filter SSHConnected "\<lambda>nf n st. nsSSHConnected st" "\<lambda>nf. True"
  by unfold_locales (auto simp: SSHConnected_def by_status_defined dest: by_status_sound)

interpretation ssh_not: node_filter SSHNotConnected "\<lambda>nf n st. \<not> nsSSHConnected st" "\<lambda>nf. True"
  by unfold_locales (auto simp: SSHNotConnected_def by_status_defined dest: by_status_sound)

text \<open>The conditions of the four filters that generate a configuration.\<close>

definition apiserver_outdated :: "third_party \<Rightarrow> NodeFilter \<Rightarrow> Node \<Rightarrow> NodeStatus \<Rightarrow> bool" where
  "apiserver_outdated T nf n st \<longleftrightarrow>
     (\<exists>k. GenerateKubeletConfiguration T (oKubelet (cOptions (nfCluster nf))) ''0.0.0.0'' None = Some k \<and>
        svc_outdated KubernetesImage
          (let x = oAPIServer (cOptions (nfCluster nf)) in
           APIServerParams T (nAddress n) (cServiceSubnet (nfCluster nf)) (apAuditLogEnabled x)
             (apAuditLogPolicy x) (apAuditLogPath x) (kcClusterDomain k))
          (apServiceParams (oAPIServer (cOptions (nfCluster nf)))) (kcServiceStatus (nsAPIServer st)))"

definition scheduler_outdated :: "third_party \<Rightarrow> NodeFilter \<Rightarrow> Node \<Rightarrow> NodeStatus \<Rightarrow> bool" where
  "scheduler_outdated T nf n st \<longleftrightarrow>
     (\<exists>k. GenerateSchedulerConfiguration T (oScheduler (cOptions (nfCluster nf))) = Some k \<and>
        (svc_outdated KubernetesImage SchedulerParams
           (schServiceParams (oScheduler (cOptions (nfCluster nf)))) (shServiceStatus (nsScheduler st))
         \<or> ssRunning (shServiceStatus (nsScheduler st)) \<and> \<not> tpEqualScheduler T k (shConfig (nsScheduler st))))"

definition kubelet_outdated :: "third_party \<Rightarrow> NodeFilter \<Rightarrow> Node \<Rightarrow> NodeStatus \<Rightarrow> bool" where
  "kubelet_outdated T nf n st \<longleftrightarrow>
     (\<exists>k. GenerateKubeletConfiguration T (oKubelet (cOptions (nfCluster nf))) (nAddress n)
            (ktConfig (nsKubelet st)) = Some k \<and>
        ssRunning (ktServiceStatus (nsKubelet st)) \<and>
        \<not> kubeletRuntimeChanged (ssBuiltInParams (ktServiceStatus (nsKubelet st)))
            (KubeletServiceParams n (oKubelet (cOptions (nfCluster nf)))) \<and>
        (svc_outdated KubernetesImage (KubeletServiceParams n (oKubelet (cOptions (nfCluster nf))))
           (klServiceParams (oKubelet (cOptions (nfCluster nf)))) (ktServiceStatus (nsKubelet st))
         \<or> \<not> tpEqualKubelet T k (ktConfig (nsKubelet st))))"

definition proxy_outdated :: "third_party \<Rightarrow> NodeFilter \<Rightarrow> Node \<Rightarrow> NodeStatus \<Rightarrow> bool" where
  "proxy_outdated T nf n st \<longleftrightarrow>
     \<not> prDisable (oProxy (cOptions (nfCluster nf))) \<and>
     (\<exists>k. GenerateProxyConfiguration T (oProxy (cOptions (nfCluster nf))) n = Some k \<and>
        (svc_outdated KubernetesImage ProxyParams
           (prServiceParams (oProxy (cOptions (nfCluster nf)))) (pxServiceStatus (nsProxy st))
         \<or> ssRunning (pxServiceStatus (nsProxy st)) \<and> \<not> tpEqualProxy T k (pxConfig (nsProxy st))))"

interpretation api_outdated: node_filter "APIServerOutdated T" "apiserver_outdated T"
  "\<lambda>nf. configs_merge T (nfCluster nf)" for T
proof unfold_locales
  fix nf ts ns
  assume "APIServerOutdated T nf ts = Some ns"
  then show "ns = filter (has_status nf (apiserver_outdated T nf)) ts"
    unfolding APIServerOutdated_def
    by (auto simp: Let_def has_status_def apiserver_outdated_def intro!: go_filter_sel)
next
  fix nf ts
  assume m: "configs_merge T (nfCluster nf)" and c: "covered nf ts"
  obtain k where "GenerateKubeletConfiguration T (oKubelet (cOptions (nfCluster nf))) ''0.0.0.0'' None
      = Some k"
    using GenerateKubelet_defined [OF m] by blast
  then show "\<exists>ns. APIServerOutdated T nf ts = Some ns"
    using c by (auto simp: APIServerOutdated_def Let_def go_filter_defined covered_def)
qed

interpretation sched_outdated: node_filter
  "\<lambda>nf ts. SchedulerOutdated T nf ts (oScheduler (cOptions (nfCluster nf)))" "scheduler_outdated T"
  "\<lambda>nf. configs_merge T (nfCluster nf)" for T
proof unfold_locales
  fix nf ts ns
  assume "SchedulerOutdated T nf ts (oScheduler (cOptions (nfCluster nf))) = Some ns"
  then show "ns = filter (has_status nf (scheduler_outdated T nf)) ts"
    by (auto simp: SchedulerOutdated_def Let_def has_status_def scheduler_outdated_def
        dest!: by_status_sound intro!: filter_cong)
next
  fix nf ts
  assume m: "configs_merge T (nfCluster nf)" and c: "covered nf ts"
  then show "\<exists>ns. SchedulerOutdated T nf ts (oScheduler (cOptions (nfCluster nf))) = Some ns"
    using GenerateScheduler_defined [OF m]
    by (auto simp: SchedulerOutdated_def Let_def intro: by_status_defined)
qed

lemma kubelet_check_True:
  "kubelet_check T nf n = Some True \<longleftrightarrow> has_status nf (kubelet_outdated T nf) n"
  by (auto simp: kubelet_check_def Let_def has_status_def kubelet_outdated_def)

lemma kubelet_check_defined:
  assumes "configs_merge T (nfCluster nf)" and "nodeStatus nf n = Some st"
  shows "\<exists>b. kubelet_check T nf n = Some b"
proof -
  obtain k where "GenerateKubeletConfiguration T (oKubelet (cOptions (nfCluster nf))) (nAddress n)
      (ktConfig (nsKubelet st)) = Some k"
    using GenerateKubelet_defined [OF assms(1)] by blast
  then show ?thesis
    using assms(2) by (simp add: kubelet_check_def Let_def del: bind_Some_iff)
qed

lemma proxy_check_defined:
  assumes "configs_merge T (nfCluster nf)" and "nodeStatus nf n = Some st"
  shows "\<exists>b. proxy_check T nf (oProxy (cOptions (nfCluster nf))) n = Some b"
proof -
  obtain k where "GenerateProxyConfiguration T (oProxy (cOptions (nfCluster nf))) n = Some k"
    using GenerateProxy_defined [OF assms(1)] by blast
  then show ?thesis
    using assms(2) by (simp add: proxy_check_def Let_def del: bind_Some_iff)
qed

interpretation kl_outdated: node_filter "KubeletOutdated T" "kubelet_outdated T"
  "\<lambda>nf. configs_merge T (nfCluster nf)" for T
proof unfold_locales
  fix nf ts ns
  assume "KubeletOutdated T nf ts = Some ns"
  then show "ns = filter (has_status nf (kubelet_outdated T nf)) ts"
    unfolding KubeletOutdated_def by (rule go_filter_sel) (rule kubelet_check_True)
next
  fix nf ts
  assume "configs_merge T (nfCluster nf)" and "covered nf ts"
  then show "\<exists>ns. KubeletOutdated T nf ts = Some ns"
    unfolding KubeletOutdated_def go_filter_defined covered_def
    by (auto intro: kubelet_check_defined)
qed

interpretation px_outdated: node_filter
  "\<lambda>nf ts. ProxyOutdated T nf ts (oProxy (cOptions (nfCluster nf)))" "proxy_outdated T"
  "\<lambda>nf. configs_merge T (nfCluster nf)" for T
proof unfold_locales
  fix nf ts ns
  assume *: "ProxyOutdated T nf ts (oProxy (cOptions (nfCluster nf))) = Some ns"
  show "ns = filter (has_status nf (proxy_outdated T nf)) ts"
  proof (cases "prDisable (oProxy (cOptions (nfCluster nf)))")
    case True
    with * show ?thesis by (simp add: ProxyOutdated_def has_status_def proxy_outdated_def)
  next
    case False
    then have "proxy_check T nf (oProxy (cOptions (nfCluster nf))) n = Some True
        \<longleftrightarrow> has_status nf (proxy_outdated T nf) n" for n
      by (auto simp: proxy_check_def Let_def has_status_def proxy_outdated_def)
    with * False show ?thesis
      by (auto simp: ProxyOutdated_def intro: go_filter_sel)
  qed
next
  fix nf ts
  assume "configs_merge T (nfCluster nf)" and "covered nf ts"
  then show "\<exists>ns. ProxyOutdated T nf ts (oProxy (cOptions (nfCluster nf))) = Some ns"
    by (auto simp: ProxyOutdated_def go_filter_defined covered_def intro: proxy_check_defined)
qed

end
