(* ===== verification/CKE_NodeAttrs.thy ===== *)
theory CKE_NodeAttrs
  imports CKE_NodeFilter
begin

text \<open>
  The labels, annotations and taints of Kubernetes nodes (\<^verbatim>\<open>server/node_filter.go\<close>: \<^verbatim>\<open>isInternal\<close>,
  \<^verbatim>\<open>nodeIsOutdated\<close>, \<^verbatim>\<open>OutdatedAttrsNodes\<close>) and the update command of \<^verbatim>\<open>op/kube_node_update.go\<close>.

  The lemmas give the specification \<open>attrs_in_sync\<close> that \<^verbatim>\<open>nodeIsOutdated\<close> decides, show that the node
  written by \<^verbatim>\<open>OutdatedAttrsNodes\<close> satisfies it, and that everything that is not CKE's is left alone.
\<close>

section \<open>Definitions\<close>

definition isInternal :: "string \<Rightarrow> Node \<Rightarrow> bool" where
  "isInternal name n =
     (if name = CKEAnnotationReboot then False
      else if HasPrefix name ''cke.cybozu.com/'' then True
      else if Contains name ''.cke.cybozu.com/'' then True
      else if list_ex (\<lambda>(k, _). HasPrefix k ''node-role.kubernetes.io/'' \<and> name = k) (nLabels n) then True
      else if name = ''node-role.kubernetes.io/master'' \<or> name = ''node-role.kubernetes.io/control-plane''
      then True else False)"

text \<open>A map from keys to taints built by a loop: the last taint of a key stays.\<close>

definition taintMap :: "Taint list \<Rightarrow> string \<Rightarrow> Taint option" where
  "taintMap taints = fold (\<lambda>t m. m(tKey t \<mapsto> t)) taints Map.empty"

definition missing :: "(string, string) gomap \<Rightarrow> (string, string) gomap \<Rightarrow> bool" where
  "missing want have' \<longleftrightarrow>
     list_ex (\<lambda>(k, v). case map_of have' k of None \<Rightarrow> True | Some cv \<Rightarrow> v \<noteq> cv) want"

definition nodeIsOutdated :: "Node \<Rightarrow> K8sNode \<Rightarrow> bool \<Rightarrow> bool" where
  "nodeIsOutdated n current taintCP =
     (if missing (nLabels n) (knLabels current) then True
      else if list_ex (\<lambda>(k, _). isInternal k n \<and> k \<noteq> CKELabelMaster \<and> map_of (nLabels n) k = None)
                (knLabels current) then True
      else if (if nControlPlane n then map_of (knLabels current) CKELabelMaster \<noteq> Some ''true''
               else map_of (knLabels current) CKELabelMaster \<noteq> None) then True
      else if missing (nAnnotations n) (knAnnotations current) then True
      else if list_ex (\<lambda>(k, _). isInternal k n \<and> map_of (nAnnotations n) k = None)
                (knAnnotations current) then True
      else let curTaints = taintMap (knTaints current) in
      if list_ex (\<lambda>t. case curTaints (tKey t) of
             None \<Rightarrow> True
           | Some cv \<Rightarrow> tValue t \<noteq> tValue cv \<or> tEffect t \<noteq> tEffect cv) (nTaints n) then True
      else let nTaints' = taintMap (nTaints n) in
      if list_ex (\<lambda>t. isInternal (tKey t) n \<and> tKey t \<noteq> CKETaintMaster \<and> nTaints' (tKey t) = None)
           (knTaints current) then True
      else if taintCP \<and> nControlPlane n
      then (case curTaints CKETaintMaster of
              None \<Rightarrow> True | Some t \<Rightarrow> tEffect t \<noteq> TaintEffectPreferNoSchedule)
      else curTaints CKETaintMaster \<noteq> None)"

text \<open>The body of the loop of \<^verbatim>\<open>OutdatedAttrsNodes\<close> on an outdated node.\<close>

definition updateAttrs :: "Node \<Rightarrow> bool \<Rightarrow> K8sNode \<Rightarrow> K8sNode" where
  "updateAttrs n taintCP current =
     (let labels = maps_Copy (filter (\<lambda>(k, v). \<not> isInternal k n) (knLabels current)) (nLabels n);
          labels = (if nControlPlane n then mput CKELabelMaster ''true'' labels else labels);
          annotations =
            maps_Copy (filter (\<lambda>(k, v). \<not> isInternal k n) (knAnnotations current)) (nAnnotations n);
          taints = nTaints n @
            filter (\<lambda>t. \<not> (isInternal (tKey t) n \<or> tKey t \<in> tKey ` set (nTaints n))) (knTaints current);
          taints = (if taintCP \<and> nControlPlane n
            then taints @ [\<lparr>tKey = CKETaintMaster, tValue = [], tEffect = TaintEffectPreferNoSchedule\<rparr>]
            else taints)
      in current\<lparr>knLabels := labels, knAnnotations := annotations, knTaints := taints\<rparr>)"

text \<open>
  The loop works on pointers to copies of the Kubernetes nodes: the state is the map of copies and
  the list of names whose copy was appended; the result reads the copies at the end.
\<close>

fun attrs_loop ::
  "bool \<Rightarrow> Node list \<Rightarrow> (string \<Rightarrow> K8sNode option) \<Rightarrow> string list \<Rightarrow>
   (string \<Rightarrow> K8sNode option) \<times> string list" where
  "attrs_loop taintCP [] cur names = (cur, names)"
| "attrs_loop taintCP (n # ns) cur names =
     (case cur (Nodename n) of
        None \<Rightarrow> attrs_loop taintCP ns cur names
      | Some current \<Rightarrow>
          if nodeIsOutdated n current taintCP
          then attrs_loop taintCP ns (cur(Nodename n \<mapsto> updateAttrs n taintCP current))
                 (names @ [Nodename n])
          else attrs_loop taintCP ns cur names)"

definition curNodes :: "K8sNode list \<Rightarrow> string \<Rightarrow> K8sNode option" where
  "curNodes kns = fold (\<lambda>cn m. m(knName cn \<mapsto> cn)) kns Map.empty"

definition OutdatedAttrsNodes :: "NodeFilter \<Rightarrow> K8sNode list" where
  "OutdatedAttrsNodes nf =
     (case attrs_loop (cTaintCP (nfCluster nf)) (AllNodes nf)
             (curNodes (ksNodes (csKubernetes (nfStatus nf)))) [] of
        (cur, names) \<Rightarrow> List.map_filter cur names)"

text \<open>\<^verbatim>\<open>nodeUpdateCommand.Run\<close>: the API replaces the object of the same name.\<close>

definition nodeUpdateCommand_Run :: "K8sNode list \<Rightarrow> K8sNode list \<Rightarrow> K8sNode list" where
  "nodeUpdateCommand_Run updates kns =
     fold (\<lambda>u. map (\<lambda>kn. if knName kn = knName u then u else kn)) updates kns"

section \<open>What the check decides\<close>

definition attrs_in_sync :: "Node \<Rightarrow> bool \<Rightarrow> K8sNode \<Rightarrow> bool" where
  "attrs_in_sync n taintCP kn \<longleftrightarrow>
     map_of (nLabels n) \<subseteq>\<^sub>m map_of (knLabels kn) \<and>
     (\<forall>k. isInternal k n \<and> k \<noteq> CKELabelMaster \<and> k \<in> dom (map_of (knLabels kn)) \<longrightarrow>
        k \<in> dom (map_of (nLabels n))) \<and>
     map_of (knLabels kn) CKELabelMaster = (if nControlPlane n then Some ''true'' else None) \<and>
     map_of (nAnnotations n) \<subseteq>\<^sub>m map_of (knAnnotations kn) \<and>
     (\<forall>k. isInternal k n \<and> k \<in> dom (map_of (knAnnotations kn)) \<longrightarrow>
        k \<in> dom (map_of (nAnnotations n))) \<and>
     (\<forall>t \<in> set (nTaints n). \<exists>cv. taintMap (knTaints kn) (tKey t) = Some cv \<and>
        tValue cv = tValue t \<and> tEffect cv = tEffect t) \<and>
     (\<forall>t \<in> set (knTaints kn). isInternal (tKey t) n \<and> tKey t \<noteq> CKETaintMaster \<longrightarrow>
        tKey t \<in> tKey ` set (nTaints n)) \<and>
     (if taintCP \<and> nControlPlane n
      then \<exists>t. taintMap (knTaints kn) CKETaintMaster = Some t \<and> tEffect t = TaintEffectPreferNoSchedule
      else CKETaintMaster \<notin> tKey ` set (knTaints kn))"

lemma fold_upd_dom:
  "fold (\<lambda>t m. m(f t \<mapsto> g t)) ts m k = None \<longleftrightarrow> m k = None \<and> k \<notin> f ` set ts"
  by (induction ts arbitrary: m) auto

lemma fold_upd_start:
  "fold (\<lambda>t m. m(f t \<mapsto> g t)) ts m k =
     (case fold (\<lambda>t m. m(f t \<mapsto> g t)) ts Map.empty k of None \<Rightarrow> m k | Some v \<Rightarrow> Some v)"
  by (induction ts rule: rev_induct) auto

lemma fold_upd_distinct:
  "distinct (map f ts) \<Longrightarrow> t \<in> set ts \<Longrightarrow> fold (\<lambda>t m. m(f t \<mapsto> g t)) ts m (f t) = Some (g t)"
proof (induction ts rule: rev_induct)
  case (snoc u us)
  then show ?case by (cases "t = u") (auto, metis image_eqI)
qed simp

lemma taintMap_None: "taintMap ts k = None \<longleftrightarrow> k \<notin> tKey ` set ts"
  by (simp add: taintMap_def fold_upd_dom)

lemma missing_iff:
  assumes "wf_map want"
  shows "\<not> missing want have' \<longleftrightarrow> map_of want \<subseteq>\<^sub>m map_of have'"
proof -
  have "\<not> missing want have' \<longleftrightarrow> (\<forall>k v. (k, v) \<in> set want \<longrightarrow> map_of have' k = Some v)"
    by (auto simp: missing_def list_ex_iff split: option.splits)
  also have "\<dots> \<longleftrightarrow> map_of want \<subseteq>\<^sub>m map_of have'"
    unfolding in_set_map_of [OF assms] map_le_def by (auto simp: dom_def)
  finally show ?thesis .
qed

lemma list_ex_keys:
  "list_ex (\<lambda>(k, _). P k) m \<longleftrightarrow> (\<exists>k \<in> dom (map_of m). P k)"
  by (force simp: list_ex_iff dom_map_of_conv_image_fst)

lemma nodeIsOutdated_iff:
  assumes "wf_map (nLabels n)" "wf_map (nAnnotations n)"
  shows "\<not> nodeIsOutdated n kn taintCP \<longleftrightarrow> attrs_in_sync n taintCP kn"
proof -
  have one: "(case taintMap (knTaints kn) (tKey t) of
        None \<Rightarrow> True
      | Some cv \<Rightarrow> tValue t \<noteq> tValue cv \<or> tEffect t \<noteq> tEffect cv) \<longleftrightarrow>
      \<not> (\<exists>cv. taintMap (knTaints kn) (tKey t) = Some cv \<and> tValue cv = tValue t \<and> tEffect cv = tEffect t)"
    for t by (cases "taintMap (knTaints kn) (tKey t)") auto
  have taints: "list_ex (\<lambda>t. case taintMap (knTaints kn) (tKey t) of
        None \<Rightarrow> True
      | Some cv \<Rightarrow> tValue t \<noteq> tValue cv \<or> tEffect t \<noteq> tEffect cv) (nTaints n) \<longleftrightarrow>
      \<not> (\<forall>t \<in> set (nTaints n). \<exists>cv. taintMap (knTaints kn) (tKey t) = Some cv \<and>
        tValue cv = tValue t \<and> tEffect cv = tEffect t)"
    unfolding list_ex_iff one by blast
  have internal: "list_ex (\<lambda>t. isInternal (tKey t) n \<and> tKey t \<noteq> CKETaintMaster \<and>
      taintMap (nTaints n) (tKey t) = None) (knTaints kn) \<longleftrightarrow>
      \<not> (\<forall>t \<in> set (knTaints kn). isInternal (tKey t) n \<and> tKey t \<noteq> CKETaintMaster \<longrightarrow>
        tKey t \<in> tKey ` set (nTaints n))"
    unfolding list_ex_iff taintMap_None by blast
  have master: "(case taintMap (knTaints kn) CKETaintMaster of
        None \<Rightarrow> True | Some t \<Rightarrow> tEffect t \<noteq> TaintEffectPreferNoSchedule) \<longleftrightarrow>
      \<not> (\<exists>t. taintMap (knTaints kn) CKETaintMaster = Some t \<and> tEffect t = TaintEffectPreferNoSchedule)"
    by (auto split: option.splits)
  have label_keys: "list_ex (\<lambda>(k, _). isInternal k n \<and> k \<noteq> CKELabelMaster \<and> map_of (nLabels n) k = None)
        (knLabels kn) \<longleftrightarrow>
      \<not> (\<forall>k. isInternal k n \<and> k \<noteq> CKELabelMaster \<and> k \<in> dom (map_of (knLabels kn)) \<longrightarrow>
        k \<in> dom (map_of (nLabels n)))"
    unfolding list_ex_keys domIff Bex_def by (simp only: not_all not_imp not_not conj_assoc conj_ac)
  have annotation_keys: "list_ex (\<lambda>(k, _). isInternal k n \<and> map_of (nAnnotations n) k = None)
        (knAnnotations kn) \<longleftrightarrow>
      \<not> (\<forall>k. isInternal k n \<and> k \<in> dom (map_of (knAnnotations kn)) \<longrightarrow>
        k \<in> dom (map_of (nAnnotations n)))"
    unfolding list_ex_keys domIff Bex_def by (simp only: not_all not_imp not_not conj_assoc conj_ac)
  have if_True_or: "(if P then True else Q) \<longleftrightarrow> P \<or> Q" for P Q
    by simp
  show ?thesis
    unfolding nodeIsOutdated_def attrs_in_sync_def Let_def if_True_or taints internal master
      label_keys annotation_keys
      missing_iff [OF assms(1), symmetric] missing_iff [OF assms(2), symmetric]
      taintMap_None [symmetric] de_Morgan_disj not_not
    by (cases "nControlPlane n"; cases taintCP) (simp_all only: simp_thms if_True if_False)
qed

section \<open>The written attributes\<close>

text \<open>
  The assumptions on the cluster definition: its labels, annotations and taints have one entry per
  key, and it does not itself use the label and taint that CKE gives to control planes.
\<close>

definition plain_attrs :: "Node \<Rightarrow> bool" where
  "plain_attrs n \<longleftrightarrow>
     wf_map (nLabels n) \<and> wf_map (nAnnotations n) \<and> distinct (map tKey (nTaints n)) \<and>
     CKELabelMaster \<notin> fst ` set (nLabels n) \<and> CKETaintMaster \<notin> tKey ` set (nTaints n)"

lemma CKELabelMaster_internal: "isInternal CKELabelMaster n"
  by (simp add: isInternal_def CKELabelMaster_def CKEAnnotationReboot_def HasPrefix_def)

lemma CKETaintMaster_internal: "isInternal CKETaintMaster n"
  by (simp add: isInternal_def CKETaintMaster_def CKEAnnotationReboot_def HasPrefix_def)

lemma merged_lookup:
  "wf_map want \<Longrightarrow> map_of (maps_Copy (filter (\<lambda>(k, v). \<not> isInternal k n) old) want) k =
     (case map_of want k of Some v \<Rightarrow> Some v | None \<Rightarrow> if isInternal k n then None else map_of old k)"
  by (simp add: map_of_maps_Copy map_of_filter_keys split: option.splits)

lemma updateAttrs_labels:
  "plain_attrs n \<Longrightarrow> map_of (knLabels (updateAttrs n taintCP kn)) k =
     (if nControlPlane n \<and> k = CKELabelMaster then Some ''true''
      else case map_of (nLabels n) k of
        Some v \<Rightarrow> Some v
      | None \<Rightarrow> if isInternal k n then None else map_of (knLabels kn) k)"
  by (auto simp: updateAttrs_def Let_def merged_lookup plain_attrs_def)

lemma updateAttrs_annotations:
  "plain_attrs n \<Longrightarrow> map_of (knAnnotations (updateAttrs n taintCP kn)) k =
     (case map_of (nAnnotations n) k of
        Some v \<Rightarrow> Some v
      | None \<Rightarrow> if isInternal k n then None else map_of (knAnnotations kn) k)"
  by (auto simp: updateAttrs_def Let_def merged_lookup plain_attrs_def)

definition kept_taints :: "Node \<Rightarrow> K8sNode \<Rightarrow> Taint list" where
  "kept_taints n kn =
     filter (\<lambda>t. \<not> (isInternal (tKey t) n \<or> tKey t \<in> tKey ` set (nTaints n))) (knTaints kn)"

definition master_taints :: "Node \<Rightarrow> bool \<Rightarrow> Taint list" where
  "master_taints n taintCP =
     (if taintCP \<and> nControlPlane n
      then [\<lparr>tKey = CKETaintMaster, tValue = [], tEffect = TaintEffectPreferNoSchedule\<rparr>] else [])"

lemma updateAttrs_taints:
  "knTaints (updateAttrs n taintCP kn) = nTaints n @ kept_taints n kn @ master_taints n taintCP"
  by (simp add: updateAttrs_def Let_def kept_taints_def master_taints_def)

lemma updateAttrs_frame [simp]:
  "knName (updateAttrs n taintCP kn) = knName kn"
  "knUnschedulable (updateAttrs n taintCP kn) = knUnschedulable kn"
  "knConditions (updateAttrs n taintCP kn) = knConditions kn"
  "knOther (updateAttrs n taintCP kn) = knOther kn"
  by (simp_all add: updateAttrs_def Let_def)

lemma taintMap_append:
  "taintMap (ts @ us) k = (case taintMap us k of None \<Rightarrow> taintMap ts k | Some t \<Rightarrow> Some t)"
  unfolding taintMap_def by (simp add: fold_upd_start [of tKey "\<lambda>t. t" us "fold _ _ _"])

lemma taintMap_distinct:
  "distinct (map tKey ts) \<Longrightarrow> t \<in> set ts \<Longrightarrow> taintMap ts (tKey t) = Some t"
  unfolding taintMap_def by (rule fold_upd_distinct)

lemma updated_taint_lookup:
  assumes "plain_attrs n" and "t \<in> set (nTaints n)"
  shows "taintMap (knTaints (updateAttrs n taintCP kn)) (tKey t) = Some t"
proof -
  have "tKey t \<noteq> CKETaintMaster"
    using assms by (metis imageI plain_attrs_def)
  then have "taintMap (kept_taints n kn @ master_taints n taintCP) (tKey t) = None"
    using assms(2) by (auto simp: taintMap_None kept_taints_def master_taints_def) (metis imageI)
  then show ?thesis
    using assms taintMap_distinct [of "nTaints n" t]
    by (simp add: updateAttrs_taints taintMap_append plain_attrs_def)
qed

lemma updateAttrs_in_sync:
  assumes "plain_attrs n"
  shows "attrs_in_sync n taintCP (updateAttrs n taintCP kn)"
proof -
  have nomaster: "map_of (nLabels n) CKELabelMaster = None" "CKETaintMaster \<notin> tKey ` set (nTaints n)"
    using assms by (auto simp: plain_attrs_def map_of_eq_None_iff)
  have "map_of (nLabels n) \<subseteq>\<^sub>m map_of (knLabels (updateAttrs n taintCP kn))"
    using nomaster(1) by (auto simp: map_le_def updateAttrs_labels [OF assms])
  moreover have "map_of (nAnnotations n) \<subseteq>\<^sub>m map_of (knAnnotations (updateAttrs n taintCP kn))"
    by (auto simp: map_le_def updateAttrs_annotations [OF assms])
  moreover have "map_of (knLabels (updateAttrs n taintCP kn)) CKELabelMaster =
      (if nControlPlane n then Some ''true'' else None)"
    using nomaster(1) by (simp add: updateAttrs_labels [OF assms] CKELabelMaster_internal)
  moreover have "taintMap (master_taints n taintCP) CKETaintMaster =
      (if taintCP \<and> nControlPlane n
       then Some \<lparr>tKey = CKETaintMaster, tValue = [], tEffect = TaintEffectPreferNoSchedule\<rparr> else None)"
    by (simp add: master_taints_def taintMap_def)
  moreover have "CKETaintMaster \<notin> tKey ` set (kept_taints n kn)"
    by (auto simp: kept_taints_def CKETaintMaster_internal dest: sym)
  ultimately show ?thesis
    using nomaster updated_taint_lookup [OF assms]
    unfolding attrs_in_sync_def
    by (auto simp: updateAttrs_labels [OF assms] updateAttrs_annotations [OF assms]
        updateAttrs_taints taintMap_append taintMap_None kept_taints_def master_taints_def
        split: if_splits option.splits)
qed

section \<open>One round of updates\<close>

text \<open>With distinct node names the shared copies never alias, and the loop maps over the nodes.\<close>

definition attrs_target :: "bool \<Rightarrow> (string \<Rightarrow> K8sNode option) \<Rightarrow> Node \<Rightarrow> K8sNode option" where
  "attrs_target taintCP cur n =
     (case cur (Nodename n) of
        None \<Rightarrow> None
      | Some c \<Rightarrow> if nodeIsOutdated n c taintCP then Some (updateAttrs n taintCP c) else None)"

lemma map_filter_cong:
  "(\<And>x. x \<in> set xs \<Longrightarrow> f x = g x) \<Longrightarrow> List.map_filter f xs = List.map_filter g xs"
  by (induction xs) (auto simp: map_filter_simps split: option.splits)

lemma map_filter_append:
  "List.map_filter f (xs @ ys) = List.map_filter f xs @ List.map_filter f ys"
  by (simp add: map_filter_def)

lemma attrs_target_other:
  "Nodename n \<noteq> k \<Longrightarrow> attrs_target taintCP (cur(k \<mapsto> u)) n = attrs_target taintCP cur n"
  by (simp add: attrs_target_def)

lemma attrs_loop_result:
  assumes "distinct (map Nodename ns)" and "\<forall>nm \<in> set names. nm \<notin> Nodename ` set ns"
  shows "(case attrs_loop taintCP ns cur names of (cur', names') \<Rightarrow> List.map_filter cur' names') =
     List.map_filter cur names @ List.map_filter (attrs_target taintCP cur) ns"
  using assms
proof (induction ns arbitrary: cur names)
  case Nil
  then show ?case by (simp add: map_filter_simps)
next
  case (Cons n ns)
  show ?case
  proof (cases "attrs_target taintCP cur n")
    case None
    with Cons show ?thesis
      by (auto simp: attrs_target_def map_filter_simps split: option.splits if_splits)
  next
    case (Some u)
    then have step: "attrs_loop taintCP (n # ns) cur names =
        attrs_loop taintCP ns (cur(Nodename n \<mapsto> u)) (names @ [Nodename n])"
      by (auto simp: attrs_target_def split: option.splits if_splits)
    let ?cur = "cur(Nodename n \<mapsto> u)"
    have IH: "(case attrs_loop taintCP ns ?cur (names @ [Nodename n]) of
          (cur', names') \<Rightarrow> List.map_filter cur' names') =
        List.map_filter ?cur (names @ [Nodename n]) @ List.map_filter (attrs_target taintCP ?cur) ns"
      using Cons.prems by (intro Cons.IH) auto
    have "List.map_filter ?cur names = List.map_filter cur names"
      using Cons.prems by (intro map_filter_cong) auto
    moreover have "List.map_filter (attrs_target taintCP ?cur) ns =
        List.map_filter (attrs_target taintCP cur) ns"
      using Cons.prems by (intro map_filter_cong attrs_target_other) (auto simp: image_iff)
    ultimately show ?thesis
      unfolding step IH map_filter_append by (simp add: map_filter_simps Some)
  qed
qed

lemma OutdatedAttrsNodes_eq:
  "distinct (map Nodename (AllNodes nf)) \<Longrightarrow>
     OutdatedAttrsNodes nf = List.map_filter
       (attrs_target (cTaintCP (nfCluster nf)) (curNodes (ksNodes (csKubernetes (nfStatus nf)))))
       (AllNodes nf)"
  using attrs_loop_result [of "AllNodes nf" "[]"] by (simp add: OutdatedAttrsNodes_def map_filter_simps)

lemma curNodes_simps [simp]:
  "curNodes [] = Map.empty" "curNodes (kns @ [kn]) = (curNodes kns)(knName kn \<mapsto> kn)"
  by (simp_all add: curNodes_def)

lemma curNodes_name: "curNodes kns k = Some c \<Longrightarrow> knName c = k"
  by (induction kns rule: rev_induct) (auto split: if_splits)

lemma curNodes_update_one:
  "curNodes (map (\<lambda>kn. if knName kn = knName u then u else kn) kns) k =
     (if k = knName u \<and> curNodes kns k \<noteq> None then Some u else curNodes kns k)"
  by (induction kns rule: rev_induct) auto

lemma curNodes_update_absent:
  "k \<notin> knName ` set ups \<Longrightarrow> curNodes (nodeUpdateCommand_Run ups kns) k = curNodes kns k"
  unfolding nodeUpdateCommand_Run_def
  by (induction ups arbitrary: kns) (auto simp: curNodes_update_one)

lemma curNodes_update_present:
  assumes "distinct (map knName ups)" and "u \<in> set ups" and "curNodes kns (knName u) \<noteq> None"
  shows "curNodes (nodeUpdateCommand_Run ups kns) (knName u) = Some u"
  using assms
proof (induction ups arbitrary: kns)
  case (Cons v ups)
  let ?kns = "map (\<lambda>kn. if knName kn = knName v then v else kn) kns"
  have run: "nodeUpdateCommand_Run (v # ups) kns = nodeUpdateCommand_Run ups ?kns"
    by (simp add: nodeUpdateCommand_Run_def)
  show ?case
  proof (cases "u = v")
    case True
    with Cons.prems have "knName u \<notin> knName ` set ups" by auto
    with True Cons.prems show ?thesis
      by (simp add: run curNodes_update_absent curNodes_update_one)
  next
    case False
    with Cons.prems have "u \<in> set ups" "distinct (map knName ups)" by auto
    moreover have "curNodes ?kns (knName u) \<noteq> None"
      using Cons.prems by (simp add: curNodes_update_one)
    ultimately show ?thesis by (simp add: run Cons.IH)
  qed
qed simp

lemma map_filter_names:
  assumes "\<And>n u. n \<in> set ns \<Longrightarrow> f n = Some u \<Longrightarrow> knName u = Nodename n" and "distinct (map Nodename ns)"
  shows "distinct (map knName (List.map_filter f ns)) \<and>
    set (map knName (List.map_filter f ns)) \<subseteq> Nodename ` {n \<in> set ns. f n \<noteq> None}"
  using assms
proof (induction ns)
  case (Cons n ns)
  then have IH: "distinct (map knName (List.map_filter f ns))"
    "set (map knName (List.map_filter f ns)) \<subseteq> Nodename ` {n \<in> set ns. f n \<noteq> None}" by auto
  show ?case
  proof (cases "f n")
    case None
    with IH show ?thesis by (auto simp: map_filter_simps)
  next
    case (Some u)
    then have "knName u = Nodename n" using Cons.prems by simp
    with Some IH Cons.prems(2) show ?thesis by (auto simp: map_filter_simps)
  qed
qed (simp add: map_filter_simps)

lemma attrs_target_name:
  "attrs_target taintCP (curNodes kns) n = Some u \<Longrightarrow> knName u = Nodename n"
  by (auto simp: attrs_target_def dest: curNodes_name split: option.splits if_splits)

lemma attrs_settled:
  assumes plain: "\<forall>n \<in> set ns. plain_attrs n" and dist: "distinct (map Nodename ns)"
    and n: "n \<in> set ns"
  shows "attrs_target taintCP
    (curNodes (nodeUpdateCommand_Run (List.map_filter (attrs_target taintCP (curNodes kns)) ns) kns)) n = None"
proof -
  let ?f = "attrs_target taintCP (curNodes kns)"
  let ?ups = "List.map_filter ?f ns"
  have names: "distinct (map knName ?ups)"
      "set (map knName ?ups) \<subseteq> Nodename ` {n \<in> set ns. ?f n \<noteq> None}"
    using map_filter_names [of ns ?f] dist attrs_target_name by blast+
  show ?thesis
  proof (cases "?f n")
    case None
    have "Nodename n \<notin> knName ` set ?ups"
    proof
      assume "Nodename n \<in> knName ` set ?ups"
      with names(2) obtain m where "m \<in> set ns" "?f m \<noteq> None" "Nodename m = Nodename n" by auto
      with dist n None show False by (metis (no_types, lifting) inj_onD distinct_map)
    qed
    with None show ?thesis by (simp add: attrs_target_def curNodes_update_absent)
  next
    case (Some u)
    then have u: "u \<in> set ?ups" and name: "knName u = Nodename n"
      using n by (force simp: map_filter_def, simp add: attrs_target_name)
    from Some obtain c where c: "curNodes kns (Nodename n) = Some c" "u = updateAttrs n taintCP c"
      by (auto simp: attrs_target_def split: option.splits if_splits)
    have "curNodes (nodeUpdateCommand_Run ?ups kns) (Nodename n) = Some u"
      using curNodes_update_present [OF names(1) u, of kns] name c by simp
    moreover have "\<not> nodeIsOutdated n u taintCP"
      using plain n updateAttrs_in_sync [of n taintCP c]
      by (simp add: c nodeIsOutdated_iff plain_attrs_def)
    ultimately show ?thesis by (simp add: attrs_target_def)
  qed
qed

section \<open>Properties\<close>



text \<open>
  C14. The check that decides whether a Kubernetes node needs an update decides exactly the
  specification \<open>attrs_in_sync\<close>: every label, annotation and taint of the definition is on the node,
  the node has no other CKE-internal label, annotation or taint, and the control-plane label and taint
  are there exactly when they should be.
\<close>
theorem nodeIsOutdated_spec:
  assumes "wf_map (nLabels n)" and "wf_map (nAnnotations n)"
  shows "nodeIsOutdated n kn taintCP \<longleftrightarrow> \<not> attrs_in_sync n taintCP kn"
  using nodeIsOutdated_iff [OF assms, of kn taintCP] by blast

theorem nodeIsOutdated_spec_witness:
  "wf_map (nLabels cp1) \<and> wf_map (nAnnotations cp1) \<and>
   nodeIsOutdated cp1 (sample_k8s_node cp1) True \<and> \<not> attrs_in_sync cp1 True (sample_k8s_node cp1)"
proof -
  have "wf_map (nLabels cp1)" "wf_map (nAnnotations cp1)" by code_simp+
  moreover have "nodeIsOutdated cp1 (sample_k8s_node cp1) True" by code_simp
  ultimately show ?thesis using nodeIsOutdated_spec [of cp1 "sample_k8s_node cp1" True] by simp
qed

text \<open>
  C15. The update leaves alone what CKE does not own: a label or annotation that is neither internal nor
  in the definition keeps its value, a taint whose key is neither internal nor in the definition stays,
  and nothing else of the node object changes.
\<close>
theorem updateAttrs_preserves_foreign:
  assumes "plain_attrs n"
  shows "(\<forall>k. \<not> isInternal k n \<and> map_of (nLabels n) k = None \<longrightarrow>
      map_of (knLabels (updateAttrs n taintCP kn)) k = map_of (knLabels kn) k) \<and>
    (\<forall>k. \<not> isInternal k n \<and> map_of (nAnnotations n) k = None \<longrightarrow>
      map_of (knAnnotations (updateAttrs n taintCP kn)) k = map_of (knAnnotations kn) k) \<and>
    (\<forall>t. \<not> isInternal (tKey t) n \<and> tKey t \<notin> tKey ` set (nTaints n) \<longrightarrow>
      (t \<in> set (knTaints (updateAttrs n taintCP kn)) \<longleftrightarrow> t \<in> set (knTaints kn))) \<and>
    updateAttrs n taintCP kn = kn\<lparr>knLabels := knLabels (updateAttrs n taintCP kn),
      knAnnotations := knAnnotations (updateAttrs n taintCP kn),
      knTaints := knTaints (updateAttrs n taintCP kn)\<rparr>"
proof (intro conjI allI impI)
  fix k assume "\<not> isInternal k n \<and> map_of (nLabels n) k = None"
  then show "map_of (knLabels (updateAttrs n taintCP kn)) k = map_of (knLabels kn) k"
    using CKELabelMaster_internal [of n] by (auto simp: updateAttrs_labels [OF assms])
next
  fix t :: Taint assume "\<not> isInternal (tKey t) n \<and> tKey t \<notin> tKey ` set (nTaints n)"
  then show "t \<in> set (knTaints (updateAttrs n taintCP kn)) \<longleftrightarrow> t \<in> set (knTaints kn)"
    using CKETaintMaster_internal [of n]
    by (auto simp: updateAttrs_taints kept_taints_def master_taints_def)
next
  fix k assume "\<not> isInternal k n \<and> map_of (nAnnotations n) k = None"
  then show "map_of (knAnnotations (updateAttrs n taintCP kn)) k = map_of (knAnnotations kn) k"
    by (simp add: updateAttrs_annotations [OF assms])
qed (simp add: updateAttrs_def Let_def)

theorem updateAttrs_preserves_foreign_witness:
  "plain_attrs worker1 \<and> \<not> isInternal ''user/x'' worker1 \<and>
   map_of (knLabels (updateAttrs worker1 False
     ((sample_k8s_node worker1)\<lparr>knLabels := [(''user/x'', ''y''), (''cke.cybozu.com/old'', ''z'')]\<rparr>)))
     ''user/x'' = Some ''y''"
proof -
  let ?kn = "(sample_k8s_node worker1)\<lparr>knLabels := [(''user/x'', ''y''), (''cke.cybozu.com/old'', ''z'')]\<rparr>"
  have p: "plain_attrs worker1" by code_simp
  moreover have i: "\<not> isInternal ''user/x'' worker1 \<and> map_of (nLabels worker1) ''user/x'' = None" by code_simp
  have "map_of (knLabels (updateAttrs worker1 False ?kn)) ''user/x'' = map_of (knLabels ?kn) ''user/x''"
    using updateAttrs_preserves_foreign [OF p, of False ?kn] i by blast
  then show ?thesis using p i by simp
qed

end
