(* ===== verification/CKE_Ops.thy ===== *)
theory CKE_Ops
  imports CKE_NodeAttrs
begin

text \<open>
  The operators of package \<^verbatim>\<open>op\<close> and its subpackages: an operator has a name and targets, and hands out
  commands one after the other (\<^verbatim>\<open>NextCommand\<close>) until it returns nil. One definition per Go struct. The
  only mutable part of an operator is a counter (the field \<^verbatim>\<open>step\<close>, or the flags \<^verbatim>\<open>finished\<close>, \<^verbatim>\<open>executed\<close>,
  \<^verbatim>\<open>done\<close> and \<^verbatim>\<open>pulled\<close>), so \<^verbatim>\<open>NextCommand\<close> takes and returns a natural number.
\<close>

section \<open>Commands\<close>

text \<open>\<^verbatim>\<open>runContainerCommand\<close> with its functional options applied.\<close>

record RunContainerCmd =
  rcNodes :: "Node list"
  rcName :: string
  rcImg :: string
  rcOpts :: "string list"
  rcParams :: ServiceParams
  rcParamsMap :: "(string, ServiceParams) gomap"
  rcExtra :: ServiceParams
  rcRestart :: bool

text \<open>Commands of \<^verbatim>\<open>op/common\<close> on containers and volumes.\<close>

datatype container_command =
    ImagePull "Node list" string
  | RunContainer RunContainerCmd
  | StopContainers "Node list" string
  | KillContainers "Node list" string
  | VolumeCreate "Node list" string
  | VolumeRemove "Node list" string

text \<open>Commands that prepare and write files on nodes.\<close>

datatype file_command =
    MakeDirs "Node list" "string list" string
  | MakeFiles "Node list"
  | EmptyDir "Node list" string
  | InstallCNI "Node list"
  | PrepareEtcdCertificates "Node list"
  | PrepareAPIServerFiles "Node list" string string APIServerParams
  | PrepareControllerManagerFiles string "Node list"
  | PrepareSchedulerFiles string "Node list" SchedulerParams
  | PrepareProxyFiles string string "Node list" ProxyParams
  | PrepareKubeletFiles string KubeletParams "string \<Rightarrow> NodeStatus option" "Node list"
  | PrepareKubeletConfig string KubeletParams "string \<Rightarrow> NodeStatus option" "Node list"

text \<open>Commands on the etcd cluster and the stored configuration version.\<close>

datatype etcd_command =
    WaitEtcdSync "string list" bool
  | SetupEtcdAuth "string list"
  | AddEtcdMember "string list" Node "string list" ServiceParams
  | RemoveEtcdMember "string list" "nat list"
  | UpgradeToVersion2 "Node list"

text \<open>Commands on kubelets and on objects of the API server.\<close>

datatype kube_command =
    RetaintBeforeKubeletBoot "Node list" "Node option" KubeletParams
  | WaitForKubeletReady "Node list"
  | WaitKube "Node option"
  | CreateEndpoints "Node option" Endpoints
  | UpdateEndpoints "Node option" Endpoints
  | CreateEndpointSlice "Node option" EndpointSlice
  | UpdateEndpointSlice "Node option" EndpointSlice
  | CreateEtcdService "Node option"
  | UpdateEtcdService "Node option"
  | UpdateNodes "Node option" "K8sNode list"
  | RemoveNodes "Node option" "K8sNode list"
  | CreateClusterDNSConfigMap "Node option" string "string list"
  | UpdateClusterDNSConfigMap "Node option" ConfigMap
  | CreateNodeDNSConfigMap "Node option" string string "string list"
  | UpdateNodeDNSConfigMap "Node option" ConfigMap
  | ApplyResourceCmd "Node option" ResourceDefinition "TrustedRESTMapping list"

text \<open>Commands on reboot queue entries.\<close>

datatype reboot_command =
    RebootDrainStart "Node option" "RebootQueueEntry list" "LabelSelector option" "LabelSelector option" int int
  | RebootDeleteDaemonSetPod "Node option" "RebootQueueEntry list"
  | RebootReboot "RebootQueueEntry list" "string list" "int option" "int option" "int option"
  | RebootDrainTimeout "RebootQueueEntry list"
  | RebootUncordon "Node option" "string list"
  | RebootDequeue "RebootQueueEntry list"

text \<open>Commands on repair queue entries.\<close>

datatype repair_command =
    RepairDrainStart "Node option" RepairQueueEntry "LabelSelector option" "LabelSelector option" int int
  | RepairDrainTimeout RepairQueueEntry
  | RepairExecute RepairQueueEntry "string list" "int option" "int option" "int option" Cluster
  | RepairFinish RepairQueueEntry bool Cluster
  | RepairDequeue RepairQueueEntry

datatype command =
    Container container_command
  | Files file_command
  | Etcd etcd_command
  | Kube kube_command
  | RebootCmd reboot_command
  | RepairCmd repair_command

text \<open>
  A \<^verbatim>\<open>switch\<close> over the step: entry \<open>i\<close> is \<^verbatim>\<open>case i\<close>, which increments the step and returns its command,
  or, when its condition is false, falls through to the next case.
\<close>

type_synonym switch = "(bool \<times> command) list"

abbreviation always :: "command \<Rightarrow> bool \<times> command" where
  "always c \<equiv> (True, c)"

function NextStep :: "switch \<Rightarrow> nat \<Rightarrow> command option \<times> nat" where
  "NextStep sw step =
     (if length sw \<le> step then (None, step)
      else if fst (sw ! step) then (Some (snd (sw ! step)), Suc step)
      else NextStep sw (Suc step))"
  by pat_completeness auto
termination by (relation "measure (\<lambda>(sw, step). length sw - step)") auto

declare NextStep.simps [simp del]

definition addresses :: "Node list \<Rightarrow> string list" where
  "addresses nodes = map nAddress nodes"

definition no_extra :: ServiceParams where
  "no_extra = \<lparr>spExtraArguments = [], spExtraBinds = [], spExtraEnvvar = []\<rparr>"

text \<open>
  An operator: \<^verbatim>\<open>Name\<close>, \<^verbatim>\<open>Targets\<close> (which may dereference a nil API server and panic) and the switch of
  \<^verbatim>\<open>NextCommand\<close>. The definitions below carry the names of the Go structs.
\<close>

record operation =
  opName :: string
  opTargets :: "string list option"
  opSwitch :: switch

text \<open>\<^verbatim>\<open>[]string{o.apiserver.Address}\<close>\<close>

definition apiserver_target :: "Node option \<Rightarrow> string list option" where
  "apiserver_target apiserver = map_option (\<lambda>n. [nAddress n]) apiserver"

section \<open>Rivers and upgrade\<close>

definition riversRun :: "Node list \<Rightarrow> Node list \<Rightarrow> ServiceParams \<Rightarrow> string \<Rightarrow> int \<Rightarrow> int \<Rightarrow> bool \<Rightarrow> command" where
  "riversRun nodes upstreams params name upstreamPort listenPort restart = Container (RunContainer
     \<lparr>rcNodes = nodes, rcName = name, rcImg = ToolsImage, rcOpts = [],
      rcParams = RiversParams upstreams upstreamPort listenPort, rcParamsMap = [],
      rcExtra = params, rcRestart = restart\<rparr>)"

definition riversBootOp ::
  "Node list \<Rightarrow> Node list \<Rightarrow> ServiceParams \<Rightarrow> string \<Rightarrow> int \<Rightarrow> int \<Rightarrow> operation" where
  "riversBootOp nodes upstreams params name upstreamPort listenPort =
     \<lparr>opName = name @ ''-bootstrap'', opTargets = Some (addresses nodes),
      opSwitch =
       [always (Container (ImagePull nodes ToolsImage)),
      always (riversRun nodes upstreams params name upstreamPort listenPort False)]\<rparr>"

definition riversRestartOp ::
  "Node list \<Rightarrow> Node list \<Rightarrow> ServiceParams \<Rightarrow> string \<Rightarrow> int \<Rightarrow> int \<Rightarrow> operation" where
  "riversRestartOp nodes upstreams params name upstreamPort listenPort =
     \<lparr>opName = name @ ''-restart'', opTargets = Some (addresses nodes),
      opSwitch =
       [always (Container (ImagePull nodes ToolsImage)),
      always (riversRun nodes upstreams params name upstreamPort listenPort True)]\<rparr>"

definition upgradeOp :: "string \<Rightarrow> Node list \<Rightarrow> operation" where
  "upgradeOp current nodes =
     \<lparr>opName = ''upgrade'', opTargets = Some (addresses nodes),
      opSwitch =
       [(current = ''1'', Etcd (UpgradeToVersion2 nodes))]\<rparr>"

definition containerStopOp :: "Node list \<Rightarrow> string \<Rightarrow> operation" where
  "containerStopOp nodes name =
     \<lparr>opName = ''stop-'' @ name, opTargets = Some (addresses nodes),
      opSwitch =
       [always (Container (KillContainers nodes name))]\<rparr>"

section \<open>etcd\<close>

definition etcd_mount_opts :: "EtcdParams \<Rightarrow> string list" where
  "etcd_mount_opts params =
     [''--mount'', ''type=volume,src='' @ EtcdVolumeName params @ '',dst=/var/lib/etcd'']"

definition etcd_peers :: "Node list \<Rightarrow> string list" where
  "etcd_peers nodes = map (\<lambda>n. nAddress n @ ''=https://'' @ nAddress n @ '':2380'') nodes"

definition bootOp :: "Node list \<Rightarrow> EtcdParams \<Rightarrow> operation" where
  "bootOp nodes params =
     \<lparr>opName = ''etcd-bootstrap'', opTargets = Some (addresses nodes),
      opSwitch =
       [always (Container (ImagePull nodes EtcdImage)),
      always (Files (PrepareEtcdCertificates nodes)),
      always (Files (MakeFiles nodes)),
      always (Container (VolumeCreate nodes (EtcdVolumeName params))),
      always (Container (RunContainer
        \<lparr>rcNodes = nodes, rcName = EtcdContainerName, rcImg = EtcdImage, rcOpts = etcd_mount_opts params,
         rcParams = no_extra,
         rcParamsMap = fold (\<lambda>n m. mput (nAddress n) (BuiltInParams n (etcd_peers nodes) ''new'') m) nodes [],
         rcExtra = epServiceParams params, rcRestart = False\<rparr>)),
      always (Etcd (WaitEtcdSync (etcdEndpoints nodes) False)),
      always (Etcd (SetupEtcdAuth (etcdEndpoints nodes))),
      always (Container (VolumeCreate nodes EtcdAddedMemberVolumeName))]\<rparr>"

definition addMemberOp :: "Node list \<Rightarrow> Node \<Rightarrow> EtcdParams \<Rightarrow> operation" where
  "addMemberOp cp targetNode params =
     (let nodes = [targetNode]; volname = EtcdVolumeName params in
     \<lparr>opName = ''etcd-add-member'', opTargets = Some [nAddress targetNode],
      opSwitch =
       [always (Container (ImagePull nodes EtcdImage)),
      always (Container (StopContainers nodes EtcdContainerName)),
      always (Container (VolumeRemove nodes EtcdAddedMemberVolumeName)),
      always (Container (VolumeRemove nodes volname)),
      always (Container (VolumeCreate nodes volname)),
      always (Files (PrepareEtcdCertificates nodes)),
      always (Files (MakeFiles nodes)),
      always (Etcd (AddEtcdMember (etcdEndpoints cp) targetNode (etcd_mount_opts params) (epServiceParams params))),
      always (Etcd (WaitEtcdSync (etcdEndpoints [targetNode]) False)),
      always (Container (VolumeCreate nodes EtcdAddedMemberVolumeName))]\<rparr>)"

definition etcdStartOp :: "Node list \<Rightarrow> EtcdParams \<Rightarrow> operation" where
  "etcdStartOp nodes params =
     \<lparr>opName = ''etcd-start'', opTargets = Some (addresses nodes),
      opSwitch =
       [always (Files (PrepareEtcdCertificates nodes)),
      always (Files (MakeFiles nodes)),
      always (Container (RunContainer
        \<lparr>rcNodes = nodes, rcName = EtcdContainerName, rcImg = EtcdImage, rcOpts = etcd_mount_opts params,
         rcParams = no_extra,
         rcParamsMap = fold (\<lambda>n m. mput (nAddress n) (BuiltInParams n [] []) m) nodes [],
         rcExtra = epServiceParams params, rcRestart = False\<rparr>)),
      always (Etcd (WaitEtcdSync (etcdEndpoints nodes) False))]\<rparr>"

definition etcdRestartOp :: "Node list \<Rightarrow> Node \<Rightarrow> EtcdParams \<Rightarrow> operation" where
  "etcdRestartOp cpNodes target params =
     \<lparr>opName = ''etcd-restart'', opTargets = Some [nAddress target],
      opSwitch =
       [always (Etcd (WaitEtcdSync (etcdEndpoints cpNodes) True)),
      always (Container (ImagePull [target] EtcdImage)),
      always (Container (StopContainers [target] EtcdContainerName)),
      always (Container (RunContainer
        \<lparr>rcNodes = [target], rcName = EtcdContainerName, rcImg = EtcdImage,
         rcOpts = etcd_mount_opts params,
         rcParams = BuiltInParams target (etcd_peers cpNodes) ''new'', rcParamsMap = [],
         rcExtra = epServiceParams params, rcRestart = False\<rparr>))]\<rparr>"

text \<open>
  \<^verbatim>\<open>net.SplitHostPort\<close>, the host only, and \<^verbatim>\<open>GuessMemberName\<close> of \<^verbatim>\<open>op/status.go\<close>; the URL parser is a
  parameter.
\<close>

definition last_colon :: "string \<Rightarrow> nat option" where
  "last_colon s = (if CHR '':'' \<in> set s
     then Some (length s - Suc (length (takeWhile (\<lambda>c. c \<noteq> CHR '':'') (rev s)))) else None)"

definition SplitHostPort_host :: "string \<Rightarrow> string + string" where
  "SplitHostPort_host hp =
     (case last_colon hp of
        None \<Rightarrow> Inl ''missing port in address''
      | Some i \<Rightarrow>
          if hd hp = CHR ''['' then
            (let e = length (takeWhile (\<lambda>c. c \<noteq> CHR '']'') hp) in
             if e = length hp then Inl ''missing bracket in address''
             else if Suc e = length hp then Inl ''missing port in address''
             else if Suc e \<noteq> i then Inl (if hp ! Suc e = CHR '':'' then ''too many colons in address''
                                        else ''missing port in address'')
             else if CHR ''['' \<in> set (drop 1 hp) then Inl ''unexpected opening bracket in address''
             else if CHR '']'' \<in> set (drop (Suc e) hp) then Inl ''unexpected closing bracket in address''
             else Inr (drop 1 (take e hp)))
          else if CHR '':'' \<in> set (take i hp) then Inl ''too many colons in address''
          else if CHR ''['' \<in> set hp then Inl ''unexpected opening bracket in address''
          else if CHR '']'' \<in> set hp then Inl ''unexpected closing bracket in address''
          else Inr (take i hp))"

definition GuessMemberName :: "third_party \<Rightarrow> Member \<Rightarrow> string + string" where
  "GuessMemberName T m =
     (if length (mbName m) > 0 then Inr (mbName m)
      else (case mbPeerURLs m of
              [] \<Rightarrow> Inl ''empty PeerURLs''
            | u # _ \<Rightarrow> (case tpURLHost T u of Inl e \<Rightarrow> Inl e | Inr h \<Rightarrow> SplitHostPort_host h)))"

definition member_target :: "third_party \<Rightarrow> Member \<Rightarrow> string" where
  "member_target T m = (case GuessMemberName T m of Inr ip \<Rightarrow> ip | Inl _ \<Rightarrow> nat_digits (mbID m))"

definition removeMemberOp :: "third_party \<Rightarrow> Node list \<Rightarrow> Member list \<Rightarrow> operation" where
  "removeMemberOp T cp members =
     \<lparr>opName = ''etcd-remove-member'', opTargets = Some (map (member_target T) members),
      opSwitch =
       [always (Etcd (RemoveEtcdMember (etcdEndpoints cp) (map mbID members)))]\<rparr>"

text \<open>\<^verbatim>\<open>DestroyMemberOp\<close> leaves the field \<^verbatim>\<open>params\<close> of the operator at its zero value.\<close>

definition zero_EtcdParams :: EtcdParams where
  "zero_EtcdParams = \<lparr>epServiceParams = no_extra, epVolumeName = []\<rparr>"

definition destroyMemberOp :: "Node list \<Rightarrow> Node list \<Rightarrow> nat list \<Rightarrow> operation" where
  "destroyMemberOp cp targets ids =
     \<lparr>opName = ''etcd-destroy-member'', opTargets = Some (addresses targets),
      opSwitch =
       [always (Container (VolumeRemove targets EtcdAddedMemberVolumeName)),
      always (Etcd (RemoveEtcdMember (etcdEndpoints cp) ids)),
      always (Container (KillContainers targets EtcdContainerName)),
      always (Container (VolumeRemove targets (EtcdVolumeName zero_EtcdParams))),
      always (Etcd (WaitEtcdSync (etcdEndpoints cp) False))]\<rparr>"

definition markMemberOp :: "Node list \<Rightarrow> operation" where
  "markMemberOp nodes =
     \<lparr>opName = ''etcd-mark-member'', opTargets = Some (addresses nodes),
      opSwitch =
       [always (Container (VolumeCreate nodes EtcdAddedMemberVolumeName))]\<rparr>"

definition etcdWaitClusterOp :: "Node list \<Rightarrow> operation" where
  "etcdWaitClusterOp nodes =
     \<lparr>opName = ''etcd-wait-cluster'', opTargets = Some (etcdEndpoints nodes),
      opSwitch =
       [always (Etcd (WaitEtcdSync (etcdEndpoints nodes) False))]\<rparr>"

section \<open>Kubernetes control plane\<close>

definition apiServerRestartOp ::
  "third_party \<Rightarrow> Node list \<Rightarrow> string \<Rightarrow> APIServerParams \<Rightarrow> string \<Rightarrow> operation" where
  "apiServerRestartOp T nodes serviceSubnet params clusterDomain =
     \<lparr>opName = ''kube-apiserver-restart'', opTargets = Some (addresses nodes),
      opSwitch =
       [always (Container (ImagePull nodes KubernetesImage)),
      always (Files (MakeDirs nodes [''/etc/kubernetes/apiserver''] ''700'')),
      always (Files (PrepareAPIServerFiles nodes serviceSubnet clusterDomain params)),
      always (Files (MakeFiles nodes)),
      always (Container (StopContainers nodes KubeAPIServerContainerName)),
      always (Container (RunContainer
        \<lparr>rcNodes = nodes, rcName = KubeAPIServerContainerName, rcImg = KubernetesImage,
         rcOpts = [''--mount'', ''type=tmpfs,dst=/run/kubernetes''],
         rcParams = no_extra,
         rcParamsMap = fold (\<lambda>n m. mput (nAddress n)
           (APIServerParams T (nAddress n) serviceSubnet (apAuditLogEnabled params)
              (apAuditLogPolicy params) (apAuditLogPath params) clusterDomain) m) nodes [],
         rcExtra = apServiceParams params, rcRestart = False\<rparr>))]\<rparr>"

definition cmRun :: "Node list \<Rightarrow> string \<Rightarrow> string \<Rightarrow> ServiceParams \<Rightarrow> bool \<Rightarrow> command" where
  "cmRun nodes cluster serviceSubnet params restart = Container (RunContainer
     \<lparr>rcNodes = nodes, rcName = KubeControllerManagerContainerName, rcImg = KubernetesImage, rcOpts = [],
      rcParams = ControllerManagerParams cluster serviceSubnet, rcParamsMap = [],
      rcExtra = params, rcRestart = restart\<rparr>)"

definition controllerManagerBootOp :: "Node list \<Rightarrow> string \<Rightarrow> string \<Rightarrow> ServiceParams \<Rightarrow> operation" where
  "controllerManagerBootOp nodes cluster serviceSubnet params =
     \<lparr>opName = ''kube-controller-manager-bootstrap'', opTargets = Some (addresses nodes),
      opSwitch =
       [always (Container (ImagePull nodes KubernetesImage)),
      always (Files (PrepareControllerManagerFiles cluster nodes)),
      always (Files (MakeFiles nodes)),
      always (cmRun nodes cluster serviceSubnet params False)]\<rparr>"

definition controllerManagerRestartOp :: "Node list \<Rightarrow> string \<Rightarrow> string \<Rightarrow> ServiceParams \<Rightarrow> operation" where
  "controllerManagerRestartOp nodes cluster serviceSubnet params =
     \<lparr>opName = ''kube-controller-manager-restart'', opTargets = Some (addresses nodes),
      opSwitch =
       [always (Container (ImagePull nodes KubernetesImage)),
      always (cmRun nodes cluster serviceSubnet params True)]\<rparr>"

definition schedulerRun :: "Node list \<Rightarrow> SchedulerParams \<Rightarrow> bool \<Rightarrow> command" where
  "schedulerRun nodes params restart = Container (RunContainer
     \<lparr>rcNodes = nodes, rcName = KubeSchedulerContainerName, rcImg = KubernetesImage, rcOpts = [],
      rcParams = SchedulerParams, rcParamsMap = [], rcExtra = schServiceParams params,
      rcRestart = restart\<rparr>)"

definition schedulerBootOp :: "Node list \<Rightarrow> string \<Rightarrow> SchedulerParams \<Rightarrow> operation" where
  "schedulerBootOp nodes cluster params =
     \<lparr>opName = ''kube-scheduler-bootstrap'', opTargets = Some (addresses nodes),
      opSwitch =
       [always (Container (ImagePull nodes KubernetesImage)),
      always (Files (PrepareSchedulerFiles cluster nodes params)),
      always (Files (MakeFiles nodes)),
      always (schedulerRun nodes params False)]\<rparr>"

definition schedulerRestartOp :: "Node list \<Rightarrow> string \<Rightarrow> SchedulerParams \<Rightarrow> operation" where
  "schedulerRestartOp nodes cluster params =
     \<lparr>opName = ''kube-scheduler-restart'', opTargets = Some (addresses nodes),
      opSwitch =
       [always (Container (ImagePull nodes KubernetesImage)),
      always (Files (PrepareSchedulerFiles cluster nodes params)),
      always (Files (MakeFiles nodes)),
      always (schedulerRun nodes params True)]\<rparr>"

section \<open>Node services\<close>

definition proxyRun :: "Node list \<Rightarrow> ProxyParams \<Rightarrow> bool \<Rightarrow> command" where
  "proxyRun nodes params restart = Container (RunContainer
     \<lparr>rcNodes = nodes, rcName = KubeProxyContainerName, rcImg = KubernetesImage,
      rcOpts = [''--tmpfs=/run'', ''--privileged''], rcParams = no_extra,
      rcParamsMap = fold (\<lambda>n m. mput (nAddress n) ProxyParams m) nodes [],
      rcExtra = prServiceParams params, rcRestart = restart\<rparr>)"

definition kubeProxyBootOp :: "Node list \<Rightarrow> string \<Rightarrow> string \<Rightarrow> ProxyParams \<Rightarrow> operation" where
  "kubeProxyBootOp nodes cluster ap params =
     \<lparr>opName = ''kube-proxy-bootstrap'', opTargets = Some (addresses nodes),
      opSwitch =
       [always (Container (ImagePull nodes KubernetesImage)),
      always (Files (PrepareProxyFiles cluster ap nodes params)),
      always (Files (MakeFiles nodes)),
      always (proxyRun nodes params False)]\<rparr>"

definition kubeProxyRestartOp :: "Node list \<Rightarrow> string \<Rightarrow> string \<Rightarrow> ProxyParams \<Rightarrow> operation" where
  "kubeProxyRestartOp nodes cluster ap params =
     \<lparr>opName = ''kube-proxy-restart'', opTargets = Some (addresses nodes),
      opSwitch =
       [always (Container (ImagePull nodes KubernetesImage)),
      always (Files (PrepareProxyFiles cluster ap nodes params)),
      always (Files (MakeFiles nodes)),
      always (proxyRun nodes params True)]\<rparr>"

definition kubeletRun :: "Node list \<Rightarrow> KubeletParams \<Rightarrow> bool \<Rightarrow> command" where
  "kubeletRun nodes params restart = Container (RunContainer
     \<lparr>rcNodes = nodes, rcName = KubeletContainerName, rcImg = KubernetesImage,
      rcOpts = [''--pid=host'', ''--privileged'', ''--tmpfs=/tmp''], rcParams = no_extra,
      rcParamsMap = fold (\<lambda>n m. mput (nAddress n) (KubeletServiceParams n params) m) nodes [],
      rcExtra = klServiceParams params, rcRestart = restart\<rparr>)"

definition kubeletBootOp ::
  "Node list \<Rightarrow> Node list \<Rightarrow> Node option \<Rightarrow> string \<Rightarrow> KubeletParams \<Rightarrow>
   (string \<Rightarrow> NodeStatus option) \<Rightarrow> operation" where
  "kubeletBootOp nodes registeredNodes apiServer cluster params ns =
     \<lparr>opName = ''kubelet-bootstrap'', opTargets = Some (addresses nodes),
      opSwitch =
       [always (Container (ImagePull nodes KubernetesImage)),
      (length (cniName (klCNIConfFile params)) \<noteq> 0, Files (EmptyDir nodes cniConfDir)),
      always (Files (MakeDirs nodes [cniBinDir, cniConfDir, cniVarDir, ''/var/log/pods'', ''/var/log/containers'',
        ''/opt/volume/bin''] ''755'')),
      always (Files (PrepareKubeletFiles cluster params ns nodes)),
      always (Files (MakeFiles nodes)),
      always (Files (InstallCNI nodes)),
      (length registeredNodes > 0 \<and> length (klBootTaints params) > 0,
       Kube (RetaintBeforeKubeletBoot registeredNodes apiServer params)),
      always (kubeletRun nodes params False),
      always (Kube (WaitForKubeletReady nodes))]\<rparr>"

definition kubeletRestartOp ::
  "Node list \<Rightarrow> string \<Rightarrow> KubeletParams \<Rightarrow> (string \<Rightarrow> NodeStatus option) \<Rightarrow> operation" where
  "kubeletRestartOp nodes cluster params ns =
     \<lparr>opName = ''kubelet-restart'', opTargets = Some (addresses nodes),
      opSwitch =
       [always (Container (ImagePull nodes KubernetesImage)),
      always (Files (PrepareKubeletConfig cluster params ns nodes)),
      always (Files (MakeFiles nodes)),
      always (kubeletRun nodes params True),
      always (Kube (WaitForKubeletReady nodes))]\<rparr>"

section \<open>Objects of the API server\<close>

definition one_command :: "string \<Rightarrow> Node option \<Rightarrow> kube_command \<Rightarrow> operation" where
  "one_command name apiserver cmd =
     \<lparr>opName = name, opTargets = apiserver_target apiserver, opSwitch = [always (Kube cmd)]\<rparr>"

definition kubeWaitOp :: "Node option \<Rightarrow> operation" where
  "kubeWaitOp apiserver = one_command ''wait-kubernetes'' apiserver (WaitKube apiserver)"

text \<open>The argument \<^verbatim>\<open>forceConflicts\<close> is stored and not read again.\<close>

definition resourceApplyOp ::
  "Node option \<Rightarrow> ResourceDefinition \<Rightarrow> bool \<Rightarrow> TrustedRESTMapping list \<Rightarrow> operation" where
  "resourceApplyOp apiserver res forceConflicts trustedMappings =
     one_command ''resource-apply'' apiserver (ApplyResourceCmd apiserver res trustedMappings)"

definition clusterdns_createConfigMapOp :: "Node option \<Rightarrow> string \<Rightarrow> string list \<Rightarrow> operation" where
  "clusterdns_createConfigMapOp apiserver domain dnsServers =
     one_command ''create-cluster-dns-configmap'' apiserver (CreateClusterDNSConfigMap apiserver domain dnsServers)"

definition clusterdns_updateConfigMapOp :: "Node option \<Rightarrow> ConfigMap \<Rightarrow> operation" where
  "clusterdns_updateConfigMapOp apiserver configmap =
     one_command ''update-cluster-dns-configmap'' apiserver (UpdateClusterDNSConfigMap apiserver configmap)"

definition nodedns_createConfigMapOp :: "Node option \<Rightarrow> string \<Rightarrow> string \<Rightarrow> string list \<Rightarrow> operation" where
  "nodedns_createConfigMapOp apiserver clusterIP domain dnsServers =
     one_command ''create-node-dns-configmap'' apiserver
       (CreateNodeDNSConfigMap apiserver clusterIP domain dnsServers)"

definition nodedns_updateConfigMapOp :: "Node option \<Rightarrow> ConfigMap \<Rightarrow> operation" where
  "nodedns_updateConfigMapOp apiserver configMap =
     one_command ''update-node-dns-configmap'' apiserver (UpdateNodeDNSConfigMap apiserver configMap)"

definition kubeEndpointsCreateOp :: "Node option \<Rightarrow> Endpoints \<Rightarrow> operation" where
  "kubeEndpointsCreateOp apiserver ep =
     one_command (''create-'' @ epsName ep @ ''-endpoints'') apiserver (CreateEndpoints apiserver ep)"

definition kubeEndpointsUpdateOp :: "Node option \<Rightarrow> Endpoints \<Rightarrow> operation" where
  "kubeEndpointsUpdateOp apiserver ep =
     one_command (''update-'' @ epsName ep @ ''-endpoints'') apiserver (UpdateEndpoints apiserver ep)"

definition kubeEndpointSliceCreateOp :: "Node option \<Rightarrow> EndpointSlice \<Rightarrow> operation" where
  "kubeEndpointSliceCreateOp apiserver eps =
     one_command (''create-'' @ slName eps @ ''-endpointslice'') apiserver (CreateEndpointSlice apiserver eps)"

definition kubeEndpointSliceUpdateOp :: "Node option \<Rightarrow> EndpointSlice \<Rightarrow> operation" where
  "kubeEndpointSliceUpdateOp apiserver eps =
     one_command (''update-'' @ slName eps @ ''-endpointslice'') apiserver (UpdateEndpointSlice apiserver eps)"

definition kubeEtcdServiceCreateOp :: "Node option \<Rightarrow> operation" where
  "kubeEtcdServiceCreateOp apiserver =
     one_command ''create-etcd-service'' apiserver (CreateEtcdService apiserver)"

definition kubeEtcdServiceUpdateOp :: "Node option \<Rightarrow> operation" where
  "kubeEtcdServiceUpdateOp apiserver =
     one_command ''update-etcd-service'' apiserver (UpdateEtcdService apiserver)"

definition kubeNodeUpdate :: "Node option \<Rightarrow> K8sNode list \<Rightarrow> operation" where
  "kubeNodeUpdate apiserver nodes =
     \<lparr>opName = ''update-node'', opTargets = Some (map knName nodes),
      opSwitch = [always (Kube (UpdateNodes apiserver nodes))]\<rparr>"

definition kubeNodeRemove :: "Node option \<Rightarrow> K8sNode list \<Rightarrow> operation" where
  "kubeNodeRemove apiserver nodes = one_command ''remove-node'' apiserver (RemoveNodes apiserver nodes)"

section \<open>Queues\<close>

definition evict_attempts :: "int option \<Rightarrow> int" where
  "evict_attempts retries = (case retries of None \<Rightarrow> 1 | Some r \<Rightarrow> r + 1)"

definition evict_interval :: "int option \<Rightarrow> int" where
  "evict_interval interval = (case interval of None \<Rightarrow> 0 | Some i \<Rightarrow> seconds i)"

definition rebootDrainStartOp :: "Node option \<Rightarrow> RebootQueueEntry list \<Rightarrow> Reboot \<Rightarrow> operation" where
  "rebootDrainStartOp apiserver entries config =
     \<lparr>opName = ''reboot-drain-start'', opTargets = Some (map rqNode entries),
      opSwitch =
       [always (RebootCmd (RebootDrainStart apiserver entries (rbProtectedNamespaces config)
        (rbProtectedJobPods config) (evict_attempts (rbEvictRetries config))
        (evict_interval (rbEvictInterval config))))]\<rparr>"

definition rebootDeleteDaemonSetPodOp :: "Node option \<Rightarrow> RebootQueueEntry list \<Rightarrow> operation" where
  "rebootDeleteDaemonSetPodOp apiserver entries =
     \<lparr>opName = ''reboot-delete-daemonset-pod'', opTargets = Some (map rqNode entries),
      opSwitch =
       [always (RebootCmd (RebootDeleteDaemonSetPod apiserver entries))]\<rparr>"

definition rebootRebootOp :: "RebootQueueEntry list \<Rightarrow> Reboot \<Rightarrow> operation" where
  "rebootRebootOp entries config =
     \<lparr>opName = ''reboot-reboot'', opTargets = Some (map rqNode entries),
      opSwitch =
       [always (RebootCmd (RebootReboot entries (rbRebootCommand config) (rbCommandTimeoutSeconds config)
        (rbCommandRetries config) (rbCommandInterval config)))]\<rparr>"

definition rebootDrainTimeoutOp :: "RebootQueueEntry list \<Rightarrow> operation" where
  "rebootDrainTimeoutOp entries =
     \<lparr>opName = ''reboot-drain-timeout'', opTargets = Some (map rqNode entries),
      opSwitch =
       [always (RebootCmd (RebootDrainTimeout entries))]\<rparr>"

definition rebootUncordonOp :: "Node option \<Rightarrow> string list \<Rightarrow> operation" where
  "rebootUncordonOp apiserver nodeNames =
     \<lparr>opName = ''reboot-uncordon'', opTargets = Some nodeNames,
      opSwitch =
       [always (RebootCmd (RebootUncordon apiserver nodeNames))]\<rparr>"

definition rebootDequeueOp :: "RebootQueueEntry list \<Rightarrow> operation" where
  "rebootDequeueOp entries =
     \<lparr>opName = ''reboot-dequeue'', opTargets = Some (map rqNode entries),
      opSwitch =
       [always (RebootCmd (RebootDequeue entries))]\<rparr>"

definition rebootCancelOp :: "RebootQueueEntry list \<Rightarrow> operation" where
  "rebootCancelOp entries = (rebootDequeueOp entries)\<lparr>opName := ''reboot-cancel''\<rparr>"

definition repairDrainStartOp :: "Node option \<Rightarrow> RepairQueueEntry \<Rightarrow> Repair \<Rightarrow> operation" where
  "repairDrainStartOp apiserver entry config =
     \<lparr>opName = ''repair-drain-start'', opTargets = Some [reAddress entry],
      opSwitch =
       [always (RepairCmd (RepairDrainStart apiserver entry (rpProtectedNamespaces config)
        (rpProtectedJobPods config) (evict_attempts (rpEvictRetries config))
        (evict_interval (rpEvictInterval config))))]\<rparr>"

definition repairDrainTimeoutOp :: "RepairQueueEntry \<Rightarrow> operation" where
  "repairDrainTimeoutOp entry =
     \<lparr>opName = ''repair-drain-timeout'', opTargets = Some [reAddress entry],
      opSwitch =
       [always (RepairCmd (RepairDrainTimeout entry))]\<rparr>"

definition repairExecuteOp :: "RepairQueueEntry \<Rightarrow> RepairStep \<Rightarrow> Cluster \<Rightarrow> operation" where
  "repairExecuteOp entry step cluster =
     \<lparr>opName = ''repair-execute'', opTargets = Some [reAddress entry],
      opSwitch =
       [always (RepairCmd (RepairExecute entry (rsRepairCommand step) (rsCommandTimeoutSeconds step)
        (rsCommandRetries step) (rsCommandInterval step) cluster))]\<rparr>"

definition repairFinishOp :: "RepairQueueEntry \<Rightarrow> bool \<Rightarrow> Cluster \<Rightarrow> operation" where
  "repairFinishOp entry succeeded cluster =
     \<lparr>opName = ''repair-finish'', opTargets = Some [reAddress entry],
      opSwitch =
       [always (RepairCmd (RepairFinish entry succeeded cluster))]\<rparr>"

definition repairDequeueOp :: "RepairQueueEntry \<Rightarrow> operation" where
  "repairDequeueOp entry =
     \<lparr>opName = ''repair-dequeue'', opTargets = Some [reAddress entry],
      opSwitch =
       [always (RepairCmd (RepairDequeue entry))]\<rparr>"

end
