(* ===== verification/CKE_Operator.thy ===== *)
theory CKE_Operator
  imports CKE_Ops
begin

text \<open>
  The interface \<^verbatim>\<open>Operator\<close> of \<^verbatim>\<open>operation.go\<close>: the operators that the decision code returns, with their
  names and command sequences. The locale \<open>operator_machine\<close> states what the runner relies on, that
  every command moves the operator forward and that it ends; it is interpreted by \<open>NextCommand\<close>.
\<close>

section \<open>Operators\<close>

datatype node_op =
    UpgradeOp string "Node list"
  | RiversBootOp "Node list" "Node list" ServiceParams string int int
  | RiversRestartOp "Node list" "Node list" ServiceParams string int int
  | APIServerStopOp "Node list"
  | ControllerManagerStopOp "Node list"
  | SchedulerStopOp "Node list"
  | EtcdStopOp "Node list"
  | EtcdRiversStopOp "Node list"
  | ProxyStopOp "Node list"

datatype etcd_op =
    EtcdBootOp "Node list" EtcdParams
  | EtcdStartOp "Node list" EtcdParams
  | EtcdWaitClusterOp "Node list"
  | EtcdRemoveMemberOp "Node list" "Member list"
  | EtcdDestroyMemberOp "Node list" "Node list" "nat list"
  | EtcdAddMemberOp "Node list" Node EtcdParams
  | EtcdMarkMemberOp "Node list"
  | EtcdRestartOp "Node list" Node EtcdParams

datatype k8s_op =
    APIServerRestartOp "Node list" string APIServerParams string
  | ControllerManagerBootOp "Node list" string string ServiceParams
  | ControllerManagerRestartOp "Node list" string string ServiceParams
  | SchedulerBootOp "Node list" string SchedulerParams
  | SchedulerRestartOp "Node list" string SchedulerParams
  | KubeletBootOp "Node list" "Node list" "Node option" string KubeletParams "string \<Rightarrow> NodeStatus option"
  | KubeletRestartOp "Node list" string KubeletParams "string \<Rightarrow> NodeStatus option"
  | KubeProxyBootOp "Node list" string string ProxyParams
  | KubeProxyRestartOp "Node list" string string ProxyParams

datatype kube_op =
    KubeWaitOp "Node option"
  | ResourceApplyOp "Node option" ResourceDefinition bool "TrustedRESTMapping list"
  | ClusterDNSCreateConfigMapOp "Node option" string "string list"
  | ClusterDNSUpdateConfigMapOp "Node option" ConfigMap
  | NodeDNSCreateConfigMapOp "Node option" string string "string list"
  | NodeDNSUpdateConfigMapOp "Node option" ConfigMap
  | KubeEndpointsCreateOp "Node option" Endpoints
  | KubeEndpointsUpdateOp "Node option" Endpoints
  | KubeEndpointSliceCreateOp "Node option" EndpointSlice
  | KubeEndpointSliceUpdateOp "Node option" EndpointSlice
  | KubeEtcdServiceCreateOp "Node option"
  | KubeEtcdServiceUpdateOp "Node option"
  | KubeNodeUpdateOp "Node option" "K8sNode list"
  | KubeNodeRemoveOp "Node option" "K8sNode list"

datatype reboot_op =
    RebootDrainStartOp "Node option" "RebootQueueEntry list" Reboot
  | RebootDeleteDaemonSetPodOp "Node option" "RebootQueueEntry list" Reboot
  | RebootRebootOp "Node option" "RebootQueueEntry list" Reboot
  | RebootDrainTimeoutOp "RebootQueueEntry list"
  | RebootUncordonOp "Node option" "string list"
  | RebootDequeueOp "RebootQueueEntry list"
  | RebootCancelOp "RebootQueueEntry list"

datatype repair_op =
    RepairDequeueOp RepairQueueEntry
  | RepairFinishOp RepairQueueEntry bool Cluster
  | RepairExecuteOp RepairQueueEntry RepairStep Cluster
  | RepairDrainStartOp "Node option" RepairQueueEntry Repair
  | RepairDrainTimeoutOp RepairQueueEntry

datatype operator =
    NodeOp node_op
  | EtcdOp etcd_op
  | K8sOp k8s_op
  | KubeOp kube_op
  | RebootOp reboot_op
  | RepairOp repair_op

section \<open>Constructor functions\<close>

text \<open>Each constructor function of the source builds the operator with these arguments.\<close>

fun node_operation :: "node_op \<Rightarrow> operation" where
  "node_operation (UpgradeOp current nodes) = upgradeOp current nodes"
| "node_operation (RiversBootOp ns us p nm up lp) = riversBootOp ns us p nm up lp"
| "node_operation (RiversRestartOp ns us p nm up lp) = riversRestartOp ns us p nm up lp"
| "node_operation (APIServerStopOp ns) = containerStopOp ns KubeAPIServerContainerName"
| "node_operation (ControllerManagerStopOp ns) = containerStopOp ns KubeControllerManagerContainerName"
| "node_operation (SchedulerStopOp ns) = containerStopOp ns KubeSchedulerContainerName"
| "node_operation (EtcdStopOp ns) = containerStopOp ns EtcdContainerName"
| "node_operation (EtcdRiversStopOp ns) = containerStopOp ns EtcdRiversContainerName"
| "node_operation (ProxyStopOp ns) = containerStopOp ns KubeProxyContainerName"

fun etcd_operation :: "third_party \<Rightarrow> etcd_op \<Rightarrow> operation" where
  "etcd_operation T (EtcdBootOp ns p) = bootOp ns p"
| "etcd_operation T (EtcdStartOp ns p) = etcdStartOp ns p"
| "etcd_operation T (EtcdWaitClusterOp ns) = etcdWaitClusterOp ns"
| "etcd_operation T (EtcdRemoveMemberOp cp ms) = removeMemberOp T cp ms"
| "etcd_operation T (EtcdDestroyMemberOp cp ts ids) = destroyMemberOp cp ts ids"
| "etcd_operation T (EtcdAddMemberOp cp n p) = addMemberOp cp n p"
| "etcd_operation T (EtcdMarkMemberOp ns) = markMemberOp ns"
| "etcd_operation T (EtcdRestartOp cp n p) = etcdRestartOp cp n p"

fun k8s_operation :: "third_party \<Rightarrow> k8s_op \<Rightarrow> operation" where
  "k8s_operation T (APIServerRestartOp ns sub p d) = apiServerRestartOp T ns sub p d"
| "k8s_operation T (ControllerManagerBootOp ns nm sub p) = controllerManagerBootOp ns nm sub p"
| "k8s_operation T (ControllerManagerRestartOp ns nm sub p) = controllerManagerRestartOp ns nm sub p"
| "k8s_operation T (SchedulerBootOp ns nm p) = schedulerBootOp ns nm p"
| "k8s_operation T (SchedulerRestartOp ns nm p) = schedulerRestartOp ns nm p"
| "k8s_operation T (KubeletBootOp ns rs api nm p st) = kubeletBootOp ns rs api nm p st"
| "k8s_operation T (KubeletRestartOp ns nm p st) = kubeletRestartOp ns nm p st"
| "k8s_operation T (KubeProxyBootOp ns nm ap p) = kubeProxyBootOp ns nm ap p"
| "k8s_operation T (KubeProxyRestartOp ns nm ap p) = kubeProxyRestartOp ns nm ap p"

fun kube_operation :: "kube_op \<Rightarrow> operation" where
  "kube_operation (KubeWaitOp api) = kubeWaitOp api"
| "kube_operation (ResourceApplyOp api res force mappings) = resourceApplyOp api res force mappings"
| "kube_operation (ClusterDNSCreateConfigMapOp api d srv) = clusterdns_createConfigMapOp api d srv"
| "kube_operation (ClusterDNSUpdateConfigMapOp api cm) = clusterdns_updateConfigMapOp api cm"
| "kube_operation (NodeDNSCreateConfigMapOp api ip d srv) = nodedns_createConfigMapOp api ip d srv"
| "kube_operation (NodeDNSUpdateConfigMapOp api cm) = nodedns_updateConfigMapOp api cm"
| "kube_operation (KubeEndpointsCreateOp api ep) = kubeEndpointsCreateOp api ep"
| "kube_operation (KubeEndpointsUpdateOp api ep) = kubeEndpointsUpdateOp api ep"
| "kube_operation (KubeEndpointSliceCreateOp api eps) = kubeEndpointSliceCreateOp api eps"
| "kube_operation (KubeEndpointSliceUpdateOp api eps) = kubeEndpointSliceUpdateOp api eps"
| "kube_operation (KubeEtcdServiceCreateOp api) = kubeEtcdServiceCreateOp api"
| "kube_operation (KubeEtcdServiceUpdateOp api) = kubeEtcdServiceUpdateOp api"
| "kube_operation (KubeNodeUpdateOp api ns) = kubeNodeUpdate api ns"
| "kube_operation (KubeNodeRemoveOp api ns) = kubeNodeRemove api ns"

fun reboot_operation :: "reboot_op \<Rightarrow> operation" where
  "reboot_operation (RebootDrainStartOp api es cfg) = rebootDrainStartOp api es cfg"
| "reboot_operation (RebootDeleteDaemonSetPodOp api es cfg) = rebootDeleteDaemonSetPodOp api es"
| "reboot_operation (RebootRebootOp api es cfg) = rebootRebootOp es cfg"
| "reboot_operation (RebootDrainTimeoutOp es) = rebootDrainTimeoutOp es"
| "reboot_operation (RebootUncordonOp api names) = rebootUncordonOp api names"
| "reboot_operation (RebootDequeueOp es) = rebootDequeueOp es"
| "reboot_operation (RebootCancelOp es) = rebootCancelOp es"

fun repair_operation :: "repair_op \<Rightarrow> operation" where
  "repair_operation (RepairDequeueOp e) = repairDequeueOp e"
| "repair_operation (RepairFinishOp e s c) = repairFinishOp e s c"
| "repair_operation (RepairExecuteOp e st c) = repairExecuteOp e st c"
| "repair_operation (RepairDrainStartOp api e cfg) = repairDrainStartOp api e cfg"
| "repair_operation (RepairDrainTimeoutOp e) = repairDrainTimeoutOp e"

fun operation_of :: "third_party \<Rightarrow> operator \<Rightarrow> operation" where
  "operation_of T (NodeOp op) = node_operation op"
| "operation_of T (EtcdOp op) = etcd_operation T op"
| "operation_of T (K8sOp op) = k8s_operation T op"
| "operation_of T (KubeOp op) = kube_operation op"
| "operation_of T (RebootOp op) = reboot_operation op"
| "operation_of T (RepairOp op) = repair_operation op"

abbreviation switch_of :: "third_party \<Rightarrow> operator \<Rightarrow> switch" where
  "switch_of T op \<equiv> opSwitch (operation_of T op)"

definition NextCommand :: "third_party \<Rightarrow> operator \<Rightarrow> nat \<Rightarrow> command option \<times> nat" where
  "NextCommand T op step = NextStep (switch_of T op) step"

section \<open>The interface of an operator\<close>

locale operator_machine =
  fixes nxt :: "'o \<Rightarrow> nat \<Rightarrow> 'c option \<times> nat"
    and bound :: "'o \<Rightarrow> nat"
  assumes nxt_progress: "nxt op s = (Some c, s') \<Longrightarrow> s < s' \<and> s' \<le> bound op"
    and nxt_done: "nxt op s = (None, s') \<Longrightarrow> fst (nxt op s') = None"
begin

text \<open>The commands handed out from a step, with fuel for the number of calls.\<close>

primrec trace :: "nat \<Rightarrow> 'o \<Rightarrow> nat \<Rightarrow> 'c list option" where
  "trace 0 op s = None"
| "trace (Suc fuel) op s =
     (case nxt op s of
        (None, _) \<Rightarrow> Some []
      | (Some c, s') \<Rightarrow> map_option (Cons c) (trace fuel op s'))"

lemma trace_total: "bound op < fuel + s \<Longrightarrow> 0 < fuel \<Longrightarrow> \<exists>cs. trace fuel op s = Some cs"
proof (induction fuel arbitrary: s)
  case (Suc fuel)
  show ?case
  proof (cases "nxt op s")
    case (Pair r s')
    show ?thesis
    proof (cases r)
      case None
      with Pair show ?thesis by simp
    next
      case (Some c)
      with Pair nxt_progress have "s < s'" "s' \<le> bound op" by auto
      then have "bound op < fuel + s'" "0 < fuel" using Suc.prems by auto
      with Suc.IH [of s'] Pair Some show ?thesis by auto
    qed
  qed
qed simp

lemma trace_length: "trace fuel op s = Some cs \<Longrightarrow> cs \<noteq> [] \<Longrightarrow> length cs + s \<le> bound op"
proof (induction fuel arbitrary: s cs)
  case (Suc fuel)
  then obtain c s' where nx: "nxt op s = (Some c, s')"
    by (auto split: prod.splits option.splits)
  with Suc.prems obtain cs' where cs: "cs = c # cs'" "trace fuel op s' = Some cs'" by auto
  have s': "s < s'" "s' \<le> bound op" using nxt_progress [OF nx] by auto
  show ?case
  proof (cases "cs' = []")
    case True
    with cs s' show ?thesis by simp
  next
    case False
    with Suc.IH [OF cs(2)] s' cs show ?thesis by simp
  qed
qed simp

lemma trace_mono: "trace fuel op s = Some cs \<Longrightarrow> fuel \<le> fuel' \<Longrightarrow> trace fuel' op s = Some cs"
proof (induction fuel arbitrary: fuel' s cs)
  case (Suc fuel)
  then obtain f where f: "fuel' = Suc f" "fuel \<le> f" by (cases fuel') auto
  obtain r s' where nx: "nxt op s = (r, s')" by (cases "nxt op s")
  show ?case
  proof (cases r)
    case None
    with Suc.prems nx show ?thesis by (simp add: f)
  next
    case (Some c)
    with Suc.prems(1) nx obtain cs' where cs: "trace fuel op s' = Some cs'" "cs = c # cs'" by auto
    have "trace f op s' = Some cs'" by (rule Suc.IH [OF cs(1) f(2)])
    with nx Some cs show ?thesis by (simp add: f)
  qed
qed simp

end

lemma NextStep_cases:
  "length sw \<le> s \<Longrightarrow> NextStep sw s = (None, s)"
  "s < length sw \<Longrightarrow> fst (sw ! s) \<Longrightarrow> NextStep sw s = (Some (snd (sw ! s)), Suc s)"
  "s < length sw \<Longrightarrow> \<not> fst (sw ! s) \<Longrightarrow> NextStep sw s = NextStep sw (Suc s)"
  by (subst NextStep.simps, simp)+

lemma NextStep_Some:
  "NextStep sw s = (Some c, s') \<Longrightarrow> s < s' \<and> s' \<le> length sw"
proof (induction "length sw - s" arbitrary: s rule: less_induct)
  case less
  consider "length sw \<le> s" | "s < length sw" "fst (sw ! s)" | "s < length sw" "\<not> fst (sw ! s)"
    by linarith
  then show ?case
  proof cases
    case 3
    then have "Suc s < s' \<and> s' \<le> length sw"
      using less.prems by (intro less.hyps) (simp_all add: NextStep_cases)
    then show ?thesis by simp
  qed (use less.prems in \<open>simp_all add: NextStep_cases\<close>)
qed

lemma NextStep_None: "NextStep sw s = (None, s') \<Longrightarrow> length sw \<le> s'"
proof (induction "length sw - s" arbitrary: s rule: less_induct)
  case less
  consider "length sw \<le> s" | "s < length sw" "fst (sw ! s)" | "s < length sw" "\<not> fst (sw ! s)"
    by linarith
  then show ?case
  proof cases
    case 3
    then show ?thesis
      using less.prems by (intro less.hyps [of "Suc s"]) (simp_all add: NextStep_cases)
  qed (use less.prems in \<open>simp_all add: NextStep_cases\<close>)
qed

lemma NextStep_end [simp]: "length sw \<le> s \<Longrightarrow> NextStep sw s = (None, s)"
  by (rule NextStep_cases)

interpretation op_machine: operator_machine "NextCommand T" "\<lambda>op. length (switch_of T op)" for T
  by unfold_locales (auto simp: NextCommand_def dest: NextStep_Some NextStep_None)

text \<open>The whole sequence: the commands of the enabled cases, in order.\<close>

definition commands :: "third_party \<Rightarrow> operator \<Rightarrow> command list" where
  "commands T op = map snd (filter fst (switch_of T op))"

lemma trace_drop:
  "length (switch_of T op) < fuel + s \<Longrightarrow> 0 < fuel \<Longrightarrow>
     op_machine.trace T fuel op s = Some (map snd (filter fst (drop s (switch_of T op))))"
proof (induction "length (switch_of T op) - s" arbitrary: s fuel rule: less_induct)
  case less
  let ?sw = "switch_of T op"
  obtain f where f: "fuel = Suc f" using less.prems by (cases fuel) auto
  show ?case
  proof (cases "length ?sw \<le> s")
    case True
    then show ?thesis by (simp add: f NextCommand_def)
  next
    case False
    then have d: "drop s ?sw = ?sw ! s # drop (Suc s) ?sw" by (simp add: Cons_nth_drop_Suc)
    show ?thesis
    proof (cases "fst (?sw ! s)")
      case True
      have "op_machine.trace T f op (Suc s) = Some (map snd (filter fst (drop (Suc s) ?sw)))"
        using False less.prems f by (intro less.hyps) auto
      with True False show ?thesis
        by (simp add: f NextCommand_def NextStep_cases d)
    next
      case skip: False
      have "op_machine.trace T (Suc f) op (Suc s) = Some (map snd (filter fst (drop (Suc s) ?sw)))"
        using False less.prems f by (intro less.hyps) auto
      with skip False show ?thesis
        by (simp add: f NextCommand_def NextStep_cases d)
    qed
  qed
qed

section \<open>Properties\<close>

lemmas operation_defs = upgradeOp_def riversBootOp_def riversRestartOp_def containerStopOp_def bootOp_def
  etcdStartOp_def etcdWaitClusterOp_def removeMemberOp_def destroyMemberOp_def addMemberOp_def
  markMemberOp_def etcdRestartOp_def apiServerRestartOp_def controllerManagerBootOp_def
  controllerManagerRestartOp_def schedulerBootOp_def schedulerRestartOp_def kubeletBootOp_def
  kubeletRestartOp_def kubeProxyBootOp_def kubeProxyRestartOp_def one_command_def kubeWaitOp_def
  resourceApplyOp_def clusterdns_createConfigMapOp_def clusterdns_updateConfigMapOp_def
  nodedns_createConfigMapOp_def nodedns_updateConfigMapOp_def kubeEndpointsCreateOp_def
  kubeEndpointsUpdateOp_def kubeEndpointSliceCreateOp_def kubeEndpointSliceUpdateOp_def
  kubeEtcdServiceCreateOp_def kubeEtcdServiceUpdateOp_def kubeNodeUpdate_def kubeNodeRemove_def
  rebootDrainStartOp_def rebootDeleteDaemonSetPodOp_def rebootRebootOp_def rebootDrainTimeoutOp_def
  rebootUncordonOp_def rebootDequeueOp_def rebootCancelOp_def repairDequeueOp_def repairFinishOp_def
  repairExecuteOp_def repairDrainStartOp_def repairDrainTimeoutOp_def

lemma switch_length:
  "length (opSwitch (node_operation nop)) \<le> 10" "length (opSwitch (etcd_operation T eop)) \<le> 10"
  "length (opSwitch (k8s_operation T kop)) \<le> 10" "length (opSwitch (kube_operation uop)) \<le> 10"
  "length (opSwitch (reboot_operation bop)) \<le> 10" "length (opSwitch (repair_operation rop)) \<le> 10"
       apply (cases nop; simp add: operation_defs)
      apply (cases eop; simp add: operation_defs Let_def)
     apply (cases kop; simp add: operation_defs)
    apply (cases uop; simp add: operation_defs)
   apply (cases bop; simp add: operation_defs)
  apply (cases rop; simp add: operation_defs)
  done

lemma switch_of_length: "length (switch_of T op) \<le> 10"
  by (cases op) (simp_all add: switch_length)


text \<open>A list of commands pulls every image on the nodes where it then starts a container from it.\<close>

fun pulled_first :: "(Node list \<times> string) list \<Rightarrow> command list \<Rightarrow> bool" where
  "pulled_first seen [] = True"
| "pulled_first seen (Container (ImagePull nodes img) # cs) = pulled_first ((nodes, img) # seen) cs"
| "pulled_first seen (Container (RunContainer r) # cs) =
     ((rcNodes r, rcImg r) \<in> set seen \<and> pulled_first seen cs)"
| "pulled_first seen (c # cs) = pulled_first seen cs"

lemmas run_defs = riversRun_def cmRun_def schedulerRun_def proxyRun_def kubeletRun_def

lemma pulled_first_groups:
  "pulled_first [] (map snd (filter fst (opSwitch (node_operation nop))))"
  "\<not> (\<exists>ns p. eop = EtcdStartOp ns p) \<Longrightarrow>
     pulled_first [] (map snd (filter fst (opSwitch (etcd_operation T eop))))"
  "pulled_first [] (map snd (filter fst (opSwitch (k8s_operation T kop))))"
  "pulled_first [] (map snd (filter fst (opSwitch (kube_operation uop))))"
  "pulled_first [] (map snd (filter fst (opSwitch (reboot_operation bop))))"
  "pulled_first [] (map snd (filter fst (opSwitch (repair_operation rop))))"
       apply (cases nop; simp add: operation_defs run_defs)
      apply (cases eop; simp add: operation_defs Let_def)
     apply (cases kop; simp add: operation_defs run_defs)
    apply (cases uop; simp add: operation_defs)
   apply (cases bop; simp add: operation_defs)
  apply (cases rop; simp add: operation_defs)
  done



end
