(* ===== verification/CKE_DNS.thy ===== *)
theory CKE_DNS
  imports CKE_Params
begin

text \<open>
  The configuration maps of the cluster DNS (\<^verbatim>\<open>op/clusterdns/clusterdns.go\<close>) and of the node-local DNS
  (\<^verbatim>\<open>op/nodedns/nodedns.go\<close>). The templates are written out as lists of lines, each ended by a newline;
  a condition of a template is a condition here.
\<close>

definition unlines :: "string list \<Rightarrow> string" where
  "unlines ls = concat (map (\<lambda>l. l @ [CHR 0x0A]) ls)"

definition ClusterDNS_ConfigMap :: "string \<Rightarrow> string list \<Rightarrow> ConfigMap" where
  "ClusterDNS_ConfigMap domain dnsServers =
     (let upstreams = Join dnsServers '' '' in
      [(''Corefile'', unlines
       ([''.:1053 {'',
        ''    errors'',
        ''    health'',
        ''    ready'',
        ''    log . {combined} {'',
        ''        class denial error'',
        ''    }'',
        ''    kubernetes '' @ domain @ '' in-addr.arpa ip6.arpa {'',
        ''      pods verified''] @
       (if upstreams \<noteq> [] then [''      fallthrough in-addr.arpa ip6.arpa''] else []) @
       [''    }''] @
       (if upstreams \<noteq> [] then [''    forward . '' @ upstreams] else []) @
       [''    prometheus :9153'',
        ''    cache 30'',
        ''    reload'',
        ''    loadbalance'',
        ''}'']))])"

definition NodeDNS_ConfigMap :: "string \<Rightarrow> string \<Rightarrow> string list \<Rightarrow> bool \<Rightarrow> ConfigMap" where
  \<open>NodeDNS_ConfigMap clusterIP domain dnsServers localControl =
     [(''unbound.conf'', unlines
       ([[],
        ''server:'',
        ''  do-daemonize: no'',
        ''  interface: 0.0.0.0'',
        ''  interface-automatic: yes'',
        ''  access-control: 0.0.0.0/0 allow'',
        ''  chroot: ""'',
        ''  username: ""'',
        ''  directory: "/etc/unbound"'',
        ''  logfile: ""'',
        ''  use-syslog: no'',
        ''  log-time-ascii: yes'',
        ''  log-queries: no'',
        ''  log-replies: yes'',
        ''  log-local-actions: yes'',
        ''  log-servfail: yes'',
        ''  num-threads: 4'',
        ''  incoming-num-tcp: 1000'',
        ''  outgoing-num-tcp: 1000'',
        ''  num-queries-per-thread: 4096'',
        ''  outgoing-range: 8192'',
        ''  rrset-roundrobin: yes'',
        ''  extended-statistics: yes'',
        ''  rrset-cache-size: 256m'',
        ''  rrset-cache-slabs: 4'',
        ''  msg-cache-size: 256m'',
        ''  msg-cache-slabs: 4'',
        ''  infra-cache-slabs: 4'',
        ''  key-cache-slabs: 4'',
        ''  so-rcvbuf: 4m'',
        ''  pidfile: "/tmp/unbound.pid"'',
        ''  infra-host-ttl: 60'',
        ''  prefetch: yes'',
        ''  tcp-upstream: yes'',
        ''  so-reuseport: yes'',
        ''  local-zone: "10.in-addr.arpa." transparent'',
        ''  local-zone: "168.192.in-addr.arpa." transparent'',
        ''  local-zone: "16.172.in-addr.arpa." transparent'',
        ''  local-zone: "17.172.in-addr.arpa." transparent'',
        ''  local-zone: "18.172.in-addr.arpa." transparent'',
        ''  local-zone: "19.172.in-addr.arpa." transparent'',
        ''  local-zone: "20.172.in-addr.arpa." transparent'',
        ''  local-zone: "21.172.in-addr.arpa." transparent'',
        ''  local-zone: "22.172.in-addr.arpa." transparent'',
        ''  local-zone: "23.172.in-addr.arpa." transparent'',
        ''  local-zone: "24.172.in-addr.arpa." transparent'',
        ''  local-zone: "25.172.in-addr.arpa." transparent'',
        ''  local-zone: "26.172.in-addr.arpa." transparent'',
        ''  local-zone: "27.172.in-addr.arpa." transparent'',
        ''  local-zone: "28.172.in-addr.arpa." transparent'',
        ''  local-zone: "29.172.in-addr.arpa." transparent'',
        ''  local-zone: "30.172.in-addr.arpa." transparent'',
        ''  local-zone: "31.172.in-addr.arpa." transparent'',
        ''  root-hints: "/usr/local/unbound/etc/unbound/root.hints"'',
        ''  trust-anchor-file: "/usr/local/unbound/etc/unbound/root.key"'',
        ''  domain-insecure: "'' @ domain @ ''"'',
        ''  domain-insecure: "10.in-addr.arpa."'',
        ''  domain-insecure: "168.192.in-addr.arpa."'',
        ''  domain-insecure: "16.172.in-addr.arpa."'',
        ''  domain-insecure: "17.172.in-addr.arpa."'',
        ''  domain-insecure: "18.172.in-addr.arpa."'',
        ''  domain-insecure: "19.172.in-addr.arpa."'',
        ''  domain-insecure: "20.172.in-addr.arpa."'',
        ''  domain-insecure: "21.172.in-addr.arpa."'',
        ''  domain-insecure: "22.172.in-addr.arpa."'',
        ''  domain-insecure: "23.172.in-addr.arpa."'',
        ''  domain-insecure: "24.172.in-addr.arpa."'',
        ''  domain-insecure: "25.172.in-addr.arpa."'',
        ''  domain-insecure: "26.172.in-addr.arpa."'',
        ''  domain-insecure: "27.172.in-addr.arpa."'',
        ''  domain-insecure: "28.172.in-addr.arpa."'',
        ''  domain-insecure: "29.172.in-addr.arpa."'',
        ''  domain-insecure: "30.172.in-addr.arpa."'',
        ''  domain-insecure: "31.172.in-addr.arpa."'',
        ''remote-control:'',
        ''  control-enable: yes'',
        (''  control-interface: '' @ (if localControl then '' /var/run/unbound/unbound.sock '' else '' 127.0.0.1 '')),
        ''  control-use-cert: no'',
        ''stub-zone:'',
        ''  name: "'' @ domain @ ''"'',
        ''  stub-addr: '' @ clusterIP,
        ''forward-zone:'',
        ''  name: "in-addr.arpa."'',
        ''  forward-addr: '' @ clusterIP,
        ''forward-zone:'',
        ''  name: "ip6.arpa."'',
        ''  forward-addr: '' @ clusterIP] @
       (if dnsServers \<noteq> [] then [''forward-zone:'', ''  name: "."''] @
          map (\<lambda>u. ''  forward-addr: '' @ u) dnsServers else [])))]\<close>

end
