(* ===== verification/CKE_Endpoints.thy ===== *)
theory CKE_Endpoints
  imports CKE_Operator CKE_DNS
begin

text \<open>
  The decisions of \<^verbatim>\<open>server/strategy.go\<close> about objects of the API server: Endpoints and EndpointSlices of
  the masters and of etcd, the etcd Service, user-defined and embedded resources, and the DNS
  configuration maps. The lemmas show when nothing is left to do and that nothing is overlooked.
\<close>

section \<open>Queue predicates\<close>

fun reboot_scan :: "string \<Rightarrow> RebootQueueEntry list \<Rightarrow> bool" where
  "reboot_scan node [] = False"
| "reboot_scan node (entry # entries) =
     (if rqNode entry \<noteq> node then reboot_scan node entries
      else rqStatus entry = RebootStatusDraining \<or> rqStatus entry = RebootStatusRebooting)"

definition rebootProcessing :: "ClusterStatus \<Rightarrow> string \<Rightarrow> bool" where
  "rebootProcessing cs node =
     (if \<not> bqsEnabled (csRebootQueue cs) then False
      else reboot_scan node (bqsEntries (csRebootQueue cs)))"

definition rebootNextCandidates :: "ClusterStatus \<Rightarrow> string list" where
  "rebootNextCandidates cs =
     (if \<not> bqsEnabled (csRebootQueue cs) then []
      else map rqNode (bqsNextCandidates (csRebootQueue cs)))"

definition repairProcessing :: "ClusterStatus \<Rightarrow> string \<Rightarrow> bool" where
  "repairProcessing cs nodename \<longleftrightarrow>
     list_ex (\<lambda>entry. IsInCluster entry \<and> reNodename entry = nodename \<and>
       reStatus entry = RepairStatusProcessing \<and>
       (reStepStatus entry = RepairStepStatusDraining \<or> reStepStatus entry = RepairStepStatusWatching))
       (rqsEntries (csRepairQueue cs))"

section \<open>Endpoints and EndpointSlices\<close>

record endpointParams =
  enNamespace :: string
  enName :: string
  enReadyIPs :: "string list"
  enNotReadyIPs :: "string list"
  enPort :: int
  enPortName :: string
  enServiceName :: string

text \<open>\<^verbatim>\<open>for k, v := range expect.Labels { if actual.Labels[k] != v ... }\<close>\<close>

definition labels_differ :: "(string, string) gomap \<Rightarrow> (string, string) gomap \<Rightarrow> bool" where
  "labels_differ expect actual \<longleftrightarrow> list_ex (\<lambda>(k, v). mget_str actual k \<noteq> v) expect"

definition decideEpOp :: "Endpoints \<Rightarrow> Endpoints option \<Rightarrow> Node option \<Rightarrow> operator option option" where
  "decideEpOp expect actual apiServer =
     (case actual of
        None \<Rightarrow> Some (Some (KubeOp (KubeEndpointsCreateOp apiServer expect)))
      | Some act \<Rightarrow>
         (let updateOp = Some (Some (KubeOp (KubeEndpointsUpdateOp apiServer expect))) in
          if length (epsSubsets act) \<noteq> 1 then updateOp
          else if labels_differ (epsLabels expect) (epsLabels act) then updateOp
          else do {
            subset \<leftarrow> go_index (epsSubsets act) 0;
            if length (sbPorts subset) \<noteq> 1 then updateOp
            else do {
              port \<leftarrow> go_index (sbPorts subset) 0;
              esub \<leftarrow> go_index (epsSubsets expect) 0;
              eport \<leftarrow> go_index (sbPorts esub) 0;
              if snd port \<noteq> snd eport then updateOp
              else if length (sbAddresses subset) \<noteq> length (sbAddresses esub)
                   \<or> length (sbNotReadyAddresses subset) \<noteq> length (sbNotReadyAddresses esub)
              then updateOp
              else if list_ex (\<lambda>a. a \<notin> set (sbAddresses esub)) (sbAddresses subset) then updateOp
              else if list_ex (\<lambda>a. a \<notin> set (sbNotReadyAddresses esub)) (sbNotReadyAddresses subset)
              then updateOp
              else Some None } }))"

text \<open>One turn of the loop of \<^verbatim>\<open>decideEpsOp\<close> over the endpoints: whether they differ.\<close>

definition endpoint_differs :: "Endpoint \<Rightarrow> Endpoint \<Rightarrow> bool option" where
  "endpoint_differs actualEP expectEP =
     (case edReady actualEP of
        None \<Rightarrow> Some True
      | Some r \<Rightarrow> do {
          er \<leftarrow> edReady expectEP;
          Some (if r \<noteq> er then True
                else if length (edAddresses actualEP) \<noteq> length (edAddresses expectEP) then True
                else list_ex (\<lambda>a. a \<notin> set (edAddresses expectEP)) (edAddresses actualEP)) })"

fun endpoints_differ :: "Endpoint list \<Rightarrow> Endpoint list \<Rightarrow> bool option" where
  "endpoints_differ [] expect = Some False"
| "endpoints_differ (a # as) expect = do {
     e \<leftarrow> go_index expect 0;
     b \<leftarrow> endpoint_differs a e;
     if b then Some True else endpoints_differ as (tl expect) }"

definition decideEpsOp ::
  "EndpointSlice \<Rightarrow> EndpointSlice option \<Rightarrow> Node option \<Rightarrow> operator option option" where
  "decideEpsOp expect actual apiServer =
     (case actual of
        None \<Rightarrow> Some (Some (KubeOp (KubeEndpointSliceCreateOp apiServer expect)))
      | Some act \<Rightarrow>
         (let updateOp = Some (Some (KubeOp (KubeEndpointSliceUpdateOp apiServer expect))) in
          if labels_differ (slLabels expect) (slLabels act) then updateOp
          else if slAddressType act \<noteq> slAddressType expect then updateOp
          else if length (slEndpoints act) \<noteq> length (slEndpoints expect) then updateOp
          else do {
            d \<leftarrow> endpoints_differ (slEndpoints act) (slEndpoints expect);
            if d then updateOp
            else if length (slPorts act) \<noteq> 1 then updateOp
            else do {
              p \<leftarrow> go_index (slPorts act) 0;
              case fst p of
                None \<Rightarrow> updateOp
              | Some name \<Rightarrow> do {
                  ep \<leftarrow> go_index (slPorts expect) 0;
                  ename \<leftarrow> fst ep;
                  if name \<noteq> ename then updateOp
                  else (case snd p of
                          None \<Rightarrow> updateOp
                        | Some port \<Rightarrow> do {
                            eport \<leftarrow> snd ep;
                            if port \<noteq> eport then updateOp else Some None }) } } }))"

definition expected_ep :: "endpointParams \<Rightarrow> Endpoints" where
  "expected_ep expect =
     \<lparr>epsNamespace = enNamespace expect, epsName = enName expect,
      epsLabels = [(''endpointslice.kubernetes.io/skip-mirror'', ''true'')],
      epsSubsets = [\<lparr>sbAddresses = enReadyIPs expect, sbNotReadyAddresses = enNotReadyIPs expect,
                     sbPorts = [(enPortName expect, enPort expect)]\<rparr>]\<rparr>"

definition ready_map :: "endpointParams \<Rightarrow> string \<Rightarrow> bool" where
  "ready_map expect ip = (ip \<in> set (enReadyIPs expect) \<and> ip \<notin> set (enNotReadyIPs expect))"

definition expected_eps :: "endpointParams \<Rightarrow> EndpointSlice" where
  "expected_eps expect =
     (let addrs = slices_Compact (sort (enReadyIPs expect @ enNotReadyIPs expect)) in
      \<lparr>slNamespace = enNamespace expect, slName = enName expect,
       slLabels = [(''endpointslice.kubernetes.io/managed-by'', ''cke.cybozu.com''),
                   (''kubernetes.io/service-name'', enServiceName expect)],
       slAddressType = ''IPv4'',
       slEndpoints = map (\<lambda>ip. \<lparr>edAddresses = [ip], edReady = Some (ready_map expect ip)\<rparr>) addrs,
       slPorts = [(Some (enPortName expect), Some (enPort expect))]\<rparr>)"

definition opt_list :: "'a option \<Rightarrow> 'a list" where
  "opt_list x = (case x of None \<Rightarrow> [] | Some a \<Rightarrow> [a])"

definition decideEpEpsOps ::
  "endpointParams \<Rightarrow> Endpoints option \<Rightarrow> EndpointSlice option \<Rightarrow> Node option \<Rightarrow> operator list option" where
  "decideEpEpsOps expect actualEP actualEPS apiserver = do {
     epOp \<leftarrow> decideEpOp (expected_ep expect) actualEP apiserver;
     epsOp \<leftarrow> decideEpsOp (expected_eps expect) actualEPS apiserver;
     Some (opt_list epOp @ opt_list epsOp) }"

text \<open>The addresses that \<^verbatim>\<open>masterEndpointOps\<close> reports as ready and as not ready.\<close>

definition master_params :: "ClusterStatus \<Rightarrow> NodeFilter \<Rightarrow> string list \<Rightarrow> endpointParams option" where
  "master_params cs nf marked = do {
     healthy \<leftarrow> APIServerHealthy nf (ControlPlaneNodes nf);
     unhealthy \<leftarrow> APIServerUnhealthy nf (ControlPlaneNodes nf);
     let away = (\<lambda>n. rebootProcessing cs (nAddress n) \<or> nAddress n \<in> set marked);
     Some \<lparr>enNamespace = ''default'', enName = ''kubernetes'',
       enReadyIPs = map nAddress (filter (\<lambda>n. \<not> away n) healthy),
       enNotReadyIPs = map nAddress (filter away healthy) @ map nAddress unhealthy,
       enPort = 6443, enPortName = ''https'', enServiceName = ''kubernetes''\<rparr> }"

definition masterEndpointOps :: "ClusterStatus \<Rightarrow> NodeFilter \<Rightarrow> string list \<Rightarrow> operator list option" where
  "masterEndpointOps cs nf marked = do {
     ep \<leftarrow> master_params cs nf marked;
     api \<leftarrow> HealthyAPIServer nf;
     decideEpEpsOps ep (ksMasterEndpoints (csKubernetes cs)) (ksMasterEndpointSlice (csKubernetes cs)) api }"

definition decideEtcdServiceOps :: "Node option \<Rightarrow> Service option \<Rightarrow> operator option" where
  "decideEtcdServiceOps apiServer svc =
     (case svc of
        None \<Rightarrow> Some (KubeOp (KubeEtcdServiceCreateOp apiServer))
      | Some s \<Rightarrow>
         (let updateOp = Some (KubeOp (KubeEtcdServiceUpdateOp apiServer)) in
          if length (svPorts s) \<noteq> 1 then updateOp
          else if svPorts s ! 0 \<noteq> 2379 then updateOp
          else if svType s \<noteq> ''ClusterIP'' then updateOp
          else if svClusterIP s \<noteq> ''None'' then updateOp
          else None))"

definition etcd_params :: "ClusterStatus \<Rightarrow> NodeFilter \<Rightarrow> string list \<Rightarrow> endpointParams" where
  "etcd_params cs nf marked =
     (let away = (\<lambda>n. rebootProcessing cs (nAddress n) \<or> nAddress n \<in> set marked) in
      \<lparr>enNamespace = ''kube-system'', enName = EtcdEndpointsName,
       enReadyIPs = map nAddress (filter (\<lambda>n. \<not> away n) (ControlPlaneNodes nf)),
       enNotReadyIPs = map nAddress (filter away (ControlPlaneNodes nf)),
       enPort = 2379, enPortName = [], enServiceName = EtcdServiceName\<rparr>)"

definition etcdEndpointOps :: "ClusterStatus \<Rightarrow> NodeFilter \<Rightarrow> string list \<Rightarrow> operator list option" where
  "etcdEndpointOps cs nf marked = do {
     api \<leftarrow> HealthyAPIServer nf;
     ops \<leftarrow> decideEpEpsOps (etcd_params cs nf marked) (ksEtcdEndpoints (csKubernetes cs))
       (ksEtcdEndpointSlice (csKubernetes cs)) api;
     Some (opt_list (decideEtcdServiceOps api (ksEtcdService (csKubernetes cs))) @ ops) }"

section \<open>Resources and DNS\<close>

definition resource_ops ::
  "Node option \<Rightarrow> TrustedRESTMapping list \<Rightarrow> KubernetesClusterStatus \<Rightarrow> bool \<Rightarrow>
   ResourceDefinition list \<Rightarrow> operator list" where
  "resource_ops apiServer trusted ks isReady resources =
     List.map_filter (\<lambda>res.
       if rdKind res = ''Deployment'' \<and> \<not> isReady then None
       else (case map_of (ksResourceStatuses ks) (rdKey res) of
               None \<Rightarrow> Some (KubeOp (ResourceApplyOp apiServer res True trusted))
             | Some st \<Rightarrow> if NeedUpdate res (Some st)
                 then Some (KubeOp (ResourceApplyOp apiServer res (\<not> rtHasBeenSSA st) trusted))
                 else None)) resources"

text \<open>The embedded resources (generated at build time) come as an argument.\<close>

definition decideResourceOps ::
  "ResourceDefinition list \<Rightarrow> Node option \<Rightarrow> TrustedRESTMapping list \<Rightarrow> KubernetesClusterStatus \<Rightarrow>
   ResourceDefinition list \<Rightarrow> bool \<Rightarrow> operator list" where
  "decideResourceOps static apiServer trusted ks resources isReady =
     resource_ops apiServer trusted ks isReady static @ resource_ops apiServer trusted ks isReady resources"

definition desiredDNSServers :: "Cluster \<Rightarrow> KubernetesClusterStatus \<Rightarrow> string list" where
  "desiredDNSServers c ks =
     (case ksDNSService ks of
        None \<Rightarrow> cDNSServers c
      | Some svc \<Rightarrow> if svClusterIP svc = [] \<or> svClusterIP svc = ''None'' then cDNSServers c
                   else [svClusterIP svc])"

definition decideClusterDNSOps ::
  "third_party \<Rightarrow> Node option \<Rightarrow> Cluster \<Rightarrow> KubernetesClusterStatus \<Rightarrow> operator list option" where
  "decideClusterDNSOps T apiServer c ks = do {
     kubeletConfig \<leftarrow> GenerateKubeletConfiguration T (oKubelet (cOptions c)) ''0.0.0.0'' None;
     let d = kcClusterDomain kubeletConfig;
     Some (case cdConfigMap (ksClusterDNS ks) of
       None \<Rightarrow> [KubeOp (ClusterDNSCreateConfigMapOp apiServer d (desiredDNSServers c ks))]
     | Some actual \<Rightarrow>
         (let expected = ClusterDNS_ConfigMap d (desiredDNSServers c ks) in
          if mget_str actual ''Corefile'' \<noteq> mget_str expected ''Corefile''
          then [KubeOp (ClusterDNSUpdateConfigMapOp apiServer expected)] else [])) }"

definition decideNodeDNSOps ::
  "third_party \<Rightarrow> Node option \<Rightarrow> Cluster \<Rightarrow> KubernetesClusterStatus \<Rightarrow> operator list option" where
  "decideNodeDNSOps T apiServer c ks =
     (if length (cdClusterIP (ksClusterDNS ks)) = 0 then Some []
      else do {
        kubeletConfig \<leftarrow> GenerateKubeletConfiguration T (oKubelet (cOptions c)) ''0.0.0.0'' None;
        let d = kcClusterDomain kubeletConfig;
        let ip = cdClusterIP (ksClusterDNS ks);
        Some (case ksNodeDNS ks of
          None \<Rightarrow> [KubeOp (NodeDNSCreateConfigMapOp apiServer ip d (desiredDNSServers c ks))]
        | Some actual \<Rightarrow>
            (let expected = NodeDNS_ConfigMap ip d (desiredDNSServers c ks) True in
             if mget_str actual ''unbound.conf'' \<noteq> mget_str expected ''unbound.conf''
             then [KubeOp (NodeDNSUpdateConfigMapOp apiServer expected)] else [])) })"

section \<open>Lemmas\<close>

lemma HealthyAPIServer_value:
  assumes "covered nf (ControlPlaneNodes nf)"
  shows "HealthyAPIServer nf =
    Some (find (has_status nf (\<lambda>_ st. kcIsHealthy (nsAPIServer st))) (ControlPlaneNodes nf))"
  unfolding HealthyAPIServer_def
  by (rule go_find_total) (use assms in \<open>auto simp: covered_def has_status_def\<close>)

lemma opt_list_empty [simp]: "opt_list x = [] \<longleftrightarrow> x = None"
  by (simp add: opt_list_def split: option.splits)

lemma labels_differ_refl: "wf_map m \<Longrightarrow> \<not> labels_differ m m"
  by (auto simp: labels_differ_def list_ex_iff mget_str_def in_set_map_of)

lemma endpoint_differs_refl:
  "edReady e \<noteq> None \<Longrightarrow> endpoint_differs e e = Some False"
  by (auto simp: endpoint_differs_def list_ex_iff)

lemma endpoints_differ_refl:
  "\<forall>e \<in> set es. edReady e \<noteq> None \<Longrightarrow> endpoints_differ es es = Some False"
proof (induction es)
  case (Cons e es)
  then have "endpoint_differs e e = Some False" by (intro endpoint_differs_refl) simp
  with Cons show ?case by simp
qed simp

lemma decideEpOp_settled: "decideEpOp (expected_ep p) (Some (expected_ep p)) api = Some None"
  by (simp add: decideEpOp_def expected_ep_def labels_differ_def mget_str_def list_ex_iff)

lemma decideEpsOp_settled: "decideEpsOp (expected_eps p) (Some (expected_eps p)) api = Some None"
proof -
  have "\<not> labels_differ (slLabels (expected_eps p)) (slLabels (expected_eps p))"
    by (rule labels_differ_refl) (simp add: expected_eps_def Let_def wf_map_def)
  moreover have "endpoints_differ (slEndpoints (expected_eps p)) (slEndpoints (expected_eps p)) = Some False"
    by (rule endpoints_differ_refl) (simp add: expected_eps_def Let_def)
  moreover have "slPorts (expected_eps p) = [(Some (enPortName p), Some (enPort p))]"
    by (simp add: expected_eps_def Let_def)
  ultimately show ?thesis
    by (simp add: decideEpsOp_def Let_def)
qed

lemma decideEpOp_None:
  assumes "decideEpOp (expected_ep p) actual api = Some None"
  obtains ep sub where "actual = Some ep" "epsSubsets ep = [sub]"
    "length (sbAddresses sub) = length (enReadyIPs p)" "set (sbAddresses sub) \<subseteq> set (enReadyIPs p)"
    "length (sbNotReadyAddresses sub) = length (enNotReadyIPs p)"
    "set (sbNotReadyAddresses sub) \<subseteq> set (enNotReadyIPs p)"
    "map snd (sbPorts sub) = [enPort p]"
    "mget_str (epsLabels ep) ''endpointslice.kubernetes.io/skip-mirror'' = ''true''"
proof -
  from assms obtain ep where ep: "actual = Some ep"
    by (auto simp: decideEpOp_def split: option.splits)
  with assms have len: "length (epsSubsets ep) = 1"
    by (auto simp: decideEpOp_def Let_def split: if_splits)
  then obtain sub where sub: "epsSubsets ep = [sub]"
    by (cases "epsSubsets ep") auto
  with assms ep have ports: "length (sbPorts sub) = 1"
    by (auto simp: decideEpOp_def Let_def split: if_splits)
  then obtain q where q: "sbPorts sub = [q]" by (cases "sbPorts sub") auto
  from assms ep sub q show ?thesis
    by (intro that [of ep sub])
      (auto simp: decideEpOp_def Let_def expected_ep_def labels_differ_def list_ex_iff split: if_splits)
qed

lemma endpoints_differ_False:
  "endpoints_differ as (map (\<lambda>ip. \<lparr>edAddresses = [ip], edReady = Some (f ip)\<rparr>) ips) = Some False \<Longrightarrow>
     length as = length ips \<Longrightarrow>
     map edAddresses as = map (\<lambda>ip. [ip]) ips \<and> map edReady as = map (\<lambda>ip. Some (f ip)) ips"
proof (induction as arbitrary: ips)
  case (Cons a as)
  then obtain ip ips' where ips: "ips = ip # ips'" by (cases ips) auto
  with Cons.prems have d: "endpoint_differs a \<lparr>edAddresses = [ip], edReady = Some (f ip)\<rparr> = Some False"
    and rest: "endpoints_differ as (map (\<lambda>ip. \<lparr>edAddresses = [ip], edReady = Some (f ip)\<rparr>) ips') = Some False"
    by (auto split: if_splits)
  from d have "edReady a = Some (f ip)" "length (edAddresses a) = 1" "set (edAddresses a) \<subseteq> {ip}"
    by (auto simp: endpoint_differs_def list_ex_iff split: option.splits if_splits)
  moreover from this have "edAddresses a = [ip]" by (cases "edAddresses a") auto
  ultimately show ?case using Cons.IH [OF rest] Cons.prems ips by simp
qed simp

lemma decideEpsOp_None:
  assumes "decideEpsOp (expected_eps p) actual api = Some None"
  obtains eps where "actual = Some eps"
    "map edAddresses (slEndpoints eps) = map edAddresses (slEndpoints (expected_eps p))"
    "map edReady (slEndpoints eps) = map edReady (slEndpoints (expected_eps p))"
    "slPorts eps = slPorts (expected_eps p)" "slAddressType eps = slAddressType (expected_eps p)"
    "\<not> labels_differ (slLabels (expected_eps p)) (slLabels eps)"
proof -
  from assms obtain eps where eps: "actual = Some eps"
    by (auto simp: decideEpsOp_def split: option.splits)
  let ?e = "expected_eps p"
  have ports: "slPorts ?e = [(Some (enPortName p), Some (enPort p))]"
    by (simp add: expected_eps_def Let_def)
  from assms eps have c: "\<not> labels_differ (slLabels ?e) (slLabels eps)" "slAddressType eps = slAddressType ?e"
      "length (slEndpoints eps) = length (slEndpoints ?e)"
      "endpoints_differ (slEndpoints eps) (slEndpoints ?e) = Some False" "length (slPorts eps) = 1"
    by (auto simp: decideEpsOp_def Let_def split: if_splits)
  then obtain q where q: "slPorts eps = [q]" by (cases "slPorts eps") auto
  with assms eps c ports have "q = (Some (enPortName p), Some (enPort p))"
    by (cases q) (auto simp: decideEpsOp_def Let_def split: if_splits option.splits)
  moreover have "map edAddresses (slEndpoints eps) = map edAddresses (slEndpoints ?e) \<and>
      map edReady (slEndpoints eps) = map edReady (slEndpoints ?e)"
    using endpoints_differ_False [of "slEndpoints eps" "ready_map p"
        "slices_Compact (sort (enReadyIPs p @ enNotReadyIPs p))"] c(3,4)
    by (simp add: expected_eps_def Let_def comp_def)
  ultimately show ?thesis
    using that eps c q ports by simp
qed

lemma endpoints_differ_total:
  "length as = length es \<Longrightarrow> \<forall>e \<in> set es. edReady e \<noteq> None \<Longrightarrow> \<exists>b. endpoints_differ as es = Some b"
proof (induction as arbitrary: es)
  case (Cons a as)
  then obtain e es' where es: "es = e # es'" by (cases es) auto
  with Cons.prems obtain r where "edReady e = Some r" by auto
  then obtain b where b: "endpoint_differs a e = Some b"
    by (cases "edReady a") (simp_all add: endpoint_differs_def)
  show ?case
  proof (cases b)
    case True
    with b es have "endpoints_differ (a # as) es = Some True" by simp
    then show ?thesis by blast
  next
    case False
    moreover obtain b' where "endpoints_differ as es' = Some b'"
      using Cons.IH [of es'] Cons.prems es by auto
    ultimately show ?thesis using b es by simp
  qed
qed (auto intro: exI [of _ False])

lemma decideEpOp_total: "\<exists>r. decideEpOp (expected_ep p) actual api = Some r"
proof (cases actual)
  case (Some ep)
  show ?thesis
  proof (cases "length (epsSubsets ep) = 1")
    case True
    then obtain sub where sub: "epsSubsets ep = [sub]" by (cases "epsSubsets ep") auto
    show ?thesis
    proof (cases "length (sbPorts sub) = 1")
      case True
      then obtain q where "sbPorts sub = [q]" by (cases "sbPorts sub") auto
      with Some sub show ?thesis by (simp add: decideEpOp_def Let_def expected_ep_def)
    qed (simp add: Some sub decideEpOp_def Let_def)
  qed (simp add: Some decideEpOp_def Let_def)
qed (simp add: decideEpOp_def)

lemma decideEpsOp_total: "\<exists>r. decideEpsOp (expected_eps p) actual api = Some r"
proof (cases actual)
  case (Some eps)
  have ports: "slPorts (expected_eps p) = [(Some (enPortName p), Some (enPort p))]"
    by (simp add: expected_eps_def Let_def)
  show ?thesis
  proof (cases "length (slEndpoints eps) = length (slEndpoints (expected_eps p))")
    case True
    moreover have "\<forall>e \<in> set (slEndpoints (expected_eps p)). edReady e \<noteq> None"
      by (simp add: expected_eps_def Let_def)
    ultimately obtain b where b: "endpoints_differ (slEndpoints eps) (slEndpoints (expected_eps p)) = Some b"
      using endpoints_differ_total by blast
    show ?thesis
    proof (cases "length (slPorts eps) = 1")
      case True
      then obtain nm pt where "slPorts eps = [(nm, pt)]" by (cases "slPorts eps") auto
      with b ports Some show ?thesis
        by (cases nm; cases pt) (simp_all add: decideEpsOp_def Let_def)
    qed (simp add: Some b decideEpsOp_def Let_def)
  qed (simp add: Some decideEpsOp_def Let_def)
qed (simp add: decideEpsOp_def)

lemma decideEpEpsOps_total: "\<exists>ops. decideEpEpsOps p ep eps api = Some ops"
  using decideEpOp_total [of p ep api] decideEpsOp_total [of p eps api]
  by (auto simp: decideEpEpsOps_def)

lemma decideEpEpsOps_Nil:
  "decideEpEpsOps p ep eps api = Some [] \<longleftrightarrow>
     decideEpOp (expected_ep p) ep api = Some None \<and> decideEpsOp (expected_eps p) eps api = Some None"
  by (auto simp: decideEpEpsOps_def)

lemma set_eq_by_length:
  assumes "length xs = length ys" "set xs \<subseteq> set ys" "distinct xs"
  shows "set xs = set ys"
proof (rule card_subset_eq)
  show "card (set xs) = card (set ys)"
  proof (rule antisym)
    show "card (set xs) \<le> card (set ys)" using assms(2) by (simp add: card_mono)
    show "card (set ys) \<le> card (set xs)"
      using assms by (simp add: distinct_card card_length)
  qed
qed (use assms in simp_all)

lemma slice_endpoints_unique:
  fixes es es' :: "Endpoint list"
  shows "map edAddresses es = map edAddresses es' \<Longrightarrow> map edReady es = map edReady es' \<Longrightarrow> es = es'"
proof (induction es arbitrary: es')
  case (Cons e es)
  then obtain e' es'' where "es' = e' # es''" by (cases es') auto
  with Cons show ?case by (cases e; cases e') simp
qed simp

section \<open>Properties\<close>

text \<open>
  C22. Once the Endpoints and the EndpointSlice that CKE expects are stored, the decision asks for
  nothing more: the write of the update commands settles the object, for the masters and for etcd.
\<close>
theorem endpoints_settle:
  "decideEpEpsOps p (Some (expected_ep p)) (Some (expected_eps p)) api = Some []"
  by (simp add: decideEpEpsOps_Nil decideEpOp_settled decideEpsOp_settled)

text \<open>
  C23. When the decision asks for nothing, the stored objects are right: the EndpointSlice holds exactly
  the expected addresses, readiness and port, and the Endpoints object holds the ready and the
  not-ready addresses as sets (its lists are compared by length and membership, which is exact when
  no stored address is repeated).
\<close>
theorem endpoints_none_overlooked:
  assumes none: "decideEpEpsOps p ep eps api = Some []"
    and unrepeated: "\<And>e sub. ep = Some e \<Longrightarrow> sub \<in> set (epsSubsets e) \<Longrightarrow>
      distinct (sbAddresses sub) \<and> distinct (sbNotReadyAddresses sub)"
  shows "(\<exists>e sub. ep = Some e \<and> epsSubsets e = [sub] \<and> set (sbAddresses sub) = set (enReadyIPs p) \<and>
            set (sbNotReadyAddresses sub) = set (enNotReadyIPs p) \<and> map snd (sbPorts sub) = [enPort p]) \<and>
         (\<exists>s. eps = Some s \<and> slEndpoints s = slEndpoints (expected_eps p) \<and>
            slPorts s = slPorts (expected_eps p) \<and> slAddressType s = ''IPv4'')"
proof (intro conjI)
  from none have d: "decideEpOp (expected_ep p) ep api = Some None"
      "decideEpsOp (expected_eps p) eps api = Some None"
    by (simp_all add: decideEpEpsOps_Nil)
  from d(1) obtain e sub where e: "ep = Some e" "epsSubsets e = [sub]"
    "length (sbAddresses sub) = length (enReadyIPs p)" "set (sbAddresses sub) \<subseteq> set (enReadyIPs p)"
    "length (sbNotReadyAddresses sub) = length (enNotReadyIPs p)"
    "set (sbNotReadyAddresses sub) \<subseteq> set (enNotReadyIPs p)" "map snd (sbPorts sub) = [enPort p]"
    by (rule decideEpOp_None)
  have d': "distinct (sbAddresses sub)" "distinct (sbNotReadyAddresses sub)"
    using unrepeated e(1,2) by auto
  show "\<exists>e sub. ep = Some e \<and> epsSubsets e = [sub] \<and> set (sbAddresses sub) = set (enReadyIPs p) \<and>
      set (sbNotReadyAddresses sub) = set (enNotReadyIPs p) \<and> map snd (sbPorts sub) = [enPort p]"
    using e(1,2,7) set_eq_by_length [OF e(3,4) d'(1)] set_eq_by_length [OF e(5,6) d'(2)]
    by (intro exI conjI)
  from d(2) obtain s where s: "eps = Some s"
    "map edAddresses (slEndpoints s) = map edAddresses (slEndpoints (expected_eps p))"
    "map edReady (slEndpoints s) = map edReady (slEndpoints (expected_eps p))"
    "slPorts s = slPorts (expected_eps p)" "slAddressType s = slAddressType (expected_eps p)"
    by (rule decideEpsOp_None)
  have "slAddressType (expected_eps p) = ''IPv4''"
    by (simp add: expected_eps_def Let_def)
  with s(1,4,5) slice_endpoints_unique [OF s(2,3)]
  show "\<exists>s. eps = Some s \<and> slEndpoints s = slEndpoints (expected_eps p) \<and>
      slPorts s = slPorts (expected_eps p) \<and> slAddressType s = ''IPv4''"
    by simp
qed

definition sample_endpoint_params :: endpointParams where
  "sample_endpoint_params = \<lparr>enNamespace = ''default'', enName = ''kubernetes'',
     enReadyIPs = [''10.0.0.1'', ''10.0.0.2''], enNotReadyIPs = [''10.0.0.3''], enPort = 6443,
     enPortName = ''https'', enServiceName = ''kubernetes''\<rparr>"

theorem endpoints_none_overlooked_witness:
  "(\<exists>e sub. Some (expected_ep sample_endpoint_params) = Some e \<and> epsSubsets e = [sub] \<and>
      set (sbAddresses sub) = {''10.0.0.1'', ''10.0.0.2''})"
  using endpoints_none_overlooked [of sample_endpoint_params "Some (expected_ep sample_endpoint_params)"
      "Some (expected_eps sample_endpoint_params)" None]
  by (simp add: decideEpEpsOps_Nil decideEpOp_settled decideEpsOp_settled expected_ep_def
      sample_endpoint_params_def)

lemma master_params_mem:
  assumes "master_params cs nf marked = Some p"
  shows "set (enReadyIPs p) = nAddress ` {n \<in> set (ControlPlaneNodes nf).
      has_status nf (\<lambda>_ st. kcIsHealthy (nsAPIServer st)) n \<and>
      \<not> rebootProcessing cs (nAddress n) \<and> nAddress n \<notin> set marked}"
    and "set (enNotReadyIPs p) = nAddress ` {n \<in> set (ControlPlaneNodes nf).
      has_status nf (\<lambda>_ st. \<not> kcIsHealthy (nsAPIServer st)) n \<or>
      has_status nf (\<lambda>_ st. kcIsHealthy (nsAPIServer st)) n \<and>
        (rebootProcessing cs (nAddress n) \<or> nAddress n \<in> set marked)}"
proof -
  from assms obtain h u where h: "APIServerHealthy nf (ControlPlaneNodes nf) = Some h"
    and u: "APIServerUnhealthy nf (ControlPlaneNodes nf) = Some u"
    and p: "p = \<lparr>enNamespace = ''default'', enName = ''kubernetes'',
       enReadyIPs = map nAddress (filter (\<lambda>n. \<not> (rebootProcessing cs (nAddress n) \<or> nAddress n \<in> set marked)) h),
       enNotReadyIPs = map nAddress (filter (\<lambda>n. rebootProcessing cs (nAddress n) \<or> nAddress n \<in> set marked) h)
         @ map nAddress u,
       enPort = 6443, enPortName = ''https'', enServiceName = ''kubernetes''\<rparr>"
    by (auto simp: master_params_def Let_def)
  note hs = apiserver_healthy.filt_sound [OF h] and us = apiserver_unhealthy.filt_sound [OF u]
  show "set (enReadyIPs p) = nAddress ` {n \<in> set (ControlPlaneNodes nf).
      has_status nf (\<lambda>_ st. kcIsHealthy (nsAPIServer st)) n \<and>
      \<not> rebootProcessing cs (nAddress n) \<and> nAddress n \<notin> set marked}"
    unfolding p hs by auto
  show "set (enNotReadyIPs p) = nAddress ` {n \<in> set (ControlPlaneNodes nf).
      has_status nf (\<lambda>_ st. \<not> kcIsHealthy (nsAPIServer st)) n \<or>
      has_status nf (\<lambda>_ st. kcIsHealthy (nsAPIServer st)) n \<and>
        (rebootProcessing cs (nAddress n) \<or> nAddress n \<in> set marked)}"
    unfolding p hs us by auto
qed

text \<open>
  C24. The master endpoints cover the control plane: when every control plane has a status and their
  addresses are distinct, the addresses advertised as ready and as not ready partition the control
  plane addresses, and no address is advertised as ready whose API server is unhealthy, that is being
  drained or rebooted, or that the caller marked as about to go away.
\<close>
theorem master_endpoints_partition:
  assumes cov: "covered nf (ControlPlaneNodes nf)"
    and inj: "distinct (map nAddress (ControlPlaneNodes nf))"
  shows "\<exists>p. master_params cs nf marked = Some p \<and>
     set (enReadyIPs p) \<union> set (enNotReadyIPs p) = nAddress ` set (ControlPlaneNodes nf) \<and>
     set (enReadyIPs p) \<inter> set (enNotReadyIPs p) = {} \<and>
     (\<forall>ip \<in> set (enReadyIPs p). \<not> rebootProcessing cs ip \<and> ip \<notin> set marked) \<and>
     (\<forall>n \<in> set (ControlPlaneNodes nf). nAddress n \<in> set (enReadyIPs p) \<longrightarrow>
        (\<exists>st. nodeStatus nf n = Some st \<and> kcIsHealthy (nsAPIServer st)))"
proof -
  let ?cp = "ControlPlaneNodes nf"
  obtain p where p: "master_params cs nf marked = Some p"
    using apiserver_healthy.filt_defined [OF TrueI cov] apiserver_unhealthy.filt_defined [OF TrueI cov]
    by (auto simp: master_params_def Let_def)
  note mem = master_params_mem [OF p]
  have inj': "nAddress a = nAddress b \<Longrightarrow> a \<in> set ?cp \<Longrightarrow> b \<in> set ?cp \<Longrightarrow> a = b" for a b
    using inj by (auto simp: distinct_map inj_on_def)
  have status: "\<exists>st. nodeStatus nf n = Some st" if "n \<in> set ?cp" for n
    using cov that by (auto simp: covered_def)
  have "set (enReadyIPs p) \<union> set (enNotReadyIPs p) = nAddress ` set ?cp"
    unfolding mem has_status_def using status by blast
  moreover have "set (enReadyIPs p) \<inter> set (enNotReadyIPs p) = {}"
    unfolding mem has_status_def by (auto dest!: inj')
  moreover have "\<forall>ip \<in> set (enReadyIPs p). \<not> rebootProcessing cs ip \<and> ip \<notin> set marked"
    unfolding mem by auto
  moreover have "\<forall>n \<in> set ?cp. nAddress n \<in> set (enReadyIPs p) \<longrightarrow>
      (\<exists>st. nodeStatus nf n = Some st \<and> kcIsHealthy (nsAPIServer st))"
    unfolding mem has_status_def by (auto dest!: inj')
  ultimately show ?thesis using p by blast
qed

lemma covered_sample:
  "covered (NewNodeFilter (sample_cluster ns) (sample_status (sample_cluster ns))) ns"
  by (auto simp: covered_def nodeStatus_def NewNodeFilter_def sample_status_def sample_cluster_def
      map_of_eq_None_iff image_image)

theorem master_endpoints_partition_witness:
  "\<exists>p. master_params status1 (NewNodeFilter cluster1 status1) [''10.0.0.2''] = Some p \<and>
     ''10.0.0.2'' \<notin> set (enReadyIPs p)"
proof -
  let ?nf = "NewNodeFilter cluster1 status1"
  have "covered ?nf [cp1, cp2, cp3, worker1]"
    unfolding cluster1_def status1_def by (rule covered_sample)
  then have "covered ?nf (ControlPlaneNodes ?nf)"
    by (rule covered_subset) (auto simp: ControlPlaneNodes_def NewNodeFilter_def cluster1_def sample_cluster_def)
  moreover have "distinct (map nAddress (ControlPlaneNodes ?nf))"
    by (simp add: ControlPlaneNodes_def NewNodeFilter_def cluster1_def sample_cluster_def sample_node_def
        cp1_def cp2_def cp3_def worker1_def)
  ultimately show ?thesis
    using master_endpoints_partition [of ?nf status1 "[''10.0.0.2'']"] by auto
qed

end
