(* ===== verification/CKE_Repair.thy ===== *)
theory CKE_Repair
  imports CKE_Endpoints
begin

text \<open>
  The repair decision of \<^verbatim>\<open>server/strategy.go\<close>: \<^verbatim>\<open>repairOps\<close> classifies the queue, orders the entries
  (being processed before queued, API servers first) and runs the current step of each entry within
  the concurrency limits. The source mutates an entry only before it hands it to an operator in the
  same turn, so entries are values here. \<^verbatim>\<open>time.Now()\<close> is the argument \<open>now\<close>.

  The lemmas show the limits, when a repair command may run on a machine, and one rule of the comment
  in the source that the code does not enforce.
\<close>

section \<open>Classification\<close>

datatype repair_class =
    Dequeued | Finished | Repaired | QueuedApi | QueuedOther | ProcessingApi | ProcessingOther | Ignored

definition is_apiserver :: "NodeFilter \<Rightarrow> string \<Rightarrow> bool" where
  "is_apiserver nf address \<longleftrightarrow> address \<in> nAddress ` set (ControlPlaneNodes nf)"

text \<open>One turn of the first loop.\<close>

definition classify :: "NodeFilter \<Rightarrow> RepairQueueStatus \<Rightarrow> int \<Rightarrow> RepairQueueEntry \<Rightarrow> repair_class" where
  "classify nf rqs now entry =
     (if reDeleted entry then Dequeued
      else if HasFinished entry then Finished
      else if mget_bool (rqsRepairCompleted rqs) (reAddress entry) then Repaired
      else if reStatus entry = RepairStatusQueued
      then (if is_apiserver nf (reAddress entry) then QueuedApi else QueuedOther)
      else if reStatus entry = RepairStatusProcessing
      then (if reStepStatus entry = RepairStepStatusWaiting \<and> now < reDrainBackOffExpire entry then Ignored
            else if is_apiserver nf (reAddress entry) then ProcessingApi else ProcessingOther)
      else Ignored)"

definition settle_ops ::
  "Cluster \<Rightarrow> NodeFilter \<Rightarrow> RepairQueueStatus \<Rightarrow> int \<Rightarrow> RepairQueueEntry list \<Rightarrow> repair_op list" where
  "settle_ops c nf rqs now entries =
     List.map_filter (\<lambda>entry.
       case classify nf rqs now entry of
         Dequeued \<Rightarrow> Some (RepairDequeueOp entry)
       | Repaired \<Rightarrow> Some (RepairFinishOp entry True c)
       | _ \<Rightarrow> None) entries"

definition sortedEntries ::
  "NodeFilter \<Rightarrow> RepairQueueStatus \<Rightarrow> int \<Rightarrow> RepairQueueEntry list \<Rightarrow> RepairQueueEntry list" where
  "sortedEntries nf rqs now entries =
     (let having = (\<lambda>k. filter (\<lambda>entry. classify nf rqs now entry = k) entries) in
      having ProcessingApi @ having ProcessingOther @ having QueuedApi @ having QueuedOther)"

section \<open>Running a step\<close>

definition evictionStartLimit :: "Cluster \<Rightarrow> int \<Rightarrow> int" where
  "evictionStartLimit c now =
     now + seconds (- (case rpEvictionTimeoutSeconds (cRepair c) of
                         None \<Rightarrow> DefaultRepairEvictionTimeoutSeconds | Some t \<Rightarrow> t))"

definition watch_expired :: "RepairStep \<Rightarrow> RepairQueueEntry \<Rightarrow> int \<Rightarrow> bool" where
  "watch_expired step entry now =
     (case rsWatchSeconds step of
        None \<Rightarrow> True
      | Some w \<Rightarrow> reLastTransitionTime entry + seconds w < now)"

text \<open>
  The block at the label \<^verbatim>\<open>RUN_STEP\<close>: the operators for one entry and whether the phase is a repair
  phase. The jump back is the recursive call; the entry is then waiting, so there is only one.
\<close>

function run_step ::
  "Cluster \<Rightarrow> NodeFilter \<Rightarrow> RepairQueueStatus \<Rightarrow> int \<Rightarrow> RepairQueueEntry \<Rightarrow> (repair_op list \<times> bool) option" where
  "run_step c nf rqs now entry =
     (case GetCurrentRepairStep c entry of
        None \<Rightarrow> None
      | Some (Inl e) \<Rightarrow>
          if e \<noteq> ErrRepairStepOutOfRange then Some ([], False)
          else Some ([RepairFinishOp entry False c], False)
      | Some (Inr step) \<Rightarrow>
          if reStepStatus entry = RepairStepStatusWaiting then
            (if \<not> rqsEnabled rqs then Some ([], True)
             else if \<not> (rsNeedDrain step \<and> IsInCluster entry)
             then Some ([RepairExecuteOp entry step c], True)
             else (case HealthyAPIServer nf of
                     None \<Rightarrow> None
                   | Some api \<Rightarrow> Some ([RepairDrainStartOp api entry (cRepair c)], True)))
          else if reStepStatus entry = RepairStepStatusDraining then
            (if \<not> rqsEnabled rqs then Some ([RepairDrainTimeoutOp entry], True)
             else if mget_bool (rqsDrainCompleted rqs) (reAddress entry)
             then Some ([RepairExecuteOp entry step c], True)
             else if reLastTransitionTime entry < evictionStartLimit c now
             then Some ([RepairDrainTimeoutOp entry], True)
             else Some ([], True))
          else if reStepStatus entry = RepairStepStatusWatching then
            (if watch_expired step entry now
             then (case run_step c nf rqs now
                          (entry\<lparr>reStep := reStep entry + 1, reStepStatus := RepairStepStatusWaiting\<rparr>) of
                     None \<Rightarrow> None
                   | Some r \<Rightarrow> Some (fst r, True))
             else Some ([], True))
          else Some ([], True))"
  by pat_completeness auto
termination
  by (relation "measure (\<lambda>(c, nf, rqs, now, entry).
        if reStepStatus entry = RepairStepStatusWatching then 1 else 0)") auto

declare run_step.simps [simp del]

section \<open>The decision\<close>

definition maxConcurrentRepairs :: "Cluster \<Rightarrow> int" where
  "maxConcurrentRepairs c =
     (case rpMaxConcurrentRepairs (cRepair c) of None \<Rightarrow> DefaultMaxConcurrentRepairs | Some m \<Rightarrow> m)"

text \<open>The keys of the map \<^verbatim>\<open>rebootingApiServers\<close>.\<close>

definition rebootingApiServers :: "ClusterStatus \<Rightarrow> NodeFilter \<Rightarrow> string list" where
  "rebootingApiServers cs nf =
     remdups (map nAddress (filter (\<lambda>cp. rebootProcessing cs (Nodename cp)) (ControlPlaneNodes nf)))"

definition api_blocked :: "string list \<Rightarrow> int \<Rightarrow> string \<Rightarrow> bool" where
  "api_blocked rebooting concurrentApi address \<longleftrightarrow>
     concurrentApi \<ge> 1 \<or> length rebooting \<ge> 2 \<or> length rebooting = 1 \<and> address \<notin> set rebooting"

text \<open>
  The second loop. The map \<^verbatim>\<open>processed\<close> is created empty and never written in the source; it is an
  argument that the loop passes on unchanged.
\<close>

fun repair_loop ::
  "Cluster \<Rightarrow> NodeFilter \<Rightarrow> RepairQueueStatus \<Rightarrow> int \<Rightarrow> string list \<Rightarrow> string list \<Rightarrow> int \<Rightarrow> int \<Rightarrow>
   RepairQueueEntry list \<Rightarrow> (repair_op list \<times> bool) option" where
  "repair_loop c nf rqs now rebooting processed apis repairs [] = Some ([], False)"
| "repair_loop c nf rqs now rebooting processed apis repairs (entry # entries) =
     (if repairs \<ge> maxConcurrentRepairs c then Some ([], False)
      else if reAddress entry \<in> set processed
      then repair_loop c nf rqs now rebooting processed apis repairs entries
      else if is_apiserver nf (reAddress entry) \<and> api_blocked rebooting apis (reAddress entry)
      then repair_loop c nf rqs now rebooting processed apis repairs entries
      else do {
        r \<leftarrow> run_step c nf rqs now entry;
        rest \<leftarrow> repair_loop c nf rqs now rebooting processed
          (if is_apiserver nf (reAddress entry) then apis + 1 else apis) (repairs + 1) entries;
        Some (fst r @ fst rest, snd r \<or> snd rest) })"

definition repairOps ::
  "Cluster \<Rightarrow> ClusterStatus \<Rightarrow> NodeFilter \<Rightarrow> int \<Rightarrow> (operator list \<times> bool) option" where
  "repairOps c cs nf now = do {
     let rqs = csRepairQueue cs;
     let settled = settle_ops c nf rqs now (rqsEntries rqs);
     r \<leftarrow> repair_loop c nf rqs now (rebootingApiServers cs nf) [] 0 0
            (sortedEntries nf rqs now (rqsEntries rqs));
     let ops = settled @ fst r;
     Some (map RepairOp ops, snd r \<or> length ops > 0) }"

section \<open>Lemmas\<close>

fun op_entry :: "repair_op \<Rightarrow> RepairQueueEntry" where
  "op_entry (RepairDequeueOp e) = e"
| "op_entry (RepairFinishOp e s c) = e"
| "op_entry (RepairExecuteOp e st c) = e"
| "op_entry (RepairDrainStartOp api e cfg) = e"
| "op_entry (RepairDrainTimeoutOp e) = e"

text \<open>What a step may ask for: at most one operator, for the entry it is given.\<close>

definition step_ok :: "Cluster \<Rightarrow> RepairQueueStatus \<Rightarrow> RepairQueueEntry \<Rightarrow> repair_op \<Rightarrow> bool" where
  "step_ok c rqs entry op \<longleftrightarrow>
     reAddress (op_entry op) = reAddress entry \<and>
     (case op of
        RepairDequeueOp e \<Rightarrow> False
      | RepairFinishOp e s c' \<Rightarrow> \<not> s
      | RepairExecuteOp e st c' \<Rightarrow> rqsEnabled rqs \<and> c' = c \<and> GetCurrentRepairStep c e = Some (Inr st) \<and>
          (rsNeedDrain st \<and> IsInCluster e \<longrightarrow>
             reStepStatus e = RepairStepStatusDraining \<and> mget_bool (rqsDrainCompleted rqs) (reAddress e))
      | RepairDrainStartOp api e cfg \<Rightarrow> rqsEnabled rqs \<and> IsInCluster e
      | RepairDrainTimeoutOp e \<Rightarrow> reStepStatus e = RepairStepStatusDraining)"

lemma IsInCluster_update [simp]:
  "IsInCluster (e\<lparr>reStep := n, reStepStatus := s\<rparr>) = IsInCluster e"
  by (simp add: IsInCluster_def)

text \<open>The effect of a step on an entry that is not watched, without the jump.\<close>

lemma run_step_settled:
  assumes "run_step c nf rqs now entry = Some (ops, ph)"
    and "reStepStatus entry \<noteq> RepairStepStatusWatching"
  shows "length ops \<le> 1 \<and> (\<forall>op \<in> set ops. step_ok c rqs entry op)"
  using assms
  by (subst (asm) run_step.simps)
    (auto simp: step_ok_def split: option.splits sum.splits if_splits)

lemma run_step_watched:
  assumes "run_step c nf rqs now entry = Some (ops, ph)"
    and "reStepStatus entry = RepairStepStatusWatching"
  obtains "length ops \<le> 1" "\<forall>op \<in> set ops. \<exists>c'. op = RepairFinishOp entry False c'"
  | ph' where "run_step c nf rqs now
      (entry\<lparr>reStep := reStep entry + 1, reStepStatus := RepairStepStatusWaiting\<rparr>) = Some (ops, ph')"
  using assms
  by (subst (asm) run_step.simps) (fastforce split: option.splits sum.splits if_splits)

lemma run_step_ok:
  assumes "run_step c nf rqs now entry = Some (ops, ph)"
  shows "length ops \<le> 1 \<and> (\<forall>op \<in> set ops. step_ok c rqs entry op)"
proof (cases "reStepStatus entry = RepairStepStatusWatching")
  case False
  with assms show ?thesis by (rule run_step_settled)
next
  case True
  from assms True show ?thesis
  proof (cases rule: run_step_watched)
    case 1
    then show ?thesis by (auto simp: step_ok_def)
  next
    case (2 ph')
    then show ?thesis using run_step_settled [OF 2] by (auto simp: step_ok_def)
  qed
qed

lemma run_step_total:
  assumes "0 \<le> reStep entry" and "\<exists>api. HealthyAPIServer nf = Some api"
  shows "\<exists>r. run_step c nf rqs now entry = Some r"
proof -
  have step: "\<exists>r. GetCurrentRepairStep c e = Some r" if "0 \<le> reStep e" for e
    using that by (auto simp: GetCurrentRepairStep_def split: sum.splits)
  have waiting: "\<exists>r. run_step c nf rqs now e = Some r"
    if "0 \<le> reStep e" "reStepStatus e \<noteq> RepairStepStatusWatching" for e
    using step [OF that(1)] that(2) assms(2)
    by (subst run_step.simps) (auto split: sum.splits)
  obtain r where "run_step c nf rqs now
      (entry\<lparr>reStep := reStep entry + 1, reStepStatus := RepairStepStatusWaiting\<rparr>) = Some r"
    using waiting [of "entry\<lparr>reStep := reStep entry + 1, reStepStatus := RepairStepStatusWaiting\<rparr>"] assms(1)
    by auto
  then show ?thesis
    using step [OF assms(1)] waiting [OF assms(1)]
    by (cases "reStepStatus entry = RepairStepStatusWatching")
      (subst run_step.simps, auto split: sum.splits)
qed

definition limited :: "repair_op \<Rightarrow> bool" where
  "limited op \<longleftrightarrow> (case op of RepairDequeueOp e \<Rightarrow> False | RepairFinishOp e s c \<Rightarrow> \<not> s | _ \<Rightarrow> True)"

lemma step_ok_limited: "step_ok c rqs entry op \<Longrightarrow> limited op"
  by (auto simp: step_ok_def limited_def split: repair_op.splits)

lemma settle_not_limited: "op \<in> set (settle_ops c nf rqs now es) \<Longrightarrow> \<not> limited op"
  by (auto simp: settle_ops_def map_filter_def limited_def split: repair_class.splits)

text \<open>The loop, by induction on the entries: what every operator satisfies, and how many there are.\<close>

lemma repair_loop_ok:
  "repair_loop c nf rqs now reb pr apis repairs es = Some (ops, ph) \<Longrightarrow> op \<in> set ops \<Longrightarrow>
     \<exists>e \<in> set es. step_ok c rqs e op"
proof (induction c nf rqs now reb pr apis repairs es arbitrary: ops ph rule: repair_loop.induct)
  case (2 c nf rqs now reb pr apis repairs entry es)
  then show ?case
    by (fastforce split: if_splits dest: run_step_ok)
qed simp

lemma repair_loop_cases:
  assumes "repair_loop c nf rqs now reb pr apis repairs (entry # es) = Some (ops, ph)"
  obtains (stop) "repairs \<ge> maxConcurrentRepairs c" "ops = []" "\<not> ph"
  | (skip) "repairs < maxConcurrentRepairs c"
      "reAddress entry \<in> set pr \<or> is_apiserver nf (reAddress entry) \<and> api_blocked reb apis (reAddress entry)"
      "repair_loop c nf rqs now reb pr apis repairs es = Some (ops, ph)"
  | (run) rops rph sops sph where "repairs < maxConcurrentRepairs c" "reAddress entry \<notin> set pr"
      "\<not> (is_apiserver nf (reAddress entry) \<and> api_blocked reb apis (reAddress entry))"
      "run_step c nf rqs now entry = Some (rops, rph)"
      "repair_loop c nf rqs now reb pr (if is_apiserver nf (reAddress entry) then apis + 1 else apis)
         (repairs + 1) es = Some (sops, sph)"
      "ops = rops @ sops" "ph = (rph \<or> sph)"
proof -
  consider "repairs \<ge> maxConcurrentRepairs c"
    | "repairs < maxConcurrentRepairs c"
      "reAddress entry \<in> set pr \<or> is_apiserver nf (reAddress entry) \<and> api_blocked reb apis (reAddress entry)"
    | "repairs < maxConcurrentRepairs c" "reAddress entry \<notin> set pr"
      "\<not> (is_apiserver nf (reAddress entry) \<and> api_blocked reb apis (reAddress entry))"
    by linarith
  then show ?thesis
  proof cases
    case 1
    with assms stop show ?thesis by simp
  next
    case 2
    with assms skip show ?thesis by (auto split: if_splits)
  next
    case 3
    let ?rest = "repair_loop c nf rqs now reb pr
      (if is_apiserver nf (reAddress entry) then apis + 1 else apis) (repairs + 1) es"
    from 3 assms have bound: "Option.bind (run_step c nf rqs now entry) (\<lambda>r. Option.bind ?rest
        (\<lambda>rest. Some (fst r @ fst rest, snd r \<or> snd rest))) = Some (ops, ph)"
      by (simp only: repair_loop.simps not_le [symmetric] if_False)
    then obtain r where r: "run_step c nf rqs now entry = Some r" by (cases "run_step c nf rqs now entry") auto
    with bound obtain rest where rest: "?rest = Some rest" by (cases ?rest) auto
    with bound r have "ops = fst r @ fst rest" "ph = (snd r \<or> snd rest)" by auto
    with 3 r rest run [of "fst r" "snd r" "fst rest" "snd rest"] show ?thesis by simp
  qed
qed

lemma repair_loop_length:
  "repair_loop c nf rqs now reb pr apis repairs es = Some (ops, ph) \<Longrightarrow>
     int (length ops) \<le> max 0 (maxConcurrentRepairs c - repairs)"
proof (induction es arbitrary: apis repairs ops ph)
  case (Cons entry es)
  from Cons.prems show ?case
  proof (cases rule: repair_loop_cases)
    case stop
    then show ?thesis by simp
  next
    case skip
    then show ?thesis using Cons.IH by blast
  next
    case (run rops rph sops sph)
    have "length rops \<le> 1" using run_step_ok [OF run(4)] by simp
    moreover have "int (length sops) \<le> max 0 (maxConcurrentRepairs c - (repairs + 1))"
      by (rule Cons.IH [OF run(5)])
    ultimately show ?thesis using run(1,6) by simp
  qed
qed simp

lemma repair_loop_api:
  "repair_loop c nf rqs now reb pr apis repairs es = Some (ops, ph) \<Longrightarrow> 0 \<le> apis \<Longrightarrow>
     int (length (filter (\<lambda>op. is_apiserver nf (reAddress (op_entry op))) ops)) \<le> max 0 (1 - apis) \<and>
     (\<forall>op \<in> set ops. is_apiserver nf (reAddress (op_entry op)) \<longrightarrow>
        length reb \<le> 1 \<and> set reb \<subseteq> {reAddress (op_entry op)})"
proof (induction es arbitrary: apis repairs ops ph)
  case (Cons entry es)
  let ?api = "is_apiserver nf (reAddress entry)"
  from Cons.prems(1) show ?case
  proof (cases rule: repair_loop_cases)
    case stop
    then show ?thesis by simp
  next
    case skip
    then show ?thesis using Cons.IH Cons.prems(2) by blast
  next
    case (run rops rph sops sph)
    have ro: "length rops \<le> 1" "\<forall>op \<in> set rops. reAddress (op_entry op) = reAddress entry"
      using run_step_ok [OF run(4)] by (auto simp: step_ok_def)
    have ih: "int (length (filter (\<lambda>op. is_apiserver nf (reAddress (op_entry op))) sops))
        \<le> max 0 (1 - (if ?api then apis + 1 else apis))"
      "\<forall>op \<in> set sops. is_apiserver nf (reAddress (op_entry op)) \<longrightarrow>
        length reb \<le> 1 \<and> set reb \<subseteq> {reAddress (op_entry op)}"
      using Cons.IH [OF run(5)] Cons.prems(2) by auto
    have first: "filter (\<lambda>op. is_apiserver nf (reAddress (op_entry op))) rops = (if ?api then rops else [])"
      using ro(2) by (auto simp: filter_empty_conv filter_id_conv)
    have free: "apis < 1 \<and> length reb \<le> 1 \<and> set reb \<subseteq> {reAddress entry}" if ?api
    proof -
      from run(3) that have nb: "\<not> api_blocked reb apis (reAddress entry)" by simp
      then have "length reb \<le> 1" by (simp add: api_blocked_def)
      then consider "reb = []" | a where "reb = [a]" by (cases reb) auto
      then show ?thesis using nb by cases (auto simp: api_blocked_def)
    qed
    have "int (length (filter (\<lambda>op. is_apiserver nf (reAddress (op_entry op))) ops)) \<le> max 0 (1 - apis)"
      using ih(1) first free ro(1) run(6) Cons.prems(2) by (cases ?api) auto
    moreover have "\<forall>op \<in> set ops. is_apiserver nf (reAddress (op_entry op)) \<longrightarrow>
        length reb \<le> 1 \<and> set reb \<subseteq> {reAddress (op_entry op)}"
      using ih(2) free ro(2) run(6) by auto
    ultimately show ?thesis ..
  qed
qed simp

lemma repairOps_Some:
  assumes "repairOps c cs nf now = Some (ops, ph)"
  obtains rops rph where
    "repair_loop c nf (csRepairQueue cs) now (rebootingApiServers cs nf) [] 0 0
       (sortedEntries nf (csRepairQueue cs) now (rqsEntries (csRepairQueue cs))) = Some (rops, rph)"
    "ops = map RepairOp (settle_ops c nf (csRepairQueue cs) now (rqsEntries (csRepairQueue cs)) @ rops)"
    "ph = (rph \<or> ops \<noteq> [])"
proof -
  let ?l = "repair_loop c nf (csRepairQueue cs) now (rebootingApiServers cs nf) [] 0 0
       (sortedEntries nf (csRepairQueue cs) now (rqsEntries (csRepairQueue cs)))"
  from assms obtain r where r: "?l = Some r"
    by (cases ?l) (auto simp: repairOps_def Let_def)
  with assms that [of "fst r" "snd r"] show ?thesis
    by (auto simp: repairOps_def Let_def)
qed

lemma repair_loop_total:
  assumes "\<forall>e \<in> set es. 0 \<le> reStep e" and "\<exists>api. HealthyAPIServer nf = Some api"
  shows "repair_loop c nf rqs now reb pr apis repairs es \<noteq> None"
  using assms(1)
proof (induction es arbitrary: apis repairs)
  case (Cons entry es)
  obtain r where r: "run_step c nf rqs now entry = Some r"
    using run_step_total [of entry nf c rqs now] Cons.prems assms(2) by auto
  have "repair_loop c nf rqs now reb pr a k es \<noteq> None" for a k
    using Cons.IH Cons.prems by simp
  then show ?case using r by (simp add: bind_eq_None_conv del: not_None_eq)
qed simp

lemma sortedEntries_mem: "set (sortedEntries nf rqs now es) \<subseteq> set es"
  by (auto simp: sortedEntries_def Let_def)

section \<open>Properties\<close>


text \<open>
  C17. No machine is repaired before it is drained: a repair command runs only when the queue is enabled and
  for the current step of the entry, and when that step asks for a drain and the machine is in the
  cluster, only after the drain of that machine was found completed.
\<close>
theorem repair_after_drain:
  assumes "repairOps c cs nf now = Some (ops, ph)" and "RepairOp (RepairExecuteOp e st c') \<in> set ops"
  shows "rqsEnabled (csRepairQueue cs) \<and> GetCurrentRepairStep c e = Some (Inr st) \<and>
     (rsNeedDrain st \<and> IsInCluster e \<longrightarrow> mget_bool (rqsDrainCompleted (csRepairQueue cs)) (reAddress e))"
proof -
  from assms(1) obtain rops rph where
    loop: "repair_loop c nf (csRepairQueue cs) now (rebootingApiServers cs nf) [] 0 0
       (sortedEntries nf (csRepairQueue cs) now (rqsEntries (csRepairQueue cs))) = Some (rops, rph)"
    and ops: "ops = map RepairOp (settle_ops c nf (csRepairQueue cs) now (rqsEntries (csRepairQueue cs)) @ rops)"
    by (rule repairOps_Some)
  have "limited (RepairExecuteOp e st c')" by (simp add: limited_def)
  with assms(2) ops have "RepairExecuteOp e st c' \<in> set rops"
    using settle_not_limited by auto
  with repair_loop_ok [OF loop] obtain e' where "step_ok c (csRepairQueue cs) e' (RepairExecuteOp e st c')"
    by blast
  then show ?thesis by (auto simp: step_ok_def)
qed

text \<open>
  C18. The decision always settles the queue: with non-negative steps and a status for every control plane it
  returns, and every deleted entry is dequeued and every repaired unfinished one finished with success,
  whatever the limits and also when the queue is disabled.
\<close>
theorem repair_settles:
  assumes cov: "covered nf (ControlPlaneNodes nf)"
    and steps: "\<forall>e \<in> set (rqsEntries (csRepairQueue cs)). 0 \<le> reStep e"
  shows "\<exists>ops ph. repairOps c cs nf now = Some (ops, ph) \<and>
     (\<forall>e \<in> set (rqsEntries (csRepairQueue cs)).
        (reDeleted e \<longrightarrow> RepairOp (RepairDequeueOp e) \<in> set ops) \<and>
        (\<not> reDeleted e \<and> \<not> HasFinished e \<and> mget_bool (rqsRepairCompleted (csRepairQueue cs)) (reAddress e)
           \<longrightarrow> RepairOp (RepairFinishOp e True c) \<in> set ops))"
proof -
  let ?q = "csRepairQueue cs"
  have "\<exists>api. HealthyAPIServer nf = Some api"
    by (simp add: HealthyAPIServer_value [OF cov])
  moreover have "\<forall>e \<in> set (sortedEntries nf ?q now (rqsEntries ?q)). 0 \<le> reStep e"
    using steps sortedEntries_mem by blast
  ultimately obtain r where r: "repair_loop c nf ?q now (rebootingApiServers cs nf) [] 0 0
      (sortedEntries nf ?q now (rqsEntries ?q)) = Some r"
    using repair_loop_total by blast
  let ?ops = "map RepairOp (settle_ops c nf ?q now (rqsEntries ?q) @ fst r)"
  have "repairOps c cs nf now = Some (?ops, snd r \<or> length (settle_ops c nf ?q now (rqsEntries ?q) @ fst r) > 0)"
    using r by (simp add: repairOps_def Let_def)
  moreover have "RepairDequeueOp e \<in> set (settle_ops c nf ?q now (rqsEntries ?q))"
    if "e \<in> set (rqsEntries ?q)" "reDeleted e" for e
    using that by (force simp: settle_ops_def map_filter_def classify_def)
  moreover have "RepairFinishOp e True c \<in> set (settle_ops c nf ?q now (rqsEntries ?q))"
    if "e \<in> set (rqsEntries ?q)" "\<not> reDeleted e" "\<not> HasFinished e"
      "mget_bool (rqsRepairCompleted ?q) (reAddress e)" for e
    using that by (force simp: settle_ops_def map_filter_def classify_def)
  ultimately show ?thesis by auto
qed

section \<open>Witnesses\<close>

definition sample_entry :: "int \<Rightarrow> string \<Rightarrow> string \<Rightarrow> RepairQueueEntry" where
  "sample_entry i address status =
     (NewRepairQueueEntry ''unreachable'' ''type1'' address ''serial'')\<lparr>reIndex := i, reStatus := status\<rparr>"

definition sample_repair_status :: "RepairQueueEntry list \<Rightarrow> ClusterStatus" where
  "sample_repair_status entries =
     status1\<lparr>csRepairQueue := \<lparr>rqsEnabled = True, rqsEntries = entries, rqsRepairCompleted = [],
       rqsDrainCompleted = []\<rparr>\<rparr>"

abbreviation sample_filter :: "RepairQueueEntry list \<Rightarrow> NodeFilter" where
  "sample_filter entries \<equiv> NewNodeFilter cluster1 (sample_repair_status entries)"

lemma sample_cps: "ControlPlaneNodes (NewNodeFilter cluster1 cs) = [cp1, cp2, cp3]"
  by (simp add: ControlPlaneNodes_def NewNodeFilter_def cluster1_def sample_cluster_def cp1_def cp2_def
      cp3_def worker1_def sample_node_def)

lemma sample_addresses [simp]:
  "nAddress cp1 = ''10.0.0.1''" "nAddress cp2 = ''10.0.0.2''" "nAddress cp3 = ''10.0.0.3''"
  "nAddress worker1 = ''10.0.0.4''"
  by (simp_all add: cp1_def cp2_def cp3_def worker1_def sample_node_def)

lemma sample_is_apiserver:
  "is_apiserver (NewNodeFilter cluster1 cs) a \<longleftrightarrow> a \<in> {''10.0.0.1'', ''10.0.0.2'', ''10.0.0.3''}"
  by (simp add: is_apiserver_def sample_cps)

lemma sample_repair_step:
  "reMachineType e = ''type1'' \<Longrightarrow> reOperation e = ''unreachable'' \<Longrightarrow> reStep e = 0 \<Longrightarrow>
     GetCurrentRepairStep cluster1 e = Some (Inr sample_step)"
  by (simp add: GetCurrentRepairStep_def GetMatchingRepairOperation_def getMatchingRepairProcedure_def
      cluster1_def sample_cluster_def sample_repair_def)

lemma sample_max: "maxConcurrentRepairs cluster1 = 2"
  by (simp add: maxConcurrentRepairs_def cluster1_def sample_cluster_def sample_repair_def)

lemma sample_rebooting: "rebootingApiServers (sample_repair_status es) nf = []"
  by (simp add: rebootingApiServers_def rebootProcessing_def sample_repair_status_def status1_def
      sample_status_def)

lemma sample_run_step:
  "run_step cluster1 nf (csRepairQueue (sample_repair_status es)) now (sample_entry i a RepairStatusQueued) =
     Some ([RepairExecuteOp (sample_entry i a RepairStatusQueued) sample_step cluster1], True)"
  by (subst run_step.simps)
    (simp add: sample_repair_step sample_entry_def NewRepairQueueEntry_def sample_repair_status_def
      sample_step_def)

lemma sample_repair_entries [simp]:
  "rqsEntries (csRepairQueue (sample_repair_status es)) = es"
  "rqsRepairCompleted (csRepairQueue (sample_repair_status es)) = []"
  "rqsEnabled (csRepairQueue (sample_repair_status es)) = True"
  by (simp_all add: sample_repair_status_def)

lemma sample_entry_fields [simp]:
  "reDeleted (sample_entry i a st) = False" "reStatus (sample_entry i a st) = st"
  "reAddress (sample_entry i a st) = a" "reStep (sample_entry i a st) = 0"
  by (simp_all add: sample_entry_def NewRepairQueueEntry_def)

lemma sample_classify:
  "classify (NewNodeFilter cluster1 cs) (csRepairQueue (sample_repair_status es)) now
     (sample_entry i a RepairStatusQueued) =
     (if a \<in> {''10.0.0.1'', ''10.0.0.2'', ''10.0.0.3''} then QueuedApi else QueuedOther)"
  by (simp add: classify_def HasFinished_def mget_bool_def sample_is_apiserver)

lemma sample_repair_one:
  "repairOps cluster1 (sample_repair_status [sample_entry 1 a RepairStatusQueued])
       (sample_filter [sample_entry 1 a RepairStatusQueued]) 0 =
     Some ([RepairOp (RepairExecuteOp (sample_entry 1 a RepairStatusQueued) sample_step cluster1)], True)"
  by (simp add: repairOps_def settle_ops_def map_filter_simps sortedEntries_def sample_classify
      sample_rebooting sample_max sample_run_step api_blocked_def del: bind_Some_iff)



theorem repair_after_drain_witness:
  "\<exists>ops ph st c'. repairOps cluster1 (sample_repair_status [sample_entry 1 ''10.0.0.4'' RepairStatusQueued])
       (sample_filter [sample_entry 1 ''10.0.0.4'' RepairStatusQueued]) 0 = Some (ops, ph) \<and>
     RepairOp (RepairExecuteOp (sample_entry 1 ''10.0.0.4'' RepairStatusQueued) st c') \<in> set ops \<and>
     GetCurrentRepairStep cluster1 (sample_entry 1 ''10.0.0.4'' RepairStatusQueued) = Some (Inr st)"
proof -
  let ?e = "sample_entry 1 ''10.0.0.4'' RepairStatusQueued"
  note r = sample_repair_one [of "''10.0.0.4''"]
  from r repair_after_drain [OF r, of ?e sample_step cluster1] show ?thesis by auto
qed

theorem repair_settles_witness:
  "\<exists>ops ph. repairOps cluster1 (sample_repair_status [(sample_entry 1 ''10.0.0.4'' RepairStatusQueued)\<lparr>reDeleted := True\<rparr>])
       (sample_filter [(sample_entry 1 ''10.0.0.4'' RepairStatusQueued)\<lparr>reDeleted := True\<rparr>]) 0 = Some (ops, ph) \<and>
     RepairOp (RepairDequeueOp ((sample_entry 1 ''10.0.0.4'' RepairStatusQueued)\<lparr>reDeleted := True\<rparr>)) \<in> set ops"
proof -
  let ?e = "(sample_entry 1 ''10.0.0.4'' RepairStatusQueued)\<lparr>reDeleted := True\<rparr>"
  have "covered (sample_filter [?e]) [cp1, cp2, cp3, worker1]"
    using covered_sample [of "[cp1, cp2, cp3, worker1]"]
    by (simp add: covered_def nodeStatus_def NewNodeFilter_def sample_repair_status_def status1_def cluster1_def)
  then have "covered (sample_filter [?e]) (ControlPlaneNodes (sample_filter [?e]))"
    by (rule covered_subset) (auto simp: sample_cps)
  from repair_settles [OF this, of "sample_repair_status [?e]" cluster1 0] show ?thesis
    by auto
qed

end
