(* ===== verification/CKE_Strategy.thy ===== *)
theory CKE_Strategy
  imports CKE_Repair
begin

text \<open>
  The decision of \<^verbatim>\<open>server/strategy.go\<close>: \<^verbatim>\<open>DecideOps\<close> and the functions it calls, in the order of the
  phases. \<open>None\<close> is a panic. The embedded resources are the argument \<open>static\<close>, third-party functions
  are \<open>T\<close>, and \<^verbatim>\<open>time.Now()\<close> is \<open>now\<close>. Log messages are not modelled.
\<close>

section \<open>Phases\<close>

datatype OperationPhase =
    PhaseUpgradeAborted | PhaseUpgrade | PhaseRivers | PhaseEtcdBootAborted | PhaseEtcdBoot
  | PhaseEtcdStart | PhaseEtcdWait | PhaseK8sStart | PhaseEtcdMaintain | PhaseK8sMaintain | PhaseStopCP
  | PhaseRepairMachines | PhaseUncordonNodes | PhaseRebootNodes | PhaseCompleted

fun phase_string :: "OperationPhase \<Rightarrow> string" where
  "phase_string PhaseUpgradeAborted = ''upgrade-aborted''"
| "phase_string PhaseUpgrade = ''upgrade''"
| "phase_string PhaseRivers = ''rivers''"
| "phase_string PhaseEtcdBootAborted = ''etcd-boot-aborted''"
| "phase_string PhaseEtcdBoot = ''etcd-boot''"
| "phase_string PhaseEtcdStart = ''etcd-start''"
| "phase_string PhaseEtcdWait = ''etcd-wait''"
| "phase_string PhaseK8sStart = ''k8s-start''"
| "phase_string PhaseEtcdMaintain = ''etcd-maintain''"
| "phase_string PhaseK8sMaintain = ''k8s-maintain''"
| "phase_string PhaseStopCP = ''stop-control-plane''"
| "phase_string PhaseRepairMachines = ''repair-machines''"
| "phase_string PhaseUncordonNodes = ''uncordon-nodes''"
| "phase_string PhaseRebootNodes = ''reboot-nodes''"
| "phase_string PhaseCompleted = ''completed''"

definition AllOperationPhases :: "OperationPhase list" where
  "AllOperationPhases =
     [PhaseUpgradeAborted, PhaseUpgrade, PhaseRivers, PhaseEtcdBootAborted, PhaseEtcdBoot, PhaseEtcdStart,
      PhaseEtcdWait, PhaseK8sStart, PhaseEtcdMaintain, PhaseK8sMaintain, PhaseStopCP, PhaseRepairMachines,
      PhaseUncordonNodes, PhaseRebootNodes, PhaseCompleted]"

section \<open>Selecting nodes\<close>

text \<open>\<^verbatim>\<open>nodes[:max]\<close> with \<^verbatim>\<open>max := min(len(nodes), maxConcurrentUpdates)\<close>; a negative bound panics.\<close>

definition first_nodes :: "Node list \<Rightarrow> int \<Rightarrow> Node list option" where
  "first_nodes nodes maxConcurrentUpdates =
     (let m = min (int (length nodes)) maxConcurrentUpdates in
      if m < 0 then None else Some (take (nat m) nodes))"

text \<open>\<^verbatim>\<open>if nodes := nf.SSHConnected(targets); len(nodes) > 0 { ops = append(ops, mk(nodes)) }\<close>\<close>

definition when_reachable ::
  "NodeFilter \<Rightarrow> Node list option \<Rightarrow> (Node list \<Rightarrow> operator option) \<Rightarrow> operator list option" where
  "when_reachable nf targets mk = do {
     ts \<leftarrow> targets;
     nodes \<leftarrow> SSHConnected nf ts;
     if length nodes > 0 then map_option (\<lambda>op. [op]) (mk nodes) else Some [] }"

section \<open>Rivers\<close>

definition riversOps :: "Cluster \<Rightarrow> NodeFilter \<Rightarrow> int \<Rightarrow> operator list option" where
  "riversOps c nf maxConcurrentUpdates = do {
     let cp = ControlPlaneNodes nf;
     a \<leftarrow> when_reachable nf (RiversStopped nf (AllNodes nf)) (\<lambda>nodes. do {
       ns \<leftarrow> first_nodes nodes maxConcurrentUpdates;
       Some (NodeOp (RiversBootOp ns cp (oRivers (cOptions c)) RiversContainerName
         RiversUpstreamPort RiversListenPort)) });
     b \<leftarrow> when_reachable nf (RiversOutdated nf (AllNodes nf)) (\<lambda>nodes. do {
       ns \<leftarrow> first_nodes nodes maxConcurrentUpdates;
       Some (NodeOp (RiversRestartOp ns cp (oRivers (cOptions c)) RiversContainerName
         RiversUpstreamPort RiversListenPort)) });
     d \<leftarrow> when_reachable nf (EtcdRiversStopped nf cp) (\<lambda>nodes. do {
       ns \<leftarrow> first_nodes nodes maxConcurrentUpdates;
       Some (NodeOp (RiversBootOp ns cp (oEtcdRivers (cOptions c)) EtcdRiversContainerName
         EtcdRiversUpstreamPort EtcdRiversListenPort)) });
     e \<leftarrow> when_reachable nf (EtcdRiversOutdated nf cp) (\<lambda>nodes. do {
       ns \<leftarrow> first_nodes nodes maxConcurrentUpdates;
       Some (NodeOp (RiversRestartOp ns cp (oEtcdRivers (cOptions c)) EtcdRiversContainerName
         EtcdRiversUpstreamPort EtcdRiversListenPort)) });
     Some (a @ b @ d @ e) }"

section \<open>Kubernetes components\<close>

definition clusterDomain :: "third_party \<Rightarrow> Cluster \<Rightarrow> string option" where
  "clusterDomain T c =
     map_option kcClusterDomain (GenerateKubeletConfiguration T (oKubelet (cOptions c)) ''0.0.0.0'' None)"

definition apiserverRestart :: "third_party \<Rightarrow> Cluster \<Rightarrow> Node list \<Rightarrow> operator option" where
  "apiserverRestart T c nodes = do {
     domain \<leftarrow> clusterDomain T c;
     Some (K8sOp (APIServerRestartOp nodes (cServiceSubnet c) (oAPIServer (cOptions c)) domain)) }"

text \<open>Set unhealthy API servers to NotReady, unless there is no healthy one to talk to.\<close>

definition masterEndpointOps_if_healthy :: "ClusterStatus \<Rightarrow> NodeFilter \<Rightarrow> operator list option" where
  "masterEndpointOps_if_healthy cs nf = do {
     api \<leftarrow> HealthyAPIServer nf;
     if api \<noteq> None then masterEndpointOps cs nf [] else Some [] }"

definition apiserverOps ::
  "third_party \<Rightarrow> Cluster \<Rightarrow> NodeFilter \<Rightarrow> ClusterStatus \<Rightarrow> (operator list \<times> bool) option" where
  "apiserverOps T c nf cs = do {
     let cp = ControlPlaneNodes nf;
     stopped \<leftarrow> APIServerStopped nf cp;
     n1 \<leftarrow> SSHConnected nf stopped;
     unhealthy \<leftarrow> APIServerUnhealthy nf cp;
     broken \<leftarrow> APIServerOutdated T nf unhealthy;
     n2 \<leftarrow> SSHConnected nf broken;
     let nodes = n1 @ n2;
     if length nodes > 0 then do {
       eps \<leftarrow> masterEndpointOps_if_healthy cs nf;
       restart \<leftarrow> apiserverRestart T c nodes;
       Some (eps @ [restart], True) }
     else do {
       unreachable \<leftarrow> SSHNotConnected nf cp;
       if length unreachable > 0 \<or> length unhealthy > 0 then do {
         eps \<leftarrow> masterEndpointOps_if_healthy cs nf;
         Some (eps, True) }
       else do {
         outdated \<leftarrow> APIServerOutdated T nf cp;
         ready \<leftarrow> SSHConnected nf outdated;
         case ready of
           target # _ \<Rightarrow> do {
             eps \<leftarrow> masterEndpointOps cs nf [nAddress target];
             restart \<leftarrow> apiserverRestart T c [target];
             Some (eps @ [restart], True) }
         | [] \<Rightarrow> do {
             eps \<leftarrow> masterEndpointOps cs nf (rebootNextCandidates cs);
             Some (eps, False) } } } }"

definition cpComponentOps :: "third_party \<Rightarrow> Cluster \<Rightarrow> NodeFilter \<Rightarrow> operator list option" where
  "cpComponentOps T c nf = do {
     let cp = ControlPlaneNodes nf;
     a \<leftarrow> when_reachable nf (ControllerManagerStopped nf cp) (\<lambda>nodes. Some (K8sOp
       (ControllerManagerBootOp nodes (cName c) (cServiceSubnet c) (oControllerManager (cOptions c)))));
     b \<leftarrow> when_reachable nf (ControllerManagerOutdated nf cp) (\<lambda>nodes. Some (K8sOp
       (ControllerManagerRestartOp nodes (cName c) (cServiceSubnet c) (oControllerManager (cOptions c)))));
     d \<leftarrow> when_reachable nf (SchedulerStopped nf cp) (\<lambda>nodes. Some (K8sOp
       (SchedulerBootOp nodes (cName c) (oScheduler (cOptions c)))));
     e \<leftarrow> when_reachable nf (SchedulerOutdated T nf cp (oScheduler (cOptions c))) (\<lambda>nodes. Some (K8sOp
       (SchedulerRestartOp nodes (cName c) (oScheduler (cOptions c)))));
     Some (a @ b @ d @ e) }"

definition kubeletOps ::
  "third_party \<Rightarrow> Cluster \<Rightarrow> NodeFilter \<Rightarrow> ClusterStatus \<Rightarrow> int \<Rightarrow> Node option \<Rightarrow> operator list option" where
  "kubeletOps T c nf cs maxConcurrentUpdates apiServer = do {
     let all = AllNodes nf;
     let opts = oKubelet (cOptions c);
     a \<leftarrow> when_reachable nf (KubeletUnrecognized nf all) (\<lambda>nodes. do {
       ns \<leftarrow> first_nodes nodes maxConcurrentUpdates;
       Some (K8sOp (KubeletRestartOp ns (cName c) opts (csNodeStatuses cs))) });
     b \<leftarrow> when_reachable nf (KubeletStopped nf all) (\<lambda>nodes. do {
       ns \<leftarrow> first_nodes nodes maxConcurrentUpdates;
       Some (K8sOp (KubeletBootOp ns (RegisteredNodes nf ns) apiServer (cName c) opts (csNodeStatuses cs))) });
     outdated \<leftarrow> KubeletOutdated T nf all;
     reachable \<leftarrow> SSHConnected nf outdated;
     d \<leftarrow> (if length reachable > 0 \<and> klInPlaceUpdate opts
           then do {
             ns \<leftarrow> first_nodes reachable maxConcurrentUpdates;
             Some [K8sOp (KubeletRestartOp ns (cName c) opts (csNodeStatuses cs))] }
           else Some []);
     Some (a @ b @ d) }"

definition proxyOps :: "third_party \<Rightarrow> Cluster \<Rightarrow> NodeFilter \<Rightarrow> int \<Rightarrow> operator list option" where
  "proxyOps T c nf maxConcurrentUpdates = do {
     let all = AllNodes nf;
     let opts = oProxy (cOptions c);
     a \<leftarrow> when_reachable nf (ProxyStopped nf all) (\<lambda>nodes. do {
       ns \<leftarrow> first_nodes nodes maxConcurrentUpdates;
       Some (K8sOp (KubeProxyBootOp ns (cName c) [] opts)) });
     b \<leftarrow> when_reachable nf (ProxyOutdated T nf all opts) (\<lambda>nodes. do {
       ns \<leftarrow> first_nodes nodes maxConcurrentUpdates;
       Some (K8sOp (KubeProxyRestartOp ns (cName c) [] opts)) });
     d \<leftarrow> when_reachable nf (ProxyRunningUnexpectedly nf all) (\<lambda>nodes. do {
       ns \<leftarrow> first_nodes nodes maxConcurrentUpdates;
       Some (NodeOp (ProxyStopOp ns)) });
     Some (a @ b @ d) }"

definition k8sOps ::
  "third_party \<Rightarrow> Cluster \<Rightarrow> NodeFilter \<Rightarrow> ClusterStatus \<Rightarrow> int \<Rightarrow> operator list option" where
  "k8sOps T c nf cs maxConcurrentUpdates = do {
     r \<leftarrow> apiserverOps T c nf cs;
     if snd r then Some (fst r)
     else do {
       cps \<leftarrow> cpComponentOps T c nf;
       apiServer \<leftarrow> HealthyAPIServer nf;
       kubelets \<leftarrow> kubeletOps T c nf cs maxConcurrentUpdates apiServer;
       proxies \<leftarrow> proxyOps T c nf maxConcurrentUpdates;
       Some (fst r @ cps @ kubelets @ proxies) } }"

section \<open>Maintenance\<close>

definition etcdMaintOp :: "Cluster \<Rightarrow> NodeFilter \<Rightarrow> operator option option" where
  "etcdMaintOp c nf =
     (let cp = ControlPlaneNodes nf;
          destroy = (\<lambda>healthy. do {
            targets \<leftarrow> SSHConnected nf (fst (EtcdNonCPMembers nf healthy));
            Some (Some (EtcdOp (EtcdDestroyMemberOp cp targets (snd (EtcdNonCPMembers nf healthy))))) });
          params = oEtcd (cOptions c) in
      if length (EtcdNonClusterMembers nf False) > 0
      then Some (Some (EtcdOp (EtcdRemoveMemberOp cp (EtcdNonClusterMembers nf False))))
      else if length (fst (EtcdNonCPMembers nf False)) > 0 then destroy False
      else (case EtcdUnstartedMembers nf of
        n # _ \<Rightarrow> Some (Some (EtcdOp (EtcdAddMemberOp cp n params)))
      | [] \<Rightarrow> do {
          unmarked \<leftarrow> EtcdUnmarkedMembers nf;
          if length unmarked > 0 then Some (Some (EtcdOp (EtcdMarkMemberOp unmarked)))
          else if \<not> EtcdIsGood nf then Some None
          else (case EtcdNewMembers nf of
            n # _ \<Rightarrow> Some (Some (EtcdOp (EtcdAddMemberOp cp n params)))
          | [] \<Rightarrow>
              if length (EtcdNonClusterMembers nf True) > 0
              then Some (Some (EtcdOp (EtcdRemoveMemberOp cp (EtcdNonClusterMembers nf True))))
              else if length (fst (EtcdNonCPMembers nf True)) > 0 then destroy True
              else do {
                outdated \<leftarrow> EtcdOutdatedMembers nf;
                case outdated of
                  n # _ \<Rightarrow> Some (Some (EtcdOp (EtcdRestartOp cp n params)))
                | [] \<Rightarrow> Some None }) }))"

definition k8sMaintOps ::
  "third_party \<Rightarrow> ResourceDefinition list \<Rightarrow> Cluster \<Rightarrow> ClusterStatus \<Rightarrow> ResourceDefinition list \<Rightarrow>
   NodeFilter \<Rightarrow> operator list option" where
  "k8sMaintOps T static c cs resources nf = do {
     let ks = csKubernetes cs;
     apiServer \<leftarrow> HealthyAPIServer nf;
     if \<not> ksIsControlPlaneReady ks then Some [KubeOp (KubeWaitOp apiServer)]
     else do {
       let res = decideResourceOps static apiServer (cTrustedRESTMappings c) ks resources (IsReady ks c);
       cdns \<leftarrow> decideClusterDNSOps T apiServer c ks;
       ndns \<leftarrow> decideNodeDNSOps T apiServer c ks;
       eps \<leftarrow> etcdEndpointOps cs nf (rebootNextCandidates cs);
       let outdated = OutdatedAttrsNodes nf;
       let alien = NonClusterNodes nf;
       Some (res @ cdns @ ndns @ eps @
         (if length outdated > 0 then [KubeOp (KubeNodeUpdateOp apiServer outdated)] else []) @
         (if length alien > 0 then [KubeOp (KubeNodeRemoveOp apiServer alien)] else [])) } }"

definition stop_if :: "Node list \<Rightarrow> (Node list \<Rightarrow> node_op) \<Rightarrow> operator list" where
  "stop_if nodes mk = (if length nodes > 0 then [NodeOp (mk nodes)] else [])"

definition cleanOps :: "Cluster \<Rightarrow> NodeFilter \<Rightarrow> operator list option" where
  "cleanOps c nf = do {
     targets \<leftarrow> go_filter (\<lambda>n. do {
       st \<leftarrow> nodeStatus nf n; Some (nsSSHConnected st \<and> \<not> nControlPlane n) }) (cNodes c);
     etcds \<leftarrow> by_status nf (\<lambda>st. ssRunning (esServiceStatus (nsEtcd st)) \<and> EtcdIsGood nf) targets;
     apiServers \<leftarrow> by_status nf (\<lambda>st. ssRunning (kcServiceStatus (nsAPIServer st))) targets;
     controllerManagers \<leftarrow> by_status nf (\<lambda>st. ssRunning (kcServiceStatus (nsControllerManager st))) targets;
     schedulers \<leftarrow> by_status nf (\<lambda>st. ssRunning (shServiceStatus (nsScheduler st))) targets;
     etcdRivers \<leftarrow> by_status nf (\<lambda>st. ssRunning (nsEtcdRivers st)) targets;
     Some (stop_if apiServers APIServerStopOp @ stop_if controllerManagers ControllerManagerStopOp @
       stop_if schedulers SchedulerStopOp @ stop_if etcds EtcdStopOp @ stop_if etcdRivers EtcdRiversStopOp) }"

section \<open>Reboots\<close>

definition rebootOps :: "Cluster \<Rightarrow> ClusterStatus \<Rightarrow> Constraints \<Rightarrow> NodeFilter \<Rightarrow> operator list option" where
  "rebootOps c cs constraints nf =
     (let q = csRebootQueue cs;
          early = (if length (bqsRebootCancelled q) > 0 then [RebootOp (RebootCancelOp (bqsRebootCancelled q))] else []) @
                  (if length (bqsRebootDequeued q) > 0 then [RebootOp (RebootDequeueOp (bqsRebootDequeued q))] else [])
      in if length early > 0 then Some early
      else if \<not> bqsEnabled q then Some []
      else if length (bqsEntries q) = 0 then Some []
      else if length (rbRebootCommand (cReboot c)) = 0 then Some []
      else if length (rbBootCheckCommand (cReboot c)) = 0 then Some []
      else do {
        drained \<leftarrow> (if length (bqsDrainCompleted q) > 0 then do {
            api \<leftarrow> HealthyAPIServer nf;
            Some [RebootOp (RebootDeleteDaemonSetPodOp api (bqsDrainCompleted q) (cReboot c)),
                  RebootOp (RebootRebootOp api (bqsDrainCompleted q) (cReboot c))] }
          else Some []);
        started \<leftarrow> (if length (bqsNextCandidates q) > 0 then do {
            unreachable \<leftarrow> SSHNotConnected nf
              (filter (\<lambda>node. \<not> rebootProcessing cs (nAddress node)) (AllNodes nf));
            if int (length unreachable) > ctRebootMaximumUnreachable constraints then Some []
            else do {
              api \<leftarrow> HealthyAPIServer nf;
              Some [RebootOp (RebootDrainStartOp api (bqsNextCandidates q) (cReboot c))] } }
          else Some []);
        Some (drained @ started @
          (if length (bqsDrainTimedout q) > 0 then [RebootOp (RebootDrainTimeoutOp (bqsDrainTimedout q))] else []))
      })"

definition rebootUncordonOp :: "ClusterStatus \<Rightarrow> NodeFilter \<Rightarrow> operator option option" where
  "rebootUncordonOp cs nf =
     (let nodes = map knName (filter (\<lambda>n. \<not> (rebootProcessing cs (knName n) \<or> repairProcessing cs (knName n)))
            (CordonedNodes nf))
      in if length (CordonedNodes nf) = 0 then Some None
         else if length nodes = 0 then Some None
         else do { api \<leftarrow> HealthyAPIServer nf; Some (Some (RebootOp (RebootUncordonOp api nodes))) })"

section \<open>The decision\<close>

definition decideReboot ::
  "Cluster \<Rightarrow> ClusterStatus \<Rightarrow> Constraints \<Rightarrow> NodeFilter \<Rightarrow> (operator list \<times> OperationPhase) option" where
  "decideReboot c cs constraints nf = do {
     ops \<leftarrow> rebootOps c cs constraints nf;
     Some (if length ops > 0
       then (if \<not> EtcdIsGood nf then ([], PhaseRebootNodes) else (ops, PhaseRebootNodes))
       else ([], PhaseCompleted)) }"

definition decideQueues ::
  "Cluster \<Rightarrow> ClusterStatus \<Rightarrow> Constraints \<Rightarrow> NodeFilter \<Rightarrow> int \<Rightarrow> (operator list \<times> OperationPhase) option" where
  "decideQueues c cs constraints nf now = do {
     uncordon \<leftarrow> rebootUncordonOp cs nf;
     case uncordon of
       Some op \<Rightarrow> Some ([op], PhaseUncordonNodes)
     | None \<Rightarrow> do {
         r \<leftarrow> repairOps c cs nf now;
         if snd r then do {
           good \<leftarrow> EtcdIsGoodForRepair nf (ctControlPlaneCount constraints);
           Some (if \<not> good then ([], PhaseRepairMachines) else (fst r, PhaseRepairMachines)) }
         else decideReboot c cs constraints nf } }"

definition decideMaint ::
  "third_party \<Rightarrow> ResourceDefinition list \<Rightarrow> Cluster \<Rightarrow> ClusterStatus \<Rightarrow> Constraints \<Rightarrow>
   ResourceDefinition list \<Rightarrow> NodeFilter \<Rightarrow> int \<Rightarrow> (operator list \<times> OperationPhase) option" where
  "decideMaint T static c cs constraints resources nf now = do {
     unreachable \<leftarrow> SSHNotConnected nf (ControlPlaneNodes nf);
     maint \<leftarrow> (if length unreachable = 0 then etcdMaintOp c nf else Some None);
     case maint of
       Some op \<Rightarrow> Some ([op], PhaseEtcdMaintain)
     | None \<Rightarrow> do {
         k8s \<leftarrow> k8sMaintOps T static c cs resources nf;
         if length k8s > 0 then Some (k8s, PhaseK8sMaintain)
         else do {
           clean \<leftarrow> cleanOps c nf;
           if length clean > 0 then Some (clean, PhaseStopCP)
           else decideQueues c cs constraints nf now } } }"

definition DecideOps ::
  "third_party \<Rightarrow> ResourceDefinition list \<Rightarrow> Cluster \<Rightarrow> ClusterStatus \<Rightarrow> Constraints \<Rightarrow>
   ResourceDefinition list \<Rightarrow> int \<Rightarrow> int \<Rightarrow> (operator list \<times> OperationPhase) option" where
  "DecideOps T static c cs constraints resources maxConcurrentUpdates now = do {
     let nf = NewNodeFilter c cs;
     let cp = ControlPlaneNodes nf;
     if csConfigVersion cs \<noteq> ConfigVersion then do {
       unreachable \<leftarrow> SSHNotConnected nf cp;
       Some (if length unreachable > 0 then ([], PhaseUpgradeAborted)
             else ([NodeOp (UpgradeOp (csConfigVersion cs) cp)], PhaseUpgrade)) }
     else do {
       rivers \<leftarrow> riversOps c nf maxConcurrentUpdates;
       if length rivers > 0 then Some (rivers, PhaseRivers)
       else do {
         bootstrapped \<leftarrow> EtcdBootstrapped nf;
         if \<not> bootstrapped then do {
           unreachable \<leftarrow> SSHNotConnected nf cp;
           Some (if length unreachable > 0 then ([], PhaseEtcdBootAborted)
                 else ([EtcdOp (EtcdBootOp cp (oEtcd (cOptions c)))], PhaseEtcdBoot)) }
         else do {
           stopped \<leftarrow> EtcdStopped nf cp;
           nodes \<leftarrow> SSHConnected nf stopped;
           if length nodes > 0 then Some ([EtcdOp (EtcdStartOp nodes (oEtcd (cOptions c)))], PhaseEtcdStart)
           else if \<not> ecIsHealthy (csEtcd cs) then Some ([EtcdOp (EtcdWaitClusterOp cp)], PhaseEtcdWait)
           else do {
             k8s \<leftarrow> k8sOps T c nf cs maxConcurrentUpdates;
             if length k8s > 0 then Some (k8s, PhaseK8sStart)
             else decideMaint T static c cs constraints resources nf now } } } } }"

end
