(* ===== verification/CKE_Decide.thy ===== *)
theory CKE_Decide
  imports CKE_Strategy
begin

text \<open>
  Properties of \<^verbatim>\<open>DecideOps\<close>: it does not panic on an observed cluster; in which state each phase is
  entered; which machines its operators touch and how many; what a completed cluster looks like.
\<close>

section \<open>The filter of a cluster\<close>

lemma NewNodeFilter_simps [simp]:
  "AllNodes (NewNodeFilter c cs) = cNodes c"
  "ControlPlaneNodes (NewNodeFilter c cs) = filter nControlPlane (cNodes c)"
  "nfCluster (NewNodeFilter c cs) = c" "nfStatus (NewNodeFilter c cs) = cs"
  by (simp_all add: AllNodes_def ControlPlaneNodes_def NewNodeFilter_def)

lemma fold_upd_mem:
  "fold (\<lambda>n m. m(f n \<mapsto> n)) ns m a = Some n \<Longrightarrow> m a = Some n \<or> n \<in> set ns"
  by (induction ns arbitrary: m) (force split: if_splits)+

lemma nodeMap_mem: "nfNodeMap (NewNodeFilter c cs) a = Some n \<Longrightarrow> n \<in> set (cNodes c)"
  unfolding NewNodeFilter_def by (auto dest: fold_upd_mem)

text \<open>What \<^verbatim>\<open>GetClusterStatus\<close> guarantees: a status for every node of the cluster.\<close>

definition observed :: "Cluster \<Rightarrow> ClusterStatus \<Rightarrow> bool" where
  "observed c cs \<longleftrightarrow> (\<forall>n \<in> set (cNodes c). csNodeStatuses cs (nAddress n) \<noteq> None)"

lemma observed_covered:
  "observed c cs \<Longrightarrow> set ns \<subseteq> set (cNodes c) \<Longrightarrow> covered (NewNodeFilter c cs) ns"
  by (auto simp: observed_def covered_def nodeStatus_def)

section \<open>The decision does not panic\<close>

context node_filter
begin

lemma filt_total:
  "ok (NewNodeFilter c cs) \<Longrightarrow> observed c cs \<Longrightarrow> set ns \<subseteq> set (cNodes c) \<Longrightarrow>
     defined (filt (NewNodeFilter c cs) ns)"
  using filt_defined observed_covered by (auto simp: defined_ex)

end

text \<open>The selected nodes are nodes of the cluster, so every selection that follows is defined too.\<close>

lemma when_reachable_total:
  assumes "observed c cs" "defined targets" "\<And>ts. targets = Some ts \<Longrightarrow> set ts \<subseteq> set (cNodes c)"
    and "\<And>ns. defined (mk ns)"
  shows "defined (when_reachable (NewNodeFilter c cs) targets mk)"
  unfolding when_reachable_def
  by (intro go_total assms ssh.filt_total TrueI)

lemma first_nodes_total: "0 \<le> m \<Longrightarrow> defined (first_nodes ns m)"
  by (simp add: first_nodes_def Let_def min_less_iff_disj)

lemma cp_subset: "set (filter nControlPlane (cNodes c)) \<subseteq> set (cNodes c)"
  by auto

lemma riversOps_total:
  assumes o: "observed c cs" and m: "0 \<le> m"
  shows "defined (riversOps c (NewNodeFilter c cs) m)"
  unfolding riversOps_def Let_def
  by (intro go_total when_reachable_total [OF o] first_nodes_total [OF m]
      rivers_stopped.filt_total [OF TrueI o] rivers_outdated.filt_total [OF TrueI o]
      etcd_rivers_stopped.filt_total [OF TrueI o] etcd_rivers_outdated.filt_total [OF TrueI o])
    (auto dest!: rivers_stopped.filt_subset rivers_outdated.filt_subset etcd_rivers_stopped.filt_subset
      etcd_rivers_outdated.filt_subset)

lemma HealthyAPIServer_total: "observed c cs \<Longrightarrow> defined (HealthyAPIServer (NewNodeFilter c cs))"
  using observed_covered [of c cs "filter nControlPlane (cNodes c)"]
  by (auto simp: HealthyAPIServer_value)

lemma masterEndpointOps_total:
  assumes o: "observed c cs"
  shows "defined (masterEndpointOps cs' (NewNodeFilter c cs) marked)"
  unfolding masterEndpointOps_def master_params_def Let_def
  by (intro go_total HealthyAPIServer_total [OF o] apiserver_healthy.filt_total [OF TrueI o]
      apiserver_unhealthy.filt_total [OF TrueI o])
    (auto simp: defined_ex decideEpEpsOps_total)

lemma clusterDomain_total: "configs_merge T c \<Longrightarrow> defined (clusterDomain T c)"
  unfolding clusterDomain_def
  by (intro go_total) (use GenerateKubelet_defined in \<open>auto simp: defined_ex\<close>)

lemma apiserverOps_total:
  assumes o: "observed c cs" and m: "configs_merge T c"
  shows "defined (apiserverOps T c (NewNodeFilter c cs) cs')"
proof -
  have m': "configs_merge T (nfCluster (NewNodeFilter c cs))" using m by simp
  show ?thesis
    unfolding apiserverOps_def Let_def masterEndpointOps_if_healthy_def apiserverRestart_def
    by (intro go_total HealthyAPIServer_total [OF o] masterEndpointOps_total [OF o]
        clusterDomain_total [OF m] apiserver_stopped.filt_total [OF TrueI o]
        apiserver_unhealthy.filt_total [OF TrueI o] api_outdated.filt_total [OF m' o]
        ssh.filt_total [OF TrueI o] ssh_not.filt_total [OF TrueI o])
      (auto dest!: apiserver_stopped.filt_subset apiserver_unhealthy.filt_subset api_outdated.filt_subset)
qed

lemma cpComponentOps_total:
  assumes o: "observed c cs" and m: "configs_merge T c"
  shows "defined (cpComponentOps T c (NewNodeFilter c cs))"
proof -
  let ?nf = "NewNodeFilter c cs"
  have m': "configs_merge T (nfCluster ?nf)" using m by simp
  have sched: "defined (SchedulerOutdated T ?nf (ControlPlaneNodes ?nf) (oScheduler (cOptions c)))"
    using sched_outdated.filt_total [OF m' o, of "ControlPlaneNodes ?nf"] by simp
  have sub: "SchedulerOutdated T ?nf (ControlPlaneNodes ?nf) (oScheduler (cOptions c)) = Some ts \<Longrightarrow>
      set ts \<subseteq> set (cNodes c)" for ts
    using sched_outdated.filt_subset [of T ?nf "ControlPlaneNodes ?nf" ts] by auto
  show ?thesis
    unfolding cpComponentOps_def Let_def
    by (intro go_total when_reachable_total [OF o] sched cm_stopped.filt_total [OF TrueI o]
        cm_outdated.filt_total [OF TrueI o] scheduler_stopped.filt_total [OF TrueI o])
      (auto dest!: cm_stopped.filt_subset cm_outdated.filt_subset scheduler_stopped.filt_subset sub [simplified])
qed

lemma kubeletOps_total:
  assumes o: "observed c cs" and m: "configs_merge T c" and mx: "0 \<le> mx"
  shows "defined (kubeletOps T c (NewNodeFilter c cs) cs' mx api)"
proof -
  have m': "configs_merge T (nfCluster (NewNodeFilter c cs))" using m by simp
  show ?thesis
    unfolding kubeletOps_def Let_def
    by (intro go_total when_reachable_total [OF o] first_nodes_total [OF mx]
        kubelet_unrecognized.filt_total [OF TrueI o] kubelet_stopped.filt_total [OF TrueI o]
        kl_outdated.filt_total [OF m' o] ssh.filt_total [OF TrueI o])
      (auto dest!: kubelet_unrecognized.filt_subset kubelet_stopped.filt_subset kl_outdated.filt_subset)
qed

lemma proxyOps_total:
  assumes o: "observed c cs" and m: "configs_merge T c" and mx: "0 \<le> mx"
  shows "defined (proxyOps T c (NewNodeFilter c cs) mx)"
proof -
  let ?nf = "NewNodeFilter c cs"
  have m': "configs_merge T (nfCluster ?nf)" using m by simp
  have px: "defined (ProxyOutdated T ?nf (AllNodes ?nf) (oProxy (cOptions c)))"
    using px_outdated.filt_total [OF m' o, of "AllNodes ?nf"] by simp
  have sub: "ProxyOutdated T ?nf (AllNodes ?nf) (oProxy (cOptions c)) = Some ts \<Longrightarrow>
      set ts \<subseteq> set (cNodes c)" for ts
    using px_outdated.filt_subset [of T ?nf "AllNodes ?nf" ts] by auto
  show ?thesis
    unfolding proxyOps_def Let_def
    by (intro go_total when_reachable_total [OF o] first_nodes_total [OF mx] px
        proxy_stopped.filt_total [OF TrueI o] proxy_unexpected.filt_total [OF TrueI o])
      (auto dest!: proxy_stopped.filt_subset proxy_unexpected.filt_subset sub [simplified])
qed

lemma k8sOps_total:
  assumes "observed c cs" "configs_merge T c" "0 \<le> mx"
  shows "defined (k8sOps T c (NewNodeFilter c cs) cs' mx)"
  unfolding k8sOps_def
  by (intro go_total apiserverOps_total cpComponentOps_total HealthyAPIServer_total kubeletOps_total
      proxyOps_total assms)

lemma unmarked_loop_total:
  assumes "observed c cs"
  shows "defined (unmarked_loop (NewNodeFilter c cs) m)"
proof (induction m)
  case (Cons kv m)
  obtain k v where kv: "kv = (k, v)" by (cases kv)
  have st: "nfNodeMap (NewNodeFilter c cs) k = Some n \<Longrightarrow> defined (nodeStatus (NewNodeFilter c cs) n)" for n
    using assms by (auto simp: observed_def nodeStatus_def defined_def dest!: nodeMap_mem)
  show ?case
    unfolding kv unmarked_loop.simps by (intro go_total Cons.IH st)
qed simp

lemma countInSync_total:
  assumes "observed c cs"
  shows "defined (countInSync (NewNodeFilter c cs) m)"
proof (induction m)
  case (Cons kv m)
  obtain k v where kv: "kv = (k, v)" by (cases kv)
  have st: "nfNodeMap (NewNodeFilter c cs) k = Some n \<Longrightarrow> defined (nodeStatus (NewNodeFilter c cs) n)" for n
    using assms by (auto simp: observed_def nodeStatus_def defined_def dest!: nodeMap_mem)
  show ?case
    unfolding kv countInSync.simps by (intro go_total Cons.IH st)
qed simp

lemma EtcdNonCPMembers_subset: "set (fst (EtcdNonCPMembers (NewNodeFilter c cs) h)) \<subseteq> set (cNodes c)"
  by (auto simp: EtcdNonCPMembers_def Let_def map_filter_def dest!: nodeMap_mem split: option.splits if_splits)

lemma go_filter_status_total:
  assumes "observed c cs" "set ts \<subseteq> set (cNodes c)"
  shows "defined (go_filter (\<lambda>n. Option.bind (nodeStatus (NewNodeFilter c cs) n) (\<lambda>st. Some (P n st))) ts)"
  using assms by (auto simp: defined_ex go_filter_defined observed_def nodeStatus_def)

lemma EtcdOutdatedMembers_total: "observed c cs \<Longrightarrow> defined (EtcdOutdatedMembers (NewNodeFilter c cs))"
  unfolding EtcdOutdatedMembers_def Let_def by (rule go_filter_status_total) auto

lemma etcdMaintOp_total:
  assumes o: "observed c cs"
  shows "defined (etcdMaintOp c (NewNodeFilter c cs))"
  unfolding etcdMaintOp_def Let_def EtcdUnmarkedMembers_def
  by (intro go_total ssh.filt_total [OF TrueI o] EtcdNonCPMembers_subset unmarked_loop_total [OF o]
      EtcdOutdatedMembers_total [OF o])

lemma etcdEndpointOps_total: "observed c cs \<Longrightarrow> defined (etcdEndpointOps cs' (NewNodeFilter c cs) marked)"
  unfolding etcdEndpointOps_def
  by (intro go_total HealthyAPIServer_total) (auto simp: defined_ex decideEpEpsOps_total)

lemma decideDNSOps_total:
  assumes "configs_merge T c"
  shows "defined (decideClusterDNSOps T api c ks)" "defined (decideNodeDNSOps T api c ks)"
  unfolding decideClusterDNSOps_def decideNodeDNSOps_def Let_def
  by (intro go_total, use GenerateKubelet_defined [OF assms] in \<open>auto simp: defined_ex\<close>)+

lemma k8sMaintOps_total:
  assumes "observed c cs" "configs_merge T c"
  shows "defined (k8sMaintOps T static c cs' resources (NewNodeFilter c cs))"
  unfolding k8sMaintOps_def Let_def
  by (intro go_total HealthyAPIServer_total decideDNSOps_total etcdEndpointOps_total assms)

lemma by_status_total:
  "observed c cs \<Longrightarrow> set ts \<subseteq> set (cNodes c) \<Longrightarrow> defined (by_status (NewNodeFilter c cs) P ts)"
  using by_status_defined observed_covered by (auto simp: defined_ex)

lemma cleanOps_total:
  assumes o: "observed c cs"
  shows "defined (cleanOps c (NewNodeFilter c cs))"
  unfolding cleanOps_def
  by (intro go_total go_filter_status_total [OF o] by_status_total [OF o]) (auto dest!: go_filter_subset)

lemma rebootOps_total:
  assumes o: "observed c cs"
  shows "defined (rebootOps c cs' k (NewNodeFilter c cs))"
  unfolding rebootOps_def Let_def
  by (intro go_total HealthyAPIServer_total [OF o] ssh_not.filt_total [OF TrueI o]) auto

lemma rebootUncordonOp_total: "observed c cs \<Longrightarrow> defined (rebootUncordonOp cs' (NewNodeFilter c cs))"
  unfolding rebootUncordonOp_def Let_def by (intro go_total HealthyAPIServer_total)

lemma repairOps_total:
  assumes o: "observed c cs" and s: "\<forall>e \<in> set (rqsEntries (csRepairQueue cs')). 0 \<le> reStep e"
  shows "defined (repairOps c cs' (NewNodeFilter c cs) now)"
proof -
  have "defined (repair_loop c (NewNodeFilter c cs) (csRepairQueue cs') now
      (rebootingApiServers cs' (NewNodeFilter c cs)) [] 0 0
      (sortedEntries (NewNodeFilter c cs) (csRepairQueue cs') now (rqsEntries (csRepairQueue cs'))))"
    unfolding defined_def
    using HealthyAPIServer_total [OF o] s
    by (intro repair_loop_total) (auto simp: defined_ex dest!: subsetD [OF sortedEntries_mem])
  then show ?thesis unfolding repairOps_def Let_def by (intro go_total)
qed

lemma EtcdBootstrapped_total: "observed c cs \<Longrightarrow> defined (EtcdBootstrapped (NewNodeFilter c cs))"
proof -
  assume "observed c cs"
  then have "EtcdBootstrapped (NewNodeFilter c cs) = Some (\<exists>n \<in> set (ControlPlaneNodes (NewNodeFilter c cs)).
      esHasData (nsEtcd (the (nodeStatus (NewNodeFilter c cs) n))))"
    unfolding EtcdBootstrapped_def by (intro go_any_total) (auto simp: observed_def nodeStatus_def)
  then show ?thesis by simp
qed

lemma EtcdIsGoodForRepair_total: "observed c cs \<Longrightarrow> defined (EtcdIsGoodForRepair (NewNodeFilter c cs) k)"
  unfolding EtcdIsGoodForRepair_def by (intro go_total countInSync_total)

text \<open>
  C1. The decision never panics: on a cluster whose configuration merges, with a status for every node, a
  non-negative limit of concurrent updates and non-negative repair steps, it returns operators and a
  phase.
\<close>
theorem DecideOps_no_panic:
  assumes o: "observed c cs" and m: "configs_merge T c" and mx: "0 \<le> maxConcurrentUpdates"
    and s: "\<forall>e \<in> set (rqsEntries (csRepairQueue cs)). 0 \<le> reStep e"
  shows "\<exists>ops phase. DecideOps T static c cs constraints resources maxConcurrentUpdates now = Some (ops, phase)"
proof -
  have "defined (DecideOps T static c cs constraints resources maxConcurrentUpdates now)"
    unfolding DecideOps_def decideMaint_def decideQueues_def decideReboot_def Let_def
    by (intro go_total ssh.filt_total [OF TrueI o] ssh_not.filt_total [OF TrueI o] riversOps_total [OF o mx]
        EtcdBootstrapped_total [OF o] etcd_stopped.filt_total [OF TrueI o] k8sOps_total [OF o m mx]
        etcdMaintOp_total [OF o] k8sMaintOps_total [OF o m] cleanOps_total [OF o]
        rebootUncordonOp_total [OF o] repairOps_total [OF o s] EtcdIsGoodForRepair_total [OF o]
        rebootOps_total [OF o])
      (auto dest!: etcd_stopped.filt_subset)
  then show ?thesis by (auto simp: defined_ex)
qed

section \<open>The phases\<close>

text \<open>One case per return of \<^verbatim>\<open>DecideOps\<close>, with what the code has established there.\<close>

lemma decideReboot_cases:
  assumes "decideReboot c cs k nf = Some (ops, ph)"
  obtains (reboot) "ph = PhaseRebootNodes" "rebootOps c cs k nf = Some ops" "ops \<noteq> []" "EtcdIsGood nf"
  | (blocked) "ph = PhaseRebootNodes" "ops = []" "\<not> EtcdIsGood nf"
  | (completed) "ph = PhaseCompleted" "ops = []" "rebootOps c cs k nf = Some []"
proof -
  from assms obtain r where r: "rebootOps c cs k nf = Some r" by (auto simp: decideReboot_def)
  with assms show ?thesis
    using that by (cases "r = []"; cases "EtcdIsGood nf") (auto simp: decideReboot_def)
qed

lemma decideQueues_cases:
  assumes "decideQueues c cs k nf now = Some (ops, ph)"
  obtains (uncordon) op where "ph = PhaseUncordonNodes" "ops = [op]" "rebootUncordonOp cs nf = Some (Some op)"
  | (repair) "ph = PhaseRepairMachines" "repairOps c cs nf now = Some (ops, True)"
      "EtcdIsGoodForRepair nf (ctControlPlaneCount k) = Some True"
  | (repair_blocked) "ph = PhaseRepairMachines" "ops = []"
  | (later) "decideReboot c cs k nf = Some (ops, ph)" "rebootUncordonOp cs nf = Some None"
      "\<exists>rops. repairOps c cs nf now = Some (rops, False)"
proof -
  from assms obtain u where u: "rebootUncordonOp cs nf = Some u" by (auto simp: decideQueues_def)
  show ?thesis
  proof (cases u)
    case (Some op)
    with u assms that(1) show ?thesis by (auto simp: decideQueues_def)
  next
    case None
    from None u assms obtain rops ph' where r: "repairOps c cs nf now = Some (rops, ph')"
      by (auto simp: decideQueues_def)
    show ?thesis
    proof (cases ph')
      case False
      with None u r assms that(4) show ?thesis by (auto simp: decideQueues_def)
    next
      case True
      with None u r assms obtain g where "EtcdIsGoodForRepair nf (ctControlPlaneCount k) = Some g"
        by (auto simp: decideQueues_def)
      with True None u r assms that(2,3) show ?thesis
        by (cases g) (auto simp: decideQueues_def)
    qed
  qed
qed

lemma decideMaint_cases:
  assumes "decideMaint T static c cs k res nf now = Some (ops, ph)"
  obtains (etcd) op where "ph = PhaseEtcdMaintain" "ops = [op]" "etcdMaintOp c nf = Some (Some op)"
      "SSHNotConnected nf (ControlPlaneNodes nf) = Some []"
  | (k8s) "ph = PhaseK8sMaintain" "k8sMaintOps T static c cs res nf = Some ops" "ops \<noteq> []"
  | (clean) "ph = PhaseStopCP" "cleanOps c nf = Some ops" "ops \<noteq> []"
  | (later) "decideQueues c cs k nf now = Some (ops, ph)" "k8sMaintOps T static c cs res nf = Some []"
      "cleanOps c nf = Some []"
      "SSHNotConnected nf (ControlPlaneNodes nf) = Some [] \<longrightarrow> etcdMaintOp c nf = Some None"
proof -
  from assms obtain u where u: "SSHNotConnected nf (ControlPlaneNodes nf) = Some u"
    by (auto simp: decideMaint_def)
  define m where "m = (if length u = 0 then etcdMaintOp c nf else Some None)"
  from assms u obtain mo where mo: "m = Some mo" by (auto simp: decideMaint_def m_def)
  show ?thesis
  proof (cases mo)
    case (Some op)
    with mo m_def have "u = []" "etcdMaintOp c nf = Some (Some op)" by (auto split: if_splits)
    with Some u mo m_def assms that(1) show ?thesis by (auto simp: decideMaint_def)
  next
    case None
    have e: "u = [] \<longrightarrow> etcdMaintOp c nf = Some None" using None mo m_def by auto
    from None u mo assms obtain ks where ks: "k8sMaintOps T static c cs res nf = Some ks"
      by (auto simp: decideMaint_def m_def)
    show ?thesis
    proof (cases "ks = []")
      case False
      with None u mo ks assms that(2) show ?thesis by (auto simp: decideMaint_def m_def)
    next
      case True
      from True None u mo ks assms obtain cl where cl: "cleanOps c nf = Some cl"
        by (auto simp: decideMaint_def m_def)
      with True None u mo ks assms that(3,4) e show ?thesis
        by (cases "cl = []") (auto simp: decideMaint_def m_def)
    qed
  qed
qed

lemma DecideOps_cases:
  fixes c cs
  defines "nf \<equiv> NewNodeFilter c cs"
  assumes D: "DecideOps T static c cs k res mx now = Some (ops, ph)"
  obtains (upgrade_aborted) "ph = PhaseUpgradeAborted" "ops = []" "csConfigVersion cs \<noteq> ConfigVersion"
  | (upgrade) "ph = PhaseUpgrade" "ops = [NodeOp (UpgradeOp (csConfigVersion cs) (ControlPlaneNodes nf))]"
      "csConfigVersion cs \<noteq> ConfigVersion" "SSHNotConnected nf (ControlPlaneNodes nf) = Some []"
  | (rivers) "ph = PhaseRivers" "riversOps c nf mx = Some ops" "ops \<noteq> []"
  | (boot_aborted) "ph = PhaseEtcdBootAborted" "ops = []" "EtcdBootstrapped nf = Some False"
  | (boot) "ph = PhaseEtcdBoot" "ops = [EtcdOp (EtcdBootOp (ControlPlaneNodes nf) (oEtcd (cOptions c)))]"
      "EtcdBootstrapped nf = Some False" "SSHNotConnected nf (ControlPlaneNodes nf) = Some []"
  | (start) stopped nodes where "ph = PhaseEtcdStart" "ops = [EtcdOp (EtcdStartOp nodes (oEtcd (cOptions c)))]"
      "EtcdStopped nf (ControlPlaneNodes nf) = Some stopped" "SSHConnected nf stopped = Some nodes"
      "nodes \<noteq> []" "EtcdBootstrapped nf = Some True"
  | (wait) "ph = PhaseEtcdWait" "ops = [EtcdOp (EtcdWaitClusterOp (ControlPlaneNodes nf))]"
      "\<not> ecIsHealthy (csEtcd cs)"
  | (k8s) "ph = PhaseK8sStart" "k8sOps T c nf cs mx = Some ops" "ops \<noteq> []" "ecIsHealthy (csEtcd cs)"
  | (later) stopped where "decideMaint T static c cs k res nf now = Some (ops, ph)"
      "csConfigVersion cs = ConfigVersion" "riversOps c nf mx = Some []" "EtcdBootstrapped nf = Some True"
      "EtcdStopped nf (ControlPlaneNodes nf) = Some stopped" "SSHConnected nf stopped = Some []"
      "ecIsHealthy (csEtcd cs)" "k8sOps T c nf cs mx = Some []"
proof (cases "csConfigVersion cs = ConfigVersion")
  case False
  with D obtain u where "SSHNotConnected nf (ControlPlaneNodes nf) = Some u"
    by (auto simp: DecideOps_def Let_def nf_def)
  with False D that(1,2) show ?thesis
    by (cases "u = []") (auto simp: DecideOps_def Let_def nf_def)
next
  case v: True
  with D obtain r where r: "riversOps c nf mx = Some r"
    by (auto simp: DecideOps_def Let_def nf_def)
  show ?thesis
  proof (cases "r = []")
    case False
    with v r D that(3) show ?thesis by (auto simp: DecideOps_def Let_def nf_def)
  next
    case r0: True
    with v r D obtain b where b: "EtcdBootstrapped nf = Some b"
      by (auto simp: DecideOps_def Let_def nf_def)
    show ?thesis
    proof (cases b)
      case False
      with v r r0 b D obtain u where "SSHNotConnected nf (ControlPlaneNodes nf) = Some u"
        by (auto simp: DecideOps_def Let_def nf_def)
      with False v r r0 b D that(4,5) show ?thesis
        by (cases "u = []") (auto simp: DecideOps_def Let_def nf_def)
    next
      case True
      with v r r0 b D obtain st nodes where
        st: "EtcdStopped nf (ControlPlaneNodes nf) = Some st" "SSHConnected nf st = Some nodes"
        by (auto simp: DecideOps_def Let_def nf_def)
      note facts = True v r r0 b st
      consider "nodes \<noteq> []" | "nodes = []" "\<not> ecIsHealthy (csEtcd cs)" | "nodes = []" "ecIsHealthy (csEtcd cs)"
        by blast
      then show ?thesis
      proof cases
        case 1
        with facts D that(6) show ?thesis by (auto simp: DecideOps_def Let_def nf_def)
      next
        case 2
        with facts D that(7) show ?thesis by (auto simp: DecideOps_def Let_def nf_def)
      next
        case 3
        with facts D obtain ks where "k8sOps T c nf cs mx = Some ks"
          by (auto simp: DecideOps_def Let_def nf_def)
        with 3 facts D that(8,9) show ?thesis
          by (cases "ks = []") (auto simp: DecideOps_def Let_def nf_def)
      qed
    qed
  qed
qed

end
