(* ===== verification/CKE_Safety.thy ===== *)
theory CKE_Safety
  imports CKE_Decide
begin

text \<open>
  Safety of the decided operators: they touch only machines that CKE can reach, they respect the limit
  of concurrent updates, API servers are restarted one by one, and etcd members and machines are
  touched only while the etcd cluster tolerates it.
\<close>

section \<open>Which machines an operator touches\<close>

text \<open>
  The nodes on which a command runs containers or writes files through the SSH agent, or whose kubelet
  it waits for.
\<close>

fun container_nodes :: "container_command \<Rightarrow> Node list" where
  "container_nodes (ImagePull ns img) = ns"
| "container_nodes (RunContainer r) = rcNodes r"
| "container_nodes (StopContainers ns name) = ns"
| "container_nodes (KillContainers ns name) = ns"
| "container_nodes (VolumeCreate ns name) = ns"
| "container_nodes (VolumeRemove ns name) = ns"

fun file_nodes :: "file_command \<Rightarrow> Node list" where
  "file_nodes (MakeDirs ns ds mode) = ns"
| "file_nodes (MakeFiles ns) = ns"
| "file_nodes (EmptyDir ns d) = ns"
| "file_nodes (InstallCNI ns) = ns"
| "file_nodes (PrepareEtcdCertificates ns) = ns"
| "file_nodes (PrepareAPIServerFiles ns sub d p) = ns"
| "file_nodes (PrepareControllerManagerFiles cl ns) = ns"
| "file_nodes (PrepareSchedulerFiles cl ns p) = ns"
| "file_nodes (PrepareProxyFiles cl ap ns p) = ns"
| "file_nodes (PrepareKubeletFiles cl p st ns) = ns"
| "file_nodes (PrepareKubeletConfig cl p st ns) = ns"

fun command_nodes :: "command \<Rightarrow> Node list" where
  "command_nodes (Container cc) = container_nodes cc"
| "command_nodes (Files fc) = file_nodes fc"
| "command_nodes (Etcd (AddEtcdMember eps n opts extra)) = [n]"
| "command_nodes (Etcd (UpgradeToVersion2 ns)) = ns"
| "command_nodes (Kube (WaitForKubeletReady ns)) = ns"
| "command_nodes c = []"

definition touched :: "third_party \<Rightarrow> operator \<Rightarrow> Node set" where
  "touched T op = (\<Union>cmd \<in> set (commands T op). set (command_nodes cmd))"

text \<open>The arguments of an operator that are nodes to work on.\<close>

fun node_op_nodes :: "node_op \<Rightarrow> Node list" where
  "node_op_nodes (UpgradeOp v ns) = ns"
| "node_op_nodes (RiversBootOp ns us p nm up lp) = ns"
| "node_op_nodes (RiversRestartOp ns us p nm up lp) = ns"
| "node_op_nodes (APIServerStopOp ns) = ns"
| "node_op_nodes (ControllerManagerStopOp ns) = ns"
| "node_op_nodes (SchedulerStopOp ns) = ns"
| "node_op_nodes (EtcdStopOp ns) = ns"
| "node_op_nodes (EtcdRiversStopOp ns) = ns"
| "node_op_nodes (ProxyStopOp ns) = ns"

fun etcd_op_nodes :: "etcd_op \<Rightarrow> Node list" where
  "etcd_op_nodes (EtcdBootOp ns p) = ns"
| "etcd_op_nodes (EtcdStartOp ns p) = ns"
| "etcd_op_nodes (EtcdWaitClusterOp ns) = []"
| "etcd_op_nodes (EtcdRemoveMemberOp cp ms) = []"
| "etcd_op_nodes (EtcdDestroyMemberOp cp ts ids) = ts"
| "etcd_op_nodes (EtcdAddMemberOp cp n p) = [n]"
| "etcd_op_nodes (EtcdMarkMemberOp ns) = ns"
| "etcd_op_nodes (EtcdRestartOp cp n p) = [n]"

fun k8s_op_nodes :: "k8s_op \<Rightarrow> Node list" where
  "k8s_op_nodes (APIServerRestartOp ns sub p d) = ns"
| "k8s_op_nodes (ControllerManagerBootOp ns nm sub p) = ns"
| "k8s_op_nodes (ControllerManagerRestartOp ns nm sub p) = ns"
| "k8s_op_nodes (SchedulerBootOp ns nm p) = ns"
| "k8s_op_nodes (SchedulerRestartOp ns nm p) = ns"
| "k8s_op_nodes (KubeletBootOp ns rs api nm p st) = ns"
| "k8s_op_nodes (KubeletRestartOp ns nm p st) = ns"
| "k8s_op_nodes (KubeProxyBootOp ns nm ap p) = ns"
| "k8s_op_nodes (KubeProxyRestartOp ns nm ap p) = ns"

fun op_nodes :: "operator \<Rightarrow> Node list" where
  "op_nodes (NodeOp op) = node_op_nodes op"
| "op_nodes (EtcdOp op) = etcd_op_nodes op"
| "op_nodes (K8sOp op) = k8s_op_nodes op"
| "op_nodes (KubeOp op) = []"
| "op_nodes (RebootOp op) = []"
| "op_nodes (RepairOp op) = []"

lemma touched_groups:
  "touched T (NodeOp nop) \<subseteq> set (node_op_nodes nop)" "touched T (EtcdOp eop) \<subseteq> set (etcd_op_nodes eop)"
  "touched T (K8sOp kop) \<subseteq> set (k8s_op_nodes kop)" "touched T (KubeOp uop) = {}"
  "touched T (RebootOp bop) = {}" "touched T (RepairOp rop) = {}"
       apply (cases nop; simp add: touched_def commands_def operation_defs run_defs)
      apply (cases eop; simp add: touched_def commands_def operation_defs Let_def)
     apply (cases kop; simp add: touched_def commands_def operation_defs run_defs)
    apply (cases uop; simp add: touched_def commands_def operation_defs)
   apply (cases bop; simp add: touched_def commands_def operation_defs)
  apply (cases rop; simp add: touched_def commands_def operation_defs)
  done

lemma touched_subset: "touched T op \<subseteq> set (op_nodes op)"
  by (cases op) (simp_all add: touched_groups)

section \<open>Reachability\<close>

definition reachable_node :: "ClusterStatus \<Rightarrow> Node \<Rightarrow> bool" where
  "reachable_node cs n \<longleftrightarrow> (\<exists>st. csNodeStatuses cs (nAddress n) = Some st \<and> nsSSHConnected st)"

definition all_reachable :: "ClusterStatus \<Rightarrow> operator \<Rightarrow> bool" where
  "all_reachable cs op \<longleftrightarrow> (\<forall>n \<in> set (op_nodes op). reachable_node cs n)"

lemma SSHConnected_reachable:
  "SSHConnected (NewNodeFilter c cs) ts = Some ns \<Longrightarrow> n \<in> set ns \<Longrightarrow> reachable_node cs n"
  by (auto simp: ssh.filt_mem reachable_node_def nodeStatus_def)

lemma SSHNotConnected_none:
  assumes "SSHNotConnected (NewNodeFilter c cs) ts = Some []" "n \<in> set ts"
  shows "reachable_node cs n"
proof -
  from assms have "nodeStatus (NewNodeFilter c cs) n \<noteq> None"
    by (auto simp: SSHNotConnected_def by_status_def dest!: go_filter_Some)
  then obtain st where st: "csNodeStatuses cs (nAddress n) = Some st" by (auto simp: nodeStatus_def)
  then show ?thesis
    using ssh_not.filt_empty [OF assms, of st] by (auto simp: reachable_node_def nodeStatus_def)
qed

lemma first_nodes_subset: "first_nodes ns m = Some ks \<Longrightarrow> set ks \<subseteq> set ns"
  by (auto simp: first_nodes_def Let_def split: if_splits dest: in_set_takeD)

lemma first_nodes_length: "first_nodes ns m = Some ks \<Longrightarrow> int (length ks) \<le> m"
  by (auto simp: first_nodes_def Let_def split: if_splits)

text \<open>A branch of a decision: every operator it appends satisfies a predicate.\<close>

lemma when_reachable_mem:
  assumes "when_reachable nf targets mk = Some ops" "op \<in> set ops"
  obtains ts ns where "targets = Some ts" "SSHConnected nf ts = Some ns" "ns \<noteq> []" "mk ns = Some op" "ops = [op]"
  using assms by (auto simp: when_reachable_def split: if_splits)

text \<open>Operators that restart services of the data plane, which the limit of concurrent updates bounds.\<close>

fun bounded_op :: "operator \<Rightarrow> bool" where
  "bounded_op (NodeOp (RiversBootOp ns us p nm up lp)) = True"
| "bounded_op (NodeOp (RiversRestartOp ns us p nm up lp)) = True"
| "bounded_op (NodeOp (ProxyStopOp ns)) = True"
| "bounded_op (K8sOp (KubeletBootOp ns rs api nm p st)) = True"
| "bounded_op (K8sOp (KubeletRestartOp ns nm p st)) = True"
| "bounded_op (K8sOp (KubeProxyBootOp ns nm ap p)) = True"
| "bounded_op (K8sOp (KubeProxyRestartOp ns nm ap p)) = True"
| "bounded_op op = False"

definition good_op :: "ClusterStatus \<Rightarrow> int \<Rightarrow> operator \<Rightarrow> bool" where
  "good_op cs m op \<longleftrightarrow> all_reachable cs op \<and> (bounded_op op \<longrightarrow> int (length (op_nodes op)) \<le> m)"

definition all_good :: "ClusterStatus \<Rightarrow> int \<Rightarrow> operator list \<Rightarrow> bool" where
  "all_good cs m ops \<longleftrightarrow> (\<forall>op\<in>set ops. good_op cs m op)"

lemma all_good_simps [simp]:
  "all_good cs m []" "all_good cs m (op # ops) \<longleftrightarrow> good_op cs m op \<and> all_good cs m ops"
  "all_good cs m (ops @ ops') \<longleftrightarrow> all_good cs m ops \<and> all_good cs m ops'"
  by (auto simp: all_good_def)

lemma good_KubeOp [simp]:
  "good_op cs m (KubeOp op)" "good_op cs m (RebootOp op')" "good_op cs m (RepairOp op'')"
  by (simp_all add: good_op_def all_reachable_def)

lemma all_good_KubeOp [simp]: "all_good cs m (map KubeOp ks)"
  by (auto simp: all_good_def)

lemma good_limited:
  assumes "when_reachable (NewNodeFilter c cs) targets
      (\<lambda>ns. Option.bind (first_nodes ns m) (\<lambda>ks. Some (f ks))) = Some ops"
    and nodes: "\<And>ks. op_nodes (f ks) = ks"
  shows "all_good cs m ops"
  unfolding all_good_def
proof
  fix op assume "op \<in> set ops"
  with assms(1) obtain ts ns where "SSHConnected (NewNodeFilter c cs) ts = Some ns"
    "Option.bind (first_nodes ns m) (\<lambda>ks. Some (f ks)) = Some op"
    by (rule when_reachable_mem)
  moreover from this obtain ks where "first_nodes ns m = Some ks" "op = f ks" by auto
  ultimately show "good_op cs m op"
    using first_nodes_subset first_nodes_length SSHConnected_reachable
    by (fastforce simp: good_op_def all_reachable_def nodes)
qed

lemma good_plain:
  assumes "when_reachable (NewNodeFilter c cs) targets (\<lambda>ns. Some (f ns)) = Some ops"
    and nodes: "\<And>ks. op_nodes (f ks) = ks" and "\<And>ks. \<not> bounded_op (f ks)"
  shows "all_good cs m ops"
  unfolding all_good_def
proof
  fix op assume "op \<in> set ops"
  with assms(1) obtain ts ns where "SSHConnected (NewNodeFilter c cs) ts = Some ns" "op = f ns"
    by (rule when_reachable_mem) auto
  then show "good_op cs m op"
    using SSHConnected_reachable assms(3) by (auto simp: good_op_def all_reachable_def nodes)
qed

lemma riversOps_good:
  assumes "riversOps c (NewNodeFilter c cs) m = Some ops"
  shows "all_good cs m ops"
  using assms unfolding riversOps_def Let_def
  by (auto elim!: good_limited)


lemma decideEpOp_good:
  "returns (\<lambda>op. all_good cs m (opt_list op)) (decideEpOp e actual api)"
  "returns (\<lambda>op. all_good cs m (opt_list op)) (decideEpsOp e' actual' api)"
  unfolding decideEpOp_def decideEpsOp_def Let_def
  by (intro go_returns; simp add: opt_list_def)+

lemma masterEndpointOps_good:
  "masterEndpointOps cs' nf marked = Some ops \<Longrightarrow> all_good cs m ops"
  by (auto simp: masterEndpointOps_def decideEpEpsOps_def intro: returnsD [OF decideEpOp_good(1)] returnsD [OF decideEpOp_good(2)])

lemma masterEndpointOps_if_healthy_good:
  "masterEndpointOps_if_healthy cs' nf = Some ops \<Longrightarrow> all_good cs m ops"
  by (auto simp: masterEndpointOps_if_healthy_def intro: masterEndpointOps_good split: if_splits)

lemma apiserverRestart_good:
  "apiserverRestart T c ns = Some op \<Longrightarrow> good_op cs m op \<longleftrightarrow> (\<forall>n \<in> set ns. reachable_node cs n)"
  by (auto simp: apiserverRestart_def good_op_def all_reachable_def)

text \<open>How \<^verbatim>\<open>apiserverOps\<close> decides: restart what is stopped or broken, wait, restart one, or go on.\<close>

lemma apiserverOps_cases:
  assumes "apiserverOps T c nf cs = Some (ops, fin)"
  obtains (broken) stopped n1 unhealthy broken n2 eps restart where
      "APIServerStopped nf (ControlPlaneNodes nf) = Some stopped" "SSHConnected nf stopped = Some n1"
      "APIServerUnhealthy nf (ControlPlaneNodes nf) = Some unhealthy"
      "APIServerOutdated T nf unhealthy = Some broken" "SSHConnected nf broken = Some n2"
      "masterEndpointOps_if_healthy cs nf = Some eps" "apiserverRestart T c (n1 @ n2) = Some restart"
      "n1 @ n2 \<noteq> []" "ops = eps @ [restart]" "fin"
  | (wait) unreachable unhealthy where "masterEndpointOps_if_healthy cs nf = Some ops" "fin"
      "SSHNotConnected nf (ControlPlaneNodes nf) = Some unreachable"
      "APIServerUnhealthy nf (ControlPlaneNodes nf) = Some unhealthy"
      "unreachable \<noteq> [] \<or> unhealthy \<noteq> []"
  | (restart) outdated target rest eps restart where
      "SSHNotConnected nf (ControlPlaneNodes nf) = Some []"
      "APIServerUnhealthy nf (ControlPlaneNodes nf) = Some []"
      "APIServerOutdated T nf (ControlPlaneNodes nf) = Some outdated"
      "SSHConnected nf outdated = Some (target # rest)"
      "masterEndpointOps cs nf [nAddress target] = Some eps" "apiserverRestart T c [target] = Some restart"
      "ops = eps @ [restart]" "fin"
  | (go_on) outdated stopped where
      "SSHNotConnected nf (ControlPlaneNodes nf) = Some []"
      "APIServerUnhealthy nf (ControlPlaneNodes nf) = Some []"
      "APIServerOutdated T nf (ControlPlaneNodes nf) = Some outdated"
      "SSHConnected nf outdated = Some []"
      "masterEndpointOps cs nf (rebootNextCandidates cs) = Some ops" "\<not> fin"
      "APIServerStopped nf (ControlPlaneNodes nf) = Some stopped" "SSHConnected nf stopped = Some []"
proof -
  let ?cp = "ControlPlaneNodes nf"
  from assms obtain st n1 u b n2 where f: "APIServerStopped nf ?cp = Some st" "SSHConnected nf st = Some n1"
    "APIServerUnhealthy nf ?cp = Some u" "APIServerOutdated T nf u = Some b" "SSHConnected nf b = Some n2"
    unfolding apiserverOps_def Let_def by auto
  show ?thesis
  proof (cases "n1 @ n2 = []")
    case False
    with assms f show ?thesis
      by (auto simp: apiserverOps_def Let_def intro: broken [OF f])
  next
    case True
    with assms f obtain un where un: "SSHNotConnected nf ?cp = Some un" by (auto simp: apiserverOps_def Let_def)
    show ?thesis
    proof (cases "un = [] \<and> u = []")
      case False
      with True assms f un wait [OF _ _ un f(3)] show ?thesis by (auto simp: apiserverOps_def Let_def)
    next
      case quiet: True
      with True assms f un obtain od rs where
        o: "APIServerOutdated T nf ?cp = Some od" "SSHConnected nf od = Some rs"
        by (auto simp: apiserverOps_def Let_def)
      show ?thesis
        using True assms f un quiet o restart [OF _ _ o(1)] go_on [OF _ _ o(1) _ _ _ f(1)]
        by (cases rs) (auto simp: apiserverOps_def Let_def)
    qed
  qed
qed

lemma apiserverOps_good:
  assumes "apiserverOps T c (NewNodeFilter c cs) cs = Some (ops, fin)"
  shows "all_good cs m ops"
  using assms
proof (cases rule: apiserverOps_cases)
  case broken
  then show ?thesis
    by (auto simp: apiserverRestart_good masterEndpointOps_if_healthy_good dest: SSHConnected_reachable)
next
  case wait
  then show ?thesis by (simp add: masterEndpointOps_if_healthy_good)
next
  case (restart outdated target)
  then show ?thesis
    by (auto simp: apiserverRestart_good masterEndpointOps_good dest: SSHConnected_reachable)
next
  case go_on
  then show ?thesis by (simp add: masterEndpointOps_good)
qed

lemma cpComponentOps_good:
  "cpComponentOps T c (NewNodeFilter c cs) = Some ops \<Longrightarrow> all_good cs m ops"
  unfolding cpComponentOps_def Let_def by (auto elim!: good_plain)

lemma kubeletOps_good:
  assumes "kubeletOps T c (NewNodeFilter c cs) cs' m api = Some ops"
  shows "all_good cs m ops"
proof -
  have "all_good cs m [K8sOp (KubeletRestartOp ns nm opts st)]"
    if "SSHConnected (NewNodeFilter c cs) ts = Some rs" "first_nodes rs m = Some ns" for ts rs ns nm opts st
    using that SSHConnected_reachable first_nodes_subset first_nodes_length
    by (fastforce simp: good_op_def all_reachable_def)
  then show ?thesis
    using assms unfolding kubeletOps_def Let_def
    by (auto elim!: good_limited split: if_splits)
qed

lemma proxyOps_good:
  "proxyOps T c (NewNodeFilter c cs) m = Some ops \<Longrightarrow> all_good cs m ops"
  unfolding proxyOps_def Let_def by (auto elim!: good_limited)

lemma k8sOps_good:
  "k8sOps T c (NewNodeFilter c cs) cs m = Some ops \<Longrightarrow> all_good cs m ops"
  by (auto simp: k8sOps_def apiserverOps_good cpComponentOps_good kubeletOps_good proxyOps_good split: if_splits)

text \<open>How \<^verbatim>\<open>etcdMaintOp\<close> decides; the last four need a good etcd cluster.\<close>

lemma etcdMaintOp_cases:
  assumes "etcdMaintOp c nf = Some (Some op)"
  obtains (remove) "op = EtcdOp (EtcdRemoveMemberOp (ControlPlaneNodes nf) (EtcdNonClusterMembers nf False))"
      "EtcdNonClusterMembers nf False \<noteq> []"
  | (destroy) targets where "op = EtcdOp (EtcdDestroyMemberOp (ControlPlaneNodes nf) targets (snd (EtcdNonCPMembers nf False)))"
      "SSHConnected nf (fst (EtcdNonCPMembers nf False)) = Some targets"
  | (unstarted) n where "op = EtcdOp (EtcdAddMemberOp (ControlPlaneNodes nf) n (oEtcd (cOptions c)))"
      "n \<in> set (EtcdUnstartedMembers nf)"
  | (unmarked) ns where "op = EtcdOp (EtcdMarkMemberOp ns)" "EtcdUnmarkedMembers nf = Some ns"
  | (new) n where "op = EtcdOp (EtcdAddMemberOp (ControlPlaneNodes nf) n (oEtcd (cOptions c)))"
      "n \<in> set (EtcdNewMembers nf)" "EtcdIsGood nf"
  | (remove_healthy) "op = EtcdOp (EtcdRemoveMemberOp (ControlPlaneNodes nf) (EtcdNonClusterMembers nf True))"
      "EtcdNonClusterMembers nf True \<noteq> []" "EtcdIsGood nf" "EtcdNewMembers nf = []"
  | (destroy_healthy) targets where
      "op = EtcdOp (EtcdDestroyMemberOp (ControlPlaneNodes nf) targets (snd (EtcdNonCPMembers nf True)))"
      "SSHConnected nf (fst (EtcdNonCPMembers nf True)) = Some targets" "EtcdIsGood nf" "EtcdNewMembers nf = []"
  | (restart) n ns where "op = EtcdOp (EtcdRestartOp (ControlPlaneNodes nf) n (oEtcd (cOptions c)))"
      "EtcdOutdatedMembers nf = Some (n # ns)" "EtcdIsGood nf" "EtcdNewMembers nf = []"
  using assms unfolding etcdMaintOp_def Let_def
  by (auto split: if_splits list.splits) (auto simp: neq_Nil_conv)

lemma unmarked_loop_cp:
  "unmarked_loop (NewNodeFilter c cs) m = Some ns \<Longrightarrow> set ns \<subseteq> set (filter nControlPlane (cNodes c))"
proof (induction m arbitrary: ns)
  case (Cons kv m)
  then show ?case
    by (cases kv) (force split: if_splits option.splits dest!: nodeMap_mem)
qed simp

lemma EtcdUnstartedMembers_cp:
  "set (EtcdUnstartedMembers (NewNodeFilter c cs)) \<subseteq> set (filter nControlPlane (cNodes c))"
  by (auto simp: EtcdUnstartedMembers_def map_filter_def dest!: nodeMap_mem split: option.splits if_splits)

lemma etcdMaintOp_good:
  assumes op: "etcdMaintOp c (NewNodeFilter c cs) = Some (Some op)"
    and cp: "SSHNotConnected (NewNodeFilter c cs) (ControlPlaneNodes (NewNodeFilter c cs)) = Some []"
  shows "good_op cs m op"
proof -
  have reach: "reachable_node cs n" if "n \<in> set (filter nControlPlane (cNodes c))" for n
    using SSHNotConnected_none [OF cp] that by simp
  show ?thesis using op
  proof (cases rule: etcdMaintOp_cases)
    case (unstarted n)
    then show ?thesis using EtcdUnstartedMembers_cp reach by (auto simp: good_op_def all_reachable_def)
  next
    case (unmarked ns)
    then show ?thesis
      using unmarked_loop_cp reach by (fastforce simp: good_op_def all_reachable_def EtcdUnmarkedMembers_def)
  next
    case (new n)
    then show ?thesis using reach by (auto simp: good_op_def all_reachable_def EtcdNewMembers_def)
  next
    case (restart n ns)
    then have "n \<in> set (filter nControlPlane (cNodes c))"
      by (auto simp: EtcdOutdatedMembers_def dest!: go_filter_subset)
    then show ?thesis using restart reach by (auto simp: good_op_def all_reachable_def)
  qed (auto simp: good_op_def all_reachable_def dest: SSHConnected_reachable)
qed

lemma cleanOps_good:
  assumes "cleanOps c (NewNodeFilter c cs) = Some ops"
  shows "all_good cs m ops"
proof -
  let ?nf = "NewNodeFilter c cs"
  from assms obtain targets where
    t: "go_filter (\<lambda>n. Option.bind (nodeStatus ?nf n) (\<lambda>st. Some (nsSSHConnected st \<and> \<not> nControlPlane n)))
      (cNodes c) = Some targets"
    by (auto simp: cleanOps_def)
  then have "reachable_node cs n" if "n \<in> set targets" for n
    using that by (auto simp: reachable_node_def nodeStatus_def dest!: go_filter_memD)
  then have "all_good cs m (stop_if ns mk)"
    if "by_status ?nf P targets = Some ns" "\<And>ks. node_op_nodes (mk ks) = ks" "\<And>ks. \<not> bounded_op (NodeOp (mk ks))"
    for P ns mk
    using that go_filter_subset by (fastforce simp: stop_if_def good_op_def all_reachable_def by_status_def)
  then show ?thesis
    using assms t by (auto simp: cleanOps_def)
qed

lemma decideEtcdServiceOps_good: "all_good cs m (opt_list (decideEtcdServiceOps api svc))"
  by (auto simp: decideEtcdServiceOps_def opt_list_def Let_def split: option.split)

lemma resource_ops_good: "all_good cs m (resource_ops api trusted ks ready rs)"
  by (auto simp: all_good_def resource_ops_def map_filter_def split: if_splits option.splits)

lemma decideDNSOps_good:
  "returns (all_good cs m) (decideClusterDNSOps T api c ks)"
  "returns (all_good cs m) (decideNodeDNSOps T api c ks)"
  unfolding decideClusterDNSOps_def decideNodeDNSOps_def Let_def
  by (intro go_returns; simp split: option.split)+

lemma etcdEndpointOps_good: "etcdEndpointOps cs' nf marked = Some ops \<Longrightarrow> all_good cs m ops"
  by (auto simp: etcdEndpointOps_def decideEpEpsOps_def decideEtcdServiceOps_good
      intro: returnsD [OF decideEpOp_good(1)] returnsD [OF decideEpOp_good(2)])

lemma k8sMaintOps_good: "returns (all_good cs m) (k8sMaintOps T static c cs' res nf)"
  unfolding k8sMaintOps_def Let_def decideResourceOps_def
  by (intro go_returns)
    (auto simp: resource_ops_good etcdEndpointOps_good intro: returnsD [OF decideDNSOps_good(1)]
      returnsD [OF decideDNSOps_good(2)])

lemma queue_ops_good:
  "repairOps c cs' nf now = Some (ops, ph) \<Longrightarrow> all_good cs m ops"
  "rebootUncordonOp cs' nf = Some (Some op) \<Longrightarrow> good_op cs m op"
  "returns (all_good cs m) (rebootOps c cs' k nf)"
    apply (erule repairOps_Some, auto simp: all_good_def)[1]
   apply (auto simp: rebootUncordonOp_def Let_def split: if_splits)[1]
  unfolding rebootOps_def Let_def
  apply (intro go_returns; auto split: if_splits)
  done

lemma DecideOps_good:
  assumes "DecideOps T static c cs k res m now = Some (ops, ph)"
  shows "all_good cs m ops"
  using assms
proof (cases rule: DecideOps_cases)
  case (start stopped nodes)
  then show ?thesis by (auto simp: good_op_def all_reachable_def dest: SSHConnected_reachable)
next
  case (later stopped)
  from later(1) show ?thesis
  proof (cases rule: decideMaint_cases)
    case (etcd op)
    then show ?thesis by (simp add: etcdMaintOp_good)
  next
    case later
    from later(1) show ?thesis
    proof (cases rule: decideQueues_cases)
      case later
      from later(1) show ?thesis
        by (cases rule: decideReboot_cases) (auto dest: returnsD [OF queue_ops_good(3)])
    qed (simp_all add: queue_ops_good)
  qed (auto simp: cleanOps_good dest: returnsD [OF k8sMaintOps_good])
qed (auto simp: riversOps_good k8sOps_good good_op_def all_reachable_def dest: SSHNotConnected_none)

section \<open>Properties\<close>

text \<open>
  C2. CKE works only on machines it can reach: every node on which a decided operator runs containers, writes
  files or waits for a kubelet has been connected by SSH in the observed status.
\<close>
theorem decided_ops_reachable:
  assumes "DecideOps T static c cs constraints resources maxConcurrentUpdates now = Some (ops, phase)"
    and "op \<in> set ops" and "n \<in> touched T' op"
  shows "\<exists>st. csNodeStatuses cs (nAddress n) = Some st \<and> nsSSHConnected st"
  using DecideOps_good [OF assms(1)] assms(2,3) touched_subset [of T' op]
  by (auto simp: all_good_def good_op_def all_reachable_def reachable_node_def)

text \<open>
  C3. The limit of concurrent updates holds: an operator that starts or restarts rivers, kubelets or kube
  proxies, or stops a kube proxy, touches at most that many machines.
\<close>
theorem concurrent_updates_bounded:
  assumes "DecideOps T static c cs constraints resources maxConcurrentUpdates now = Some (ops, phase)"
    and "op \<in> set ops" and "bounded_op op"
  shows "int (card (touched T' op)) \<le> maxConcurrentUpdates"
proof -
  have "int (length (op_nodes op)) \<le> maxConcurrentUpdates"
    using DecideOps_good [OF assms(1)] assms(2,3) by (auto simp: all_good_def good_op_def)
  moreover have "card (touched T' op) \<le> length (op_nodes op)"
    using card_mono [OF finite_set touched_subset] card_length order_trans by blast
  ultimately show ?thesis by linarith
qed

section \<open>Samples\<close>

text \<open>Nothing runs yet, and every machine of the sample cluster is reachable.\<close>

definition fresh_node_status :: NodeStatus where
  "fresh_node_status =
     \<lparr>nsSSHConnected = True,
      nsEtcd = \<lparr>esServiceStatus = stopped_service, esHasData = False, esIsAddedMember = False\<rparr>,
      nsRivers = stopped_service, nsEtcdRivers = stopped_service,
      nsAPIServer = \<lparr>kcServiceStatus = stopped_service, kcIsHealthy = False\<rparr>,
      nsControllerManager = \<lparr>kcServiceStatus = stopped_service, kcIsHealthy = False\<rparr>,
      nsScheduler = \<lparr>shServiceStatus = stopped_service, shIsHealthy = False, shConfig = None\<rparr>,
      nsProxy = \<lparr>pxServiceStatus = stopped_service, pxIsHealthy = False, pxConfig = None\<rparr>,
      nsKubelet = \<lparr>ktServiceStatus = stopped_service, ktIsHealthy = False, ktConfig = None\<rparr>\<rparr>"

definition fresh_status :: ClusterStatus where
  "fresh_status = status1\<lparr>csNodeStatuses := (\<lambda>_. Some fresh_node_status)\<rparr>"

lemma fresh_simps:
  "nodeStatus (NewNodeFilter c fresh_status) n = Some fresh_node_status"
  "csConfigVersion fresh_status = ConfigVersion"
  by (simp_all add: nodeStatus_def fresh_status_def status1_def sample_status_def NewNodeFilter_def)

lemma cluster1_simps:
  "cNodes cluster1 = [cp1, cp2, cp3, worker1]" "nControlPlane cp1" "nControlPlane cp2" "nControlPlane cp3"
  "\<not> nControlPlane worker1"
  "oRivers (cOptions cluster1) = no_params" "oEtcdRivers (cOptions cluster1) = no_params"
  by (simp_all add: cluster1_def sample_cluster_def sample_options_def cp1_def cp2_def cp3_def worker1_def
      sample_node_def)

lemma fresh_rivers:
  "riversOps cluster1 (NewNodeFilter cluster1 fresh_status) 2 =
    Some [NodeOp (RiversBootOp [cp1, cp2] [cp1, cp2, cp3] no_params RiversContainerName RiversUpstreamPort RiversListenPort),
          NodeOp (RiversBootOp [cp1, cp2] [cp1, cp2, cp3] no_params EtcdRiversContainerName
            EtcdRiversUpstreamPort EtcdRiversListenPort)]"
  by (simp add: riversOps_def Let_def when_reachable_def SSHConnected_def RiversStopped_def RiversOutdated_def
      EtcdRiversStopped_def EtcdRiversOutdated_def by_status_def fresh_simps fresh_node_status_def
      stopped_service_def svc_outdated_def cluster1_simps first_nodes_def)

lemma fresh_decision:
  "DecideOps sample_T [] cluster1 fresh_status DefaultConstraints [] 2 0 =
    Some ([NodeOp (RiversBootOp [cp1, cp2] [cp1, cp2, cp3] no_params RiversContainerName RiversUpstreamPort
             RiversListenPort),
           NodeOp (RiversBootOp [cp1, cp2] [cp1, cp2, cp3] no_params EtcdRiversContainerName
             EtcdRiversUpstreamPort EtcdRiversListenPort)], PhaseRivers)"
  by (simp add: DecideOps_def fresh_simps fresh_rivers)

theorem decided_ops_reachable_witness:
  "\<exists>ops st. DecideOps sample_T [] cluster1 fresh_status DefaultConstraints [] 2 0 = Some (ops, PhaseRivers) \<and>
     csNodeStatuses fresh_status (nAddress cp1) = Some st \<and> nsSSHConnected st \<and>
     cp1 \<in> touched sample_T (hd ops)"
proof -
  let ?op = "NodeOp (RiversBootOp [cp1, cp2] [cp1, cp2, cp3] no_params RiversContainerName
    RiversUpstreamPort RiversListenPort)"
  have "cp1 \<in> touched sample_T ?op"
    by (simp add: touched_def commands_def operation_defs run_defs)
  with decided_ops_reachable [OF fresh_decision, of ?op cp1 sample_T] fresh_decision show ?thesis by auto
qed

theorem concurrent_updates_bounded_witness:
  "\<exists>ops. DecideOps sample_T [] cluster1 fresh_status DefaultConstraints [] 2 0 = Some (ops, PhaseRivers) \<and>
     bounded_op (hd ops) \<and> int (card (touched sample_T (hd ops))) \<le> 2"
  using concurrent_updates_bounded [OF fresh_decision, of "NodeOp (RiversBootOp [cp1, cp2] [cp1, cp2, cp3] no_params
    RiversContainerName RiversUpstreamPort RiversListenPort)" sample_T] fresh_decision by auto

theorem DecideOps_no_panic_witness:
  "\<exists>ops phase. DecideOps sample_T [] cluster1 fresh_status DefaultConstraints [] 2 0 = Some (ops, phase)"
proof (rule DecideOps_no_panic)
  show "observed cluster1 fresh_status" by (simp add: observed_def fresh_status_def)
  show "configs_merge sample_T cluster1"
    by (simp add: configs_merge_def GenerateSchedulerConfiguration_def GenerateProxyConfiguration_def Kubelet_MergeConfig_def Scheduler_MergeConfig_def Proxy_MergeConfig_def
        sample_T_def cluster1_def sample_cluster_def sample_options_def)
qed (simp_all add: fresh_status_def status1_def sample_status_def)

end
