(* ===== verification/CKE_Phases.thy ===== *)
theory CKE_Phases
  imports CKE_Safety
begin

text \<open>
  What each phase of \<^verbatim>\<open>DecideOps\<close> may do: which operators belong to it, when API servers are restarted,
  when etcd members are added, removed or restarted, and when machines are repaired and rebooted.
\<close>

section \<open>Operators of a phase\<close>

primrec phase_allows :: "OperationPhase \<Rightarrow> operator \<Rightarrow> bool" where
  "phase_allows PhaseUpgradeAborted op = False"
| "phase_allows PhaseUpgrade op = (\<exists>v ns. op = NodeOp (UpgradeOp v ns))"
| "phase_allows PhaseRivers op = (\<exists>nop. op = NodeOp nop)"
| "phase_allows PhaseEtcdBootAborted op = False"
| "phase_allows PhaseEtcdBoot op = (\<exists>ns p. op = EtcdOp (EtcdBootOp ns p))"
| "phase_allows PhaseEtcdStart op = (\<exists>ns p. op = EtcdOp (EtcdStartOp ns p))"
| "phase_allows PhaseEtcdWait op = (\<exists>ns. op = EtcdOp (EtcdWaitClusterOp ns))"
| "phase_allows PhaseK8sStart op =
     ((\<exists>kop. op = K8sOp kop) \<or> (\<exists>uop. op = KubeOp uop) \<or> (\<exists>ns. op = NodeOp (ProxyStopOp ns)))"
| "phase_allows PhaseEtcdMaintain op = (\<exists>eop. op = EtcdOp eop)"
| "phase_allows PhaseK8sMaintain op = (\<exists>uop. op = KubeOp uop)"
| "phase_allows PhaseStopCP op = (\<exists>nop. op = NodeOp nop)"
| "phase_allows PhaseRepairMachines op = (\<exists>rop. op = RepairOp rop)"
| "phase_allows PhaseUncordonNodes op = (\<exists>api ns. op = RebootOp (RebootUncordonOp api ns))"
| "phase_allows PhaseRebootNodes op = (\<exists>bop. op = RebootOp bop)"
| "phase_allows PhaseCompleted op = False"

definition in_phase :: "OperationPhase \<Rightarrow> operator list \<Rightarrow> bool" where
  "in_phase ph ops \<longleftrightarrow> (\<forall>op \<in> set ops. phase_allows ph op)"

lemma in_phase_simps [simp]:
  "in_phase ph []" "in_phase ph (op # ops) \<longleftrightarrow> phase_allows ph op \<and> in_phase ph ops"
  "in_phase ph (ops @ ops') \<longleftrightarrow> in_phase ph ops \<and> in_phase ph ops'"
  by (auto simp: in_phase_def)

lemma in_phase_when_reachable:
  assumes "when_reachable nf targets mk = Some ops" and "\<And>ns op. mk ns = Some op \<Longrightarrow> phase_allows ph op"
  shows "in_phase ph ops"
  using assms by (auto simp: in_phase_def elim: when_reachable_mem)

lemma riversOps_phase: "riversOps c nf m = Some ops \<Longrightarrow> in_phase PhaseRivers ops"
  unfolding riversOps_def Let_def by (auto elim!: in_phase_when_reachable)

lemma decideEpOp_phase:
  assumes "\<And>op. phase_allows ph (KubeOp op)"
  shows "returns (\<lambda>op. in_phase ph (opt_list op)) (decideEpOp e actual api)"
    "returns (\<lambda>op. in_phase ph (opt_list op)) (decideEpsOp e' actual' api)"
  unfolding decideEpOp_def decideEpsOp_def Let_def
  by (intro go_returns; simp add: opt_list_def assms)+

lemma endpoint_phases:
  "decideEpEpsOps e ep eps api = Some ops \<Longrightarrow> in_phase PhaseK8sStart ops"
  "decideEpEpsOps e ep eps api = Some ops \<Longrightarrow> in_phase PhaseK8sMaintain ops"
  using decideEpOp_phase(1) [of PhaseK8sStart] decideEpOp_phase(2) [of PhaseK8sStart]
    decideEpOp_phase(1) [of PhaseK8sMaintain] decideEpOp_phase(2) [of PhaseK8sMaintain]
  by (auto simp: decideEpEpsOps_def returns_def)

lemma masterEndpointOps_phase: "masterEndpointOps cs nf marked = Some ops \<Longrightarrow> in_phase PhaseK8sStart ops"
  by (auto simp: masterEndpointOps_def endpoint_phases)

lemma masterEndpointOps_if_healthy_phase:
  "masterEndpointOps_if_healthy cs nf = Some ops \<Longrightarrow> in_phase PhaseK8sStart ops"
  by (auto simp: masterEndpointOps_if_healthy_def intro: masterEndpointOps_phase split: if_splits)

lemma apiserverRestart_K8sOp: "apiserverRestart T c ns = Some op \<Longrightarrow> \<exists>kop. op = K8sOp kop"
  by (auto simp: apiserverRestart_def)

lemma apiserverOps_phase: "apiserverOps T c nf cs = Some (ops, fin) \<Longrightarrow> in_phase PhaseK8sStart ops"
  by (erule apiserverOps_cases)
    (auto simp: masterEndpointOps_if_healthy_phase masterEndpointOps_phase dest: apiserverRestart_K8sOp)

lemma k8sOps_phase: "k8sOps T c nf cs m = Some ops \<Longrightarrow> in_phase PhaseK8sStart ops"
proof -
  have "returns (in_phase PhaseK8sStart) (cpComponentOps T c nf)"
    "returns (in_phase PhaseK8sStart) (kubeletOps T c nf cs m api)"
    "returns (in_phase PhaseK8sStart) (proxyOps T c nf m)" for api
    unfolding cpComponentOps_def kubeletOps_def proxyOps_def Let_def
    by (rule returnsI, auto elim!: in_phase_when_reachable split: if_splits)+
  then show "k8sOps T c nf cs m = Some ops \<Longrightarrow> in_phase PhaseK8sStart ops"
    by (auto simp: k8sOps_def apiserverOps_phase returns_def split: if_splits)
qed

lemma k8sMaintOps_phase: "returns (in_phase PhaseK8sMaintain) (k8sMaintOps T static c cs res nf)"
proof -
  have res: "in_phase PhaseK8sMaintain (resource_ops api trusted ks ready rs)" for api trusted ks ready rs
    by (auto simp: in_phase_def resource_ops_def map_filter_def split: if_splits option.splits)
  have dns: "returns (in_phase PhaseK8sMaintain) (decideClusterDNSOps T api c ks)"
    "returns (in_phase PhaseK8sMaintain) (decideNodeDNSOps T api c ks)" for api ks
    unfolding decideClusterDNSOps_def decideNodeDNSOps_def Let_def
    by (intro go_returns; simp split: option.split)+
  have svc: "in_phase PhaseK8sMaintain (opt_list (decideEtcdServiceOps api s))" for api s
    by (auto simp: decideEtcdServiceOps_def opt_list_def Let_def split: option.split)
  have eps: "etcdEndpointOps cs nf marked = Some ops \<Longrightarrow> in_phase PhaseK8sMaintain ops" for marked ops
    by (auto simp: etcdEndpointOps_def endpoint_phases svc)
  show ?thesis
    unfolding k8sMaintOps_def Let_def decideResourceOps_def
    by (intro go_returns) (auto simp: res eps intro: returnsD [OF dns(1)] returnsD [OF dns(2)])
qed

lemma cleanOps_phase: "cleanOps c nf = Some ops \<Longrightarrow> in_phase PhaseStopCP ops"
  by (auto simp: cleanOps_def stop_if_def)

lemma queue_ops_phase:
  "repairOps c cs nf now = Some (ops, b) \<Longrightarrow> in_phase PhaseRepairMachines ops"
  "rebootUncordonOp cs nf = Some (Some op) \<Longrightarrow> phase_allows PhaseUncordonNodes op"
  "returns (in_phase PhaseRebootNodes) (rebootOps c cs k nf)"
    apply (erule repairOps_Some, auto simp: in_phase_def)[1]
   apply (auto simp: rebootUncordonOp_def Let_def split: if_splits)[1]
  unfolding rebootOps_def Let_def
  apply (intro go_returns; auto split: if_splits)
  done

lemma etcdMaintOp_phase: "etcdMaintOp c nf = Some (Some op) \<Longrightarrow> phase_allows PhaseEtcdMaintain op"
  by (erule etcdMaintOp_cases) simp_all

lemma DecideOps_in_phase:
  assumes "DecideOps T static c cs k res m now = Some (ops, ph)"
  shows "in_phase ph ops"
  using assms
proof (cases rule: DecideOps_cases)
  case (later stopped)
  from later(1) show ?thesis
  proof (cases rule: decideMaint_cases)
    case later
    from later(1) show ?thesis
    proof (cases rule: decideQueues_cases)
      case later
      from later(1) show ?thesis
        by (cases rule: decideReboot_cases) (auto dest: returnsD [OF queue_ops_phase(3)])
    qed (auto simp: queue_ops_phase(1) dest: queue_ops_phase(2) [simplified])
  qed (auto simp: cleanOps_phase dest: etcdMaintOp_phase [simplified] returnsD [OF k8sMaintOps_phase])
qed (simp_all add: riversOps_phase k8sOps_phase)


text \<open>The same, for the operators one looks for.\<close>

lemma DecideOps_phase_of:
  assumes "DecideOps T static c cs k res m now = Some (ops, ph)"
  shows "K8sOp kop \<in> set ops \<Longrightarrow> ph = PhaseK8sStart"
    and "RepairOp rop \<in> set ops \<Longrightarrow> ph = PhaseRepairMachines"
    and "RebootOp bop \<in> set ops \<Longrightarrow> ph = PhaseUncordonNodes \<or> ph = PhaseRebootNodes"
    and "EtcdOp eop \<in> set ops \<Longrightarrow> ph \<in> {PhaseEtcdBoot, PhaseEtcdStart, PhaseEtcdWait, PhaseEtcdMaintain}"
  using DecideOps_in_phase [OF assms] by (cases ph; auto simp: in_phase_def)+

section \<open>What holds in a phase\<close>

lemma DecideOps_K8sStart:
  assumes "DecideOps T static c cs k res m now = Some (ops, PhaseK8sStart)"
  shows "k8sOps T c (NewNodeFilter c cs) cs m = Some ops \<and> ecIsHealthy (csEtcd cs)"
  using assms
proof (cases rule: DecideOps_cases)
  case later
  from later(1) show ?thesis
  proof (cases rule: decideMaint_cases)
    case later
    from later(1) show ?thesis
    proof (cases rule: decideQueues_cases)
      case later
      from later(1) show ?thesis by (cases rule: decideReboot_cases) simp_all
    qed simp_all
  qed simp_all
qed simp_all

lemma DecideOps_EtcdMaintain:
  assumes "DecideOps T static c cs k res m now = Some (ops, PhaseEtcdMaintain)"
  obtains op where "ops = [op]" "etcdMaintOp c (NewNodeFilter c cs) = Some (Some op)"
    "SSHNotConnected (NewNodeFilter c cs) (ControlPlaneNodes (NewNodeFilter c cs)) = Some []"
  using assms
proof (cases rule: DecideOps_cases)
  case later
  from later(1) show ?thesis
  proof (cases rule: decideMaint_cases)
    case etcd
    then show ?thesis using that by blast
  next
    case later
    from later(1) show ?thesis
    proof (cases rule: decideQueues_cases)
      case later
      from later(1) show ?thesis by (cases rule: decideReboot_cases) simp_all
    qed simp_all
  qed simp_all
qed simp_all

text \<open>Every decision about the queues comes last.\<close>

lemma DecideOps_queues:
  assumes "DecideOps T static c cs k res m now = Some (ops, ph)"
    and "ph \<in> {PhaseUncordonNodes, PhaseRepairMachines, PhaseRebootNodes, PhaseCompleted}"
  shows "decideQueues c cs k (NewNodeFilter c cs) now = Some (ops, ph)"
    and "k8sOps T c (NewNodeFilter c cs) cs m = Some []"
    and "riversOps c (NewNodeFilter c cs) m = Some []" and "ecIsHealthy (csEtcd cs)"
    and "k8sMaintOps T static c cs res (NewNodeFilter c cs) = Some []"
    and "cleanOps c (NewNodeFilter c cs) = Some []"
    and "csConfigVersion cs = ConfigVersion"
    and "SSHNotConnected (NewNodeFilter c cs) (ControlPlaneNodes (NewNodeFilter c cs)) = Some [] \<longrightarrow>
      etcdMaintOp c (NewNodeFilter c cs) = Some None"
proof -
  have main: "decideMaint T static c cs k res (NewNodeFilter c cs) now = Some (ops, ph)
      \<and> k8sOps T c (NewNodeFilter c cs) cs m = Some [] \<and> riversOps c (NewNodeFilter c cs) m = Some []
      \<and> ecIsHealthy (csEtcd cs) \<and> csConfigVersion cs = ConfigVersion"
    using assms(1) by (cases rule: DecideOps_cases) (use assms(2) in auto)
  then have D: "decideMaint T static c cs k res (NewNodeFilter c cs) now = Some (ops, ph)" by blast
  have q: "decideQueues c cs k (NewNodeFilter c cs) now = Some (ops, ph)
      \<and> k8sMaintOps T static c cs res (NewNodeFilter c cs) = Some [] \<and> cleanOps c (NewNodeFilter c cs) = Some []
      \<and> (SSHNotConnected (NewNodeFilter c cs) (ControlPlaneNodes (NewNodeFilter c cs)) = Some [] \<longrightarrow>
        etcdMaintOp c (NewNodeFilter c cs) = Some None)"
    using D by (cases rule: decideMaint_cases) (use assms(2) in auto)
  from main q show "decideQueues c cs k (NewNodeFilter c cs) now = Some (ops, ph)"
    "k8sOps T c (NewNodeFilter c cs) cs m = Some []" "riversOps c (NewNodeFilter c cs) m = Some []"
    "ecIsHealthy (csEtcd cs)" "k8sMaintOps T static c cs res (NewNodeFilter c cs) = Some []"
    "cleanOps c (NewNodeFilter c cs) = Some []" "csConfigVersion cs = ConfigVersion"
    "SSHNotConnected (NewNodeFilter c cs) (ControlPlaneNodes (NewNodeFilter c cs)) = Some [] \<longrightarrow>
      etcdMaintOp c (NewNodeFilter c cs) = Some None" by blast+
qed

section \<open>Restarting API servers\<close>

definition api_restart :: "operator \<Rightarrow> bool" where
  "api_restart op \<longleftrightarrow> (\<exists>ns sub p d. op = K8sOp (APIServerRestartOp ns sub p d))"

lemma api_restart_simps [simp]:
  "api_restart (K8sOp (APIServerRestartOp ns sub p d))" "\<not> api_restart (KubeOp uop)" "\<not> api_restart (NodeOp nop)"
  "\<not> api_restart (K8sOp (ControllerManagerBootOp ns nm sub cp))"
  "\<not> api_restart (K8sOp (ControllerManagerRestartOp ns nm sub cp))"
  "\<not> api_restart (K8sOp (SchedulerBootOp ns nm sp))" "\<not> api_restart (K8sOp (SchedulerRestartOp ns nm sp))"
  "\<not> api_restart (K8sOp (KubeletBootOp ns rs api nm kp st))" "\<not> api_restart (K8sOp (KubeletRestartOp ns nm kp st))"
  "\<not> api_restart (K8sOp (KubeProxyBootOp ns nm ap pp))" "\<not> api_restart (K8sOp (KubeProxyRestartOp ns nm ap pp))"
  by (simp_all add: api_restart_def)

lemma when_reachable_no_restart:
  assumes "when_reachable nf targets mk = Some ops" and "\<And>ns op. mk ns = Some op \<Longrightarrow> \<not> api_restart op"
  shows "\<not> Bex (set ops) api_restart"
  using assms by (auto elim: when_reachable_mem)

lemma others_no_restart:
  "returns (\<lambda>ops. \<not> Bex (set ops) api_restart) (cpComponentOps T c nf)"
  "returns (\<lambda>ops. \<not> Bex (set ops) api_restart) (kubeletOps T c nf cs m api)"
  "returns (\<lambda>ops. \<not> Bex (set ops) api_restart) (proxyOps T c nf m)"
  unfolding cpComponentOps_def kubeletOps_def proxyOps_def Let_def
  by (rule returnsI, auto dest!: when_reachable_no_restart split: if_splits)+

lemma decideEpOp_no_restart:
  "returns (\<lambda>op. \<not> Bex (set (opt_list op)) api_restart) (decideEpOp e actual api)"
  "returns (\<lambda>op. \<not> Bex (set (opt_list op)) api_restart) (decideEpsOp e' actual' api)"
  unfolding decideEpOp_def decideEpsOp_def Let_def
  by (intro go_returns; simp add: opt_list_def)+

lemma masterEndpointOps_no_restart:
  "masterEndpointOps cs nf marked = Some ops \<Longrightarrow> \<not> Bex (set ops) api_restart"
  using decideEpOp_no_restart
  by (fastforce simp: masterEndpointOps_def decideEpEpsOps_def returns_def)

lemma masterEndpointOps_if_healthy_no_restart:
  "masterEndpointOps_if_healthy cs nf = Some ops \<Longrightarrow> \<not> Bex (set ops) api_restart"
  using masterEndpointOps_no_restart by (auto simp: masterEndpointOps_if_healthy_def split: if_splits)

definition api_healthy :: "ClusterStatus \<Rightarrow> Node \<Rightarrow> bool" where
  "api_healthy cs n \<longleftrightarrow> (\<exists>st. csNodeStatuses cs (nAddress n) = Some st \<and> kcIsHealthy (nsAPIServer st))"

definition api_running :: "ClusterStatus \<Rightarrow> Node \<Rightarrow> bool" where
  "api_running cs n \<longleftrightarrow>
     (\<exists>st. csNodeStatuses cs (nAddress n) = Some st \<and> ssRunning (kcServiceStatus (nsAPIServer st)))"

lemma APIServerUnhealthy_none:
  assumes "APIServerUnhealthy (NewNodeFilter c cs) ts = Some []" "n \<in> set ts"
  shows "api_healthy cs n"
proof -
  from assms have "nodeStatus (NewNodeFilter c cs) n \<noteq> None"
    by (auto simp: APIServerUnhealthy_def by_status_def dest!: go_filter_Some)
  then obtain st where st: "nodeStatus (NewNodeFilter c cs) n = Some st" by auto
  then show ?thesis
    using apiserver_unhealthy.filt_empty [OF assms st] by (auto simp: api_healthy_def nodeStatus_def)
qed

lemma apiserverOps_restart:
  assumes "apiserverOps T c (NewNodeFilter c cs) cs = Some (ops, fin)"
    and "K8sOp (APIServerRestartOp ns sub p d) \<in> set ops"
  shows "(\<forall>n \<in> set ns. \<not> api_running cs n \<or> \<not> api_healthy cs n) \<or>
    (\<exists>n eps. ns = [n] \<and> masterEndpointOps cs (NewNodeFilter c cs) [nAddress n] = Some eps \<and>
      ops = eps @ [K8sOp (APIServerRestartOp [n] sub p d)] \<and> fin \<and>
      (\<forall>cp \<in> set (ControlPlaneNodes (NewNodeFilter c cs)). reachable_node cs cp \<and> api_healthy cs cp))"
  using assms(1)
proof (cases rule: apiserverOps_cases)
  case (broken st n1 u b n2 eps restart)
  have "ns = n1 @ n2"
    using broken assms(2) masterEndpointOps_if_healthy_no_restart [OF broken(6)]
    by (auto simp: apiserverRestart_def)
  moreover have "\<not> api_running cs n" if "n \<in> set n1" for n
    using that subsetD [OF ssh.filt_subset [OF broken(2)] that] apiserver_stopped.filt_mem [OF broken(1)]
    by (auto simp: api_running_def nodeStatus_def)
  moreover have "\<not> api_healthy cs n" if "n \<in> set n2" for n
    using subsetD [OF api_outdated.filt_subset [OF broken(4)] subsetD [OF ssh.filt_subset [OF broken(5)] that]]
      apiserver_unhealthy.filt_mem [OF broken(3)]
    by (auto simp: api_healthy_def nodeStatus_def)
  ultimately show ?thesis by auto
next
  case wait
  then show ?thesis using assms(2) masterEndpointOps_if_healthy_no_restart [OF wait(1)] by auto
next
  case (restart od target rest eps op)
  then show ?thesis
    using assms(2) masterEndpointOps_no_restart [OF restart(5)] SSHNotConnected_none [OF restart(1)]
      APIServerUnhealthy_none [OF restart(2)]
    by (auto simp: apiserverRestart_def)
next
  case (go_on od)
  then show ?thesis using assms(2) masterEndpointOps_no_restart [OF go_on(5)] by auto
qed

lemma k8sOps_restart:
  assumes "k8sOps T c nf cs m = Some ops" "api_restart op" "op \<in> set ops"
  shows "\<exists>eps fin. apiserverOps T c nf cs = Some (eps, fin) \<and> op \<in> set eps \<and> (fin \<longrightarrow> ops = eps)"
  using assms others_no_restart
  by (fastforce simp: k8sOps_def returns_def split: if_splits)

section \<open>Guards of repairs and reboots\<close>

lemma countInSync_Some:
  "countInSync nf m = Some (Some k) \<Longrightarrow>
     k = int (length (filter snd m)) \<and>
     (\<forall>a. (a, False) \<in> set m \<longrightarrow> (\<exists>n st. nfNodeMap nf a = Some n \<and> nControlPlane n \<and>
        nodeStatus nf n = Some st \<and> \<not> nsSSHConnected st))"
proof (induction m arbitrary: k)
  case (Cons kv m)
  obtain a b where kv: "kv = (a, b)" by (cases kv)
  show ?case
  proof (cases b)
    case True
    with Cons.prems kv obtain k' where "countInSync nf m = Some (Some k')" "k = k' + 1"
      by (auto split: option.splits)
    with Cons.IH kv True show ?thesis by auto
  next
    case False
    with Cons.prems kv obtain n st where "nfNodeMap nf a = Some n" "nControlPlane n"
      "nodeStatus nf n = Some st" "\<not> nsSSHConnected st" "countInSync nf m = Some (Some k)"
      by (auto split: option.splits if_splits)
    with Cons.IH kv False show ?thesis by auto
  qed
qed simp

text \<open>What \<^verbatim>\<open>EtcdIsGoodForRepair\<close> promises about the etcd cluster.\<close>

definition etcd_tolerates_repair :: "Cluster \<Rightarrow> ClusterStatus \<Rightarrow> int \<Rightarrow> bool" where
  "etcd_tolerates_repair c cs controlPlaneCount \<longleftrightarrow>
     ecIsHealthy (csEtcd cs) \<and>
     controlPlaneCount - 1 \<le> int (length (filter snd (ecInSyncMembers (csEtcd cs)))) \<and>
     (\<forall>a. (a, False) \<in> set (ecInSyncMembers (csEtcd cs)) \<longrightarrow>
        (\<exists>n \<in> set (cNodes c). nControlPlane n \<and> \<not> reachable_node cs n))"

lemma EtcdIsGoodForRepair_spec:
  assumes "EtcdIsGoodForRepair (NewNodeFilter c cs) k = Some True"
  shows "etcd_tolerates_repair c cs k"
proof -
  from assms obtain j where j: "countInSync (NewNodeFilter c cs) (ecInSyncMembers (csEtcd cs)) = Some (Some j)"
    "k - 1 \<le> j" and h: "ecIsHealthy (csEtcd cs)"
    by (auto simp: EtcdIsGoodForRepair_def split: if_splits option.splits)
  from countInSync_Some [OF j(1)] j(2) h show ?thesis
    by (fastforce simp: etcd_tolerates_repair_def reachable_node_def nodeStatus_def dest: nodeMap_mem)
qed

section \<open>Properties\<close>

text \<open>
  C11. Every decided operator belongs to the phase that is reported with it, so that a phase without operators
  (aborted or completed) really has none.
\<close>
theorem operators_of_phase:
  assumes "DecideOps T static c cs constraints resources maxConcurrentUpdates now = Some (ops, phase)"
    and "op \<in> set ops"
  shows "phase_allows phase op"
  using DecideOps_in_phase [OF assms(1)] assms(2) by (simp add: in_phase_def)

text \<open>
  C6. API servers are restarted safely: only while etcd is healthy, and either every server that is restarted
  is stopped or unhealthy, or a single one is restarted while all control planes are reachable with
  healthy API servers, as the last operator, after the operators that advertise it as not ready.
\<close>
theorem apiservers_restarted_safely:
  assumes "DecideOps T static c cs constraints resources maxConcurrentUpdates now = Some (ops, phase)"
    and "K8sOp (APIServerRestartOp ns sub p d) \<in> set ops"
  shows "ecIsHealthy (csEtcd cs) \<and>
    ((\<forall>n \<in> set ns. \<not> api_running cs n \<or> \<not> api_healthy cs n) \<or>
     (\<exists>n eps. ns = [n] \<and> masterEndpointOps cs (NewNodeFilter c cs) [nAddress n] = Some eps \<and>
        ops = eps @ [K8sOp (APIServerRestartOp [n] sub p d)] \<and>
        (\<forall>cp \<in> set (ControlPlaneNodes (NewNodeFilter c cs)). reachable_node cs cp \<and> api_healthy cs cp)))"
proof -
  have ph: "phase = PhaseK8sStart" using DecideOps_phase_of(1) [OF assms(1,2)] .
  note k = DecideOps_K8sStart [OF assms(1) [unfolded ph]]
  obtain eps fin where e: "apiserverOps T c (NewNodeFilter c cs) cs = Some (eps, fin)"
    "K8sOp (APIServerRestartOp ns sub p d) \<in> set eps" "fin \<longrightarrow> ops = eps"
    using k8sOps_restart [OF conjunct1 [OF k] _ assms(2)] by auto
  show ?thesis using apiserverOps_restart [OF e(1,2)] e(3) k by blast
qed


text \<open>
  C8. Machines are repaired only while etcd tolerates it: it is healthy, at most one of the configured control
  planes is missing from the in-sync members, and a member is out of sync only because a control plane
  is unreachable.
\<close>
theorem repairs_guarded:
  assumes "DecideOps T static c cs constraints resources maxConcurrentUpdates now = Some (ops, phase)"
    and "RepairOp op \<in> set ops"
  shows "etcd_tolerates_repair c cs (ctControlPlaneCount constraints)"
proof -
  have ph: "phase = PhaseRepairMachines" using DecideOps_phase_of(2) [OF assms] .
  have "decideQueues c cs constraints (NewNodeFilter c cs) now = Some (ops, phase)"
    using DecideOps_queues(1) [OF assms(1)] ph by simp
  then show ?thesis
  proof (cases rule: decideQueues_cases)
    case repair
    then show ?thesis by (simp add: EtcdIsGoodForRepair_spec)
  next
    case later
    from later(1) show ?thesis by (cases rule: decideReboot_cases) (simp_all add: ph)
  qed (use assms(2) ph in simp_all)
qed

lemma rebootOps_DrainStart:
  assumes "rebootOps c cs k nf = Some ops" "RebootOp (RebootDrainStartOp api es cfg) \<in> set ops"
  shows "es = bqsNextCandidates (csRebootQueue cs) \<and> bqsEnabled (csRebootQueue cs) \<and>
    bqsRebootCancelled (csRebootQueue cs) = [] \<and> bqsRebootDequeued (csRebootQueue cs) = [] \<and>
    (\<exists>un. SSHNotConnected nf (filter (\<lambda>n. \<not> rebootProcessing cs (nAddress n)) (AllNodes nf)) = Some un \<and>
       int (length un) \<le> ctRebootMaximumUnreachable k)"
  using assms unfolding rebootOps_def Let_def
  by (auto split: if_splits)

lemma rebootOps_Reboot:
  assumes "rebootOps c cs k nf = Some ops" "RebootOp (RebootRebootOp api es cfg) \<in> set ops"
  shows "es = bqsDrainCompleted (csRebootQueue cs) \<and> bqsEnabled (csRebootQueue cs) \<and>
    (\<exists>i. i < length ops \<and> ops ! i = RebootOp (RebootDeleteDaemonSetPodOp api es cfg) \<and>
       Suc i < length ops \<and> ops ! Suc i = RebootOp (RebootRebootOp api es cfg))"
  using assms unfolding rebootOps_def Let_def
  by (auto split: if_splits intro!: exI [of _ 0])

text \<open>
  C9. Nodes are rebooted only while every etcd member is in sync and the queue is enabled: a drain is started
  only for the chosen candidates, while the number of unreachable machines that are not being rebooted
  stays within the constraint; a machine is rebooted only when it was found drained, right after its
  remaining DaemonSet pods are deleted.
\<close>
theorem reboots_guarded:
  assumes D: "DecideOps T static c cs constraints resources maxConcurrentUpdates now = Some (ops, PhaseRebootNodes)"
    and "ops \<noteq> []"
  shows "EtcdIsGood (NewNodeFilter c cs) \<and>
    (\<forall>api es cfg. RebootOp (RebootDrainStartOp api es cfg) \<in> set ops \<longrightarrow>
       es = bqsNextCandidates (csRebootQueue cs) \<and> bqsEnabled (csRebootQueue cs) \<and>
       (\<exists>un. SSHNotConnected (NewNodeFilter c cs)
            (filter (\<lambda>n. \<not> rebootProcessing cs (nAddress n)) (cNodes c)) = Some un \<and>
          int (length un) \<le> ctRebootMaximumUnreachable constraints)) \<and>
    (\<forall>api es cfg. RebootOp (RebootRebootOp api es cfg) \<in> set ops \<longrightarrow>
       es = bqsDrainCompleted (csRebootQueue cs) \<and> bqsEnabled (csRebootQueue cs) \<and>
       (\<exists>i. Suc i < length ops \<and> ops ! i = RebootOp (RebootDeleteDaemonSetPodOp api es cfg) \<and>
          ops ! Suc i = RebootOp (RebootRebootOp api es cfg)))"
proof -
  have "decideQueues c cs constraints (NewNodeFilter c cs) now = Some (ops, PhaseRebootNodes)"
    using DecideOps_queues(1) [OF D] by simp
  then have R: "rebootOps c cs constraints (NewNodeFilter c cs) = Some ops" "EtcdIsGood (NewNodeFilter c cs)"
  proof (atomize (full), cases rule: decideQueues_cases)
    case later
    from later(1) show "rebootOps c cs constraints (NewNodeFilter c cs) = Some ops \<and> EtcdIsGood (NewNodeFilter c cs)"
      by (cases rule: decideReboot_cases) (use assms(2) in simp_all)
  qed simp_all
  show ?thesis
    using R(2) rebootOps_DrainStart [OF R(1)] rebootOps_Reboot [OF R(1)] by (simp add: ex_simps) blast
qed

text \<open>
  C10. CKE uncordons only what it cordoned and no longer needs: every node to uncordon is unschedulable, bears
  the annotation of CKE, and is neither being drained or rebooted nor being repaired.
\<close>
theorem uncordon_guarded:
  assumes D: "DecideOps T static c cs constraints resources maxConcurrentUpdates now = Some (ops, phase)"
    and op: "RebootOp (RebootUncordonOp api names) \<in> set ops" and nm: "name \<in> set names"
  shows "\<not> rebootProcessing cs name \<and> \<not> repairProcessing cs name \<and>
    (\<exists>kn \<in> set (ksNodes (csKubernetes cs)). knName kn = name \<and> knUnschedulable kn \<and>
       mget_str (knAnnotations kn) CKEAnnotationReboot = ''true'')"
proof -
  have ph: "phase = PhaseUncordonNodes \<or> phase = PhaseRebootNodes" using DecideOps_phase_of(3) [OF D op] .
  have "decideQueues c cs constraints (NewNodeFilter c cs) now = Some (ops, phase)"
    using DecideOps_queues(1) [OF D] ph by auto
  then have "rebootUncordonOp cs (NewNodeFilter c cs) = Some (Some (RebootOp (RebootUncordonOp api names)))"
  proof (cases rule: decideQueues_cases)
    case later
    have "returns (\<lambda>ops. RebootOp (RebootUncordonOp api names) \<notin> set ops)
        (rebootOps c cs constraints (NewNodeFilter c cs))"
      unfolding rebootOps_def Let_def by (intro go_returns; auto split: if_splits)
    with later(1) op show ?thesis by (cases rule: decideReboot_cases) (auto simp: returns_def)
  qed (use op ph in auto)
  with nm show ?thesis
    by (auto simp: rebootUncordonOp_def Let_def CordonedNodes_def split: if_splits)
qed

end
