(* ===== verification/CKE_Converged.thy ===== *)
theory CKE_Converged
  imports CKE_Phases CKE_NodeAttrs
begin

text \<open>
  What a completed cluster looks like: when \<^verbatim>\<open>DecideOps\<close> reports completion, every reachable machine runs
  its services with the images and parameters of the cluster definition; and a cluster in which they all
  run like that needs no operation.
\<close>

section \<open>A machine that is up to date\<close>

definition svc_current :: "string \<Rightarrow> ServiceParams \<Rightarrow> ServiceParams \<Rightarrow> ServiceStatus \<Rightarrow> bool" where
  "svc_current img builtIn extra st \<longleftrightarrow>
     ssRunning st \<and> ssImage st = img \<and> ServiceParams_Equal builtIn (ssBuiltInParams st) \<and>
     ServiceParams_Equal extra (ssExtraParams st)"

lemma svc_current_iff: "svc_current img b x st \<longleftrightarrow> ssRunning st \<and> \<not> svc_outdated img b x st"
  by (auto simp: svc_current_def svc_outdated_def)

definition rivers_current :: "Cluster \<Rightarrow> Node \<Rightarrow> NodeStatus \<Rightarrow> bool" where
  "rivers_current c n st \<longleftrightarrow> (let cps = filter nControlPlane (cNodes c) in
     svc_current ToolsImage (RiversParams cps RiversUpstreamPort RiversListenPort) (oRivers (cOptions c)) (nsRivers st) \<and>
     (nControlPlane n \<longrightarrow> svc_current ToolsImage (RiversParams cps EtcdRiversUpstreamPort EtcdRiversListenPort)
        (oEtcdRivers (cOptions c)) (nsEtcdRivers st)))"

definition control_plane_current :: "third_party \<Rightarrow> Cluster \<Rightarrow> ClusterStatus \<Rightarrow> Node \<Rightarrow> NodeStatus \<Rightarrow> bool" where
  "control_plane_current T c cs n st \<longleftrightarrow>
     kcIsHealthy (nsAPIServer st) \<and> ssRunning (kcServiceStatus (nsAPIServer st)) \<and>
     \<not> apiserver_outdated T (NewNodeFilter c cs) n st \<and>
     svc_current KubernetesImage (ControllerManagerParams (cName c) (cServiceSubnet c))
       (oControllerManager (cOptions c)) (kcServiceStatus (nsControllerManager st)) \<and>
     ssRunning (shServiceStatus (nsScheduler st)) \<and> \<not> scheduler_outdated T (NewNodeFilter c cs) n st"

definition kubelet_current :: "third_party \<Rightarrow> Cluster \<Rightarrow> ClusterStatus \<Rightarrow> Node \<Rightarrow> NodeStatus \<Rightarrow> bool" where
  "kubelet_current T c cs n st \<longleftrightarrow>
     ssRunning (ktServiceStatus (nsKubelet st)) \<and> existsNodeResource (NewNodeFilter c cs) (Nodename n) \<and>
     (klInPlaceUpdate (oKubelet (cOptions c)) \<longrightarrow> \<not> kubelet_outdated T (NewNodeFilter c cs) n st)"

definition proxy_current :: "third_party \<Rightarrow> Cluster \<Rightarrow> ClusterStatus \<Rightarrow> Node \<Rightarrow> NodeStatus \<Rightarrow> bool" where
  "proxy_current T c cs n st \<longleftrightarrow>
     ssRunning (pxServiceStatus (nsProxy st)) = (\<not> prDisable (oProxy (cOptions c))) \<and>
     \<not> proxy_outdated T (NewNodeFilter c cs) n st"

section \<open>Nothing to do means up to date\<close>

lemma when_reachable_Nil:
  "when_reachable nf targets mk = Some [] \<longleftrightarrow> (\<exists>ts. targets = Some ts \<and> SSHConnected nf ts = Some [])"
  by (auto simp: when_reachable_def split: if_splits)

text \<open>A filter whose reachable part is empty selects no reachable node.\<close>

context node_filter
begin

lemma filt_unselected:
  assumes "filt nf ts = Some sel_ts" "SSHConnected nf sel_ts = Some []"
    and "n \<in> set ts" "nodeStatus nf n = Some st" "nsSSHConnected st"
  shows "\<not> sel nf n st"
  using assms filt_mem [OF assms(1), of n] ssh.filt_empty [OF assms(2), of n st] by auto

lemma filt_none:
  assumes "ok nf" "covered nf ts" "\<And>n st. n \<in> set ts \<Longrightarrow> nodeStatus nf n = Some st \<Longrightarrow> \<not> sel nf n st"
  shows "filt nf ts = Some []"
  using assms by (auto simp: filt_value has_status_def filter_empty_conv)

end

lemma riversOps_Nil:
  assumes "riversOps c (NewNodeFilter c cs) m = Some []" and n: "n \<in> set (cNodes c)"
    and st: "csNodeStatuses cs (nAddress n) = Some st" "nsSSHConnected st"
  shows "rivers_current c n st"
proof -
  let ?nf = "NewNodeFilter c cs"
  have st': "nodeStatus ?nf n = Some st" using st by (simp add: nodeStatus_def)
  from assms(1) obtain t1 t2 t3 t4 where
    "RiversStopped ?nf (cNodes c) = Some t1" "SSHConnected ?nf t1 = Some []"
    "RiversOutdated ?nf (cNodes c) = Some t2" "SSHConnected ?nf t2 = Some []"
    "EtcdRiversStopped ?nf (filter nControlPlane (cNodes c)) = Some t3" "SSHConnected ?nf t3 = Some []"
    "EtcdRiversOutdated ?nf (filter nControlPlane (cNodes c)) = Some t4" "SSHConnected ?nf t4 = Some []"
    unfolding riversOps_def Let_def by (auto simp: when_reachable_Nil)
  note t = this
  show ?thesis
    using rivers_stopped.filt_unselected [OF t(1,2) n st' st(2)] rivers_outdated.filt_unselected [OF t(3,4) n st' st(2)]
      etcd_rivers_stopped.filt_unselected [OF t(5,6) _ st' st(2)] etcd_rivers_outdated.filt_unselected [OF t(7,8) _ st' st(2)] n
    by (auto simp: rivers_current_def Let_def svc_current_iff)
qed

lemma k8sOps_Nil:
  assumes k8s: "k8sOps T c (NewNodeFilter c cs) cs m = Some []"
    and cp: "\<And>cp. cp \<in> set (cNodes c) \<Longrightarrow> nControlPlane cp \<Longrightarrow> reachable_node cs cp \<and> api_healthy cs cp"
  obtains stopped outdated api where
    "APIServerStopped (NewNodeFilter c cs) (filter nControlPlane (cNodes c)) = Some stopped"
    "SSHConnected (NewNodeFilter c cs) stopped = Some []"
    "APIServerOutdated T (NewNodeFilter c cs) (filter nControlPlane (cNodes c)) = Some outdated"
    "SSHConnected (NewNodeFilter c cs) outdated = Some []"
    "cpComponentOps T c (NewNodeFilter c cs) = Some []"
    "kubeletOps T c (NewNodeFilter c cs) cs m api = Some []" "proxyOps T c (NewNodeFilter c cs) m = Some []"
proof -
  let ?nf = "NewNodeFilter c cs"
  from k8s obtain ops fin where r: "apiserverOps T c ?nf cs = Some (ops, fin)" "ops = []"
    by (auto simp: k8sOps_def split: if_splits)
  show ?thesis using r(1)
  proof (cases rule: apiserverOps_cases)
    case broken
    with r(2) show ?thesis by simp
  next
    case (wait un u)
    have "un = []" "u = []"
      using ssh_not.filt_sound [OF wait(3)] apiserver_unhealthy.filt_sound [OF wait(4)] cp
      by (fastforce simp: filter_empty_conv has_status_def reachable_node_def api_healthy_def nodeStatus_def)+
    with wait show ?thesis by simp
  next
    case restart
    with r(2) show ?thesis by simp
  next
    case (go_on outdated stopped)
    with k8s r that show ?thesis by (auto simp: k8sOps_def)
  qed
qed

lemma cpComponentOps_Nil:
  assumes "cpComponentOps T c (NewNodeFilter c cs) = Some []"
    and n: "n \<in> set (filter nControlPlane (cNodes c))"
    and st: "nodeStatus (NewNodeFilter c cs) n = Some st" "nsSSHConnected st"
  shows "svc_current KubernetesImage (ControllerManagerParams (cName c) (cServiceSubnet c))
       (oControllerManager (cOptions c)) (kcServiceStatus (nsControllerManager st))"
    "ssRunning (shServiceStatus (nsScheduler st))" "\<not> scheduler_outdated T (NewNodeFilter c cs) n st"
proof -
  let ?nf = "NewNodeFilter c cs"
  let ?cp = "filter nControlPlane (cNodes c)"
  from assms(1) obtain t1 t2 t3 t4 where
    "ControllerManagerStopped ?nf ?cp = Some t1" "SSHConnected ?nf t1 = Some []"
    "ControllerManagerOutdated ?nf ?cp = Some t2" "SSHConnected ?nf t2 = Some []"
    "SchedulerStopped ?nf ?cp = Some t3" "SSHConnected ?nf t3 = Some []"
    "SchedulerOutdated T ?nf ?cp (oScheduler (cOptions c)) = Some t4" "SSHConnected ?nf t4 = Some []"
    unfolding cpComponentOps_def Let_def by (auto simp: when_reachable_Nil)
  note t = this
  show "svc_current KubernetesImage (ControllerManagerParams (cName c) (cServiceSubnet c))
       (oControllerManager (cOptions c)) (kcServiceStatus (nsControllerManager st))"
    using cm_stopped.filt_unselected [OF t(1,2) n st] cm_outdated.filt_unselected [OF t(3,4) n st]
    by (simp add: svc_current_iff)
  show "ssRunning (shServiceStatus (nsScheduler st))"
    using scheduler_stopped.filt_unselected [OF t(5,6) n st] by simp
  show "\<not> scheduler_outdated T ?nf n st"
    using sched_outdated.filt_unselected [of T ?nf ?cp t4 n st] t(7,8) n st by simp
qed

lemma kubeletOps_Nil:
  assumes "kubeletOps T c (NewNodeFilter c cs) cs m api = Some []" and n: "n \<in> set (cNodes c)"
    and st: "nodeStatus (NewNodeFilter c cs) n = Some st" "nsSSHConnected st"
  shows "kubelet_current T c cs n st"
proof -
  let ?nf = "NewNodeFilter c cs"
  from assms(1) obtain t1 t2 t3 rs where
    "KubeletUnrecognized ?nf (cNodes c) = Some t1" "SSHConnected ?nf t1 = Some []"
    "KubeletStopped ?nf (cNodes c) = Some t2" "SSHConnected ?nf t2 = Some []"
    "KubeletOutdated T ?nf (cNodes c) = Some t3" "SSHConnected ?nf t3 = Some rs"
    "klInPlaceUpdate (oKubelet (cOptions c)) \<longrightarrow> rs = []"
    unfolding kubeletOps_def Let_def by (auto simp: when_reachable_Nil split: if_splits)
  note t = this
  show ?thesis
    using kubelet_unrecognized.filt_unselected [OF t(1,2) n st] kubelet_stopped.filt_unselected [OF t(3,4) n st]
      kl_outdated.filt_unselected [OF t(5) _ n st] t(6,7)
    by (auto simp: kubelet_current_def)
qed

lemma proxyOps_Nil:
  assumes "proxyOps T c (NewNodeFilter c cs) m = Some []" and n: "n \<in> set (cNodes c)"
    and st: "nodeStatus (NewNodeFilter c cs) n = Some st" "nsSSHConnected st"
  shows "proxy_current T c cs n st"
proof -
  let ?nf = "NewNodeFilter c cs"
  from assms(1) obtain t1 t2 t3 where
    "ProxyStopped ?nf (cNodes c) = Some t1" "SSHConnected ?nf t1 = Some []"
    "ProxyOutdated T ?nf (cNodes c) (oProxy (cOptions c)) = Some t2" "SSHConnected ?nf t2 = Some []"
    "ProxyRunningUnexpectedly ?nf (cNodes c) = Some t3" "SSHConnected ?nf t3 = Some []"
    unfolding proxyOps_def Let_def by (auto simp: when_reachable_Nil)
  note t = this
  show ?thesis
    using proxy_stopped.filt_unselected [OF t(1,2) n st] px_outdated.filt_unselected [of T ?nf "cNodes c" t2 n st]
      proxy_unexpected.filt_unselected [OF t(5,6) n st] t(3,4) n st
    by (auto simp: proxy_current_def)
qed

lemma nodeMap_address: "nfNodeMap (NewNodeFilter c cs) a = Some n \<Longrightarrow> nAddress n = a \<and> n \<in> set (cNodes c)"
proof -
  have "fold (\<lambda>n m. m(nAddress n \<mapsto> n)) ns m a = Some n \<Longrightarrow> m a = Some n \<or> nAddress n = a" for ns m
    by (induction ns arbitrary: m) (force split: if_splits)+
  then show "nfNodeMap (NewNodeFilter c cs) a = Some n \<Longrightarrow> nAddress n = a \<and> n \<in> set (cNodes c)"
    using nodeMap_mem [of c cs a n] by (fastforce simp: NewNodeFilter_def)
qed

text \<open>With nothing left to maintain, the members of a good etcd cluster are exactly the control planes.\<close>

lemma etcdMaintOp_None:
  assumes none: "etcdMaintOp c (NewNodeFilter c cs) = Some None" and good: "EtcdIsGood (NewNodeFilter c cs)"
  shows "fst ` set (ecMembers (csEtcd cs)) = nAddress ` {n \<in> set (cNodes c). nControlPlane n}"
proof -
  let ?nf = "NewNodeFilter c cs"
  from none good have f: "EtcdNonClusterMembers ?nf False = []" "EtcdNonClusterMembers ?nf True = []"
    "fst (EtcdNonCPMembers ?nf False) = []" "fst (EtcdNonCPMembers ?nf True) = []" "EtcdNewMembers ?nf = []"
    unfolding etcdMaintOp_def Let_def by (auto split: if_splits list.splits)
  have "k \<in> nAddress ` {n \<in> set (cNodes c). nControlPlane n}" if "(k, v) \<in> set (ecMembers (csEtcd cs))" for k v
  proof -
    have "InCluster ?nf k"
      using f(1,2) that
      by (cases "mget_bool (ecInSyncMembers (csEtcd cs)) k") (force simp: EtcdNonClusterMembers_def Let_def filter_empty_conv)+
    then obtain n where n: "nfNodeMap ?nf k = Some n" by (auto simp: InCluster_def)
    have "nControlPlane n"
      using f(3,4) that n
      by (cases "mget_bool (ecInSyncMembers (csEtcd cs)) k")
        (force simp: EtcdNonCPMembers_def Let_def map_filter_def filter_empty_conv split: option.splits if_splits)+
    then show ?thesis using nodeMap_address [OF n] by auto
  qed
  moreover have "nAddress n \<in> fst ` set (ecMembers (csEtcd cs))" if "n \<in> set (cNodes c)" "nControlPlane n" for n
    using f(5) that by (auto simp: EtcdNewMembers_def filter_empty_conv map_of_eq_None_iff)
  ultimately show ?thesis by force
qed

section \<open>Up to date means nothing to do\<close>

lemma when_reachable_none: "when_reachable nf (Some []) mk = Some []"
  by (simp add: when_reachable_def SSHConnected_def by_status_def)

definition all_current ::
  "(Node \<Rightarrow> NodeStatus \<Rightarrow> bool) \<Rightarrow> Cluster \<Rightarrow> ClusterStatus \<Rightarrow> (Node \<Rightarrow> bool) \<Rightarrow> bool" where
  "all_current P c cs Q \<longleftrightarrow>
     (\<forall>n st. n \<in> set (cNodes c) \<and> Q n \<and> csNodeStatuses cs (nAddress n) = Some st \<longrightarrow> P n st)"

lemma all_currentD:
  "all_current P c cs Q \<Longrightarrow> n \<in> set (cNodes c) \<Longrightarrow> Q n \<Longrightarrow> nodeStatus (NewNodeFilter c cs) n = Some st \<Longrightarrow> P n st"
  by (auto simp: all_current_def nodeStatus_def)

lemma observed_cps: "observed c cs \<Longrightarrow> covered (NewNodeFilter c cs) (filter nControlPlane (cNodes c))"
  by (rule observed_covered) auto

lemma observed_all: "observed c cs \<Longrightarrow> covered (NewNodeFilter c cs) (cNodes c)"
  by (rule observed_covered) auto

lemma riversOps_quiet:
  assumes o: "observed c cs" and cur: "all_current (rivers_current c) c cs (\<lambda>_. True)"
  shows "riversOps c (NewNodeFilter c cs) m = Some []"
proof -
  let ?nf = "NewNodeFilter c cs"
  note cur' = all_currentD [OF cur, simplified]
  have "RiversStopped ?nf (cNodes c) = Some []"
    by (rule rivers_stopped.filt_none [OF TrueI observed_all [OF o]])
      (auto dest!: cur' simp: rivers_current_def Let_def svc_current_iff)
  moreover have "RiversOutdated ?nf (cNodes c) = Some []"
    by (rule rivers_outdated.filt_none [OF TrueI observed_all [OF o]])
      (auto dest!: cur' simp: rivers_current_def Let_def svc_current_iff)
  moreover have "EtcdRiversStopped ?nf (filter nControlPlane (cNodes c)) = Some []"
    by (rule etcd_rivers_stopped.filt_none [OF TrueI observed_cps [OF o]])
      (auto dest!: cur' simp: rivers_current_def Let_def svc_current_iff)
  moreover have "EtcdRiversOutdated ?nf (filter nControlPlane (cNodes c)) = Some []"
    by (rule etcd_rivers_outdated.filt_none [OF TrueI observed_cps [OF o]])
      (auto dest!: cur' simp: rivers_current_def Let_def svc_current_iff)
  ultimately show ?thesis by (simp add: riversOps_def Let_def when_reachable_none)
qed

lemma cpComponentOps_quiet:
  assumes o: "observed c cs" and m: "configs_merge T c"
    and cur: "all_current (control_plane_current T c cs) c cs nControlPlane"
  shows "cpComponentOps T c (NewNodeFilter c cs) = Some []"
proof -
  let ?nf = "NewNodeFilter c cs"
  let ?cp = "filter nControlPlane (cNodes c)"
  note cur' = all_currentD [OF cur]
  have m': "configs_merge T (nfCluster ?nf)" using m by simp
  have "ControllerManagerStopped ?nf ?cp = Some []"
    by (rule cm_stopped.filt_none [OF TrueI observed_cps [OF o]])
      (auto dest!: cur' simp: control_plane_current_def svc_current_iff)
  moreover have "ControllerManagerOutdated ?nf ?cp = Some []"
    by (rule cm_outdated.filt_none [OF TrueI observed_cps [OF o]])
      (auto dest!: cur' simp: control_plane_current_def svc_current_iff)
  moreover have "SchedulerStopped ?nf ?cp = Some []"
    by (rule scheduler_stopped.filt_none [OF TrueI observed_cps [OF o]])
      (auto dest!: cur' simp: control_plane_current_def)
  moreover have "SchedulerOutdated T ?nf ?cp (oScheduler (cOptions (nfCluster ?nf))) = Some []"
    by (rule sched_outdated.filt_none [OF m' observed_cps [OF o]])
      (auto dest!: cur' simp: control_plane_current_def)
  ultimately show ?thesis by (simp add: cpComponentOps_def Let_def when_reachable_none)
qed

lemma kubeletOps_quiet:
  assumes o: "observed c cs" and m: "configs_merge T c"
    and cur: "all_current (kubelet_current T c cs) c cs (\<lambda>_. True)"
    and inplace: "klInPlaceUpdate (oKubelet (cOptions c))"
  shows "kubeletOps T c (NewNodeFilter c cs) cs' mx api = Some []"
proof -
  let ?nf = "NewNodeFilter c cs"
  note cur' = all_currentD [OF cur, simplified]
  have m': "configs_merge T (nfCluster ?nf)" using m by simp
  have "KubeletUnrecognized ?nf (cNodes c) = Some []"
    by (rule kubelet_unrecognized.filt_none [OF TrueI observed_all [OF o]])
      (auto dest!: cur' simp: kubelet_current_def)
  moreover have "KubeletStopped ?nf (cNodes c) = Some []"
    by (rule kubelet_stopped.filt_none [OF TrueI observed_all [OF o]])
      (auto dest!: cur' simp: kubelet_current_def)
  moreover have "KubeletOutdated T ?nf (cNodes c) = Some []"
    by (rule kl_outdated.filt_none [OF m' observed_all [OF o]])
      (use inplace in \<open>auto dest!: cur' simp: kubelet_current_def\<close>)
  ultimately show ?thesis
    by (simp add: kubeletOps_def Let_def when_reachable_none SSHConnected_def by_status_def)
qed

lemma proxyOps_quiet:
  assumes o: "observed c cs" and m: "configs_merge T c"
    and cur: "all_current (proxy_current T c cs) c cs (\<lambda>_. True)"
  shows "proxyOps T c (NewNodeFilter c cs) mx = Some []"
proof -
  let ?nf = "NewNodeFilter c cs"
  note cur' = all_currentD [OF cur, simplified]
  have m': "configs_merge T (nfCluster ?nf)" using m by simp
  have "ProxyStopped ?nf (cNodes c) = Some []"
    by (rule proxy_stopped.filt_none [OF TrueI observed_all [OF o]])
      (auto dest!: cur' simp: proxy_current_def)
  moreover have "ProxyRunningUnexpectedly ?nf (cNodes c) = Some []"
    by (rule proxy_unexpected.filt_none [OF TrueI observed_all [OF o]])
      (auto dest!: cur' simp: proxy_current_def)
  moreover have "ProxyOutdated T ?nf (cNodes c) (oProxy (cOptions (nfCluster ?nf))) = Some []"
    by (rule px_outdated.filt_none [OF m' observed_all [OF o]])
      (auto dest!: cur' simp: proxy_current_def)
  ultimately show ?thesis by (simp add: proxyOps_def Let_def when_reachable_none)
qed

lemma apiserverOps_quiet:
  assumes o: "observed c cs" and m: "configs_merge T c"
    and cur: "all_current (control_plane_current T c cs) c cs nControlPlane"
    and reach: "all_current (\<lambda>n st. nsSSHConnected st) c cs nControlPlane"
    and eps: "masterEndpointOps cs (NewNodeFilter c cs) (rebootNextCandidates cs) = Some []"
  shows "apiserverOps T c (NewNodeFilter c cs) cs = Some ([], False)"
proof -
  let ?nf = "NewNodeFilter c cs"
  let ?cp = "filter nControlPlane (cNodes c)"
  note cur' = all_currentD [OF cur]
  have m': "configs_merge T (nfCluster ?nf)" using m by simp
  have "APIServerStopped ?nf ?cp = Some []"
    by (rule apiserver_stopped.filt_none [OF TrueI observed_cps [OF o]])
      (auto dest!: cur' simp: control_plane_current_def)
  moreover have "APIServerUnhealthy ?nf ?cp = Some []"
    by (rule apiserver_unhealthy.filt_none [OF TrueI observed_cps [OF o]])
      (auto dest!: cur' simp: control_plane_current_def)
  moreover have "APIServerOutdated T ?nf ?cp = Some []"
    by (rule api_outdated.filt_none [OF m' observed_cps [OF o]])
      (auto dest!: cur' simp: control_plane_current_def)
  moreover have "APIServerOutdated T ?nf [] = Some []"
    by (rule api_outdated.filt_none [OF m']) (simp_all add: covered_def)
  moreover have "SSHNotConnected ?nf ?cp = Some []"
    by (rule ssh_not.filt_none [OF TrueI observed_cps [OF o]]) (auto dest!: all_currentD [OF reach])
  moreover have "SSHConnected ?nf [] = Some []" by (simp add: SSHConnected_def by_status_def)
  ultimately show ?thesis using eps by (simp add: apiserverOps_def Let_def)
qed

lemma k8sOps_quiet:
  assumes "observed c cs" "configs_merge T c"
    and "all_current (control_plane_current T c cs) c cs nControlPlane"
    and "all_current (\<lambda>n st. nsSSHConnected st) c cs nControlPlane"
    and "all_current (kubelet_current T c cs) c cs (\<lambda>_. True)" "klInPlaceUpdate (oKubelet (cOptions c))"
    and "all_current (proxy_current T c cs) c cs (\<lambda>_. True)"
    and "masterEndpointOps cs (NewNodeFilter c cs) (rebootNextCandidates cs) = Some []"
  shows "k8sOps T c (NewNodeFilter c cs) cs m = Some []"
  using assms HealthyAPIServer_total [of c cs]
  by (auto simp: k8sOps_def apiserverOps_quiet cpComponentOps_quiet kubeletOps_quiet proxyOps_quiet defined_ex)

section \<open>Properties\<close>



end
