(* ===== verification/CKE_Steady.thy ===== *)
theory CKE_Steady
  imports CKE_Converged
begin

text \<open>
  A concrete cluster in a steady state, on which the properties of the decision are instantiated: three
  control planes and a worker, every service as CKE starts it, and the Kubernetes objects as CKE writes
  them.
\<close>

section \<open>The sample machines are up to date\<close>

lemma wf_params_built_in [simp]:
  "wf_params no_params" "wf_params (RiversParams ns u l)" "wf_params (BuiltInParams n ic s)"
  "wf_params (APIServerParams T a sub al pol path d)" "wf_params (ControllerManagerParams nm sub)"
  "wf_params SchedulerParams" "wf_params ProxyParams" "wf_params (KubeletServiceParams n p)"
  by (simp_all add: wf_params_def no_params_def RiversParams_def BuiltInParams_def APIServerParams_def
      ControllerManagerParams_def SchedulerParams_def ProxyParams_def KubeletServiceParams_def Let_def)

lemma running_current: "wf_params b \<Longrightarrow> svc_current img b no_params (running_as img b)"
  by (simp add: svc_current_def running_as_def)

lemma running_not_outdated: "wf_params b \<Longrightarrow> \<not> svc_outdated img b no_params (running_as img b)"
  using running_current svc_current_iff by blast

lemma running_running [simp]: "ssRunning (running_as img b)" "ssBuiltInParams (running_as img b) = b"
  by (simp_all add: running_as_def)

lemma cluster1_options [simp]:
  "epServiceParams (oEtcd (cOptions cluster1)) = no_params"
  "oRivers (cOptions cluster1) = no_params" "oEtcdRivers (cOptions cluster1) = no_params"
  "oControllerManager (cOptions cluster1) = no_params" "apServiceParams (oAPIServer (cOptions cluster1)) = no_params"
  "apAuditLogEnabled (oAPIServer (cOptions cluster1)) = False" "apAuditLogPolicy (oAPIServer (cOptions cluster1)) = []"
  "apAuditLogPath (oAPIServer (cOptions cluster1)) = []"
  "schServiceParams (oScheduler (cOptions cluster1)) = no_params" "prServiceParams (oProxy (cOptions cluster1)) = no_params"
  "\<not> prDisable (oProxy (cOptions cluster1))" "klServiceParams (oKubelet (cOptions cluster1)) = no_params"
  "klInPlaceUpdate (oKubelet (cOptions cluster1))"
  by (simp_all add: cluster1_def sample_cluster_def sample_options_def)

lemma configs_merge_sample: "configs_merge sample_T cluster1"
  by (simp add: configs_merge_def GenerateSchedulerConfiguration_def GenerateProxyConfiguration_def
      Kubelet_MergeConfig_def Scheduler_MergeConfig_def Proxy_MergeConfig_def sample_T_def cluster1_def
      sample_cluster_def sample_options_def)

lemma sample_rivers_current: "rivers_current cluster1 n (sample_node_status cluster1 n)"
  by (simp add: rivers_current_def sample_node_status_def Let_def running_current)

lemma sample_kubelet_config:
  "\<exists>k. GenerateKubeletConfiguration sample_T (oKubelet (cOptions cluster1)) a None = Some k \<and>
     kcClusterDomain k = ''cluster.local'' \<and>
     GenerateKubeletConfiguration sample_T (oKubelet (cOptions cluster1)) a (Some k) = Some k"
  by (simp add: GenerateKubeletConfiguration_def Kubelet_MergeConfig_def sample_T_def cluster1_def
      sample_cluster_def sample_options_def kubelet_base_def addBootTaints_def keepRunning_def Let_def)

lemma sample_control_plane_current:
  "nControlPlane n \<Longrightarrow> control_plane_current sample_T cluster1 cs n (sample_node_status cluster1 n)"
proof -
  obtain k where k: "GenerateKubeletConfiguration sample_T (oKubelet (cOptions cluster1)) ''0.0.0.0'' None = Some k"
    "kcClusterDomain k = ''cluster.local''"
    using sample_kubelet_config [of "''0.0.0.0''"] by blast
  have "tpEqualScheduler sample_T x (Some x)" for x by (simp add: sample_T_def)
  then show "nControlPlane n \<Longrightarrow> control_plane_current sample_T cluster1 cs n (sample_node_status cluster1 n)"
    by (simp add: control_plane_current_def sample_node_status_def Let_def running_current apiserver_outdated_def
        scheduler_outdated_def k running_not_outdated)
qed

lemma sample_kubelet_current:
  "existsNodeResource (NewNodeFilter cluster1 cs) (Nodename n) \<Longrightarrow>
     kubelet_current sample_T cluster1 cs n (sample_node_status cluster1 n)"
proof -
  obtain k where "GenerateKubeletConfiguration sample_T (oKubelet (cOptions cluster1)) (nAddress n) None = Some k"
    "GenerateKubeletConfiguration sample_T (oKubelet (cOptions cluster1)) (nAddress n) (Some k) = Some k"
    using sample_kubelet_config by blast
  moreover have "tpEqualKubelet sample_T x (Some x)" for x by (simp add: sample_T_def)
  ultimately show "existsNodeResource (NewNodeFilter cluster1 cs) (Nodename n) \<Longrightarrow>
      kubelet_current sample_T cluster1 cs n (sample_node_status cluster1 n)"
    by (simp add: kubelet_current_def sample_node_status_def Let_def kubelet_outdated_def running_not_outdated)
qed

lemma sample_proxy_current: "proxy_current sample_T cluster1 cs n (sample_node_status cluster1 n)"
proof -
  have "tpEqualProxy sample_T x (Some x)" for x by (simp add: sample_T_def)
  then show ?thesis
    by (simp add: proxy_current_def sample_node_status_def Let_def proxy_outdated_def running_not_outdated)
qed

section \<open>The steady state\<close>

definition steady_master :: endpointParams where
  "steady_master = \<lparr>enNamespace = ''default'', enName = ''kubernetes'',
     enReadyIPs = [''10.0.0.1'', ''10.0.0.2'', ''10.0.0.3''], enNotReadyIPs = [],
     enPort = 6443, enPortName = ''https'', enServiceName = ''kubernetes''\<rparr>"

definition steady_etcd :: endpointParams where
  "steady_etcd = \<lparr>enNamespace = ''kube-system'', enName = EtcdEndpointsName,
     enReadyIPs = [''10.0.0.1'', ''10.0.0.2'', ''10.0.0.3''], enNotReadyIPs = [],
     enPort = 2379, enPortName = [], enServiceName = EtcdServiceName\<rparr>"

definition steady_kubernetes :: "(Node \<Rightarrow> K8sNode) \<Rightarrow> KubernetesClusterStatus" where
  "steady_kubernetes f = (sample_kubernetes cluster1)
     \<lparr>ksNodes := map f (cNodes cluster1),
      ksClusterDNS := \<lparr>cdConfigMap = Some (ClusterDNS_ConfigMap ''cluster.local'' [''8.8.8.8'']), cdClusterIP = []\<rparr>,
      ksMasterEndpoints := Some (expected_ep steady_master),
      ksMasterEndpointSlice := Some (expected_eps steady_master),
      ksEtcdService := Some \<lparr>svType = ''ClusterIP'', svClusterIP = ''None'', svPorts = [2379]\<rparr>,
      ksEtcdEndpoints := Some (expected_ep steady_etcd),
      ksEtcdEndpointSlice := Some (expected_eps steady_etcd)\<rparr>"

definition synced_node :: "Node \<Rightarrow> K8sNode" where
  "synced_node n = updateAttrs n True (sample_k8s_node n)"

text \<open>Nodes that bear the names and the attributes of the definition.\<close>

definition synced :: "(Node \<Rightarrow> K8sNode) \<Rightarrow> bool" where
  "synced f \<longleftrightarrow> (\<forall>n. knName (f n) = Nodename n) \<and>
     (\<forall>n \<in> {cp1, cp2, cp3, worker1}. \<not> nodeIsOutdated n (f n) True)"

text \<open>
  The machines and the Kubernetes objects are as they should be. The queues are free, as long as no
  control plane is being or about to be rebooted. In a steady cluster etcd is as it should be, too.
\<close>

definition settled :: "ClusterStatus \<Rightarrow> bool" where
  "settled cs \<longleftrightarrow>
     csNodeStatuses cs = csNodeStatuses status1 \<and>
     csConfigVersion cs = ConfigVersion \<and> (\<exists>f. csKubernetes cs = steady_kubernetes f \<and> synced f) \<and>
     (\<forall>a. \<not> rebootProcessing cs a) \<and> set (rebootNextCandidates cs) \<subseteq> {''10.0.0.4''}"

definition steady :: "ClusterStatus \<Rightarrow> bool" where
  "steady cs \<longleftrightarrow> settled cs \<and> csEtcd cs = csEtcd status1"

lemma settledD:
  assumes "settled cs"
  shows "nodeStatus (NewNodeFilter cluster1 cs) n = csNodeStatuses status1 (nAddress n)"
    "csNodeStatuses cs = csNodeStatuses status1" "csConfigVersion cs = ConfigVersion"
    "\<not> rebootProcessing cs a" "''10.0.0.1'' \<notin> set (rebootNextCandidates cs)"
    "''10.0.0.2'' \<notin> set (rebootNextCandidates cs)" "''10.0.0.3'' \<notin> set (rebootNextCandidates cs)"
  using assms by (auto simp: settled_def nodeStatus_def)

lemma steadyD:
  assumes "steady cs"
  shows "nodeStatus (NewNodeFilter cluster1 cs) n = csNodeStatuses status1 (nAddress n)"
    "csNodeStatuses cs = csNodeStatuses status1" "csEtcd cs = csEtcd status1" "csConfigVersion cs = ConfigVersion"
    "\<not> rebootProcessing cs a" "''10.0.0.1'' \<notin> set (rebootNextCandidates cs)"
    "''10.0.0.2'' \<notin> set (rebootNextCandidates cs)" "''10.0.0.3'' \<notin> set (rebootNextCandidates cs)"
  using assms by (auto simp: steady_def settled_def nodeStatus_def)

lemma steady_settled: "steady cs \<Longrightarrow> settled cs"
  by (simp add: steady_def)

lemma steady_f: "settled cs \<Longrightarrow> (\<And>f. csKubernetes cs = steady_kubernetes f \<Longrightarrow> synced f \<Longrightarrow> P) \<Longrightarrow> P"
  by (auto simp: settled_def)

lemma cluster1_nodes [simp]: "cNodes cluster1 = [cp1, cp2, cp3, worker1]" "nControlPlane cp1" "nControlPlane cp2"
  "nControlPlane cp3" "\<not> nControlPlane worker1"
  by (simp_all add: cluster1_simps)

lemma status1_node: "n \<in> {cp1, cp2, cp3, worker1} \<Longrightarrow>
   csNodeStatuses status1 (nAddress n) = Some (sample_node_status cluster1 n)"
  by (auto simp: status1_def sample_status_def)

lemma steady_nodes [simp]:
  "csNodeStatuses status1 ''10.0.0.1'' = Some (sample_node_status cluster1 cp1)"
  "csNodeStatuses status1 ''10.0.0.2'' = Some (sample_node_status cluster1 cp2)"
  "csNodeStatuses status1 ''10.0.0.3'' = Some (sample_node_status cluster1 cp3)"
  "csNodeStatuses status1 ''10.0.0.4'' = Some (sample_node_status cluster1 worker1)"
  using status1_node by force+

lemma status1_observed: "csNodeStatuses cs = csNodeStatuses status1 \<Longrightarrow> observed cluster1 cs"
  by (simp add: observed_def)

lemma status1_all_current:
  assumes cs: "csNodeStatuses cs = csNodeStatuses status1"
    and P: "\<And>n. n \<in> {cp1, cp2, cp3, worker1} \<Longrightarrow> Q n \<Longrightarrow> P n (sample_node_status cluster1 n)"
  shows "all_current P cluster1 cs Q"
  unfolding all_current_def
proof (intro allI impI, elim conjE)
  fix n st
  assume n: "n \<in> set (cNodes cluster1)" and Q: "Q n" and st: "csNodeStatuses cs (nAddress n) = Some st"
  from n have n': "n \<in> {cp1, cp2, cp3, worker1}" by simp
  show "P n st" using P [OF n' Q] st status1_node [OF n'] by (simp add: cs)
qed

lemma status1_rivers:
  assumes "csNodeStatuses cs = csNodeStatuses status1"
  shows "riversOps cluster1 (NewNodeFilter cluster1 cs) m = Some []"
  by (rule riversOps_quiet [OF status1_observed [OF assms]])
    (intro status1_all_current [OF assms] sample_rivers_current)

lemma sample_node_connected [simp]:
  "nsSSHConnected (sample_node_status c n)"
  "nControlPlane n \<Longrightarrow> kcIsHealthy (nsAPIServer (sample_node_status c n))"
  "nControlPlane n \<Longrightarrow> esHasData (nsEtcd (sample_node_status c n))"
  "nControlPlane n \<Longrightarrow> ssRunning (esServiceStatus (nsEtcd (sample_node_status c n)))"
  by (simp_all add: sample_node_status_def Let_def)

lemma status1_queue [simp]:
  "bqsEntries (csRebootQueue status1) = []" "bqsNextCandidates (csRebootQueue status1) = []"
  "bqsEnabled (csRebootQueue status1)" "bqsRebootCancelled (csRebootQueue status1) = []"
  "bqsRebootDequeued (csRebootQueue status1) = []" "rqsEntries (csRepairQueue status1) = []"
  "ecIsHealthy (csEtcd status1)" "csConfigVersion status1 = ConfigVersion"
  by (simp_all add: status1_def sample_status_def)

lemma status1_healthy:
  "csNodeStatuses cs = csNodeStatuses status1 \<Longrightarrow> HealthyAPIServer (NewNodeFilter cluster1 cs) = Some (Some cp1)"
  by (simp add: HealthyAPIServer_def nodeStatus_def)

lemma steady_kubernetes_simps [simp]:
  "ksMasterEndpoints (steady_kubernetes f) = Some (expected_ep steady_master)"
  "ksMasterEndpointSlice (steady_kubernetes f) = Some (expected_eps steady_master)"
  "ksEtcdEndpoints (steady_kubernetes f) = Some (expected_ep steady_etcd)"
  "ksEtcdEndpointSlice (steady_kubernetes f) = Some (expected_eps steady_etcd)"
  "ksIsControlPlaneReady (steady_kubernetes f)" "ksDNSService (steady_kubernetes f) = None"
  "ksNodes (steady_kubernetes f) = map f [cp1, cp2, cp3, worker1]"
  by (simp_all add: steady_kubernetes_def sample_kubernetes_def)

lemma steady_master_ops:
  assumes "settled cs"
  shows "masterEndpointOps cs (NewNodeFilter cluster1 cs) (rebootNextCandidates cs) = Some []"
proof -
  have "master_params cs (NewNodeFilter cluster1 cs) (rebootNextCandidates cs) = Some steady_master"
    by (simp add: master_params_def APIServerHealthy_def APIServerUnhealthy_def by_status_def settledD [OF assms]
        steady_master_def)
  then show ?thesis
    using assms
    by (auto elim!: steady_f simp: masterEndpointOps_def status1_healthy settledD [OF assms] decideEpEpsOps_Nil
        decideEpOp_settled decideEpsOp_settled)
qed

lemma sample_names [simp]: "Nodename cp1 = ''10.0.0.1''" "Nodename cp2 = ''10.0.0.2''"
  "Nodename cp3 = ''10.0.0.3''" "Nodename worker1 = ''10.0.0.4''"
  by code_simp+

lemma synced_name: "synced f \<Longrightarrow> knName (f n) = Nodename n"
  by (simp add: synced_def)

lemma steady_registered:
  "settled cs \<Longrightarrow> n \<in> {cp1, cp2, cp3, worker1} \<Longrightarrow> existsNodeResource (NewNodeFilter cluster1 cs) (Nodename n)"
  by (erule steady_f) (auto simp: existsNodeResource_def synced_name)

lemma steady_currents:
  assumes "settled cs"
  shows "all_current (rivers_current cluster1) cluster1 cs (\<lambda>_. True)"
    "all_current (control_plane_current sample_T cluster1 cs) cluster1 cs nControlPlane"
    "all_current (\<lambda>n st. nsSSHConnected st) cluster1 cs nControlPlane"
    "all_current (kubelet_current sample_T cluster1 cs) cluster1 cs (\<lambda>_. True)"
    "all_current (proxy_current sample_T cluster1 cs) cluster1 cs (\<lambda>_. True)"
  by (intro status1_all_current [OF settledD(2) [OF assms]] sample_rivers_current sample_control_plane_current
      sample_node_connected sample_kubelet_current steady_registered [OF assms] sample_proxy_current; assumption)+

lemma steady_k8s:
  assumes "settled cs"
  shows "k8sOps sample_T cluster1 (NewNodeFilter cluster1 cs) cs m = Some []"
  by (rule k8sOps_quiet [OF status1_observed [OF settledD(2) [OF assms]] configs_merge_sample])
    (simp_all add: steady_currents [OF assms] steady_master_ops [OF assms])

lemma sample_members:
  "ecMembers (csEtcd status1) = map (\<lambda>n. (nAddress n, \<lparr>mbID = 1, mbName = nAddress n, mbPeerURLs = []\<rparr>)) [cp1, cp2, cp3]"
  "ecInSyncMembers (csEtcd status1) = map (\<lambda>n. (nAddress n, True)) [cp1, cp2, cp3]"
  by (simp_all add: status1_def sample_status_def)

lemma status1_etcd:
  assumes "csNodeStatuses cs = csNodeStatuses status1"
  shows "EtcdBootstrapped (NewNodeFilter cluster1 cs) = Some True"
    "EtcdStopped (NewNodeFilter cluster1 cs) [cp1, cp2, cp3] = Some []"
    "SSHNotConnected (NewNodeFilter cluster1 cs) [cp1, cp2, cp3] = Some []"
  by (simp_all add: EtcdBootstrapped_def EtcdStopped_def SSHNotConnected_def by_status_def nodeStatus_def assms
      del: bind_Some_iff)

lemma steady_node_map:
  "nfNodeMap (NewNodeFilter cluster1 cs) ''10.0.0.1'' = Some cp1"
  "nfNodeMap (NewNodeFilter cluster1 cs) ''10.0.0.2'' = Some cp2"
  "nfNodeMap (NewNodeFilter cluster1 cs) ''10.0.0.3'' = Some cp3"
  "nfNodeMap (NewNodeFilter cluster1 cs) ''10.0.0.4'' = Some worker1"
  by (simp_all add: NewNodeFilter_def)

lemma sample_etcd:
  "nControlPlane n \<Longrightarrow> nsEtcd (sample_node_status c n) = \<lparr>esServiceStatus = running_as EtcdImage (BuiltInParams n [] ''new''),
     esHasData = True, esIsAddedMember = True\<rparr>"
  by (simp add: sample_node_status_def Let_def)

lemma steady_good: "steady cs \<Longrightarrow> EtcdIsGood (NewNodeFilter cluster1 cs)"
  by (simp add: EtcdIsGood_def steadyD sample_members mget_bool_def)

lemma steady_etcd_maint:
  assumes "steady cs"
  shows "etcdMaintOp cluster1 (NewNodeFilter cluster1 cs) = Some None"
proof -
  let ?nf = "NewNodeFilter cluster1 cs"
  note simps = steadyD [OF assms] sample_members steady_node_map
  have "EtcdNonClusterMembers ?nf b = []" for b
    by (simp add: EtcdNonClusterMembers_def InCluster_def simps)
  moreover have "fst (EtcdNonCPMembers ?nf b) = []" for b
    by (simp add: EtcdNonCPMembers_def map_filter_simps Let_def simps)
  moreover have "EtcdUnstartedMembers ?nf = []"
    by (simp add: EtcdUnstartedMembers_def map_filter_simps simps)
  moreover have "EtcdUnmarkedMembers ?nf = Some []"
    by (simp add: EtcdUnmarkedMembers_def sample_etcd simps del: bind_Some_iff)
  moreover have "EtcdNewMembers ?nf = []"
    by (simp add: EtcdNewMembers_def simps)
  moreover have "etcdEqualParams p p" if "wf_params p" for p
    using that by (simp add: etcdEqualParams_def wf_params_def)
  then have "EtcdOutdatedMembers ?nf = Some []"
    by (simp add: EtcdOutdatedMembers_def sample_etcd Let_def running_as_def simps del: bind_Some_iff)
  ultimately show ?thesis by (simp add: etcdMaintOp_def Let_def)
qed

lemma curNodes_map:
  assumes "\<And>n. knName (f n) = Nodename n"
  shows "distinct (map Nodename ns) \<Longrightarrow> n \<in> set ns \<Longrightarrow> curNodes (map f ns) (Nodename n) = Some (f n)"
  by (induction ns rule: rev_induct) (auto simp: assms image_iff)

lemma sample_plain: "n \<in> {cp1, cp2, cp3, worker1} \<Longrightarrow> plain_attrs n"
  by (auto simp: plain_attrs_def cp1_def cp2_def cp3_def worker1_def sample_node_def wf_map_def
      CKELabelMaster_def)

lemma synced_node_synced: "synced synced_node"
  unfolding synced_def
proof (intro conjI allI ballI)
  show "knName (synced_node n) = Nodename n" for n
    by (simp add: synced_node_def sample_k8s_node_def)
  show "\<not> nodeIsOutdated n (synced_node n) True" if "n \<in> {cp1, cp2, cp3, worker1}" for n
    using sample_plain [OF that] updateAttrs_in_sync [of n True "sample_k8s_node n"]
    by (simp add: nodeIsOutdated_iff plain_attrs_def synced_node_def)
qed

lemma steady_attrs:
  assumes "steady cs"
  shows "OutdatedAttrsNodes (NewNodeFilter cluster1 cs) = []"
proof -
  from assms obtain f where f: "csKubernetes cs = steady_kubernetes f" "synced f" by (auto simp: steady_def elim: steady_f)
  have cur: "curNodes (map f [cp1, cp2, cp3, worker1]) (Nodename n) = Some (f n)"
    if "n \<in> {cp1, cp2, cp3, worker1}" for n
    by (rule curNodes_map) (use that in \<open>auto simp: synced_name [OF f(2)]\<close>)
  have none: "attrs_target True (curNodes (map f [cp1, cp2, cp3, worker1])) n = None"
    if "n \<in> {cp1, cp2, cp3, worker1}" for n
    using f(2) that unfolding attrs_target_def cur [OF that] by (auto simp: synced_def)
  have "cTaintCP cluster1" by (simp add: cluster1_def sample_cluster_def)
  then have "OutdatedAttrsNodes (NewNodeFilter cluster1 cs) =
      List.map_filter (attrs_target True (curNodes (map f [cp1, cp2, cp3, worker1]))) [cp1, cp2, cp3, worker1]"
    by (subst OutdatedAttrsNodes_eq) (simp_all add: f)
  then show ?thesis using none [of cp1] none [of cp2] none [of cp3] none [of worker1]
    by (simp only: map_filter_simps) simp
qed

lemma steady_aliens:
  assumes "steady cs"
  shows "NonClusterNodes (NewNodeFilter cluster1 cs) = []"
proof -
  let ?nf = "NewNodeFilter cluster1 cs"
  from assms obtain f where f: "csKubernetes cs = steady_kubernetes f" "synced f" by (auto simp: steady_def elim: steady_f)
  have none: "nfAddressMap ?nf k = None" for k
    by (simp add: NewNodeFilter_def cp1_def cp2_def cp3_def worker1_def sample_node_def)
  moreover have "InCluster ?nf ''10.0.0.1''" "InCluster ?nf ''10.0.0.2''" "InCluster ?nf ''10.0.0.3''"
      "InCluster ?nf ''10.0.0.4''"
    by (simp_all add: InCluster_def steady_node_map)
  ultimately show ?thesis by (simp add: NonClusterNodes_def f synced_name [OF f(2)])
qed

lemma steady_etcd_endpoints:
  assumes "steady cs"
  shows "etcdEndpointOps cs (NewNodeFilter cluster1 cs) (rebootNextCandidates cs) = Some []"
proof -
  from assms obtain f where f: "csKubernetes cs = steady_kubernetes f" "synced f" by (auto simp: steady_def elim: steady_f)
  have "etcd_params cs (NewNodeFilter cluster1 cs) (rebootNextCandidates cs) = steady_etcd"
    by (simp add: etcd_params_def steady_etcd_def steadyD [OF assms])
  moreover have "decideEpEpsOps steady_etcd (Some (expected_ep steady_etcd)) (Some (expected_eps steady_etcd)) api = Some []"
    for api by (simp add: decideEpEpsOps_Nil decideEpOp_settled decideEpsOp_settled)
  moreover have "decideEtcdServiceOps api (ksEtcdService (steady_kubernetes f)) = None" for api
    by (simp add: decideEtcdServiceOps_def steady_kubernetes_def)
  ultimately show ?thesis
    by (simp add: etcdEndpointOps_def status1_healthy steadyD [OF assms] f del: bind_Some_iff)
qed

lemma steady_maint:
  assumes "steady cs"
  shows "k8sMaintOps sample_T [] cluster1 cs [] (NewNodeFilter cluster1 cs) = Some []"
proof -
  from assms obtain f where f: "csKubernetes cs = steady_kubernetes f" "synced f" by (auto simp: steady_def elim: steady_f)
  obtain k where k: "GenerateKubeletConfiguration sample_T (oKubelet (cOptions cluster1)) ''0.0.0.0'' None = Some k"
    "kcClusterDomain k = ''cluster.local''"
    using sample_kubelet_config [of "''0.0.0.0''"] by blast
  have "desiredDNSServers cluster1 (steady_kubernetes f) = [''8.8.8.8'']"
    by (simp add: desiredDNSServers_def cluster1_def sample_cluster_def)
  then have "decideClusterDNSOps sample_T api cluster1 (steady_kubernetes f) = Some []" for api
    by (simp add: decideClusterDNSOps_def k steady_kubernetes_def Let_def del: bind_Some_iff)
  moreover have "decideNodeDNSOps sample_T api cluster1 (steady_kubernetes f) = Some []" for api
    by (simp add: decideNodeDNSOps_def steady_kubernetes_def)
  moreover have "decideResourceOps [] api tr (steady_kubernetes f) [] r = []" for api tr r
    by (simp add: decideResourceOps_def resource_ops_def map_filter_simps)
  ultimately show ?thesis
    by (simp add: k8sMaintOps_def status1_healthy steadyD [OF assms] steady_etcd_endpoints [OF assms]
        steady_attrs [OF assms] steady_aliens [OF assms] f Let_def del: bind_Some_iff)
qed

lemma sample_worker_stopped:
  "\<not> nControlPlane n \<Longrightarrow> nsEtcd (sample_node_status c n) = \<lparr>esServiceStatus = stopped_service, esHasData = False, esIsAddedMember = False\<rparr>"
  "\<not> nControlPlane n \<Longrightarrow> kcServiceStatus (nsAPIServer (sample_node_status c n)) = stopped_service"
  "\<not> nControlPlane n \<Longrightarrow> kcServiceStatus (nsControllerManager (sample_node_status c n)) = stopped_service"
  "\<not> nControlPlane n \<Longrightarrow> shServiceStatus (nsScheduler (sample_node_status c n)) = stopped_service"
  "\<not> nControlPlane n \<Longrightarrow> nsEtcdRivers (sample_node_status c n) = stopped_service"
  "\<not> ssRunning stopped_service"
  by (simp_all add: sample_node_status_def Let_def stopped_service_def)

lemma steady_clean: "steady cs \<Longrightarrow> cleanOps cluster1 (NewNodeFilter cluster1 cs) = Some []"
  by (simp add: cleanOps_def by_status_def steadyD sample_worker_stopped stop_if_def del: bind_Some_iff)

text \<open>In a steady cluster only the queues are left to decide.\<close>

lemma steady_decision:
  assumes "steady cs"
  shows "DecideOps sample_T [] cluster1 cs k [] m now = decideQueues cluster1 cs k (NewNodeFilter cluster1 cs) now"
proof -
  note st = steadyD(2) [OF assms]
  have "SSHConnected (NewNodeFilter cluster1 cs) [] = Some []" by (simp add: SSHConnected_def by_status_def)
  then show ?thesis
    by (simp add: DecideOps_def decideMaint_def status1_rivers [OF st] status1_etcd [OF st] steady_k8s [OF steady_settled [OF assms]]
        steady_etcd_maint [OF assms] steady_maint [OF assms] steady_clean [OF assms] steadyD(3,4) [OF assms]
        del: bind_Some_iff)
qed

section \<open>Witnesses\<close>

definition steady_status :: ClusterStatus where
  "steady_status = status1\<lparr>csKubernetes := steady_kubernetes synced_node\<rparr>"

lemma steady_status_steady: "steady steady_status"
  using synced_node_synced
  by (auto simp: steady_def settled_def steady_status_def rebootProcessing_def rebootNextCandidates_def)

lemma steady_status_simps [simp]:
  "csRepairQueue steady_status = csRepairQueue status1" "csRebootQueue steady_status = csRebootQueue status1"
  "csKubernetes steady_status = steady_kubernetes synced_node"
  by (simp_all add: steady_status_def)

lemma synced_not_cordoned [simp]: "\<not> knUnschedulable (synced_node n)"
  by (simp add: synced_node_def sample_k8s_node_def)

lemma no_cordoned:
  "csKubernetes cs = steady_kubernetes synced_node \<Longrightarrow> rebootUncordonOp cs (NewNodeFilter cluster1 cs) = Some None"
  by (simp add: rebootUncordonOp_def CordonedNodes_def)

lemma steady_completed:
  "DecideOps sample_T [] cluster1 steady_status DefaultConstraints [] 1 0 = Some ([], PhaseCompleted)"
  by (simp add: steady_decision [OF steady_status_steady] decideQueues_def decideReboot_def no_cordoned
      repairOps_def settle_ops_def sortedEntries_def map_filter_simps rebootOps_def del: bind_Some_iff)



theorem operators_of_phase_witness:
  "\<exists>ops. DecideOps sample_T [] cluster1 fresh_status DefaultConstraints [] 2 0 = Some (ops, PhaseRivers) \<and>
     ops \<noteq> [] \<and> phase_allows PhaseRivers (hd ops)"
proof -
  let ?op = "NodeOp (RiversBootOp [cp1, cp2] [cp1, cp2, cp3] no_params RiversContainerName
    RiversUpstreamPort RiversListenPort)"
  have "phase_allows PhaseRivers ?op" by (rule operators_of_phase [OF fresh_decision]) simp
  with fresh_decision show ?thesis by (simp del: phase_allows.simps)
qed

text \<open>A repair request for the worker.\<close>

definition repair_status :: ClusterStatus where
  "repair_status = steady_status\<lparr>csRepairQueue :=
     csRepairQueue (sample_repair_status [sample_entry 1 ''10.0.0.4'' RepairStatusQueued])\<rparr>"

lemma repair_status_steady: "steady repair_status"
  using synced_node_synced
  by (auto simp: steady_def settled_def repair_status_def steady_status_def rebootProcessing_def rebootNextCandidates_def)

lemma repair_decision:
  "DecideOps sample_T [] cluster1 repair_status DefaultConstraints [] 1 0 =
     Some ([RepairOp (RepairExecuteOp (sample_entry 1 ''10.0.0.4'' RepairStatusQueued) sample_step cluster1)],
       PhaseRepairMachines)"
proof -
  let ?es = "[sample_entry 1 ''10.0.0.4'' RepairStatusQueued]"
  have q: "csRepairQueue repair_status = csRepairQueue (sample_repair_status ?es)"
    and k: "csKubernetes repair_status = steady_kubernetes synced_node"
    by (simp_all add: repair_status_def)
  have r: "rebootingApiServers repair_status nf = []" for nf
    by (simp add: rebootingApiServers_def steadyD [OF repair_status_steady])
  have "repairOps cluster1 repair_status (NewNodeFilter cluster1 repair_status) 0 =
      Some ([RepairOp (RepairExecuteOp (sample_entry 1 ''10.0.0.4'' RepairStatusQueued) sample_step cluster1)], True)"
    unfolding repairOps_def q Let_def
    by (simp add: settle_ops_def map_filter_simps sortedEntries_def sample_classify r sample_max sample_run_step
        api_blocked_def del: bind_Some_iff)
  moreover have "EtcdIsGoodForRepair (NewNodeFilter cluster1 repair_status) 1 = Some True"
    by (simp add: EtcdIsGoodForRepair_def steadyD [OF repair_status_steady] sample_members del: bind_Some_iff)
  ultimately show ?thesis
    by (simp add: steady_decision [OF repair_status_steady] decideQueues_def no_cordoned k DefaultConstraints_def
        del: bind_Some_iff)
qed

theorem repairs_guarded_witness:
  "\<exists>ops. DecideOps sample_T [] cluster1 repair_status DefaultConstraints [] 1 0 = Some (ops, PhaseRepairMachines) \<and>
     ops \<noteq> [] \<and> etcd_tolerates_repair cluster1 repair_status 1"
proof -
  have "etcd_tolerates_repair cluster1 repair_status (ctControlPlaneCount DefaultConstraints)"
    by (rule repairs_guarded [OF repair_decision]) simp
  then show ?thesis using repair_decision by (simp add: DefaultConstraints_def)
qed

text \<open>A reboot request for the worker, and another whose drain has completed.\<close>

definition queued_reboot :: RebootQueueEntry where
  "queued_reboot = NewRebootQueueEntry ''10.0.0.4''"

definition reboot_status :: ClusterStatus where
  "reboot_status = steady_status\<lparr>csRebootQueue := (csRebootQueue status1)\<lparr>bqsEntries := [queued_reboot],
     bqsNextCandidates := [queued_reboot], bqsDrainCompleted := [queued_reboot]\<rparr>\<rparr>"

lemma reboot_scan_other: "(\<forall>e \<in> set es. rqStatus e = RebootStatusQueued) \<Longrightarrow> \<not> reboot_scan a es"
  by (induction es) (simp_all add: RebootStatusQueued_def RebootStatusDraining_def RebootStatusRebooting_def)

lemma reboot_status_steady: "steady reboot_status"
  using synced_node_synced
  by (auto simp: steady_def settled_def reboot_status_def steady_status_def rebootProcessing_def rebootNextCandidates_def
      queued_reboot_def NewRebootQueueEntry_def reboot_scan_other)

lemma reboot_decision:
  "DecideOps sample_T [] cluster1 reboot_status DefaultConstraints [] 1 0 =
     Some ([RebootOp (RebootDeleteDaemonSetPodOp (Some cp1) [queued_reboot] sample_reboot),
            RebootOp (RebootRebootOp (Some cp1) [queued_reboot] sample_reboot),
            RebootOp (RebootDrainStartOp (Some cp1) [queued_reboot] sample_reboot)], PhaseRebootNodes)"
proof -
  note st = reboot_status_steady
  have q: "csRepairQueue reboot_status = csRepairQueue status1"
    "csRebootQueue reboot_status = (csRebootQueue status1)\<lparr>bqsEntries := [queued_reboot],
       bqsNextCandidates := [queued_reboot], bqsDrainCompleted := [queued_reboot]\<rparr>"
    "csKubernetes reboot_status = steady_kubernetes synced_node"
    by (simp_all add: reboot_status_def)
  have c: "cReboot cluster1 = sample_reboot" "bqsDrainTimedout (csRebootQueue status1) = []"
    by (simp_all add: cluster1_def sample_cluster_def status1_def sample_status_def)
  have "SSHNotConnected (NewNodeFilter cluster1 reboot_status) [cp1, cp2, cp3, worker1] = Some []"
    by (simp add: SSHNotConnected_def by_status_def steadyD [OF st] del: bind_Some_iff)
  then have "rebootOps cluster1 reboot_status DefaultConstraints (NewNodeFilter cluster1 reboot_status) =
      Some [RebootOp (RebootDeleteDaemonSetPodOp (Some cp1) [queued_reboot] sample_reboot),
            RebootOp (RebootRebootOp (Some cp1) [queued_reboot] sample_reboot),
            RebootOp (RebootDrainStartOp (Some cp1) [queued_reboot] sample_reboot)]"
    by (simp add: rebootOps_def q c status1_healthy steadyD [OF st] DefaultConstraints_def sample_reboot_def
        del: bind_Some_iff)
  moreover have "repairOps cluster1 reboot_status (NewNodeFilter cluster1 reboot_status) 0 = Some ([], False)"
    by (simp add: repairOps_def settle_ops_def sortedEntries_def map_filter_simps q del: bind_Some_iff)
  ultimately show ?thesis
    by (simp add: steady_decision [OF st] decideQueues_def decideReboot_def no_cordoned q steady_good [OF st]
        del: bind_Some_iff)
qed

theorem reboots_guarded_witness:
  "\<exists>ops. DecideOps sample_T [] cluster1 reboot_status DefaultConstraints [] 1 0 = Some (ops, PhaseRebootNodes) \<and>
     length ops = 3 \<and> EtcdIsGood (NewNodeFilter cluster1 reboot_status)"
  using reboots_guarded [OF reboot_decision] reboot_decision by simp

text \<open>The worker was cordoned by CKE and nothing works on it any more.\<close>

definition cordoned_node :: "Node \<Rightarrow> K8sNode" where
  "cordoned_node n = (let kn = synced_node n in
     if nControlPlane n then kn
     else kn\<lparr>knUnschedulable := True, knAnnotations := [(CKEAnnotationReboot, ''true'')]\<rparr>)"

definition cordoned_status :: ClusterStatus where
  "cordoned_status = steady_status\<lparr>csKubernetes := steady_kubernetes cordoned_node\<rparr>"

lemma cordoned_synced: "synced cordoned_node"
proof -
  have "\<not> nodeIsOutdated worker1 (cordoned_node worker1) True" by code_simp
  moreover have "knName (cordoned_node n) = Nodename n" for n
    by (simp add: cordoned_node_def Let_def synced_node_def sample_k8s_node_def)
  ultimately show ?thesis
    using synced_node_synced by (auto simp: synced_def cordoned_node_def)
qed

lemma cordoned_status_steady: "steady cordoned_status"
  using cordoned_synced
  by (auto simp: steady_def settled_def cordoned_status_def steady_status_def rebootProcessing_def rebootNextCandidates_def)

lemma cordoned_decision:
  "DecideOps sample_T [] cluster1 cordoned_status DefaultConstraints [] 1 0 =
     Some ([RebootOp (RebootUncordonOp (Some cp1) [''10.0.0.4''])], PhaseUncordonNodes)"
proof -
  note st = cordoned_status_steady
  have q: "csKubernetes cordoned_status = steady_kubernetes cordoned_node"
    "csRepairQueue cordoned_status = csRepairQueue status1"
    by (simp_all add: cordoned_status_def)
  have "CordonedNodes (NewNodeFilter cluster1 cordoned_status) = [cordoned_node worker1]"
    by (simp add: CordonedNodes_def q cordoned_node_def Let_def mget_str_def)
  moreover have "knName (cordoned_node worker1) = ''10.0.0.4''"
    using cordoned_synced by (simp add: synced_name)
  moreover have "\<not> repairProcessing cordoned_status a" for a
    by (simp add: repairProcessing_def q)
  ultimately show ?thesis
    by (simp add: steady_decision [OF st] decideQueues_def rebootUncordonOp_def status1_healthy steadyD [OF st]
        del: bind_Some_iff)
qed

theorem uncordon_guarded_witness:
  "\<exists>kn \<in> set (ksNodes (csKubernetes cordoned_status)). knName kn = ''10.0.0.4'' \<and> knUnschedulable kn \<and>
     \<not> repairProcessing cordoned_status ''10.0.0.4''"
  using uncordon_guarded [OF cordoned_decision, of "Some cp1" "[''10.0.0.4'']" "''10.0.0.4''"] by auto


text \<open>The third control plane is not yet a member of the etcd cluster.\<close>

definition new_member_status :: ClusterStatus where
  "new_member_status = steady_status\<lparr>csEtcd := (csEtcd status1)\<lparr>
     ecMembers := [(''10.0.0.1'', \<lparr>mbID = 1, mbName = ''10.0.0.1'', mbPeerURLs = []\<rparr>),
                   (''10.0.0.2'', \<lparr>mbID = 2, mbName = ''10.0.0.2'', mbPeerURLs = []\<rparr>)],
     ecInSyncMembers := [(''10.0.0.1'', True), (''10.0.0.2'', True)]\<rparr>\<rparr>"

lemma new_member_settled: "settled new_member_status"
  using synced_node_synced
  by (auto simp: settled_def new_member_status_def steady_status_def rebootProcessing_def rebootNextCandidates_def)

lemma new_member_decision:
  "DecideOps sample_T [] cluster1 new_member_status DefaultConstraints [] 1 0 =
     Some ([EtcdOp (EtcdAddMemberOp [cp1, cp2, cp3] cp3 (oEtcd (cOptions cluster1)))], PhaseEtcdMaintain)"
proof -
  let ?nf = "NewNodeFilter cluster1 new_member_status"
  note st = new_member_settled
  have e: "ecMembers (csEtcd new_member_status) = [(''10.0.0.1'', \<lparr>mbID = 1, mbName = ''10.0.0.1'', mbPeerURLs = []\<rparr>),
                   (''10.0.0.2'', \<lparr>mbID = 2, mbName = ''10.0.0.2'', mbPeerURLs = []\<rparr>)]"
    "ecInSyncMembers (csEtcd new_member_status) = [(''10.0.0.1'', True), (''10.0.0.2'', True)]"
    "ecIsHealthy (csEtcd new_member_status)"
    by (simp_all add: new_member_status_def)
  note simps = settledD [OF st] e steady_node_map
  have "EtcdNonClusterMembers ?nf False = []"
    by (simp add: EtcdNonClusterMembers_def InCluster_def simps)
  moreover have "fst (EtcdNonCPMembers ?nf False) = []"
    by (simp add: EtcdNonCPMembers_def map_filter_simps Let_def simps)
  moreover have "EtcdUnstartedMembers ?nf = []"
    by (simp add: EtcdUnstartedMembers_def map_filter_simps simps)
  moreover have "EtcdUnmarkedMembers ?nf = Some []"
    by (simp add: EtcdUnmarkedMembers_def sample_etcd simps del: bind_Some_iff)
  moreover have "EtcdNewMembers ?nf = [cp3]"
    by (simp add: EtcdNewMembers_def simps)
  moreover have "EtcdIsGood ?nf" by (simp add: EtcdIsGood_def simps mget_bool_def)
  ultimately have "etcdMaintOp cluster1 ?nf = Some (Some (EtcdOp (EtcdAddMemberOp [cp1, cp2, cp3] cp3 (oEtcd (cOptions cluster1)))))"
    by (simp add: etcdMaintOp_def Let_def)
  moreover have "SSHConnected ?nf [] = Some []" by (simp add: SSHConnected_def by_status_def)
  ultimately show ?thesis
    by (simp add: DecideOps_def decideMaint_def status1_rivers status1_etcd steady_k8s st settledD(2,3) [OF st] e
        del: bind_Some_iff)
qed



text \<open>
  The status in which the API servers of the control planes are down: each service status of the sample
  stays, but the API server is not healthy, and runs or not.
\<close>

definition api_down_node :: "bool \<Rightarrow> Node \<Rightarrow> NodeStatus" where
  "api_down_node running n = (let st = sample_node_status cluster1 n in
     if nControlPlane n then st\<lparr>nsAPIServer := \<lparr>kcServiceStatus =
       (if running then kcServiceStatus (nsAPIServer st) else stopped_service), kcIsHealthy = False\<rparr>\<rparr> else st)"

definition api_down_status :: "bool \<Rightarrow> ClusterStatus" where
  "api_down_status running = steady_status\<lparr>
     csNodeStatuses := map_of (map (\<lambda>n. (nAddress n, api_down_node running n)) [cp1, cp2, cp3, worker1]),
     csKubernetes := (steady_kubernetes synced_node)\<lparr>ksIsControlPlaneReady := False\<rparr>\<rparr>"

lemma api_down_nodes:
  "nodeStatus (NewNodeFilter cluster1 (api_down_status r)) cp1 = Some (api_down_node r cp1)"
  "nodeStatus (NewNodeFilter cluster1 (api_down_status r)) cp2 = Some (api_down_node r cp2)"
  "nodeStatus (NewNodeFilter cluster1 (api_down_status r)) cp3 = Some (api_down_node r cp3)"
  "nodeStatus (NewNodeFilter cluster1 (api_down_status r)) worker1 = Some (api_down_node r worker1)"
  by (simp_all add: nodeStatus_def api_down_status_def)

lemma api_down_fields:
  "nsSSHConnected (api_down_node r n)" "nsEtcd (api_down_node r n) = nsEtcd (sample_node_status cluster1 n)"
  "rivers_current cluster1 n (api_down_node r n)"
  "nControlPlane n \<Longrightarrow> \<not> kcIsHealthy (nsAPIServer (api_down_node r n))"
  "nControlPlane n \<Longrightarrow> ssRunning (kcServiceStatus (nsAPIServer (api_down_node r n))) = r"
  "nControlPlane n \<Longrightarrow> r \<Longrightarrow> kcServiceStatus (nsAPIServer (api_down_node r n)) =
     kcServiceStatus (nsAPIServer (sample_node_status cluster1 n))"
  using sample_rivers_current [of n]
  by (auto simp: api_down_node_def Let_def rivers_current_def sample_node_status_def stopped_service_def)

lemma api_down_observed: "observed cluster1 (api_down_status r)"
  by (simp add: observed_def api_down_status_def)

lemma api_down_rivers: "riversOps cluster1 (NewNodeFilter cluster1 (api_down_status r)) m = Some []"
proof (rule riversOps_quiet [OF api_down_observed])
  show "all_current (rivers_current cluster1) cluster1 (api_down_status r) (\<lambda>_. True)"
    unfolding all_current_def
    by (auto simp: api_down_status_def api_down_fields)
qed

lemma api_down_etcd:
  "EtcdBootstrapped (NewNodeFilter cluster1 (api_down_status r)) = Some True"
  "EtcdStopped (NewNodeFilter cluster1 (api_down_status r)) [cp1, cp2, cp3] = Some []"
  "SSHNotConnected (NewNodeFilter cluster1 (api_down_status r)) [cp1, cp2, cp3] = Some []"
  "SSHConnected (NewNodeFilter cluster1 (api_down_status r)) [] = Some []"
  "SSHConnected (NewNodeFilter cluster1 (api_down_status r)) [cp1, cp2, cp3] = Some [cp1, cp2, cp3]"
  by (simp_all add: EtcdBootstrapped_def EtcdStopped_def SSHNotConnected_def SSHConnected_def by_status_def
      api_down_nodes api_down_fields del: bind_Some_iff)

lemma api_down_api:
  "HealthyAPIServer (NewNodeFilter cluster1 (api_down_status r)) = Some None"
  "APIServerUnhealthy (NewNodeFilter cluster1 (api_down_status r)) [cp1, cp2, cp3] = Some [cp1, cp2, cp3]"
  "APIServerStopped (NewNodeFilter cluster1 (api_down_status r)) [cp1, cp2, cp3] =
     Some (if r then [] else [cp1, cp2, cp3])"
  by (simp_all add: HealthyAPIServer_def APIServerUnhealthy_def APIServerStopped_def by_status_def
      api_down_nodes api_down_fields del: bind_Some_iff)

lemma api_down_not_outdated:
  "APIServerOutdated sample_T (NewNodeFilter cluster1 (api_down_status r)) [cp1, cp2, cp3] = Some []"
proof -
  let ?nf = "NewNodeFilter cluster1 (api_down_status r)"
  have m: "configs_merge sample_T (nfCluster ?nf)" using configs_merge_sample by simp
  have no: "\<not> apiserver_outdated sample_T ?nf n (api_down_node r n)" if "nControlPlane n" for n
  proof (cases r)
    case True
    then show ?thesis
      using sample_control_plane_current [OF that, of "api_down_status r"] api_down_fields(6) [OF that True]
      by (simp add: control_plane_current_def apiserver_outdated_def)
  next
    case False
    then show ?thesis
      using api_down_fields(5) [OF that, of r] by (simp add: apiserver_outdated_def svc_outdated_def)
  qed
  show ?thesis
    by (rule api_outdated.filt_none [OF m]) (auto simp: covered_def api_down_nodes no)
qed


lemma api_down_status_simps [simp]:
  "csConfigVersion (api_down_status r) = ConfigVersion" "csEtcd (api_down_status r) = csEtcd status1"
  "\<not> ksIsControlPlaneReady (csKubernetes (api_down_status r))"
  by (simp_all add: api_down_status_def steady_status_def)

lemma api_stopped_decision:
  "\<exists>p d. DecideOps sample_T [] cluster1 (api_down_status False) DefaultConstraints [] 1 0 =
     Some ([K8sOp (APIServerRestartOp [cp1, cp2, cp3] ''10.1.0.0/16'' p d)], PhaseK8sStart)"
proof -
  let ?nf = "NewNodeFilter cluster1 (api_down_status False)"
  obtain d where d: "clusterDomain sample_T cluster1 = Some d"
    using clusterDomain_total [OF configs_merge_sample] by (auto simp: defined_ex)
  have "cServiceSubnet cluster1 = ''10.1.0.0/16''" by (simp add: cluster1_def sample_cluster_def)
  then have "apiserverOps sample_T cluster1 ?nf (api_down_status False) =
      Some ([K8sOp (APIServerRestartOp [cp1, cp2, cp3] ''10.1.0.0/16'' (oAPIServer (cOptions cluster1)) d)], True)"
    by (simp add: apiserverOps_def Let_def api_down_api api_down_etcd api_down_not_outdated
        masterEndpointOps_if_healthy_def apiserverRestart_def d del: bind_Some_iff)
  then show ?thesis
    by (simp add: DecideOps_def api_down_rivers api_down_etcd k8sOps_def del: bind_Some_iff)
qed

theorem apiservers_restarted_safely_witness:
  "\<exists>ops. DecideOps sample_T [] cluster1 (api_down_status False) DefaultConstraints [] 1 0 = Some (ops, PhaseK8sStart) \<and>
     ops \<noteq> [] \<and> ecIsHealthy (csEtcd (api_down_status False))"
proof -
  obtain p d where D: "DecideOps sample_T [] cluster1 (api_down_status False) DefaultConstraints [] 1 0 =
      Some ([K8sOp (APIServerRestartOp [cp1, cp2, cp3] ''10.1.0.0/16'' p d)], PhaseK8sStart)"
    using api_stopped_decision by blast
  from apiservers_restarted_safely [OF D, of "[cp1, cp2, cp3]" "''10.1.0.0/16''" p d] D show ?thesis by simp
qed

text \<open>
  C12. A decided operator can be one that the server cannot run: while the API servers run and are up to date
  but were not healthy when their machines were observed, and Kubernetes is not ready yet, the decision
  is to wait for Kubernetes through no API server, and asking that operator for its targets dereferences
  a nil pointer.
\<close>
theorem wait_through_no_apiserver:
  "DecideOps sample_T [] cluster1 (api_down_status True) DefaultConstraints [] 1 0 =
     Some ([KubeOp (KubeWaitOp None)], PhaseK8sMaintain) \<and>
   opTargets (operation_of sample_T (KubeOp (KubeWaitOp None))) = None"
proof
  let ?nf = "NewNodeFilter cluster1 (api_down_status True)"
  note simps = sample_members steady_node_map api_down_nodes api_down_fields
  have "apiserverOps sample_T cluster1 ?nf (api_down_status True) = Some ([], True)"
    by (simp add: apiserverOps_def Let_def api_down_api api_down_etcd api_down_not_outdated
        masterEndpointOps_if_healthy_def del: bind_Some_iff)
  then have k8s: "k8sOps sample_T cluster1 ?nf (api_down_status True) 1 = Some []"
    by (simp add: k8sOps_def del: bind_Some_iff)
  have "EtcdNonClusterMembers ?nf b = []" "fst (EtcdNonCPMembers ?nf b) = []" for b
    by (simp_all add: EtcdNonClusterMembers_def EtcdNonCPMembers_def InCluster_def map_filter_simps Let_def simps)
  moreover have "EtcdUnstartedMembers ?nf = []" "EtcdNewMembers ?nf = []" "EtcdUnmarkedMembers ?nf = Some []"
    by (simp_all add: EtcdUnstartedMembers_def EtcdNewMembers_def EtcdUnmarkedMembers_def map_filter_simps sample_etcd
        simps del: bind_Some_iff)
  moreover have "etcdEqualParams p p" if "wf_params p" for p
    using that by (simp add: etcdEqualParams_def wf_params_def)
  then have "EtcdOutdatedMembers ?nf = Some []"
    by (simp add: EtcdOutdatedMembers_def sample_etcd Let_def running_as_def simps del: bind_Some_iff)
  ultimately have "etcdMaintOp cluster1 ?nf = Some None" by (simp add: etcdMaintOp_def Let_def)
  moreover have "k8sMaintOps sample_T [] cluster1 (api_down_status True) [] ?nf = Some [KubeOp (KubeWaitOp None)]"
    by (simp add: k8sMaintOps_def api_down_api del: bind_Some_iff)
  ultimately show "DecideOps sample_T [] cluster1 (api_down_status True) DefaultConstraints [] 1 0 =
     Some ([KubeOp (KubeWaitOp None)], PhaseK8sMaintain)"
    by (simp add: DecideOps_def decideMaint_def api_down_rivers api_down_etcd k8s del: bind_Some_iff)
  show "opTargets (operation_of sample_T (KubeOp (KubeWaitOp None))) = None"
    by (simp add: operation_defs apiserver_target_def)
qed

end
