(* ===== verification/CKE_Text.thy ===== *)
theory CKE_Text
  imports CKE_Prelude
begin

text \<open>
  Numbers as text, the way the storage layer writes them: \<^verbatim>\<open>strconv.ParseInt(s, 10, 64)\<close> against
  \<^verbatim>\<open>strconv.FormatInt\<close>, and the verb \<^verbatim>\<open>%016x\<close> of \<^verbatim>\<open>fmt.Sprintf\<close>, which is injective and keeps the
  order of non-negative 64-bit numbers when keys are compared as strings. Also \<^verbatim>\<open>strings.Split\<close>
  with a one-character separator and \<^verbatim>\<open>strings.TrimSpace\<close>.
\<close>

section \<open>Decimal numbers\<close>

definition is_digit :: "char \<Rightarrow> bool" where
  "is_digit c \<longleftrightarrow> 48 \<le> (of_char c :: nat) \<and> (of_char c :: nat) \<le> 57"

definition digit_value :: "char \<Rightarrow> nat" where
  "digit_value c = of_char c - 48"

fun decimal :: "nat \<Rightarrow> string \<Rightarrow> nat" where
  "decimal acc [] = acc"
| "decimal acc (c # cs) = decimal (10 * acc + digit_value c) cs"

text \<open>An optional sign, then at least one digit and nothing else, within the 64-bit range.\<close>

definition ParseInt :: "string \<Rightarrow> int option" where
  "ParseInt s =
     (let (neg, ds) = (case s of
            [] \<Rightarrow> (False, [])
          | c # cs \<Rightarrow> if c = CHR ''-'' then (True, cs) else if c = CHR ''+'' then (False, cs) else (False, s));
          n = int (decimal 0 ds); i = (if neg then - n else n)
      in if ds \<noteq> [] \<and> list_all is_digit ds \<and> - (2 ^ 63) \<le> i \<and> i < 2 ^ 63 then Some i else None)"

lemma digit_facts: "n < 10 \<Longrightarrow> is_digit (digit n) \<and> digit_value (digit n) = n"
  by (simp add: is_digit_def digit_value_def digit_def)

lemma decimal_append: "decimal acc (xs @ ys) = decimal (decimal acc xs) ys"
  by (induction xs arbitrary: acc) auto

lemma decimal_nat_digits: "decimal 0 (nat_digits n) = n"
proof (induction n rule: nat_digits.induct)
  case (1 n)
  show ?case
  proof (cases "n < 10")
    case True
    then show ?thesis by (subst nat_digits.simps) (simp add: digit_facts)
  next
    case False
    with 1 have "decimal 0 (nat_digits (n div 10)) = n div 10" by simp
    with False show ?thesis
      by (subst nat_digits.simps) (simp add: decimal_append digit_facts)
  qed
qed

lemma nat_digits_digits: "list_all is_digit (nat_digits n) \<and> nat_digits n \<noteq> []"
proof (induction n rule: nat_digits.induct)
  case (1 n)
  then show ?case by (subst (1 2) nat_digits.simps) (simp add: digit_facts)
qed

lemma digit_not_sign: "is_digit c \<Longrightarrow> c \<noteq> CHR ''-'' \<and> c \<noteq> CHR ''+''"
  by (auto simp: is_digit_def)

lemma ParseInt_Itoa:
  assumes "- (2 ^ 63) \<le> i" "i < 2 ^ 63"
  shows "ParseInt (Itoa i) = Some i"
proof (cases "i < 0")
  case True
  then show ?thesis
    using assms nat_digits_digits [of "nat (- i)"]
    by (simp add: ParseInt_def Itoa_def decimal_nat_digits)
next
  case False
  obtain c cs where c: "nat_digits (nat i) = c # cs"
    using nat_digits_digits [of "nat i"] by (cases "nat_digits (nat i)") auto
  then have "is_digit c" "list_all is_digit cs"
    using nat_digits_digits [of "nat i"] by auto
  then show ?thesis
    using False assms digit_not_sign [of c] decimal_nat_digits [of "nat i"] c
    by (simp add: ParseInt_def Itoa_def)
qed

section \<open>Zero-padded hexadecimal numbers\<close>

definition hex_digit :: "nat \<Rightarrow> char" where
  "hex_digit n = char_of (if n < 10 then 48 + n else 87 + n)"

fun hex_digits :: "nat \<Rightarrow> string" where
  "hex_digits n = (if n < 16 then [hex_digit n] else hex_digits (n div 16) @ [hex_digit (n mod 16)])"

declare hex_digits.simps [simp del]

definition pad_zero :: "nat \<Rightarrow> string \<Rightarrow> string" where
  "pad_zero w s = replicate (w - length s) CHR ''0'' @ s"

text \<open>The sign counts towards the width.\<close>

definition hex016 :: "int \<Rightarrow> string" where
  "hex016 i = (if i < 0 then ''-'' @ pad_zero 15 (hex_digits (nat (- i)))
               else pad_zero 16 (hex_digits (nat i)))"

text \<open>The digits of a number at a fixed width.\<close>

primrec hex_width :: "nat \<Rightarrow> nat \<Rightarrow> string" where
  "hex_width 0 n = []"
| "hex_width (Suc w) n = hex_width w (n div 16) @ [hex_digit (n mod 16)]"

lemma hex_digit_mono: "m < 16 \<Longrightarrow> n < 16 \<Longrightarrow> hex_digit m < hex_digit n \<longleftrightarrow> m < n"
  by (auto simp: hex_digit_def less_char_def)

lemma hex_digit_inj: "m < 16 \<Longrightarrow> n < 16 \<Longrightarrow> hex_digit m = hex_digit n \<longleftrightarrow> m = n"
  using hex_digit_mono [of m n] hex_digit_mono [of n m] by (cases m n rule: linorder_cases) auto

lemma hex_digit_0: "hex_digit 0 = CHR ''0''"
  by code_simp

lemma length_hex_width [simp]: "length (hex_width w n) = w"
  by (induction w arbitrary: n) auto

lemma hex_width_zero: "hex_width w 0 = replicate w CHR ''0''"
  by (induction w) (auto simp: hex_digit_0 replicate_append_same [symmetric])

lemma length_hex_digits: "n < 16 ^ Suc w \<Longrightarrow> length (hex_digits n) \<le> Suc w"
proof (induction w arbitrary: n)
  case 0
  then show ?case by (subst hex_digits.simps) simp
next
  case (Suc w)
  have "n div 16 < 16 ^ Suc w"
    using Suc.prems by (simp add: less_mult_imp_div_less mult.commute)
  with Suc.IH show ?case by (subst hex_digits.simps) auto
qed

lemma pad_hex_width: "n < 16 ^ w \<Longrightarrow> 0 < w \<Longrightarrow> pad_zero w (hex_digits n) = hex_width w n"
proof (induction w arbitrary: n)
  case 0
  then show ?case by simp
next
  case (Suc w)
  show ?case
  proof (cases "n < 16")
    case True
    then have "hex_digits n = [hex_digit n]" by (subst hex_digits.simps) simp
    with True show ?thesis by (simp add: pad_zero_def hex_width_zero)
  next
    case False
    with Suc.prems have w: "0 < w" by (cases w) auto
    have small: "n div 16 < 16 ^ w"
      using Suc.prems by (simp add: less_mult_imp_div_less mult.commute)
    have "hex_digits n = hex_digits (n div 16) @ [hex_digit (n mod 16)]"
      using False by (subst hex_digits.simps) simp
    with Suc.IH [OF small w] show ?thesis by (simp add: pad_zero_def)
  qed
qed

lemma snoc_less:
  fixes x y :: "'a :: linorder"
  shows "length xs = length ys \<Longrightarrow> xs @ [x] < ys @ [y] \<longleftrightarrow> xs < ys \<or> xs = ys \<and> x < y"
  by (induction xs ys rule: list_induct2) auto

lemma less_div_mod:
  fixes m n :: nat
  shows "m < n \<longleftrightarrow> m div 16 < n div 16 \<or> m div 16 = n div 16 \<and> m mod 16 < n mod 16"
proof -
  have "m = 16 * (m div 16) + m mod 16" "n = 16 * (n div 16) + n mod 16" "m mod 16 < 16" "n mod 16 < 16"
    by simp_all
  then show ?thesis by linarith
qed

lemma eq_div_mod: "(m :: nat) = n \<longleftrightarrow> m div 16 = n div 16 \<and> m mod 16 = n mod 16"
  by (metis div_mult_mod_eq)

lemma hex_width_less:
  "m < 16 ^ w \<Longrightarrow> n < 16 ^ w \<Longrightarrow>
     (hex_width w m < hex_width w n \<longleftrightarrow> m < n) \<and> (hex_width w m = hex_width w n \<longleftrightarrow> m = n)"
proof (induction w arbitrary: m n)
  case 0
  then show ?case by simp
next
  case (Suc w)
  have d: "m div 16 < 16 ^ w" "n div 16 < 16 ^ w"
    using Suc.prems by (simp_all add: less_mult_imp_div_less mult.commute)
  show ?case
    using Suc.IH [OF d]
    by (subst less_div_mod, subst eq_div_mod) (simp add: snoc_less hex_digit_mono hex_digit_inj)
qed

lemma hex016_width: "0 \<le> i \<Longrightarrow> i < 2 ^ 63 \<Longrightarrow> hex016 i = hex_width 16 (nat i)"
  by (simp add: hex016_def pad_hex_width)

lemma hex016_less:
  "0 \<le> i \<Longrightarrow> i < 2 ^ 63 \<Longrightarrow> 0 \<le> j \<Longrightarrow> j < 2 ^ 63 \<Longrightarrow> hex016 i < hex016 j \<longleftrightarrow> i < j"
  using hex_width_less [of "nat i" 16 "nat j"] by (auto simp: hex016_width)

lemma hex016_eq:
  "0 \<le> i \<Longrightarrow> i < 2 ^ 63 \<Longrightarrow> 0 \<le> j \<Longrightarrow> j < 2 ^ 63 \<Longrightarrow> hex016 i = hex016 j \<longleftrightarrow> i = j"
  using hex_width_less [of "nat i" 16 "nat j"] by (auto simp: hex016_width)

lemma append_less_cancel: "(p @ xs < p @ ys) = (xs < (ys :: 'a :: linorder list))"
  by (induction p) auto

section \<open>Splitting and trimming\<close>

text \<open>\<^verbatim>\<open>strings.Split(s, sep)\<close> for a one-character separator: one part more than separators.\<close>

fun Split :: "char \<Rightarrow> string \<Rightarrow> string list" where
  "Split sep [] = [[]]"
| "Split sep (c # cs) =
     (if c = sep then [] # Split sep cs
      else case Split sep cs of [] \<Rightarrow> [[c]] | p # ps \<Rightarrow> (c # p) # ps)"

lemma Split_not_Nil [simp]: "Split sep s \<noteq> []"
  by (induction s) (auto split: list.splits)

lemma Join_Split: "Join (Split sep s) [sep] = s"
proof (induction s)
  case (Cons c cs)
  obtain p ps where "Split sep cs = p # ps" by (cases "Split sep cs") auto
  with Cons show ?case by (cases ps) auto
qed simp

lemma Split_part: "sep \<notin> set p \<Longrightarrow> Split sep p = [p]"
  by (induction p) auto

lemma Split_append: "sep \<notin> set p \<Longrightarrow> Split sep (p @ sep # s) = p # Split sep s"
  by (induction p) auto

definition is_space :: "char \<Rightarrow> bool" where
  "is_space c \<longleftrightarrow> (of_char c :: nat) \<in> {9, 10, 11, 12, 13, 32}"

definition TrimSpace :: "string \<Rightarrow> string" where
  "TrimSpace s = rev (dropWhile is_space (rev (dropWhile is_space s)))"

end
