(* ===== verification/CKE_Record.thy ===== *)
theory CKE_Record
  imports CKE_Prelude
begin

text \<open>
  Records of operations (\<^verbatim>\<open>record.go\<close>): a record is created new, runs commands, and ends completed or
  cancelled. The current time is the argument \<open>now\<close>.
\<close>

definition StatusNew :: string where "StatusNew = ''new''"
definition StatusRunning :: string where "StatusRunning = ''running''"
definition StatusCancelled :: string where "StatusCancelled = ''cancelled''"
definition StatusCompleted :: string where "StatusCompleted = ''completed''"

lemmas RecordStatus_defs = StatusNew_def StatusRunning_def StatusCancelled_def StatusCompleted_def

record Command =
  cmName :: string
  cmTarget :: string

record Record =
  rcID :: int
  rcStatus :: string
  rcOperation :: string
  rcCommand :: Command
  rcTargets :: "string list"
  rcInfo :: string
  rcError :: string
  rcStartAt :: int
  rcEndAt :: int

definition NewRecord :: "int \<Rightarrow> int \<Rightarrow> string \<Rightarrow> string list \<Rightarrow> Record" where
  "NewRecord now i opname targets =
     \<lparr>rcID = i, rcStatus = StatusNew, rcOperation = opname, rcCommand = \<lparr>cmName = [], cmTarget = []\<rparr>,
      rcTargets = targets, rcInfo = [], rcError = [], rcStartAt = now, rcEndAt = zero_time\<rparr>"

definition Cancel :: "int \<Rightarrow> Record \<Rightarrow> Record" where
  "Cancel now r = r\<lparr>rcStatus := StatusCancelled, rcEndAt := now\<rparr>"

definition Complete :: "int \<Rightarrow> Record \<Rightarrow> Record" where
  "Complete now r = r\<lparr>rcStatus := StatusCompleted, rcEndAt := now\<rparr>"

definition SetCommand :: "Command \<Rightarrow> Record \<Rightarrow> Record" where
  "SetCommand c r = r\<lparr>rcStatus := StatusRunning, rcCommand := c\<rparr>"

definition SetInfo :: "string \<Rightarrow> Record \<Rightarrow> Record" where
  "SetInfo i r = r\<lparr>rcInfo := i\<rparr>"

definition SetError :: "int \<Rightarrow> string \<Rightarrow> Record \<Rightarrow> Record" where
  "SetError now e r = r\<lparr>rcStatus := StatusCancelled, rcError := e, rcEndAt := now\<rparr>"

lemmas Record_ops = NewRecord_def Cancel_def Complete_def SetCommand_def SetInfo_def SetError_def

text \<open>A record is closed when its operation is over.\<close>

definition closed_record :: "Record \<Rightarrow> bool" where
  "closed_record r \<longleftrightarrow> rcStatus r = StatusCancelled \<or> rcStatus r = StatusCompleted"

lemma closed_record_simps [simp]:
  "closed_record (Cancel now r)" "closed_record (Complete now r)" "closed_record (SetError now e r)"
  "closed_record (SetInfo t r) \<longleftrightarrow> closed_record r"
  "\<not> closed_record (NewRecord now i opname targets)" "\<not> closed_record (SetCommand c r)"
  by (simp_all add: closed_record_def Record_ops RecordStatus_defs)

lemma rcID_simps [simp]:
  "rcID (Cancel now r) = rcID r" "rcID (Complete now r) = rcID r" "rcID (SetError now e r) = rcID r"
  "rcID (SetInfo t r) = rcID r" "rcID (SetCommand c r) = rcID r"
  "rcID (NewRecord now i opname targets) = i"
  by (simp_all add: Record_ops)

end
