(* ===== verification/CKE_Etcd.thy ===== *)
theory CKE_Etcd
  imports CKE_Status CKE_Text CKE_Record "HOL-Library.Multiset"
begin

text \<open>
  The etcd client that the storage layer calls. etcd is a service outside this repository: the client
  is the record \<open>etcd_client\<close>, a parameter of every storage function, over a state type the model
  leaves open. What the code relies on is the predicate \<open>etcd_ok\<close>: every request is answered from one
  state of the key-value store, a transaction compares and writes atomically, every write gets a
  greater revision, and other clients may change the store between two requests (the relation
  \<open>rely\<close>). A request that fails may or may not have been carried out.

  Values are texts or JSON documents; a document is represented by the Go value it encodes, so
  \<^verbatim>\<open>json.Marshal\<close> is a constructor and \<^verbatim>\<open>json.Unmarshal\<close> a case distinction that fails on a text.
\<close>

section \<open>Effects and errors\<close>

datatype go_error = ErrNotFound | ErrNoLeader | ErrOther string

text \<open>
  The outcome of an effectful Go function: a result, an error, a panic, or a retry loop that is still
  running when the number of rounds granted to it is used up.
\<close>

datatype 'a outcome = Ok 'a | Err go_error | Panic | Retrying

type_synonym ('s, 'a) action = "'s \<Rightarrow> 'a outcome \<times> 's"

definition return_ok :: "'a \<Rightarrow> ('s, 'a) action" where
  "return_ok x s = (Ok x, s)"

definition return_err :: "go_error \<Rightarrow> ('s, 'a) action" where
  "return_err e s = (Err e, s)"

definition go_panic :: "('s, 'a) action" where
  "go_panic s = (Panic, s)"

text \<open>Sequencing with the idiom \<^verbatim>\<open>if err != nil { return err }\<close>.\<close>

definition andThen :: "('s, 'a) action \<Rightarrow> ('a \<Rightarrow> ('s, 'b) action) \<Rightarrow> ('s, 'b) action" where
  "andThen m f s = (case m s of
      (Ok x, s') \<Rightarrow> f x s'
    | (Err e, s') \<Rightarrow> (Err e, s')
    | (Panic, s') \<Rightarrow> (Panic, s')
    | (Retrying, s') \<Rightarrow> (Retrying, s'))"

text \<open>Sequencing where the code looks at the error itself.\<close>

definition attempt :: "('s, 'a) action \<Rightarrow> ('s, go_error + 'a) action" where
  "attempt m s = (case m s of
      (Ok x, s') \<Rightarrow> (Ok (Inr x), s')
    | (Err e, s') \<Rightarrow> (Ok (Inl e), s')
    | (Panic, s') \<Rightarrow> (Panic, s')
    | (Retrying, s') \<Rightarrow> (Retrying, s'))"

lemma return_simps [simp]:
  "return_ok x s = (Ok x, s)" "return_err e s = (Err e, s)" "go_panic s = (Panic, s)"
  by (simp_all add: return_ok_def return_err_def go_panic_def)

lemma andThen_simps [simp]:
  "m s = (Ok x, s') \<Longrightarrow> andThen m f s = f x s'"
  "m s = (Err e, s') \<Longrightarrow> andThen m f s = (Err e, s')"
  "m s = (Panic, s') \<Longrightarrow> andThen m f s = (Panic, s')"
  "m s = (Retrying, s') \<Longrightarrow> andThen m f s = (Retrying, s')"
  by (simp_all add: andThen_def)

lemma andThen_Ok:
  "andThen m f s = (Ok y, t) \<longleftrightarrow> (\<exists>x s'. m s = (Ok x, s') \<and> f x s' = (Ok y, t))"
  by (cases "m s"; cases "fst (m s)") (auto simp: andThen_def)

lemma andThen_return [simp]:
  "andThen (return_ok x) f = f x" "andThen (return_err e) f = return_err e" "andThen go_panic f = go_panic"
  by (auto simp: andThen_def)

lemma attempt_simps [simp]:
  "m s = (Ok x, s') \<Longrightarrow> attempt m s = (Ok (Inr x), s')"
  "m s = (Err e, s') \<Longrightarrow> attempt m s = (Ok (Inl e), s')"
  "m s = (Panic, s') \<Longrightarrow> attempt m s = (Panic, s')"
  "m s = (Retrying, s') \<Longrightarrow> attempt m s = (Retrying, s')"
  by (simp_all add: attempt_def)

section \<open>Values\<close>

record VaultConfig =
  vcEndpoint :: string
  vcCACert :: string
  vcRoleID :: string
  vcSecretID :: string

record ServerStatus =
  ssPhase :: string
  ssTimestamp :: int

datatype json_doc =
    JCluster Cluster
  | JConstraints Constraints
  | JVaultConfig VaultConfig
  | JRecord Record
  | JReboot RebootQueueEntry
  | JRepair RepairQueueEntry
  | JStatus ServerStatus

datatype etcd_value = Text string | Json json_doc

record etcd_kv =
  kvKey :: string
  kvValue :: etcd_value
  kvCreateRevision :: int
  kvModRevision :: int

section \<open>Requests\<close>

datatype sort_order = SortNone | SortAscend | SortDescend

datatype etcd_op =
    OpGet string
  | OpGetPrefix string sort_order int
  | OpGetFirstCreate string
  | OpPut string etcd_value
  | OpPutLease string etcd_value int
  | OpDelete string
  | OpDeleteRange string string

datatype etcd_cmp = ModRevisionIs string int | KeyExists string

record 's etcd_client =
  ecDo :: "etcd_op \<Rightarrow> 's \<Rightarrow> (string + etcd_kv list) \<times> 's"
  ecTxn :: "etcd_cmp list \<Rightarrow> etcd_op list \<Rightarrow> 's \<Rightarrow> (string + bool \<times> etcd_kv list list) \<times> 's"
  ecText :: "json_doc \<Rightarrow> string"

definition etcd_Do :: "'s etcd_client \<Rightarrow> etcd_op \<Rightarrow> ('s, etcd_kv list) action" where
  "etcd_Do E op s = (case ecDo E op s of
      (Inl e, s') \<Rightarrow> (Err (ErrOther e), s')
    | (Inr kvs, s') \<Rightarrow> (Ok kvs, s'))"

definition etcd_Txn ::
  "'s etcd_client \<Rightarrow> etcd_cmp list \<Rightarrow> etcd_op list \<Rightarrow> ('s, bool \<times> etcd_kv list list) action" where
  "etcd_Txn E cs ops s = (case ecTxn E cs ops s of
      (Inl e, s') \<Rightarrow> (Err (ErrOther e), s')
    | (Inr r, s') \<Rightarrow> (Ok r, s'))"

text \<open>The bytes of a value, as \<^verbatim>\<open>string(kv.Value)\<close> reads them.\<close>

definition value_text :: "'s etcd_client \<Rightarrow> etcd_value \<Rightarrow> string" where
  "value_text E v = (case v of Text t \<Rightarrow> t | Json d \<Rightarrow> ecText E d)"

section \<open>Documented behaviour of etcd\<close>

text \<open>The store at one revision: its keys in ascending order.\<close>

record etcd_view =
  evRevision :: int
  evKVs :: "etcd_kv list"

definition kv_find :: "string \<Rightarrow> etcd_kv list \<Rightarrow> etcd_kv option" where
  "kv_find k kvs = find (\<lambda>x. kvKey x = k) kvs"

fun kv_put :: "int \<Rightarrow> string \<Rightarrow> etcd_value \<Rightarrow> etcd_kv list \<Rightarrow> etcd_kv list" where
  "kv_put r k v [] = [\<lparr>kvKey = k, kvValue = v, kvCreateRevision = r, kvModRevision = r\<rparr>]"
| "kv_put r k v (x # xs) =
     (if kvKey x = k then x\<lparr>kvValue := v, kvModRevision := r\<rparr> # xs
      else if k < kvKey x then
        \<lparr>kvKey = k, kvValue = v, kvCreateRevision = r, kvModRevision = r\<rparr> # x # xs
      else x # kv_put r k v xs)"

definition kv_prefix :: "string \<Rightarrow> etcd_kv list \<Rightarrow> etcd_kv list" where
  "kv_prefix p kvs = filter (\<lambda>x. HasPrefix (kvKey x) p) kvs"

definition limited :: "int \<Rightarrow> 'a list \<Rightarrow> 'a list" where
  "limited l xs = (if l > 0 then take (nat l) xs else xs)"

text \<open>Without a sort option the order of the answer is left open.\<close>

fun response_ok :: "etcd_op \<Rightarrow> etcd_kv list \<Rightarrow> etcd_kv list \<Rightarrow> bool" where
  "response_ok (OpGet k) kvs r \<longleftrightarrow> r = filter (\<lambda>x. kvKey x = k) kvs"
| "response_ok (OpGetPrefix p SortNone l) kvs r \<longleftrightarrow>
     (if l > 0 then mset r \<subseteq># mset (kv_prefix p kvs) \<and> int (length r) \<le> l
      else mset r = mset (kv_prefix p kvs))"
| "response_ok (OpGetPrefix p SortAscend l) kvs r \<longleftrightarrow> r = limited l (kv_prefix p kvs)"
| "response_ok (OpGetPrefix p SortDescend l) kvs r \<longleftrightarrow> r = limited l (rev (kv_prefix p kvs))"
| "response_ok (OpGetFirstCreate p) kvs r \<longleftrightarrow>
     (if kv_prefix p kvs = [] then r = []
      else \<exists>x \<in> set (kv_prefix p kvs).
        (\<forall>y \<in> set (kv_prefix p kvs). kvCreateRevision x \<le> kvCreateRevision y) \<and> r = [x])"
| "response_ok _ kvs r \<longleftrightarrow> r = []"

fun op_effect :: "int \<Rightarrow> etcd_op \<Rightarrow> etcd_kv list \<Rightarrow> etcd_kv list" where
  "op_effect r (OpPut k v) kvs = kv_put r k v kvs"
| "op_effect r (OpPutLease k v l) kvs = kv_put r k v kvs"
| "op_effect r (OpDelete k) kvs = filter (\<lambda>x. kvKey x \<noteq> k) kvs"
| "op_effect r (OpDeleteRange k e) kvs = filter (\<lambda>x. kvKey x < k \<or> e \<le> kvKey x) kvs"
| "op_effect r _ kvs = kvs"

fun op_writes :: "etcd_kv list \<Rightarrow> etcd_op \<Rightarrow> bool" where
  "op_writes kvs (OpPut k v) = True"
| "op_writes kvs (OpPutLease k v l) = True"
| "op_writes kvs (OpDelete k) = list_ex (\<lambda>x. kvKey x = k) kvs"
| "op_writes kvs (OpDeleteRange k e) = list_ex (\<lambda>x. k \<le> kvKey x \<and> kvKey x < e) kvs"
| "op_writes kvs _ = False"

text \<open>A transaction that writes anything advances the revision by one.\<close>

definition exec_ops :: "etcd_op list \<Rightarrow> etcd_view \<Rightarrow> etcd_view" where
  "exec_ops ops v =
     (if list_ex (op_writes (evKVs v)) ops
      then \<lparr>evRevision = evRevision v + 1, evKVs = fold (op_effect (evRevision v + 1)) ops (evKVs v)\<rparr>
      else v)"

fun cmp_holds :: "etcd_kv list \<Rightarrow> etcd_cmp \<Rightarrow> bool" where
  "cmp_holds kvs (ModRevisionIs k r) =
     (case kv_find k kvs of None \<Rightarrow> r = 0 | Some x \<Rightarrow> kvModRevision x = r)"
| "cmp_holds kvs (KeyExists k) = (kv_find k kvs \<noteq> None)"

definition do_ok :: "etcd_op \<Rightarrow> etcd_view \<Rightarrow> string + etcd_kv list \<Rightarrow> etcd_view \<Rightarrow> bool" where
  "do_ok op v r v' \<longleftrightarrow> (case r of
      Inr kvs \<Rightarrow> response_ok op (evKVs v) kvs \<and> v' = exec_ops [op] v
    | Inl e \<Rightarrow> v' = v \<or> v' = exec_ops [op] v)"

definition txn_ok ::
  "etcd_cmp list \<Rightarrow> etcd_op list \<Rightarrow> etcd_view \<Rightarrow> string + bool \<times> etcd_kv list list \<Rightarrow> etcd_view \<Rightarrow> bool" where
  "txn_ok cs ops v r v' \<longleftrightarrow> (case r of
      Inr (b, rs) \<Rightarrow> b = list_all (cmp_holds (evKVs v)) cs \<and> v' = (if b then exec_ops ops v else v) \<and>
        (b \<longrightarrow> list_all2 (\<lambda>op kvs. response_ok op (evKVs v) kvs) ops rs)
    | Inl e \<Rightarrow> v' = v \<or> list_all (cmp_holds (evKVs v)) cs \<and> v' = exec_ops ops v)"

definition etcd_ok ::
  "(etcd_view \<Rightarrow> etcd_view \<Rightarrow> bool) \<Rightarrow> ('s \<Rightarrow> etcd_view) \<Rightarrow> 's etcd_client \<Rightarrow> bool" where
  "etcd_ok rely view E \<longleftrightarrow>
     (\<forall>op s. \<exists>v. rely (view s) v \<and> do_ok op v (fst (ecDo E op s)) (view (snd (ecDo E op s)))) \<and>
     (\<forall>cs ops s. \<exists>v. rely (view s) v \<and>
        txn_ok cs ops v (fst (ecTxn E cs ops s)) (view (snd (ecTxn E cs ops s))))"

section \<open>Using the documented behaviour\<close>

lemma etcd_ok_Do:
  assumes "etcd_ok rely view E"
  obtains v where "rely (view s) v" "do_ok op v (fst (ecDo E op s)) (view (snd (ecDo E op s)))"
  using assms unfolding etcd_ok_def by blast

lemma etcd_ok_Txn:
  assumes "etcd_ok rely view E"
  obtains v where "rely (view s) v"
    "txn_ok cs ops v (fst (ecTxn E cs ops s)) (view (snd (ecTxn E cs ops s)))"
  using assms unfolding etcd_ok_def by blast

lemma etcd_Do_Ok:
  assumes ok: "etcd_ok rely view E" and run: "etcd_Do E op s = (Ok kvs, s')"
  obtains v where "rely (view s) v" "response_ok op (evKVs v) kvs" "view s' = exec_ops [op] v"
proof -
  have "ecDo E op s = (Inr kvs, s')"
    using run by (auto simp: etcd_Do_def split: prod.splits sum.splits)
  then show ?thesis
    using that by (rule_tac etcd_ok_Do [OF ok, of s op]) (simp add: do_ok_def)
qed

lemma etcd_Do_Err:
  assumes ok: "etcd_ok rely view E" and run: "etcd_Do E op s = (Err e, s')"
  obtains v where "rely (view s) v" "view s' = v \<or> view s' = exec_ops [op] v"
proof -
  obtain m where "ecDo E op s = (Inl m, s')"
    using run by (auto simp: etcd_Do_def split: prod.splits sum.splits)
  then show ?thesis
    using that by (rule_tac etcd_ok_Do [OF ok, of s op]) (simp add: do_ok_def)
qed

lemma etcd_Txn_Ok:
  assumes ok: "etcd_ok rely view E" and run: "etcd_Txn E cs ops s = (Ok (b, rs), s')"
  obtains v where "rely (view s) v" "b = list_all (cmp_holds (evKVs v)) cs"
    "view s' = (if b then exec_ops ops v else v)"
    "b \<Longrightarrow> list_all2 (\<lambda>op kvs. response_ok op (evKVs v) kvs) ops rs"
proof -
  have "ecTxn E cs ops s = (Inr (b, rs), s')"
    using run by (auto simp: etcd_Txn_def split: prod.splits sum.splits)
  then show ?thesis
    using that by (rule_tac etcd_ok_Txn [OF ok, of s cs ops]) (simp add: txn_ok_def)
qed

lemma etcd_Txn_Err:
  assumes ok: "etcd_ok rely view E" and run: "etcd_Txn E cs ops s = (Err e, s')"
  obtains v where "rely (view s) v"
    "view s' = v \<or> list_all (cmp_holds (evKVs v)) cs \<and> view s' = exec_ops ops v"
proof -
  obtain m where "ecTxn E cs ops s = (Inl m, s')"
    using run by (auto simp: etcd_Txn_def split: prod.splits sum.splits)
  then show ?thesis
    using that by (rule_tac etcd_ok_Txn [OF ok, of s cs ops]) (simp add: txn_ok_def)
qed

lemma etcd_request_outcome:
  "fst (etcd_Do E op s) \<noteq> Panic" "fst (etcd_Do E op s) \<noteq> Retrying"
  "fst (etcd_Txn E cs ops s) \<noteq> Panic" "fst (etcd_Txn E cs ops s) \<noteq> Retrying"
  by (auto simp: etcd_Do_def etcd_Txn_def split: prod.splits sum.splits)

lemma exec_ops_reads [simp]:
  "exec_ops [OpGet k] v = v" "exec_ops [OpGetPrefix p so l] v = v" "exec_ops [OpGetFirstCreate p] v = v"
  by (simp_all add: exec_ops_def)

section \<open>Sorted stores\<close>

text \<open>Keys are strictly ascending and no revision is from the future.\<close>

definition wf_view :: "etcd_view \<Rightarrow> bool" where
  "wf_view v \<longleftrightarrow> sorted_wrt (<) (map kvKey (evKVs v)) \<and> 0 \<le> evRevision v \<and>
     (\<forall>x \<in> set (evKVs v). 0 < kvModRevision x \<and> kvModRevision x \<le> evRevision v)"

lemma kv_find_Some: "kv_find k kvs = Some x \<Longrightarrow> x \<in> set kvs \<and> kvKey x = k"
  by (auto simp: kv_find_def find_Some_iff)

lemma kv_find_None: "kv_find k kvs = None \<longleftrightarrow> (\<forall>x \<in> set kvs. kvKey x \<noteq> k)"
  by (auto simp: kv_find_def find_None_iff)

lemma kv_find_put: "sorted_wrt (<) (map kvKey kvs) \<Longrightarrow>
   map_option kvValue (kv_find j (kv_put r k v kvs)) =
     (if j = k then Some v else map_option kvValue (kv_find j kvs)) \<and>
   (kv_find k (kv_put r k v kvs) \<noteq> None \<and> kvModRevision (the (kv_find k (kv_put r k v kvs))) = r) \<and>
   (j \<noteq> k \<longrightarrow> kv_find j (kv_put r k v kvs) = kv_find j kvs)"
  by (induction kvs) (auto simp: kv_find_def)

lemma kv_find_put_same:
  "sorted_wrt (<) (map kvKey kvs) \<Longrightarrow>
     \<exists>x. kv_find k (kv_put r k v kvs) = Some x \<and> kvValue x = v \<and> kvModRevision x = r"
  using kv_find_put [of kvs k r k v] by auto

lemma kv_find_put_other:
  "sorted_wrt (<) (map kvKey kvs) \<Longrightarrow> j \<noteq> k \<Longrightarrow> kv_find j (kv_put r k v kvs) = kv_find j kvs"
  using kv_find_put [of kvs j r k v] by auto

lemma kv_put_keys: "kvKey ` set (kv_put r k v kvs) = insert k (kvKey ` set kvs)"
  by (induction kvs) auto

lemma kv_put_key: "y \<in> set (kv_put r k v kvs) \<Longrightarrow> kvKey y = k \<or> (\<exists>x \<in> set kvs. kvKey y = kvKey x)"
  by (induction kvs) (auto split: if_splits)

lemma kv_put_mem: "x \<in> set (kv_put r k v kvs) \<Longrightarrow> x \<in> set kvs \<or> kvModRevision x = r \<and> kvKey x = k"
  by (induction kvs) (auto split: if_splits)

lemma kv_put_sorted:
  "sorted_wrt (<) (map kvKey kvs) \<Longrightarrow> sorted_wrt (<) (map kvKey (kv_put r k v kvs))"
proof (induction kvs)
  case (Cons x xs)
  have "kvKey x < k \<Longrightarrow> \<forall>y \<in> set (kv_put r k v xs). kvKey x < kvKey y"
    using Cons.prems by (auto dest: kv_put_key)
  with Cons show ?case by (auto simp: not_less_iff_gr_or_eq)
qed simp

lemma kv_find_filter:
  "sorted_wrt (<) (map kvKey kvs) \<Longrightarrow>
     kv_find k (filter (\<lambda>x. P (kvKey x)) kvs) = (if P k then kv_find k kvs else None)"
  by (induction kvs) (auto simp: kv_find_def find_None_iff)

lemma sorted_filter_keys:
  "sorted_wrt (<) (map kvKey kvs) \<Longrightarrow> sorted_wrt (<) (map kvKey (filter P kvs))"
  by (simp add: sorted_wrt_map sorted_wrt_filter)

lemma op_effect_sorted:
  "sorted_wrt (<) (map kvKey kvs) \<Longrightarrow> sorted_wrt (<) (map kvKey (op_effect r op kvs))"
  by (cases op) (auto simp: kv_put_sorted sorted_filter_keys)

lemma op_effect_mem: "x \<in> set (op_effect r op kvs) \<Longrightarrow> x \<in> set kvs \<or> kvModRevision x = r"
  by (cases op) (auto dest: kv_put_mem)

lemma fold_effect_sorted:
  "sorted_wrt (<) (map kvKey kvs) \<Longrightarrow> sorted_wrt (<) (map kvKey (fold (op_effect r) ops kvs))"
  by (induction ops arbitrary: kvs) (auto simp: op_effect_sorted)

lemma fold_effect_mem: "x \<in> set (fold (op_effect r) ops kvs) \<Longrightarrow> x \<in> set kvs \<or> kvModRevision x = r"
  by (induction ops arbitrary: kvs) (auto dest: op_effect_mem)

lemma wf_view_exec [intro]: "wf_view v \<Longrightarrow> wf_view (exec_ops ops v)"
  by (fastforce simp: wf_view_def exec_ops_def fold_effect_sorted dest: fold_effect_mem)

lemma wf_view_sorted [dest]: "wf_view v \<Longrightarrow> sorted_wrt (<) (map kvKey (evKVs v))"
  by (simp add: wf_view_def)

lemma filter_key_find:
  "sorted_wrt (<) (map kvKey kvs) \<Longrightarrow>
     filter (\<lambda>x. kvKey x = k) kvs = (case kv_find k kvs of None \<Rightarrow> [] | Some x \<Rightarrow> [x])"
  by (induction kvs)
    (auto simp: kv_find_def filter_empty_conv find_Some_iff split: option.splits dest: nth_mem)

section \<open>A store in memory\<close>

text \<open>
  A client that keeps the store in memory and has it for itself: \<open>etcd_ok\<close> can hold. Its state is the
  store.
\<close>

fun op_answer :: "etcd_op \<Rightarrow> etcd_kv list \<Rightarrow> etcd_kv list" where
  "op_answer (OpGet k) kvs = filter (\<lambda>x. kvKey x = k) kvs"
| "op_answer (OpGetPrefix p so l) kvs =
     limited l (if so = SortDescend then rev (kv_prefix p kvs) else kv_prefix p kvs)"
| "op_answer (OpGetFirstCreate p) kvs =
     (case kv_prefix p kvs of [] \<Rightarrow> [] | x # xs \<Rightarrow>
        [fold (\<lambda>y z. if kvCreateRevision y < kvCreateRevision z then y else z) xs x])"
| "op_answer op kvs = []"

definition mem_client :: "etcd_view etcd_client" where
  "mem_client = \<lparr>
     ecDo = (\<lambda>op v. (Inr (op_answer op (evKVs v)), exec_ops [op] v)),
     ecTxn = (\<lambda>cs ops v. if list_all (cmp_holds (evKVs v)) cs
        then (Inr (True, map (\<lambda>op. op_answer op (evKVs v)) ops), exec_ops ops v)
        else (Inr (False, []), v)),
     ecText = (\<lambda>d. [])\<rparr>"

definition empty_view :: etcd_view where
  "empty_view = \<lparr>evRevision = 0, evKVs = []\<rparr>"

lemma first_create_fold:
  "(let x' = fold (\<lambda>y z. if kvCreateRevision y < kvCreateRevision z then y else z) xs x
    in x' \<in> set (x # xs) \<and> (\<forall>y \<in> set (x # xs). kvCreateRevision x' \<le> kvCreateRevision y))"
proof (induction xs arbitrary: x)
  case (Cons a xs)
  let ?b = "if kvCreateRevision a < kvCreateRevision x then a else x"
  from Cons [of ?b] show ?case by (auto simp: Let_def split: if_splits)
qed simp

lemma mset_take: "mset (take n xs) \<subseteq># mset xs"
  by (metis append_take_drop_id mset_append mset_subset_eq_add_left)

lemma op_answer_ok: "response_ok op kvs (op_answer op kvs)"
proof (cases op)
  case (OpGetPrefix p so l)
  then show ?thesis
    by (cases so) (auto simp: limited_def mset_take)
next
  case (OpGetFirstCreate p)
  show ?thesis
  proof (cases "kv_prefix p kvs")
    case (Cons x xs)
    then show ?thesis
      using first_create_fold [of xs x] by (auto simp: OpGetFirstCreate Let_def)
  qed (simp add: OpGetFirstCreate)
qed auto

lemma mem_client_ok: "(\<And>v. rely v v) \<Longrightarrow> etcd_ok rely (\<lambda>v. v) mem_client"
  unfolding etcd_ok_def do_ok_def txn_ok_def mem_client_def
  by (fastforce simp: op_answer_ok list.rel_map list_all2_same)

lemma wf_empty_view [simp]: "wf_view empty_view"
  by (simp add: wf_view_def empty_view_def)

end
