(* ===== verification/CKE_Storage.thy ===== *)
theory CKE_Storage
  imports CKE_Etcd
begin

text \<open>
  The storage layer (\<^verbatim>\<open>storage.go\<close>) except the two queues: cluster configuration, constraints, Vault
  configuration, certificates, operation records, user-defined resources, switches and the server
  status. Every function takes the etcd client \<open>E\<close> and is an action on the client's state.
\<close>

section \<open>Keys\<close>

definition KeyAutoRepairDisabled :: string where "KeyAutoRepairDisabled = ''auto-repair/disabled''"
definition KeyAutoRepairQueryVariables :: string where
  "KeyAutoRepairQueryVariables = ''auto-repair/query-variables''"
definition KeyCA :: string where "KeyCA = ''ca/''"
definition KeyConfigVersion :: string where "KeyConfigVersion = ''config-version''"
definition KeyCluster :: string where "KeyCluster = ''cluster''"
definition KeyClusterRevision :: string where "KeyClusterRevision = ''cluster-revision''"
definition KeyConstraints :: string where "KeyConstraints = ''constraints''"
definition KeyLeader :: string where "KeyLeader = ''leader/''"
definition KeyRebootsDisabled :: string where "KeyRebootsDisabled = ''reboots/disabled''"
definition KeyRebootsRunning :: string where "KeyRebootsRunning = ''reboots/running''"
definition KeyRebootsPrefix :: string where "KeyRebootsPrefix = ''reboots/data/''"
definition KeyRebootsWriteIndex :: string where "KeyRebootsWriteIndex = ''reboots/write-index''"
definition KeyRecords :: string where "KeyRecords = ''records/''"
definition KeyRecordID :: string where "KeyRecordID = ''records''"
definition KeyRepairsDisabled :: string where "KeyRepairsDisabled = ''repairs/disabled''"
definition KeyRepairsPrefix :: string where "KeyRepairsPrefix = ''repairs/data/''"
definition KeyRepairsWriteIndex :: string where "KeyRepairsWriteIndex = ''repairs/write-index''"
definition KeyResourcePrefix :: string where "KeyResourcePrefix = ''resource/''"
definition KeySabakanDisabled :: string where "KeySabakanDisabled = ''sabakan/disabled''"
definition KeySabakanQueryVariables :: string where
  "KeySabakanQueryVariables = ''sabakan/query-variables''"
definition KeySabakanTemplate :: string where "KeySabakanTemplate = ''sabakan/template''"
definition KeySabakanURL :: string where "KeySabakanURL = ''sabakan/url''"
definition KeyServiceAccountCert :: string where
  "KeyServiceAccountCert = ''service-account/certificate''"
definition KeyServiceAccountKey :: string where "KeyServiceAccountKey = ''service-account/key''"
definition KeyStatus :: string where "KeyStatus = ''status''"
definition KeyVault :: string where "KeyVault = ''vault''"

lemmas storage_keys = KeyAutoRepairDisabled_def KeyAutoRepairQueryVariables_def KeyCA_def
  KeyConfigVersion_def KeyCluster_def KeyClusterRevision_def KeyConstraints_def KeyLeader_def
  KeyRebootsDisabled_def KeyRebootsRunning_def KeyRebootsPrefix_def KeyRebootsWriteIndex_def
  KeyRecords_def KeyRecordID_def KeyRepairsDisabled_def KeyRepairsPrefix_def
  KeyRepairsWriteIndex_def KeyResourcePrefix_def KeySabakanDisabled_def
  KeySabakanQueryVariables_def KeySabakanTemplate_def KeySabakanURL_def KeyServiceAccountCert_def
  KeyServiceAccountKey_def KeyStatus_def KeyVault_def

definition maxRecords :: int where "maxRecords = 1000"
definition initialDisplayCount :: int where "initialDisplayCount = 20"

section \<open>Common patterns\<close>

text \<open>\<^verbatim>\<open>json.Unmarshal\<close> of a stored value.\<close>

definition unmarshal :: "(json_doc \<Rightarrow> 'a option) \<Rightarrow> etcd_value \<Rightarrow> ('s, 'a) action" where
  "unmarshal dest v = (case v of
      Text t \<Rightarrow> return_err (ErrOther ''invalid JSON'')
    | Json d \<Rightarrow> (case dest d of
          None \<Rightarrow> return_err (ErrOther ''invalid JSON'')
        | Some x \<Rightarrow> return_ok x))"

definition as_cluster :: "json_doc \<Rightarrow> Cluster option" where
  "as_cluster d = (case d of JCluster c \<Rightarrow> Some c | _ \<Rightarrow> None)"

definition as_constraints :: "json_doc \<Rightarrow> Constraints option" where
  "as_constraints d = (case d of JConstraints c \<Rightarrow> Some c | _ \<Rightarrow> None)"

definition as_vault :: "json_doc \<Rightarrow> VaultConfig option" where
  "as_vault d = (case d of JVaultConfig c \<Rightarrow> Some c | _ \<Rightarrow> None)"

definition as_record :: "json_doc \<Rightarrow> Record option" where
  "as_record d = (case d of JRecord c \<Rightarrow> Some c | _ \<Rightarrow> None)"

definition as_reboot :: "json_doc \<Rightarrow> RebootQueueEntry option" where
  "as_reboot d = (case d of JReboot c \<Rightarrow> Some c | _ \<Rightarrow> None)"

definition as_repair :: "json_doc \<Rightarrow> RepairQueueEntry option" where
  "as_repair d = (case d of JRepair c \<Rightarrow> Some c | _ \<Rightarrow> None)"

definition as_status :: "json_doc \<Rightarrow> ServerStatus option" where
  "as_status d = (case d of JStatus c \<Rightarrow> Some c | _ \<Rightarrow> None)"

lemmas as_defs = as_cluster_def as_constraints_def as_vault_def as_record_def as_reboot_def
  as_repair_def as_status_def

text \<open>A loop that unmarshals every value of an answer.\<close>

fun unmarshal_all :: "(json_doc \<Rightarrow> 'a option) \<Rightarrow> etcd_kv list \<Rightarrow> ('s, 'a list) action" where
  "unmarshal_all dest [] = return_ok []"
| "unmarshal_all dest (kv # kvs) =
     andThen (unmarshal dest (kvValue kv)) (\<lambda>r.
     andThen (unmarshal_all dest kvs) (\<lambda>rs. return_ok (r # rs)))"

text \<open>The value under a key, or \<^verbatim>\<open>ErrNotFound\<close>.\<close>

definition get_json :: "'s etcd_client \<Rightarrow> (json_doc \<Rightarrow> 'a option) \<Rightarrow> string \<Rightarrow> ('s, 'a) action" where
  "get_json E dest key =
     andThen (etcd_Do E (OpGet key)) (\<lambda>kvs. case kvs of
         [] \<Rightarrow> return_err ErrNotFound
       | kv # _ \<Rightarrow> unmarshal dest (kvValue kv))"

definition put :: "'s etcd_client \<Rightarrow> string \<Rightarrow> etcd_value \<Rightarrow> ('s, unit) action" where
  "put E key v = andThen (etcd_Do E (OpPut key v)) (\<lambda>_. return_ok ())"

definition getStringValue :: "'s etcd_client \<Rightarrow> string \<Rightarrow> ('s, string) action" where
  "getStringValue E key =
     andThen (etcd_Do E (OpGet key)) (\<lambda>kvs. case kvs of
         [] \<Rightarrow> return_err ErrNotFound
       | kv # _ \<Rightarrow> return_ok (value_text E (kvValue kv)))"

text \<open>A transaction under the condition that the leader key exists.\<close>

definition leader_txn :: "'s etcd_client \<Rightarrow> string \<Rightarrow> etcd_op list \<Rightarrow> ('s, unit) action" where
  "leader_txn E leaderKey ops =
     andThen (etcd_Txn E [KeyExists leaderKey] ops) (\<lambda>(succeeded, _).
       if \<not> succeeded then return_err ErrNoLeader else return_ok ())"

section \<open>Configuration\<close>

definition GetConfigVersion :: "'s etcd_client \<Rightarrow> ('s, string) action" where
  "GetConfigVersion E =
     andThen (attempt (getStringValue E KeyConfigVersion)) (\<lambda>r. case r of
         Inr val \<Rightarrow> return_ok val
       | Inl e \<Rightarrow> if e = ErrNotFound then return_ok ''1'' else return_err e)"

definition PutConfigVersion :: "'s etcd_client \<Rightarrow> string \<Rightarrow> ('s, unit) action" where
  "PutConfigVersion E leaderKey = leader_txn E leaderKey [OpPut KeyConfigVersion (Text ConfigVersion)]"

definition PutCluster :: "'s etcd_client \<Rightarrow> Cluster \<Rightarrow> ('s, unit) action" where
  "PutCluster E c = put E KeyCluster (Json (JCluster c))"

definition PutClusterWithTemplateRevision ::
  "'s etcd_client \<Rightarrow> Cluster \<Rightarrow> int \<Rightarrow> string \<Rightarrow> ('s, unit) action" where
  "PutClusterWithTemplateRevision E c r leaderKey =
     leader_txn E leaderKey
       [OpPut KeyCluster (Json (JCluster c)), OpPut KeyClusterRevision (Text (Itoa r))]"

definition GetCluster :: "'s etcd_client \<Rightarrow> ('s, Cluster) action" where
  "GetCluster E = get_json E as_cluster KeyCluster"

definition GetClusterWithRevision :: "'s etcd_client \<Rightarrow> ('s, Cluster \<times> int) action" where
  "GetClusterWithRevision E =
     andThen (etcd_Txn E [] [OpGet KeyCluster, OpGet KeyClusterRevision]) (\<lambda>(succeeded, resp).
       if \<not> succeeded then go_panic
       else case resp of
           gresp0 # gresp1 # _ \<Rightarrow>
             (case gresp0 of
                [] \<Rightarrow> return_err ErrNotFound
              | kv # _ \<Rightarrow> andThen (unmarshal as_cluster (kvValue kv)) (\<lambda>c.
                  case gresp1 of
                    [] \<Rightarrow> return_ok (c, 0)
                  | kv1 # _ \<Rightarrow> (case ParseInt (value_text E (kvValue kv1)) of
                        None \<Rightarrow> return_err (ErrOther ''invalid revision'')
                      | Some r \<Rightarrow> return_ok (c, r))))
         | _ \<Rightarrow> go_panic)"

definition PutConstraints :: "'s etcd_client \<Rightarrow> Constraints \<Rightarrow> ('s, unit) action" where
  "PutConstraints E c = put E KeyConstraints (Json (JConstraints c))"

definition GetConstraints :: "'s etcd_client \<Rightarrow> ('s, Constraints) action" where
  "GetConstraints E = get_json E as_constraints KeyConstraints"

definition PutVaultConfig :: "'s etcd_client \<Rightarrow> VaultConfig \<Rightarrow> ('s, unit) action" where
  "PutVaultConfig E c = put E KeyVault (Json (JVaultConfig c))"

definition GetVaultConfig :: "'s etcd_client \<Rightarrow> ('s, VaultConfig) action" where
  "GetVaultConfig E = get_json E as_vault KeyVault"

definition GetCACertificate :: "'s etcd_client \<Rightarrow> string \<Rightarrow> ('s, string) action" where
  "GetCACertificate E name = getStringValue E (KeyCA @ name)"

definition PutCACertificate :: "'s etcd_client \<Rightarrow> string \<Rightarrow> string \<Rightarrow> ('s, unit) action" where
  "PutCACertificate E name pem = put E (KeyCA @ name) (Text pem)"

definition GetServiceAccountCert :: "'s etcd_client \<Rightarrow> ('s, string) action" where
  "GetServiceAccountCert E = getStringValue E KeyServiceAccountCert"

definition GetServiceAccountKey :: "'s etcd_client \<Rightarrow> ('s, string) action" where
  "GetServiceAccountKey E = getStringValue E KeyServiceAccountKey"

definition PutServiceAccountData ::
  "'s etcd_client \<Rightarrow> string \<Rightarrow> string \<Rightarrow> string \<Rightarrow> ('s, unit) action" where
  "PutServiceAccountData E leaderKey cert key =
     leader_txn E leaderKey
       [OpPut KeyServiceAccountCert (Text cert), OpPut KeyServiceAccountKey (Text key)]"

section \<open>Operation records\<close>

definition recordKey :: "Record \<Rightarrow> string" where
  "recordKey r = KeyRecords @ hex016 (rcID r)"

definition GetRecords :: "'s etcd_client \<Rightarrow> int \<Rightarrow> ('s, Record list) action" where
  "GetRecords E cnt =
     andThen (etcd_Do E (OpGetPrefix KeyRecords SortDescend (if cnt > 0 then cnt else 0))) (\<lambda>kvs.
       unmarshal_all as_record kvs)"

text \<open>
  \<^verbatim>\<open>WatchRecords\<close> returns a channel. The model gives the records that the goroutine sends when the
  watch channel delivers \<open>responses\<close>: first the latest stored records in ascending order of their ID,
  then the record of every put event, up to the first response with an error and the first value
  that is not a record.
\<close>

fun event_records :: "etcd_value list \<Rightarrow> Record list \<times> bool" where
  "event_records [] = ([], True)"
| "event_records (v # vs) =
     (case v of Json (JRecord r) \<Rightarrow> (case event_records vs of (rs, all) \<Rightarrow> (r # rs, all)) | _ \<Rightarrow> ([], False))"

fun watched :: "(string + etcd_value list) list \<Rightarrow> Record list" where
  "watched [] = []"
| "watched (resp # resps) = (case resp of
      Inl e \<Rightarrow> []
    | Inr events \<Rightarrow> (case event_records events of (rs, all) \<Rightarrow> rs @ (if all then watched resps else [])))"

definition WatchRecords ::
  "'s etcd_client \<Rightarrow> int \<Rightarrow> (string + etcd_value list) list \<Rightarrow> ('s, Record list) action" where
  "WatchRecords E initialCount responses =
     (let initialCount = (if initialCount = 0 then initialDisplayCount else initialCount)
      in andThen (etcd_Do E (OpGetPrefix KeyRecords SortDescend initialCount)) (\<lambda>kvs.
         andThen (unmarshal_all as_record kvs) (\<lambda>getRecords.
           return_ok (sort_key rcID getRecords @ watched responses))))"

text \<open>
  A failed commit returns a nil response, which the code dereferences before it looks at the error:
  a panic.
\<close>

definition maintRecords :: "'s etcd_client \<Rightarrow> string \<Rightarrow> int \<Rightarrow> ('s, unit) action" where
  "maintRecords E leaderKey mx =
     andThen (etcd_Do E (OpGetPrefix KeyRecords SortAscend 0)) (\<lambda>kvs.
       if int (length kvs) \<le> mx then return_ok ()
       else case (go_index kvs 0, go_index kvs (nat (int (length kvs) - mx))) of
           (Some startKV, Some endKV) \<Rightarrow>
             andThen (attempt (etcd_Txn E [KeyExists leaderKey]
                                [OpDeleteRange (kvKey startKV) (kvKey endKV)])) (\<lambda>tresp. case tresp of
                 Inl e \<Rightarrow> go_panic
               | Inr (succeeded, _) \<Rightarrow> if \<not> succeeded then return_err ErrNoLeader else return_ok ())
         | _ \<Rightarrow> go_panic)"

definition RegisterRecord :: "'s etcd_client \<Rightarrow> string \<Rightarrow> Record \<Rightarrow> ('s, unit) action" where
  "RegisterRecord E leaderKey r =
     andThen (leader_txn E leaderKey
         [OpPut (recordKey r) (Json (JRecord r)), OpPut KeyRecordID (Text (Itoa (wrap64 (rcID r + 1))))])
       (\<lambda>_. maintRecords E leaderKey maxRecords)"

definition UpdateRecord :: "'s etcd_client \<Rightarrow> string \<Rightarrow> Record \<Rightarrow> ('s, unit) action" where
  "UpdateRecord E leaderKey r = leader_txn E leaderKey [OpPut (recordKey r) (Json (JRecord r))]"

definition NextRecordID :: "'s etcd_client \<Rightarrow> ('s, int) action" where
  "NextRecordID E =
     andThen (etcd_Do E (OpGet KeyRecordID)) (\<lambda>kvs. case kvs of
         [] \<Rightarrow> return_ok 1
       | kv # _ \<Rightarrow> (case ParseInt (value_text E (kvValue kv)) of
             None \<Rightarrow> return_err (ErrOther ''invalid record ID'')
           | Some i \<Rightarrow> return_ok i))"

definition GetLeaderHostname :: "'s etcd_client \<Rightarrow> ('s, string) action" where
  "GetLeaderHostname E =
     andThen (etcd_Do E (OpGetFirstCreate KeyLeader)) (\<lambda>kvs. case kvs of
         [] \<Rightarrow> return_err (ErrOther ''no leader'')
       | kv # _ \<Rightarrow> return_ok (value_text E (kvValue kv)))"

section \<open>User-defined resources\<close>

definition ListResources :: "'s etcd_client \<Rightarrow> ('s, string list) action" where
  "ListResources E =
     andThen (etcd_Do E (OpGetPrefix KeyResourcePrefix SortAscend 0)) (\<lambda>kvs.
       return_ok (map (\<lambda>kv. drop (length KeyResourcePrefix) (kvKey kv)) kvs))"

definition GetResource :: "'s etcd_client \<Rightarrow> string \<Rightarrow> ('s, string \<times> int) action" where
  "GetResource E key =
     andThen (etcd_Do E (OpGet (KeyResourcePrefix @ key))) (\<lambda>kvs. case kvs of
         [] \<Rightarrow> return_err ErrNotFound
       | kv # _ \<Rightarrow> return_ok (value_text E (kvValue kv), kvModRevision kv))"

text \<open>A key is \<^verbatim>\<open>kind/name\<close> or \<^verbatim>\<open>kind/namespace/name\<close>. The field \<^verbatim>\<open>Image\<close> stays empty.\<close>

definition resource_of :: "'s etcd_client \<Rightarrow> etcd_kv \<Rightarrow> go_error + ResourceDefinition" where
  "resource_of E kv =
     (let key = drop (length KeyResourcePrefix) (kvKey kv);
          mk = (\<lambda>kind namespace name.
            \<lparr>rdKey = key, rdKind = kind, rdNamespace = namespace, rdName = name,
             rdRevision = kvModRevision kv, rdImage = [], rdDefinition = value_text E (kvValue kv)\<rparr>)
      in case Split (CHR ''/'') key of
           [kind, name] \<Rightarrow> Inr (mk kind [] name)
         | [kind, namespace, name] \<Rightarrow> Inr (mk kind namespace name)
         | _ \<Rightarrow> Inl (ErrOther (''invalid resource key: '' @ key)))"

fun resources_of :: "'s etcd_client \<Rightarrow> etcd_kv list \<Rightarrow> ('s, ResourceDefinition list) action" where
  "resources_of E [] = return_ok []"
| "resources_of E (kv # kvs) = (case resource_of E kv of
      Inl e \<Rightarrow> return_err e
    | Inr d \<Rightarrow> andThen (resources_of E kvs) (\<lambda>ds. return_ok (d # ds)))"

definition GetAllResources :: "'s etcd_client \<Rightarrow> ('s, ResourceDefinition list) action" where
  "GetAllResources E =
     andThen (etcd_Do E (OpGetPrefix KeyResourcePrefix SortNone 0)) (\<lambda>kvs.
     andThen (resources_of E kvs) (\<lambda>rcs. return_ok (SortResources rcs)))"

definition SetResource :: "'s etcd_client \<Rightarrow> string \<Rightarrow> string \<Rightarrow> ('s, unit) action" where
  "SetResource E key value = put E (KeyResourcePrefix @ key) (Text value)"

definition DeleteResource :: "'s etcd_client \<Rightarrow> string \<Rightarrow> ('s, unit) action" where
  "DeleteResource E key = andThen (etcd_Do E (OpDelete (KeyResourcePrefix @ key))) (\<lambda>_. return_ok ())"

section \<open>Switches\<close>

text \<open>A switch is on when its value is the text \<^verbatim>\<open>true\<close>; a missing key is off.\<close>

definition is_true :: "'s etcd_client \<Rightarrow> string \<Rightarrow> ('s, bool) action" where
  "is_true E key =
     andThen (etcd_Do E (OpGet key)) (\<lambda>kvs. case kvs of
         [] \<Rightarrow> return_ok False
       | kv # _ \<Rightarrow> return_ok (value_text E (kvValue kv) = ''true''))"

definition bool_text :: "bool \<Rightarrow> string" where
  "bool_text b = (if b then ''true'' else ''false'')"

definition IsSabakanDisabled :: "'s etcd_client \<Rightarrow> ('s, bool) action" where
  "IsSabakanDisabled E = is_true E KeySabakanDisabled"

definition EnableSabakan :: "'s etcd_client \<Rightarrow> bool \<Rightarrow> ('s, unit) action" where
  "EnableSabakan E flag = put E KeySabakanDisabled (Text (bool_text (\<not> flag)))"

definition SetSabakanQueryVariables :: "'s etcd_client \<Rightarrow> string \<Rightarrow> ('s, unit) action" where
  "SetSabakanQueryVariables E vars = put E KeySabakanQueryVariables (Text vars)"

definition GetSabakanQueryVariables :: "'s etcd_client \<Rightarrow> ('s, string) action" where
  "GetSabakanQueryVariables E = getStringValue E KeySabakanQueryVariables"

definition SetSabakanTemplate :: "'s etcd_client \<Rightarrow> Cluster \<Rightarrow> ('s, unit) action" where
  "SetSabakanTemplate E tmpl = put E KeySabakanTemplate (Json (JCluster tmpl))"

definition GetSabakanTemplate :: "'s etcd_client \<Rightarrow> ('s, Cluster \<times> int) action" where
  "GetSabakanTemplate E =
     andThen (etcd_Do E (OpGet KeySabakanTemplate)) (\<lambda>kvs. case kvs of
         [] \<Rightarrow> return_err ErrNotFound
       | kv # _ \<Rightarrow> andThen (unmarshal as_cluster (kvValue kv)) (\<lambda>tmpl.
           return_ok (tmpl, kvModRevision kv)))"

definition SetSabakanURL :: "'s etcd_client \<Rightarrow> string \<Rightarrow> ('s, unit) action" where
  "SetSabakanURL E url = put E KeySabakanURL (Text url)"

definition GetSabakanURL :: "'s etcd_client \<Rightarrow> ('s, string) action" where
  "GetSabakanURL E = getStringValue E KeySabakanURL"

definition IsAutoRepairDisabled :: "'s etcd_client \<Rightarrow> ('s, bool) action" where
  "IsAutoRepairDisabled E = is_true E KeyAutoRepairDisabled"

definition EnableAutoRepair :: "'s etcd_client \<Rightarrow> bool \<Rightarrow> ('s, unit) action" where
  "EnableAutoRepair E enable = put E KeyAutoRepairDisabled (Text (bool_text (\<not> enable)))"

definition SetAutoRepairQueryVariables :: "'s etcd_client \<Rightarrow> string \<Rightarrow> ('s, unit) action" where
  "SetAutoRepairQueryVariables E vars = put E KeyAutoRepairQueryVariables (Text vars)"

definition GetAutoRepairQueryVariables :: "'s etcd_client \<Rightarrow> ('s, string) action" where
  "GetAutoRepairQueryVariables E = getStringValue E KeyAutoRepairQueryVariables"

definition IsRebootQueueDisabled :: "'s etcd_client \<Rightarrow> ('s, bool) action" where
  "IsRebootQueueDisabled E = is_true E KeyRebootsDisabled"

definition EnableRebootQueue :: "'s etcd_client \<Rightarrow> bool \<Rightarrow> ('s, unit) action" where
  "EnableRebootQueue E flag =
     put E KeyRebootsDisabled (Text (if flag then ''false'' else ''true''))"

definition IsRebootQueueRunning :: "'s etcd_client \<Rightarrow> ('s, bool) action" where
  "IsRebootQueueRunning E = is_true E KeyRebootsRunning"

definition SetRebootQueueRunning :: "'s etcd_client \<Rightarrow> bool \<Rightarrow> ('s, unit) action" where
  "SetRebootQueueRunning E flag =
     put E KeyRebootsRunning (Text (if flag then ''true'' else ''false''))"

definition IsRepairQueueDisabled :: "'s etcd_client \<Rightarrow> ('s, bool) action" where
  "IsRepairQueueDisabled E = is_true E KeyRepairsDisabled"

definition EnableRepairQueue :: "'s etcd_client \<Rightarrow> bool \<Rightarrow> ('s, unit) action" where
  "EnableRepairQueue E enable =
     put E KeyRepairsDisabled (Text (if enable then ''false'' else ''true''))"

section \<open>Server status\<close>

definition SetStatus :: "'s etcd_client \<Rightarrow> int \<Rightarrow> ServerStatus \<Rightarrow> ('s, unit) action" where
  "SetStatus E lease st =
     andThen (etcd_Do E (OpPutLease KeyStatus (Json (JStatus st)) lease)) (\<lambda>_. return_ok ())"

definition GetStatus :: "'s etcd_client \<Rightarrow> ('s, ServerStatus) action" where
  "GetStatus E = get_json E as_status KeyStatus"

section \<open>What the common patterns do to the store\<close>

lemma leader_txn_Ok:
  assumes "etcd_ok rely view E" "leader_txn E leaderKey ops s = (Ok u, s')"
  obtains v where "rely (view s) v" "kv_find leaderKey (evKVs v) \<noteq> None" "view s' = exec_ops ops v"
  using assms unfolding leader_txn_def andThen_Ok
  by (auto split: if_splits prod.splits elim!: etcd_Txn_Ok)

lemma leader_txn_NoLeader:
  assumes "etcd_ok rely view E" "leader_txn E leaderKey ops s = (Err ErrNoLeader, s')"
  obtains v where "rely (view s) v" "kv_find leaderKey (evKVs v) = None" "view s' = v"
proof -
  obtain rs where "etcd_Txn E [KeyExists leaderKey] ops s = (Ok (False, rs), s')"
    using assms(2) unfolding leader_txn_def andThen_def
    by (cases "etcd_Txn E [KeyExists leaderKey] ops s")
      (auto simp: etcd_Txn_def split: outcome.splits if_splits prod.splits sum.splits)
  then show ?thesis
    using that by (rule_tac etcd_Txn_Ok [OF assms(1)]) auto
qed

lemma put_Ok:
  assumes "etcd_ok rely view E" "put E k x s = (Ok u, s')"
  obtains v where "rely (view s) v" "view s' = exec_ops [OpPut k x] v"
  using assms unfolding put_def andThen_Ok by (auto elim!: etcd_Do_Ok)

lemma get_answer:
  assumes "etcd_ok rely view E" "etcd_Do E (OpGet k) s = (Ok kvs, s')"
  obtains v where "rely (view s) v" "kvs = filter (\<lambda>x. kvKey x = k) (evKVs v)" "view s' = v"
  using assms by (auto elim!: etcd_Do_Ok)

lemma get_answer_find:
  assumes "etcd_ok rely view E" "etcd_Do E (OpGet k) s = (Ok kvs, s')"
    "\<And>v. rely (view s) v \<Longrightarrow> wf_view v"
  obtains v where "rely (view s) v" "view s' = v"
    "kvs = (case kv_find k (evKVs v) of None \<Rightarrow> [] | Some x \<Rightarrow> [x])"
  using assms(1,2) by (rule get_answer) (use assms(3) that in \<open>auto simp: filter_key_find wf_view_sorted\<close>)

text \<open>The value under a key after the puts of a transaction.\<close>

lemma exec_put_find:
  assumes "wf_view v"
  shows "kv_find j (evKVs (exec_ops [OpPut k x] v)) =
           (if j = k then kv_find k (kv_put (evRevision v + 1) k x (evKVs v)) else kv_find j (evKVs v))"
  using assms by (auto simp: exec_ops_def kv_find_put_other wf_view_sorted)

definition value_at :: "string \<Rightarrow> etcd_view \<Rightarrow> etcd_value option" where
  "value_at k v = map_option kvValue (kv_find k (evKVs v))"

lemma kv_find_put_value:
  "sorted_wrt (<) (map kvKey kvs) \<Longrightarrow>
     map_option kvValue (kv_find j (kv_put r k x kvs)) =
       (if j = k then Some x else map_option kvValue (kv_find j kvs))"
  using kv_find_put [of kvs j r k x] by simp

lemma value_at_put:
  "wf_view v \<Longrightarrow> value_at j (exec_ops [OpPut k x] v) = (if j = k then Some x else value_at j v)"
  by (auto simp: value_at_def exec_ops_def kv_find_put_value wf_view_sorted)

lemma value_at_put2:
  "wf_view v \<Longrightarrow> value_at j (exec_ops [OpPut k x, OpPut k' x'] v) =
     (if j = k' then Some x' else if j = k then Some x else value_at j v)"
  by (auto simp: value_at_def exec_ops_def kv_find_put_value kv_put_sorted wf_view_sorted)

section \<open>Cluster configuration survives storage\<close>

text \<open>An environment that keeps the store well formed and leaves the given keys alone.\<close>

definition keeps :: "string set \<Rightarrow> (etcd_view \<Rightarrow> etcd_view \<Rightarrow> bool) \<Rightarrow> bool" where
  "keeps ks rely \<longleftrightarrow>
     (\<forall>v v'. rely v v' \<longrightarrow> wf_view v \<longrightarrow> wf_view v' \<and> (\<forall>k \<in> ks. kv_find k (evKVs v') = kv_find k (evKVs v)))"

lemma keepsD:
  "keeps ks rely \<Longrightarrow> rely v v' \<Longrightarrow> wf_view v \<Longrightarrow> wf_view v'"
  "keeps ks rely \<Longrightarrow> rely v v' \<Longrightarrow> wf_view v \<Longrightarrow> k \<in> ks \<Longrightarrow> kv_find k (evKVs v') = kv_find k (evKVs v)"
  by (auto simp: keeps_def)

lemma value_at_list:
  "wf_view v \<Longrightarrow> (case value_at k v of None \<Rightarrow> filter (\<lambda>x. kvKey x = k) (evKVs v) = []
     | Some y \<Rightarrow> \<exists>x. filter (\<lambda>x. kvKey x = k) (evKVs v) = [x] \<and> kvValue x = y)"
  by (auto simp: value_at_def filter_key_find wf_view_sorted split: option.splits)

lemma GetClusterWithRevision_value:
  assumes ok: "etcd_ok rely view E" and quiet: "keeps {KeyCluster, KeyClusterRevision} rely"
    and wf: "wf_view (view s)"
    and c: "value_at KeyCluster (view s) = Some (Json (JCluster c))"
    and r: "value_at KeyClusterRevision (view s) = Some (Text (Itoa n))" "- (2 ^ 63) \<le> n" "n < 2 ^ 63"
  shows "fst (GetClusterWithRevision E s) = Ok (c, n) \<or>
    (\<exists>m. fst (GetClusterWithRevision E s) = Err (ErrOther m))"
proof (cases "etcd_Txn E [] [OpGet KeyCluster, OpGet KeyClusterRevision] s")
  case (Pair out s')
  show ?thesis
  proof (cases out)
    case (Ok res)
    obtain b rs where res: "res = (b, rs)" by (cases res)
    obtain v where v: "rely (view s) v" "b" "list_all2 (\<lambda>op kvs. response_ok op (evKVs v) kvs)
        [OpGet KeyCluster, OpGet KeyClusterRevision] rs"
      by (rule etcd_Txn_Ok [OF ok, of "[]" "[OpGet KeyCluster, OpGet KeyClusterRevision]" s b rs s'])
        (use Pair Ok res in auto)
    have wf': "wf_view v" and same: "value_at KeyCluster v = Some (Json (JCluster c))"
      "value_at KeyClusterRevision v = Some (Text (Itoa n))"
      using keepsD [OF quiet v(1) wf] c r by (auto simp: value_at_def)
    from v(3) obtain g0 g1 where rs: "rs = [g0, g1]"
      "g0 = filter (\<lambda>x. kvKey x = KeyCluster) (evKVs v)"
      "g1 = filter (\<lambda>x. kvKey x = KeyClusterRevision) (evKVs v)"
      by (auto simp: list_all2_Cons1)
    with value_at_list [OF wf', of KeyCluster] value_at_list [OF wf', of KeyClusterRevision] same
    obtain x y where "g0 = [x]" "kvValue x = Json (JCluster c)" "g1 = [y]" "kvValue y = Text (Itoa n)"
      by auto
    then show ?thesis
      using Pair Ok res rs v(2) ParseInt_Itoa [OF r(2,3)]
      by (simp add: GetClusterWithRevision_def unmarshal_def as_defs value_text_def)
  qed (use Pair in \<open>auto simp: GetClusterWithRevision_def etcd_Txn_def split: prod.splits sum.splits\<close>)
qed


end
