(* ===== verification/CKE_Records.thy ===== *)
theory CKE_Records
  imports CKE_Storage CKE_Samples
begin

text \<open>
  The log of operation records in etcd: what \<^verbatim>\<open>RegisterRecord\<close> leaves of it, with \<^verbatim>\<open>maintRecords\<close>
  cutting it to the newest \<^verbatim>\<open>maxRecords\<close> entries.
\<close>

section \<open>Prefixes of the store\<close>

abbreviation records_of :: "etcd_view \<Rightarrow> etcd_kv list" where
  "records_of v \<equiv> kv_prefix KeyRecords (evKVs v)"

definition new_kv :: "int \<Rightarrow> string \<Rightarrow> etcd_value \<Rightarrow> etcd_kv" where
  "new_kv r k v = \<lparr>kvKey = k, kvValue = v, kvCreateRevision = r, kvModRevision = r\<rparr>"

lemma kv_put_front: "\<forall>y \<in> set ys. k < kvKey y \<Longrightarrow> kv_put r k v ys = new_kv r k v # ys"
  by (cases ys) (auto simp: new_kv_def)

lemma kv_prefix_put:
  "sorted_wrt (<) (map kvKey kvs) \<Longrightarrow>
     kv_prefix p (kv_put r k v kvs) =
       (if HasPrefix k p then kv_put r k v (kv_prefix p kvs) else kv_prefix p kvs)"
proof (induction kvs)
  case Nil
  then show ?case by (simp add: kv_prefix_def)
next
  case (Cons x xs)
  have "k < kvKey x \<Longrightarrow> \<forall>y \<in> set (kv_prefix p (x # xs)). k < kvKey y"
    using Cons.prems by (auto simp: kv_prefix_def)
  then show ?case
    using Cons kv_put_front [of "kv_prefix p (x # xs)" k r v]
    by (auto simp: kv_prefix_def new_kv_def)
qed

lemma kv_prefix_sorted:
  "sorted_wrt (<) (map kvKey kvs) \<Longrightarrow> sorted_wrt (<) (map kvKey (kv_prefix p kvs))"
  by (simp add: kv_prefix_def sorted_filter_keys)

lemma exec_delete_range:
  "evKVs (exec_ops [OpDeleteRange a b] v) = filter (\<lambda>x. kvKey x < a \<or> b \<le> kvKey x) (evKVs v)"
  by (auto simp: exec_ops_def list_ex_iff not_less intro!: filter_True [symmetric])

lemma filter_range_drop:
  assumes sorted: "sorted_wrt (<) (map kvKey xs)" and i: "i < length xs"
  shows "filter (\<lambda>x. kvKey x < kvKey (xs ! 0) \<or> kvKey (xs ! i) \<le> kvKey x) xs = drop i xs"
    (is "filter ?P xs = _")
proof -
  have less: "\<And>j k. j < k \<Longrightarrow> k < length xs \<Longrightarrow> kvKey (xs ! j) < kvKey (xs ! k)"
    using sorted sorted_wrt_nth_less [of "(<)" "map kvKey xs"] by simp
  have "\<forall>x \<in> set (take i xs). \<not> ?P x"
  proof
    fix x assume "x \<in> set (take i xs)"
    then obtain j where "j < i" "x = xs ! j" using i by (auto simp: in_set_conv_nth)
    then show "\<not> ?P x"
      using less [of 0 j] less [of j i] i by (cases j) (auto simp: not_less)
  qed
  moreover have "\<forall>x \<in> set (drop i xs). ?P x"
  proof
    fix x assume "x \<in> set (drop i xs)"
    then obtain j where "i + j < length xs" "x = xs ! (i + j)"
      by (metis add.commute in_set_conv_nth length_drop less_diff_conv nth_drop less_imp_le i)
    then show "?P x"
      using less [of i "i + j"] by (cases j) auto
  qed
  ultimately have "filter ?P (take i xs @ drop i xs) = drop i xs"
    by (simp only: filter_append) (simp add: filter_id_conv)
  then show ?thesis by simp
qed

text \<open>An environment that keeps the store well formed and the keys under a prefix untouched.\<close>

definition keeps_prefix :: "string \<Rightarrow> (etcd_view \<Rightarrow> etcd_view \<Rightarrow> bool) \<Rightarrow> bool" where
  "keeps_prefix p rely \<longleftrightarrow>
     (\<forall>v v'. rely v v' \<longrightarrow> wf_view v \<longrightarrow> wf_view v' \<and> kv_prefix p (evKVs v') = kv_prefix p (evKVs v))"

lemma keeps_prefixD:
  "keeps_prefix p rely \<Longrightarrow> rely v v' \<Longrightarrow> wf_view v \<Longrightarrow>
     wf_view v' \<and> kv_prefix p (evKVs v') = kv_prefix p (evKVs v)"
  by (simp add: keeps_prefix_def)

section \<open>The log of records\<close>

lemma maintRecords_effect:
  assumes ok: "etcd_ok rely view E" and quiet: "keeps_prefix KeyRecords rely"
    and wf: "wf_view (view s)" and run: "maintRecords E leaderKey (int n) s = (Ok (), s')" and n: "0 < n"
  shows "wf_view (view s') \<and>
    records_of (view s') = drop (length (records_of (view s)) - n) (records_of (view s))"
proof -
  from run obtain kvs s1 where get: "etcd_Do E (OpGetPrefix KeyRecords SortAscend 0) s = (Ok kvs, s1)"
    unfolding maintRecords_def andThen_Ok by blast
  obtain v where v: "rely (view s) v" "kvs = records_of v" "view s1 = v"
    by (rule etcd_Do_Ok [OF ok get]) (simp add: limited_def)
  have wfv: "wf_view v" and kvs: "kvs = records_of (view s)" and same: "records_of v = records_of (view s)"
    using keeps_prefixD [OF quiet v(1) wf] v by auto
  show ?thesis
  proof (cases "length kvs \<le> n")
    case True
    with run get have "s' = s1" by (simp add: maintRecords_def)
    with True show ?thesis using v wfv same kvs by simp
  next
    case False
    define i where "i = length kvs - n"
    have i: "i < length kvs" "nat (int (length kvs) - int n) = i" using False n by (auto simp: i_def)
    have idx: "go_index kvs 0 = Some (kvs ! 0)" "go_index kvs i = Some (kvs ! i)"
      using i by (auto simp: go_index_def)
    let ?op = "OpDeleteRange (kvKey (kvs ! 0)) (kvKey (kvs ! i))"
    obtain rs where txn: "etcd_Txn E [KeyExists leaderKey] [?op] s1 = (Ok (True, rs), s')"
      using run get False i(2) idx
      by (cases "etcd_Txn E [KeyExists leaderKey] [?op] s1"; cases "fst (etcd_Txn E [KeyExists leaderKey] [?op] s1)")
        (auto simp: maintRecords_def split: if_splits)
    obtain w where w: "rely (view s1) w" "view s' = exec_ops [?op] w"
      by (rule etcd_Txn_Ok [OF ok txn]) simp
    have wfw: "wf_view w" and rw: "records_of w = kvs"
      using keeps_prefixD [OF quiet w(1)] v wfv by auto
    have "records_of (view s') =
        filter (\<lambda>x. kvKey x < kvKey (kvs ! 0) \<or> kvKey (kvs ! i) \<le> kvKey x) (records_of w)"
      by (simp add: w(2) exec_delete_range kv_prefix_def conj_commute)
    also have "\<dots> = drop i kvs"
      unfolding rw by (rule filter_range_drop) (use wfw rw kv_prefix_sorted i in \<open>auto dest: wf_view_sorted\<close>)
    finally show ?thesis using kvs w(2) wfw i_def by auto
  qed
qed

lemma exec_record_put:
  assumes "wf_view v"
  shows "records_of (exec_ops [OpPut (recordKey r) x, OpPut KeyRecordID y] v) =
    kv_put (evRevision v + 1) (recordKey r) x (records_of v)"
proof -
  have "HasPrefix (recordKey r) KeyRecords" "\<not> HasPrefix KeyRecordID KeyRecords"
    by (simp_all add: recordKey_def) (simp add: HasPrefix_def storage_keys)
  then show ?thesis
    using assms by (simp add: exec_ops_def kv_prefix_put kv_put_sorted wf_view_sorted)
qed

text \<open>
  C31. The log of operation records is bounded: as long as nobody else writes records, a successful
  \<^verbatim>\<open>RegisterRecord\<close> leaves exactly the last 1000 records in the order of their keys, of the log with
  the new record in it.
\<close>
theorem records_bounded:
  assumes ok: "etcd_ok rely view E" and quiet: "keeps_prefix KeyRecords rely"
    and wf: "wf_view (view s)" and run: "RegisterRecord E leaderKey r s = (Ok (), s')"
  shows "length (records_of (view s')) \<le> 1000 \<and>
    (\<exists>n. let log = kv_put n (recordKey r) (Json (JRecord r)) (records_of (view s))
         in records_of (view s') = drop (length log - 1000) log)"
proof -
  obtain s1 where put: "leader_txn E leaderKey [OpPut (recordKey r) (Json (JRecord r)),
        OpPut KeyRecordID (Text (Itoa (wrap64 (rcID r + 1))))] s = (Ok (), s1)"
    and maint: "maintRecords E leaderKey (int 1000) s1 = (Ok (), s')"
    using run unfolding RegisterRecord_def andThen_Ok by (auto simp: maxRecords_def)
  obtain v where v: "rely (view s) v" "view s1 = exec_ops [OpPut (recordKey r) (Json (JRecord r)),
        OpPut KeyRecordID (Text (Itoa (wrap64 (rcID r + 1))))] v"
    by (rule leader_txn_Ok [OF ok put])
  have wfv: "wf_view v" and same: "records_of v = records_of (view s)"
    using keeps_prefixD [OF quiet v(1) wf] by auto
  have log: "records_of (view s1) =
      kv_put (evRevision v + 1) (recordKey r) (Json (JRecord r)) (records_of (view s))"
    using exec_record_put [OF wfv] v(2) same by simp
  have eff: "records_of (view s') =
      drop (length (records_of (view s1)) - 1000) (records_of (view s1))"
    using maintRecords_effect [OF ok quiet _ maint] v(2) wfv by auto
  show ?thesis
    using eff log by (auto simp: Let_def)
qed

text \<open>The identifiers of records that are registered one after the other are consecutive.\<close>

lemma NextRecordID_value:
  assumes ok: "etcd_ok rely view E" and quiet: "keeps {KeyRecordID} rely" and wf: "wf_view (view s)"
    and i: "value_at KeyRecordID (view s) = Some (Text (Itoa i))" "- (2 ^ 63) \<le> i" "i < 2 ^ 63"
    and run: "NextRecordID E s = (Ok j, s')"
  shows "j = i"
proof -
  from run obtain kvs s1 where get: "etcd_Do E (OpGet KeyRecordID) s = (Ok kvs, s1)"
    unfolding NextRecordID_def andThen_Ok by blast
  obtain v where v: "rely (view s) v" "kvs = filter (\<lambda>x. kvKey x = KeyRecordID) (evKVs v)"
    by (rule get_answer [OF ok get])
  have "wf_view v" "value_at KeyRecordID v = Some (Text (Itoa i))"
    using keepsD [OF quiet v(1) wf] i by (auto simp: value_at_def)
  then obtain x where "kvs = [x]" "kvValue x = Text (Itoa i)"
    using value_at_list [of v KeyRecordID] v(2) by auto
  with run get show ?thesis
    using ParseInt_Itoa [OF i(2,3)] by (simp add: NextRecordID_def value_text_def)
qed

section \<open>Witnesses\<close>

text \<open>A store in which one session is the leader.\<close>

definition leader_key :: string where "leader_key = ''leader/1''"

definition leader_view :: etcd_view where
  "leader_view = \<lparr>evRevision = 1, evKVs =
     [\<lparr>kvKey = leader_key, kvValue = Text ''host1'', kvCreateRevision = 1, kvModRevision = 1\<rparr>]\<rparr>"

lemma wf_leader_view [simp]: "wf_view leader_view"
  by (simp add: wf_view_def leader_view_def)

lemma mem_alone: "etcd_ok (=) (\<lambda>v. v) mem_client"
  by (rule mem_client_ok) simp

lemma alone_keeps [simp]: "keeps ks (=)" "keeps_prefix p (=)"
  by (simp_all add: keeps_def keeps_prefix_def)

lemma leader_txn_mem:
  "leader_txn mem_client leader_key ops v =
     (if kv_find leader_key (evKVs v) = None then (Err ErrNoLeader, v) else (Ok (), exec_ops ops v))"
  by (simp add: leader_txn_def etcd_Txn_def mem_client_def andThen_def)

lemma leader_view_leads [simp]: "kv_find leader_key (evKVs leader_view) \<noteq> None"
  by (simp add: kv_find_def leader_view_def)


definition first_record :: Record where
  "first_record = NewRecord 5 1 ''op'' [''10.0.0.11'']"

lemma registered_first:
  "RegisterRecord mem_client leader_key first_record leader_view =
     (Ok (), exec_ops [OpPut (recordKey first_record) (Json (JRecord first_record)),
        OpPut KeyRecordID (Text (Itoa (wrap64 2)))] leader_view)"
proof -
  let ?s' = "exec_ops [OpPut (recordKey first_record) (Json (JRecord first_record)),
        OpPut KeyRecordID (Text (Itoa (wrap64 2)))] leader_view"
  have "records_of ?s' = kv_put 2 (recordKey first_record) (Json (JRecord first_record)) []"
    unfolding exec_record_put [OF wf_leader_view]
    by (simp add: leader_view_def kv_prefix_def HasPrefix_def leader_key_def storage_keys)
  then have "maintRecords mem_client leader_key maxRecords ?s' = (Ok (), ?s')"
    by (simp add: maintRecords_def etcd_Do_def mem_client_def andThen_def maxRecords_def limited_def)
  then show ?thesis
    using leader_view_leads
    by (simp add: RegisterRecord_def leader_txn_mem andThen_def first_record_def)
qed

theorem records_bounded_witness:
  "fst (RegisterRecord mem_client leader_key first_record leader_view) = Ok () \<and>
   length (records_of (snd (RegisterRecord mem_client leader_key first_record leader_view))) \<le> 1000"
  using records_bounded [OF mem_alone alone_keeps(2) wf_leader_view registered_first] registered_first
  by simp

end
