(* ===== verification/CKE_QueueStore.thy ===== *)
theory CKE_QueueStore
  imports CKE_Records
begin

text \<open>
  The reboot queue and the repair queue in etcd (\<^verbatim>\<open>storage.go\<close>). Entries are registered by
  \<^verbatim>\<open>ckecli\<close> and the repairer while the server updates and deletes them, so registration and update are
  compare-and-swap loops; \<open>n\<close> is the number of rounds granted to a loop.

  The two queues have the same shape. The locale \<open>queue_storage\<close> states the shape once; both queues
  interpret it. What an operation does is stated against an abstract queue (\<open>abs_queue\<close>): the next
  index and the entries by index, with atomic operations.
\<close>

section \<open>Reboot queue\<close>

definition rebootsEntryKey :: "int \<Rightarrow> string" where
  "rebootsEntryKey i = KeyRebootsPrefix @ hex016 i"

text \<open>The write index and its revision in an answer; both are 0 while the key does not exist.\<close>

definition write_index :: "'s etcd_client \<Rightarrow> etcd_kv list \<Rightarrow> (int \<times> int) option" where
  "write_index E kvs = (case kvs of
      [] \<Rightarrow> Some (0, 0)
    | kv # _ \<Rightarrow> (case ParseInt (value_text E (kvValue kv)) of
          None \<Rightarrow> None
        | Some value \<Rightarrow> Some (value, kvModRevision kv)))"

fun RegisterRebootsEntry ::
  "nat \<Rightarrow> 's etcd_client \<Rightarrow> RebootQueueEntry \<Rightarrow> ('s, RebootQueueEntry) action" where
  "RegisterRebootsEntry 0 E r = (\<lambda>s. (Retrying, s))"
| "RegisterRebootsEntry (Suc n) E r =
     andThen (etcd_Do E (OpGet KeyRebootsWriteIndex)) (\<lambda>kvs. case write_index E kvs of
         None \<Rightarrow> return_err (ErrOther ''invalid write index'')
       | Some (writeIndex, writeIndexRev) \<Rightarrow>
           andThen (etcd_Txn E [ModRevisionIs KeyRebootsWriteIndex writeIndexRev]
               [OpPut (rebootsEntryKey writeIndex) (Json (JReboot (r\<lparr>rqIndex := writeIndex\<rparr>))),
                OpPut KeyRebootsWriteIndex (Text (Itoa (wrap64 (writeIndex + 1))))])
             (\<lambda>(succeeded, _). if \<not> succeeded then RegisterRebootsEntry n E r
                else return_ok (r\<lparr>rqIndex := writeIndex\<rparr>)))"

fun UpdateRebootsEntry :: "nat \<Rightarrow> 's etcd_client \<Rightarrow> RebootQueueEntry \<Rightarrow> ('s, unit) action" where
  "UpdateRebootsEntry 0 E r = (\<lambda>s. (Retrying, s))"
| "UpdateRebootsEntry (Suc n) E r =
     andThen (etcd_Do E (OpGet (rebootsEntryKey (rqIndex r)))) (\<lambda>kvs. case kvs of
         [] \<Rightarrow> return_err ErrNotFound
       | kv # _ \<Rightarrow>
           andThen (etcd_Txn E [ModRevisionIs (rebootsEntryKey (rqIndex r)) (kvModRevision kv)]
               [OpPut (rebootsEntryKey (rqIndex r)) (Json (JReboot r))])
             (\<lambda>(succeeded, _). if \<not> succeeded then UpdateRebootsEntry n E r else return_ok ()))"

definition GetRebootsEntry :: "'s etcd_client \<Rightarrow> int \<Rightarrow> ('s, RebootQueueEntry) action" where
  "GetRebootsEntry E index = get_json E as_reboot (rebootsEntryKey index)"

definition GetRebootsEntries :: "'s etcd_client \<Rightarrow> ('s, RebootQueueEntry list) action" where
  "GetRebootsEntries E =
     andThen (etcd_Do E (OpGetPrefix KeyRebootsPrefix SortAscend 0)) (\<lambda>kvs. unmarshal_all as_reboot kvs)"

definition DeleteRebootsEntry :: "'s etcd_client \<Rightarrow> string \<Rightarrow> int \<Rightarrow> ('s, unit) action" where
  "DeleteRebootsEntry E leaderKey index = leader_txn E leaderKey [OpDelete (rebootsEntryKey index)]"

section \<open>Repair queue\<close>

definition repairsEntryKey :: "int \<Rightarrow> string" where
  "repairsEntryKey i = KeyRepairsPrefix @ hex016 i"

fun RegisterRepairsEntry ::
  "nat \<Rightarrow> 's etcd_client \<Rightarrow> RepairQueueEntry \<Rightarrow> ('s, RepairQueueEntry) action" where
  "RegisterRepairsEntry 0 E r = (\<lambda>s. (Retrying, s))"
| "RegisterRepairsEntry (Suc n) E r =
     andThen (etcd_Do E (OpGet KeyRepairsWriteIndex)) (\<lambda>kvs. case write_index E kvs of
         None \<Rightarrow> return_err (ErrOther ''invalid write index'')
       | Some (writeIndex, writeIndexRev) \<Rightarrow>
           andThen (etcd_Txn E [ModRevisionIs KeyRepairsWriteIndex writeIndexRev]
               [OpPut (repairsEntryKey writeIndex) (Json (JRepair (r\<lparr>reIndex := writeIndex\<rparr>))),
                OpPut KeyRepairsWriteIndex (Text (Itoa (wrap64 (writeIndex + 1))))])
             (\<lambda>(succeeded, _). if \<not> succeeded then RegisterRepairsEntry n E r
                else return_ok (r\<lparr>reIndex := writeIndex\<rparr>)))"

fun UpdateRepairsEntry :: "nat \<Rightarrow> 's etcd_client \<Rightarrow> RepairQueueEntry \<Rightarrow> ('s, unit) action" where
  "UpdateRepairsEntry 0 E r = (\<lambda>s. (Retrying, s))"
| "UpdateRepairsEntry (Suc n) E r =
     andThen (etcd_Do E (OpGet (repairsEntryKey (reIndex r)))) (\<lambda>kvs. case kvs of
         [] \<Rightarrow> return_err ErrNotFound
       | kv # _ \<Rightarrow>
           andThen (etcd_Txn E [ModRevisionIs (repairsEntryKey (reIndex r)) (kvModRevision kv)]
               [OpPut (repairsEntryKey (reIndex r)) (Json (JRepair r))])
             (\<lambda>(succeeded, _). if \<not> succeeded then UpdateRepairsEntry n E r else return_ok ()))"

definition GetRepairsEntry :: "'s etcd_client \<Rightarrow> int \<Rightarrow> ('s, RepairQueueEntry) action" where
  "GetRepairsEntry E index = get_json E as_repair (repairsEntryKey index)"

definition GetRepairsEntries :: "'s etcd_client \<Rightarrow> ('s, RepairQueueEntry list) action" where
  "GetRepairsEntries E =
     andThen (etcd_Do E (OpGetPrefix KeyRepairsPrefix SortAscend 0)) (\<lambda>kvs. unmarshal_all as_repair kvs)"

definition DeleteRepairsEntry :: "'s etcd_client \<Rightarrow> string \<Rightarrow> int \<Rightarrow> ('s, unit) action" where
  "DeleteRepairsEntry E leaderKey index = leader_txn E leaderKey [OpDelete (repairsEntryKey index)]"

section \<open>The abstract queue\<close>

record 'e queue_codec =
  qcPrefix :: string
  qcWriteIndex :: string
  qcIndex :: "'e \<Rightarrow> int"
  qcSetIndex :: "int \<Rightarrow> 'e \<Rightarrow> 'e"
  qcDoc :: "'e \<Rightarrow> json_doc"
  qcDest :: "json_doc \<Rightarrow> 'e option"

definition reboots :: "RebootQueueEntry queue_codec" where
  "reboots = \<lparr>qcPrefix = KeyRebootsPrefix, qcWriteIndex = KeyRebootsWriteIndex, qcIndex = rqIndex,
     qcSetIndex = (\<lambda>i r. r\<lparr>rqIndex := i\<rparr>), qcDoc = JReboot, qcDest = as_reboot\<rparr>"

definition repairs :: "RepairQueueEntry queue_codec" where
  "repairs = \<lparr>qcPrefix = KeyRepairsPrefix, qcWriteIndex = KeyRepairsWriteIndex, qcIndex = reIndex,
     qcSetIndex = (\<lambda>i r. r\<lparr>reIndex := i\<rparr>), qcDoc = JRepair, qcDest = as_repair\<rparr>"

record 'e abs_queue =
  aqNext :: int
  aqEntries :: "int \<Rightarrow> 'e option"

definition aq_register :: "'e \<Rightarrow> 'e abs_queue \<Rightarrow> 'e abs_queue" where
  "aq_register e q = \<lparr>aqNext = aqNext q + 1, aqEntries = (aqEntries q)(aqNext q \<mapsto> e)\<rparr>"

definition aq_update :: "int \<Rightarrow> 'e \<Rightarrow> 'e abs_queue \<Rightarrow> 'e abs_queue" where
  "aq_update i e q = q\<lparr>aqEntries := (aqEntries q)(i \<mapsto> e)\<rparr>"

definition aq_delete :: "int \<Rightarrow> 'e abs_queue \<Rightarrow> 'e abs_queue" where
  "aq_delete i q = q\<lparr>aqEntries := (aqEntries q)(i := None)\<rparr>"

definition entry_key :: "'e queue_codec \<Rightarrow> int \<Rightarrow> string" where
  "entry_key Q i = qcPrefix Q @ hex016 i"

definition max_index :: int where "max_index = 2 ^ 63 - 1"

definition queue_next :: "'e queue_codec \<Rightarrow> etcd_view \<Rightarrow> int" where
  "queue_next Q v = (case value_at (qcWriteIndex Q) v of
      Some (Text t) \<Rightarrow> (case ParseInt t of Some i \<Rightarrow> i | None \<Rightarrow> 0)
    | _ \<Rightarrow> 0)"

definition entry_at :: "'e queue_codec \<Rightarrow> etcd_view \<Rightarrow> int \<Rightarrow> 'e option" where
  "entry_at Q v i = (if 0 \<le> i \<and> i \<le> max_index then
      (case value_at (entry_key Q i) v of Some (Json d) \<Rightarrow> qcDest Q d | _ \<Rightarrow> None) else None)"

definition abs_queue :: "'e queue_codec \<Rightarrow> etcd_view \<Rightarrow> 'e abs_queue" where
  "abs_queue Q v = \<lparr>aqNext = queue_next Q v, aqEntries = entry_at Q v\<rparr>"

lemma abs_queue_sel [simp]:
  "aqNext (abs_queue Q v) = queue_next Q v" "aqEntries (abs_queue Q v) = entry_at Q v"
  by (simp_all add: abs_queue_def)

text \<open>
  The invariant of a queue: the write index is a number that is not used yet, and every key of the queue
  carries the index of the entry stored under it.
\<close>

definition queue_kv_ok :: "'e queue_codec \<Rightarrow> int \<Rightarrow> etcd_kv \<Rightarrow> bool" where
  "queue_kv_ok Q n x \<longleftrightarrow> (\<exists>i e. 0 \<le> i \<and> i < n \<and> kvKey x = entry_key Q i \<and>
     kvValue x = Json (qcDoc Q e) \<and> qcIndex Q e = i)"

definition queue_ok :: "'e queue_codec \<Rightarrow> etcd_view \<Rightarrow> bool" where
  "queue_ok Q v \<longleftrightarrow> wf_view v \<and> 0 \<le> queue_next Q v \<and> queue_next Q v \<le> max_index \<and>
     (case value_at (qcWriteIndex Q) v of
        None \<Rightarrow> queue_next Q v = 0
      | Some x \<Rightarrow> x = Text (Itoa (queue_next Q v))) \<and>
     (\<forall>x \<in> set (kv_prefix (qcPrefix Q) (evKVs v)). queue_kv_ok Q (queue_next Q v) x)"

text \<open>How far a key can change between two states of the store.\<close>

definition view_le :: "etcd_view \<Rightarrow> etcd_view \<Rightarrow> bool" where
  "view_le v v' \<longleftrightarrow> evRevision v \<le> evRevision v' \<and>
     (\<forall>k x. kv_find k (evKVs v') = Some x \<longrightarrow>
        kv_find k (evKVs v) = Some x \<or> evRevision v < kvModRevision x)"

text \<open>One atomic change by any client: to this queue, or to other keys.\<close>

inductive queue_step :: "'e queue_codec \<Rightarrow> etcd_view \<Rightarrow> etcd_view \<Rightarrow> bool" for Q where
  register: "queue_next Q v < max_index \<Longrightarrow> qcIndex Q e = queue_next Q v \<Longrightarrow>
     queue_step Q v (exec_ops [OpPut (entry_key Q (queue_next Q v)) (Json (qcDoc Q e)),
       OpPut (qcWriteIndex Q) (Text (Itoa (queue_next Q v + 1)))] v)"
| update: "entry_at Q v (qcIndex Q e) \<noteq> None \<Longrightarrow>
     queue_step Q v (exec_ops [OpPut (entry_key Q (qcIndex Q e)) (Json (qcDoc Q e))] v)"
| delete: "queue_step Q v (exec_ops [OpDelete (entry_key Q i)] v)"
| other: "wf_view v' \<Longrightarrow> view_le v v' \<Longrightarrow>
     kv_find (qcWriteIndex Q) (evKVs v') = kv_find (qcWriteIndex Q) (evKVs v) \<Longrightarrow>
     kv_prefix (qcPrefix Q) (evKVs v') = kv_prefix (qcPrefix Q) (evKVs v) \<Longrightarrow> queue_step Q v v'"

abbreviation queue_steps :: "'e queue_codec \<Rightarrow> etcd_view \<Rightarrow> etcd_view \<Rightarrow> bool" where
  "queue_steps Q \<equiv> (queue_step Q)\<^sup>*\<^sup>*"

section \<open>Comparing revisions\<close>

lemma view_le_refl [simp]: "view_le v v"
  by (simp add: view_le_def)

lemma view_leD:
  "view_le v w \<Longrightarrow> kv_find k (evKVs w) = Some x \<Longrightarrow>
     kv_find k (evKVs v) = Some x \<or> evRevision v < kvModRevision x"
  by (simp add: view_le_def)

lemma view_leI:
  "evRevision v \<le> evRevision w \<Longrightarrow>
     (\<And>k x. kv_find k (evKVs w) = Some x \<Longrightarrow> kv_find k (evKVs v) = Some x \<or> evRevision v < kvModRevision x) \<Longrightarrow>
     view_le v w"
  by (simp add: view_le_def)

lemma view_le_trans:
  assumes uv: "view_le u v" and vw: "view_le v w"
  shows "view_le u w"
proof (rule view_leI)
  show rev: "evRevision u \<le> evRevision w" using assms by (simp add: view_le_def)
  fix k x assume "kv_find k (evKVs w) = Some x"
  from view_leD [OF vw this] show "kv_find k (evKVs u) = Some x \<or> evRevision u < kvModRevision x"
    using view_leD [OF uv, of k x] uv by (auto simp: view_le_def)
qed

lemma kv_put_find:
  assumes "sorted_wrt (<) (map kvKey kvs)" "kv_find k (kv_put r j y kvs) = Some x"
  shows "kv_find k kvs = Some x \<or> kvModRevision x = r"
  using assms kv_find_put_same [of kvs k r y] kv_find_put_other [of kvs k j r y] by (cases "j = k") auto

lemma op_effect_find:
  assumes sorted: "sorted_wrt (<) (map kvKey kvs)" and find: "kv_find k (op_effect r op kvs) = Some x"
  shows "kv_find k kvs = Some x \<or> kvModRevision x = r"
proof (cases op)
  case (OpDelete j)
  then show ?thesis
    using find kv_find_filter [OF sorted, of k "\<lambda>i. i \<noteq> j"] by (auto split: if_splits)
next
  case (OpDeleteRange a b)
  then show ?thesis
    using find kv_find_filter [OF sorted, of k "\<lambda>i. i < a \<or> b \<le> i"] by (auto split: if_splits)
qed (use find in \<open>auto dest: kv_put_find [OF sorted]\<close>)

lemma fold_effect_find:
  assumes "sorted_wrt (<) (map kvKey kvs)" "kv_find k (fold (op_effect r) ops kvs) = Some x"
  shows "kv_find k kvs = Some x \<or> kvModRevision x = r"
  using assms
proof (induction ops arbitrary: kvs)
  case (Cons op ops)
  then show ?case
    using Cons.IH [OF op_effect_sorted [OF Cons.prems(1)], of r op] op_effect_find [OF Cons.prems(1), of k r op x]
    by auto
qed simp

lemma view_le_exec: "wf_view v \<Longrightarrow> view_le v (exec_ops ops v)"
  by (intro view_leI) (force simp: exec_ops_def split: if_splits dest: fold_effect_find [OF wf_view_sorted])+

text \<open>A compare on the revision that was read succeeds only if the key has not changed since.\<close>

definition revision_of :: "string \<Rightarrow> etcd_view \<Rightarrow> int" where
  "revision_of k v = (case kv_find k (evKVs v) of None \<Rightarrow> 0 | Some x \<Rightarrow> kvModRevision x)"

lemma cas_unchanged:
  assumes wf: "wf_view v" "wf_view w" and le: "view_le v w"
    and cmp: "cmp_holds (evKVs w) (ModRevisionIs k (revision_of k v))"
  shows "kv_find k (evKVs w) = kv_find k (evKVs v)"
proof (cases "kv_find k (evKVs w)")
  case None
  with cmp have "revision_of k v = 0" by simp
  with wf(1) None show ?thesis
    by (cases "kv_find k (evKVs v)") (auto simp: revision_of_def wf_view_def dest!: kv_find_Some)
next
  case (Some y)
  with cmp have y: "kvModRevision y = revision_of k v" by simp
  have "0 < kvModRevision y" using wf(2) Some by (auto simp: wf_view_def dest!: kv_find_Some)
  moreover have "revision_of k v \<le> evRevision v"
    using wf(1) by (auto simp: revision_of_def wf_view_def split: option.splits dest!: kv_find_Some)
  ultimately show ?thesis
    using view_leD [OF le Some] y Some by auto
qed

lemma cas_same: "cmp_holds (evKVs v) (ModRevisionIs k (revision_of k v))"
  by (simp add: revision_of_def split: option.splits)

section \<open>Steps keep the invariant\<close>

definition codec_ok :: "'e queue_codec \<Rightarrow> bool" where
  "codec_ok Q \<longleftrightarrow> (\<forall>e. qcDest Q (qcDoc Q e) = Some e) \<and> \<not> HasPrefix (qcWriteIndex Q) (qcPrefix Q) \<and>
     (\<forall>i e. qcIndex Q (qcSetIndex Q i e) = i)"

lemma entry_key_prefix [simp]: "HasPrefix (entry_key Q i) (qcPrefix Q)"
  by (simp add: entry_key_def)

lemma entry_key_windex: "codec_ok Q \<Longrightarrow> entry_key Q i \<noteq> qcWriteIndex Q"
  by (metis codec_ok_def entry_key_prefix)

lemma entry_key_inj:
  "0 \<le> i \<Longrightarrow> i \<le> max_index \<Longrightarrow> 0 \<le> j \<Longrightarrow> j \<le> max_index \<Longrightarrow> entry_key Q i = entry_key Q j \<longleftrightarrow> i = j"
  by (simp add: entry_key_def max_index_def hex016_eq)

lemma kv_put_cases:
  "sorted_wrt (<) (map kvKey kvs) \<Longrightarrow> x \<in> set (kv_put r k v kvs) \<Longrightarrow>
     x \<in> set kvs \<and> kvKey x \<noteq> k \<or> kvKey x = k \<and> kvValue x = v"
  by (induction kvs) (auto split: if_splits)

lemma value_at_delete:
  "wf_view v \<Longrightarrow> value_at j (exec_ops [OpDelete k] v) = (if j = k then None else value_at j v)"
  using kv_find_filter [OF wf_view_sorted, of v j "\<lambda>i. i \<noteq> k"]
  by (auto simp: value_at_def exec_ops_def list_ex_iff kv_find_None)

lemma queue_next_cong:
  "value_at (qcWriteIndex Q) v' = value_at (qcWriteIndex Q) v \<Longrightarrow> queue_next Q v' = queue_next Q v"
  by (simp add: queue_next_def)

lemma queue_next_text:
  "value_at (qcWriteIndex Q) v = Some (Text (Itoa i)) \<Longrightarrow> 0 \<le> i \<Longrightarrow> i \<le> max_index \<Longrightarrow> queue_next Q v = i"
  by (simp add: queue_next_def ParseInt_Itoa max_index_def)

lemma kv_prefix_exec_put:
  "wf_view v \<Longrightarrow> x \<in> set (kv_prefix p (evKVs (exec_ops [OpPut k y] v))) \<Longrightarrow>
     x \<in> set (kv_prefix p (evKVs v)) \<and> kvKey x \<noteq> k \<or> kvKey x = k \<and> kvValue x = y"
  by (auto simp: exec_ops_def kv_prefix_def dest!: kv_put_cases [OF wf_view_sorted])

lemma kv_prefix_exec_put2:
  assumes "wf_view v" "x \<in> set (kv_prefix p (evKVs (exec_ops [OpPut k y, OpPut k' y'] v)))"
  shows "x \<in> set (kv_prefix p (evKVs v)) \<and> kvKey x \<noteq> k \<or> kvKey x = k \<and> kvValue x = y \<or> kvKey x = k'"
proof -
  have "sorted_wrt (<) (map kvKey (kv_put (evRevision v + 1) k y (evKVs v)))"
    using assms(1) by (simp add: kv_put_sorted wf_view_sorted)
  from assms(2) kv_put_cases [OF this] kv_put_cases [OF wf_view_sorted [OF assms(1)]]
  show ?thesis by (fastforce simp: exec_ops_def kv_prefix_def)
qed

lemma queue_okI:
  assumes "wf_view v" "0 \<le> n" "n \<le> max_index"
    "value_at (qcWriteIndex Q) v = Some (Text (Itoa n)) \<or> value_at (qcWriteIndex Q) v = None \<and> n = 0"
    "\<And>x. x \<in> set (kv_prefix (qcPrefix Q) (evKVs v)) \<Longrightarrow> queue_kv_ok Q n x"
  shows "queue_ok Q v"
proof -
  have "queue_next Q v = n"
    using assms(2-4) queue_next_text [of Q v n] by (auto simp: queue_next_def)
  then show ?thesis using assms by (auto simp: queue_ok_def)
qed

lemma queue_ok_value:
  "queue_ok Q v \<Longrightarrow> value_at (qcWriteIndex Q) v = Some (Text (Itoa (queue_next Q v))) \<or>
     value_at (qcWriteIndex Q) v = None \<and> queue_next Q v = 0"
  by (auto simp: queue_ok_def split: option.splits)

lemma queue_kv_ok_mono: "queue_kv_ok Q n x \<Longrightarrow> n \<le> m \<Longrightarrow> queue_kv_ok Q m x"
  by (force simp: queue_kv_ok_def)

lemma entry_at_value:
  "entry_at Q v i \<noteq> None \<Longrightarrow> 0 \<le> i \<and> i \<le> max_index \<and> value_at (entry_key Q i) v \<noteq> None"
  by (auto simp: entry_at_def split: if_splits option.splits)

lemma queue_register_ok:
  assumes ok: "queue_ok Q v" and codec: "codec_ok Q"
    and e: "queue_next Q v < max_index" "qcIndex Q e = queue_next Q v"
    and v': "v' = exec_ops [OpPut (entry_key Q (queue_next Q v)) (Json (qcDoc Q e)),
       OpPut (qcWriteIndex Q) (Text (Itoa (queue_next Q v + 1)))] v"
  shows "queue_ok Q v'"
proof -
  let ?n = "queue_next Q v"
  have wf: "wf_view v" and n: "0 \<le> ?n" using ok by (auto simp: queue_ok_def)
  show ?thesis
  proof (rule queue_okI [of _ "?n + 1"])
    fix x assume x: "x \<in> set (kv_prefix (qcPrefix Q) (evKVs v'))"
    then consider "x \<in> set (kv_prefix (qcPrefix Q) (evKVs v))"
      | "kvKey x = entry_key Q ?n" "kvValue x = Json (qcDoc Q e)" | "kvKey x = qcWriteIndex Q"
      unfolding v' using kv_prefix_exec_put2 [OF wf] by blast
    then show "queue_kv_ok Q (?n + 1) x"
    proof cases
      case 1
      then show ?thesis using ok queue_kv_ok_mono [of Q ?n x "?n + 1"] by (auto simp: queue_ok_def)
    next
      case 2
      then show ?thesis using e n by (auto simp: queue_kv_ok_def)
    next
      case 3
      then show ?thesis using x codec by (auto simp: kv_prefix_def codec_ok_def)
    qed
  qed (use v' e wf n in \<open>auto simp: value_at_put2\<close>)
qed

lemma entry_at_next:
  assumes ok: "queue_ok Q v" and e: "entry_at Q v i \<noteq> None"
  shows "i < queue_next Q v"
proof -
  have i: "0 \<le> i" "i \<le> max_index" using entry_at_value [OF e] by simp_all
  obtain x where "x \<in> set (kv_prefix (qcPrefix Q) (evKVs v))" "kvKey x = entry_key Q i"
    using entry_at_value [OF e] by (auto simp: value_at_def kv_prefix_def dest!: kv_find_Some)
  then show ?thesis
    using ok i entry_key_inj [of i _ Q] by (fastforce simp: queue_ok_def queue_kv_ok_def)
qed

lemma queue_update_ok:
  assumes ok: "queue_ok Q v" and codec: "codec_ok Q" and e: "entry_at Q v (qcIndex Q e) \<noteq> None"
    and v': "v' = exec_ops [OpPut (entry_key Q (qcIndex Q e)) (Json (qcDoc Q e))] v"
  shows "queue_ok Q v'"
proof -
  have wf: "wf_view v" and n: "0 \<le> queue_next Q v" "queue_next Q v \<le> max_index"
    using ok by (auto simp: queue_ok_def)
  show ?thesis
  proof (rule queue_okI [of _ "queue_next Q v"])
    fix x assume "x \<in> set (kv_prefix (qcPrefix Q) (evKVs v'))"
    then show "queue_kv_ok Q (queue_next Q v) x"
      unfolding v' using kv_prefix_exec_put [OF wf] ok entry_at_next [OF ok e] entry_at_value [OF e]
      by (fastforce simp: queue_ok_def queue_kv_ok_def)
  qed (use v' wf n queue_ok_value [OF ok] entry_key_windex [OF codec, of "qcIndex Q e"]
      in \<open>auto simp: value_at_put\<close>)
qed

lemma queue_delete_ok:
  assumes ok: "queue_ok Q v" and codec: "codec_ok Q" and v': "v' = exec_ops [OpDelete (entry_key Q i)] v"
  shows "queue_ok Q v'"
proof -
  have wf: "wf_view v" and n: "0 \<le> queue_next Q v" "queue_next Q v \<le> max_index"
    using ok by (auto simp: queue_ok_def)
  show ?thesis
  proof (rule queue_okI [of _ "queue_next Q v"])
    fix x assume "x \<in> set (kv_prefix (qcPrefix Q) (evKVs v'))"
    then show "queue_kv_ok Q (queue_next Q v) x"
      unfolding v' using ok by (auto simp: exec_ops_def queue_ok_def kv_prefix_def split: if_splits)
  qed (use v' wf n queue_ok_value [OF ok] entry_key_windex [OF codec, of i]
      in \<open>auto simp: value_at_delete\<close>)
qed

lemma queue_step_ok:
  assumes step: "queue_step Q v v'" and ok: "queue_ok Q v" and codec: "codec_ok Q"
  shows "queue_ok Q v'"
  using step
proof cases
  case (register e)
  then show ?thesis using queue_register_ok [OF ok codec] by blast
next
  case (update e)
  then show ?thesis using queue_update_ok [OF ok codec] by blast
next
  case (delete i)
  then show ?thesis using queue_delete_ok [OF ok codec] by blast
next
  case other
  have "value_at (qcWriteIndex Q) v' = value_at (qcWriteIndex Q) v"
    using other by (simp add: value_at_def)
  then show ?thesis
    using ok other queue_next_cong [of Q v' v] by (auto simp: queue_ok_def split: option.splits)
qed

lemma queue_step_le: "queue_step Q v v' \<Longrightarrow> wf_view v \<Longrightarrow> view_le v v'"
  by (cases rule: queue_step.cases) (auto simp: view_le_exec)

lemma queue_steps_ok:
  "queue_steps Q v v' \<Longrightarrow> codec_ok Q \<Longrightarrow> queue_ok Q v \<Longrightarrow> queue_ok Q v' \<and> view_le v v'"
proof (induction rule: rtranclp_induct)
  case (step u w)
  then have "queue_ok Q u" "view_le v u" by auto
  with step show ?case
    using queue_step_ok [of Q u w] queue_step_le [of Q u w] view_le_trans [of v u w]
    by (auto simp: queue_ok_def)
qed simp

section \<open>Steps on the abstract queue\<close>

lemma abs_register:
  assumes "queue_ok Q v" "codec_ok Q" "queue_next Q v < max_index" "qcIndex Q e = queue_next Q v"
  shows "abs_queue Q (exec_ops [OpPut (entry_key Q (queue_next Q v)) (Json (qcDoc Q e)),
      OpPut (qcWriteIndex Q) (Text (Itoa (queue_next Q v + 1)))] v) = aq_register e (abs_queue Q v)"
    (is "abs_queue Q ?v' = _")
proof -
  have wf: "wf_view v" and n: "0 \<le> queue_next Q v" using assms(1) by (auto simp: queue_ok_def)
  have "queue_next Q ?v' = queue_next Q v + 1"
    by (rule queue_next_text) (use wf n assms(3) in \<open>auto simp: value_at_put2\<close>)
  moreover have "entry_at Q ?v' = (entry_at Q v)(queue_next Q v \<mapsto> e)"
    using wf n assms entry_key_inj [of _ "queue_next Q v" Q] entry_key_windex [OF assms(2)]
    by (auto simp: fun_eq_iff entry_at_def value_at_put2 codec_ok_def)
  ultimately show ?thesis by (simp add: abs_queue_def aq_register_def)
qed

lemma abs_update:
  assumes "queue_ok Q v" "codec_ok Q" "entry_at Q v (qcIndex Q e) \<noteq> None"
  shows "abs_queue Q (exec_ops [OpPut (entry_key Q (qcIndex Q e)) (Json (qcDoc Q e))] v) =
    aq_update (qcIndex Q e) e (abs_queue Q v)" (is "abs_queue Q ?v' = _")
proof -
  have wf: "wf_view v" using assms(1) by (simp add: queue_ok_def)
  have i: "0 \<le> qcIndex Q e" "qcIndex Q e \<le> max_index" using entry_at_value [OF assms(3)] by simp_all
  have "queue_next Q ?v' = queue_next Q v"
    using wf entry_key_windex [OF assms(2), of "qcIndex Q e"] by (intro queue_next_cong) (auto simp: value_at_put)
  moreover have "entry_at Q ?v' = (entry_at Q v)(qcIndex Q e \<mapsto> e)"
    using wf i assms(2) entry_key_inj [of _ "qcIndex Q e" Q]
    by (auto simp: fun_eq_iff entry_at_def value_at_put codec_ok_def)
  ultimately show ?thesis by (simp add: abs_queue_def aq_update_def)
qed

lemma abs_delete:
  assumes "queue_ok Q v" "codec_ok Q" "0 \<le> i" "i \<le> max_index"
  shows "abs_queue Q (exec_ops [OpDelete (entry_key Q i)] v) = aq_delete i (abs_queue Q v)"
    (is "abs_queue Q ?v' = _")
proof -
  have wf: "wf_view v" using assms(1) by (simp add: queue_ok_def)
  have "queue_next Q ?v' = queue_next Q v"
    using wf entry_key_windex [OF assms(2), of i] by (intro queue_next_cong) (auto simp: value_at_delete)
  moreover have "entry_at Q ?v' = (entry_at Q v)(i := None)"
    using wf assms entry_key_inj [of _ i Q] by (auto simp: fun_eq_iff entry_at_def value_at_delete)
  ultimately show ?thesis by (simp add: abs_queue_def aq_delete_def)
qed

lemma entry_at_fresh: "queue_ok Q v \<Longrightarrow> entry_at Q v (queue_next Q v) = None"
  using entry_at_next [of Q v "queue_next Q v"] by blast

text \<open>Every key of the queue is an entry.\<close>

lemma queue_key_entry:
  assumes ok: "queue_ok Q v" and codec: "codec_ok Q" and i: "0 \<le> i" "i \<le> max_index"
    and x: "kv_find (entry_key Q i) (evKVs v) = Some x"
  shows "\<exists>e. kvValue x = Json (qcDoc Q e) \<and> entry_at Q v i = Some e \<and> qcIndex Q e = i"
proof -
  have mem: "x \<in> set (kv_prefix (qcPrefix Q) (evKVs v))" "kvKey x = entry_key Q i"
    using kv_find_Some [OF x] by (auto simp: kv_prefix_def)
  then obtain j e where "0 \<le> j" "j < queue_next Q v" "kvKey x = entry_key Q j"
    "kvValue x = Json (qcDoc Q e)" "qcIndex Q e = j"
    using ok by (auto simp: queue_ok_def queue_kv_ok_def)
  moreover from this have "j = i"
    using mem i ok entry_key_inj [of i j Q] by (auto simp: queue_ok_def)
  ultimately show ?thesis
    using x i codec by (auto simp: entry_at_def value_at_def codec_ok_def)
qed

end
