(* ===== verification/CKE_QueueOps.thy ===== *)
theory CKE_QueueOps
  imports CKE_QueueStore
begin

text \<open>
  The operations of a stored queue against the abstract queue, while other clients change the store
  between any two requests. \<open>queue_contract\<close> is what the callers rely on; \<open>queue_storage\<close> is the shape
  of the code, from which the contract follows; the reboot queue and the repair queue interpret it.
\<close>

section \<open>The contract\<close>

text \<open>The put of a registration, when the compare on the write index succeeds.\<close>

definition register_ops :: "'e queue_codec \<Rightarrow> int \<Rightarrow> 'e \<Rightarrow> etcd_op list" where
  "register_ops Q i r = [OpPut (entry_key Q i) (Json (qcDoc Q (qcSetIndex Q i r))),
     OpPut (qcWriteIndex Q) (Text (Itoa (wrap64 (i + 1))))]"

text \<open>
  What an operation may do to the store: steps of the queue. Only a registration under the last 64-bit
  index does something else: the write index wraps around to a negative number.
\<close>

definition moves :: "'e queue_codec \<Rightarrow> etcd_view \<Rightarrow> etcd_view \<Rightarrow> bool" where
  "moves Q v v' \<longleftrightarrow> queue_steps Q v v' \<or>
     (\<exists>w r. queue_steps Q v w \<and> queue_next Q w = max_index \<and> v' = exec_ops (register_ops Q max_index r) w)"

lemma moves_wrapped:
  assumes "moves Q v v'" "codec_ok Q" "queue_ok Q v"
  shows "queue_ok Q v' \<or> queue_next Q v' = - (2 ^ 63)"
  using assms(1) unfolding moves_def
proof (elim disjE exE conjE)
  fix w r assume "queue_steps Q v w" and v': "v' = exec_ops (register_ops Q max_index r) w"
  then have "wf_view w" using queue_steps_ok [of Q v w] assms by (auto simp: queue_ok_def)
  then have "value_at (qcWriteIndex Q) v' = Some (Text (Itoa (wrap64 (max_index + 1))))"
    using v' by (simp add: register_ops_def value_at_put2)
  moreover have "wrap64 (max_index + 1) = - (2 ^ 63)" by (simp add: wrap64_def max_index_def)
  ultimately show ?thesis
    using ParseInt_Itoa [of "- (2 ^ 63)"] by (simp add: queue_next_def)
qed (use queue_steps_ok assms in blast)

locale queue_contract =
  fixes Q :: "'e queue_codec"
    and register :: "nat \<Rightarrow> 's etcd_client \<Rightarrow> 'e \<Rightarrow> ('s, 'e) action"
    and update :: "nat \<Rightarrow> 's etcd_client \<Rightarrow> 'e \<Rightarrow> ('s, unit) action"
    and get :: "'s etcd_client \<Rightarrow> int \<Rightarrow> ('s, 'e) action"
    and entries :: "'s etcd_client \<Rightarrow> ('s, 'e list) action"
    and delete :: "'s etcd_client \<Rightarrow> string \<Rightarrow> int \<Rightarrow> ('s, unit) action"
  assumes codec: "codec_ok Q"
    and register_ok: "etcd_ok (queue_steps Q) view E \<Longrightarrow> queue_ok Q (view s) \<Longrightarrow>
      register n E r s = (Ok r', s') \<Longrightarrow>
      \<exists>v. queue_steps Q (view s) v \<and> r' = qcSetIndex Q (queue_next Q v) r \<and>
        (queue_next Q v < max_index \<longrightarrow>
           queue_step Q v (view s') \<and> abs_queue Q (view s') = aq_register r' (abs_queue Q v))"
    and register_steps: "etcd_ok (queue_steps Q) view E \<Longrightarrow> queue_ok Q (view s) \<Longrightarrow>
      moves Q (view s) (view (snd (register n E r s)))"
    and update_ok: "etcd_ok (queue_steps Q) view E \<Longrightarrow> queue_ok Q (view s) \<Longrightarrow>
      0 \<le> qcIndex Q e \<Longrightarrow> qcIndex Q e \<le> max_index \<Longrightarrow> update n E e s = (Ok (), s') \<Longrightarrow>
      \<exists>v. queue_steps Q (view s) v \<and> entry_at Q v (qcIndex Q e) \<noteq> None \<and>
        abs_queue Q (view s') = aq_update (qcIndex Q e) e (abs_queue Q v)"
    and update_missing: "etcd_ok (queue_steps Q) view E \<Longrightarrow> queue_ok Q (view s) \<Longrightarrow>
      update n E e s = (Err ErrNotFound, s') \<Longrightarrow>
      queue_steps Q (view s) (view s') \<and> entry_at Q (view s') (qcIndex Q e) = None"
    and update_steps: "etcd_ok (queue_steps Q) view E \<Longrightarrow> queue_ok Q (view s) \<Longrightarrow>
      0 \<le> qcIndex Q e \<Longrightarrow> qcIndex Q e \<le> max_index \<Longrightarrow>
      queue_steps Q (view s) (view (snd (update n E e s)))"
    and get_ok: "etcd_ok (queue_steps Q) view E \<Longrightarrow> queue_ok Q (view s) \<Longrightarrow>
      0 \<le> i \<Longrightarrow> i \<le> max_index \<Longrightarrow> get E i s = (Ok e, s') \<Longrightarrow>
      queue_steps Q (view s) (view s') \<and> entry_at Q (view s') i = Some e"
    and get_missing: "etcd_ok (queue_steps Q) view E \<Longrightarrow> queue_ok Q (view s) \<Longrightarrow>
      get E i s = (Err ErrNotFound, s') \<Longrightarrow>
      queue_steps Q (view s) (view s') \<and> entry_at Q (view s') i = None"
    and get_steps: "etcd_ok (queue_steps Q) view E \<Longrightarrow> queue_steps Q (view s) (view (snd (get E i s)))"
    and entries_ok: "etcd_ok (queue_steps Q) view E \<Longrightarrow> queue_ok Q (view s) \<Longrightarrow>
      entries E s = (Ok es, s') \<Longrightarrow> queue_steps Q (view s) (view s') \<and> sorted_wrt (<) (map (qcIndex Q) es) \<and>
        (\<forall>i e. entry_at Q (view s') i = Some e \<longleftrightarrow> e \<in> set es \<and> qcIndex Q e = i)"
    and delete_ok: "etcd_ok (queue_steps Q) view E \<Longrightarrow> queue_ok Q (view s) \<Longrightarrow>
      0 \<le> i \<Longrightarrow> i \<le> max_index \<Longrightarrow> delete E leaderKey i s = (Ok (), s') \<Longrightarrow>
      \<exists>v. queue_steps Q (view s) v \<and> kv_find leaderKey (evKVs v) \<noteq> None \<and>
        abs_queue Q (view s') = aq_delete i (abs_queue Q v)"
    and delete_no_leader: "etcd_ok (queue_steps Q) view E \<Longrightarrow>
      delete E leaderKey i s = (Err ErrNoLeader, s') \<Longrightarrow>
      queue_steps Q (view s) (view s') \<and> kv_find leaderKey (evKVs (view s')) = None"
    and delete_steps: "etcd_ok (queue_steps Q) view E \<Longrightarrow>
      queue_steps Q (view s) (view (snd (delete E leaderKey i s)))"
begin

lemma register_fresh:
  assumes "etcd_ok (queue_steps Q) view E" "queue_ok Q (view s)" "register n E r s = (Ok r', s')"
    "qcIndex Q r' < max_index"
  shows "\<exists>v. queue_steps Q (view s) v \<and> entry_at Q v (qcIndex Q r') = None \<and>
    r' = qcSetIndex Q (aqNext (abs_queue Q v)) r \<and>
    abs_queue Q (view s') = aq_register r' (abs_queue Q v)"
proof -
  obtain v where v: "queue_steps Q (view s) v" "r' = qcSetIndex Q (queue_next Q v) r"
    "queue_next Q v < max_index \<longrightarrow>
       queue_step Q v (view s') \<and> abs_queue Q (view s') = aq_register r' (abs_queue Q v)"
    using register_ok [OF assms(1-3)] by blast
  have ok: "queue_ok Q v" using queue_steps_ok [OF v(1) codec assms(2)] by simp
  have "qcIndex Q r' = queue_next Q v" using v(2) codec by (simp add: codec_ok_def)
  then show ?thesis
    using v assms(4) entry_at_fresh [OF ok] by auto
qed

text \<open>
  Whatever the outcome, an operation leaves a queue that satisfies the invariant, except for the
  wrap-around of the write index.
\<close>

lemma operations_keep_invariant:
  assumes E: "etcd_ok (queue_steps Q) view E" and ok: "queue_ok Q (view s)"
  shows "0 \<le> queue_next Q (view (snd (register n E r s))) \<Longrightarrow> queue_ok Q (view (snd (register n E r s)))"
    "0 \<le> qcIndex Q e \<Longrightarrow> qcIndex Q e \<le> max_index \<Longrightarrow> queue_ok Q (view (snd (update n E e s)))"
    "queue_ok Q (view (snd (delete E leaderKey i s)))"
    "queue_ok Q (view (snd (get E i s)))"
  using moves_wrapped [OF register_steps [OF E ok] codec ok] update_steps [OF E ok] delete_steps [OF E]
    get_steps [OF E] queue_steps_ok [OF _ codec ok] by fastforce+

end

section \<open>The shape of the code\<close>

locale queue_storage =
  fixes Q :: "'e queue_codec"
    and register :: "nat \<Rightarrow> 's etcd_client \<Rightarrow> 'e \<Rightarrow> ('s, 'e) action"
    and update :: "nat \<Rightarrow> 's etcd_client \<Rightarrow> 'e \<Rightarrow> ('s, unit) action"
    and get :: "'s etcd_client \<Rightarrow> int \<Rightarrow> ('s, 'e) action"
    and entries :: "'s etcd_client \<Rightarrow> ('s, 'e list) action"
    and delete :: "'s etcd_client \<Rightarrow> string \<Rightarrow> int \<Rightarrow> ('s, unit) action"
  assumes coding: "codec_ok Q"
    and register_0: "register 0 E r s = (Retrying, s)"
    and register_Suc: "register (Suc n) E r =
      andThen (etcd_Do E (OpGet (qcWriteIndex Q))) (\<lambda>kvs. case write_index E kvs of
          None \<Rightarrow> return_err (ErrOther ''invalid write index'')
        | Some (i, m) \<Rightarrow>
            andThen (etcd_Txn E [ModRevisionIs (qcWriteIndex Q) m]
                [OpPut (entry_key Q i) (Json (qcDoc Q (qcSetIndex Q i r))),
                 OpPut (qcWriteIndex Q) (Text (Itoa (wrap64 (i + 1))))])
              (\<lambda>(succeeded, _). if \<not> succeeded then register n E r else return_ok (qcSetIndex Q i r)))"
    and update_0: "update 0 E e s = (Retrying, s)"
    and update_Suc: "update (Suc n) E e =
      andThen (etcd_Do E (OpGet (entry_key Q (qcIndex Q e)))) (\<lambda>kvs. case kvs of
          [] \<Rightarrow> return_err ErrNotFound
        | kv # _ \<Rightarrow>
            andThen (etcd_Txn E [ModRevisionIs (entry_key Q (qcIndex Q e)) (kvModRevision kv)]
                [OpPut (entry_key Q (qcIndex Q e)) (Json (qcDoc Q e))])
              (\<lambda>(succeeded, _). if \<not> succeeded then update n E e else return_ok ()))"
    and get_eq: "get E i = get_json E (qcDest Q) (entry_key Q i)"
    and entries_eq: "entries E =
      andThen (etcd_Do E (OpGetPrefix (qcPrefix Q) SortAscend 0)) (\<lambda>kvs. unmarshal_all (qcDest Q) kvs)"
    and delete_eq: "delete E leaderKey i = leader_txn E leaderKey [OpDelete (entry_key Q i)]"

lemma write_index_ok:
  assumes "queue_ok Q v"
  shows "write_index E (filter (\<lambda>x. kvKey x = qcWriteIndex Q) (evKVs v)) =
    Some (queue_next Q v, revision_of (qcWriteIndex Q) v)"
proof -
  have wf: "wf_view v" and n: "0 \<le> queue_next Q v" "queue_next Q v \<le> max_index"
    using assms by (auto simp: queue_ok_def)
  show ?thesis
  proof (cases "kv_find (qcWriteIndex Q) (evKVs v)")
    case None
    then show ?thesis
      using wf by (simp add: write_index_def filter_key_find wf_view_sorted revision_of_def queue_next_def
          value_at_def)
  next
    case (Some x)
    then have "kvValue x = Text (Itoa (queue_next Q v))"
      using queue_ok_value [OF assms] by (auto simp: value_at_def)
    then show ?thesis
      using wf Some n ParseInt_Itoa [of "queue_next Q v"]
      by (simp add: write_index_def filter_key_find wf_view_sorted revision_of_def value_text_def max_index_def)
  qed
qed

lemma register_ops_step:
  assumes "queue_ok Q v" "codec_ok Q" "queue_next Q v < max_index" "i = queue_next Q v"
  shows "queue_step Q v (exec_ops (register_ops Q i r) v) \<and>
    abs_queue Q (exec_ops (register_ops Q i r) v) = aq_register (qcSetIndex Q i r) (abs_queue Q v)"
proof -
  have "wrap64 (i + 1) = i + 1"
    using assms by (intro wrap64_id) (auto simp: queue_ok_def max_index_def)
  then show ?thesis
    using assms abs_register [of Q v "qcSetIndex Q i r"] queue_step.register [of Q v "qcSetIndex Q i r"]
    by (auto simp: register_ops_def codec_ok_def)
qed

lemma cas_next:
  assumes "queue_ok Q v" "queue_steps Q v w" "codec_ok Q"
    "cmp_holds (evKVs w) (ModRevisionIs (qcWriteIndex Q) (revision_of (qcWriteIndex Q) v))"
  shows "queue_ok Q w \<and> queue_next Q w = queue_next Q v"
proof -
  have w: "queue_ok Q w" "view_le v w" using queue_steps_ok assms by blast+
  have "kv_find (qcWriteIndex Q) (evKVs w) = kv_find (qcWriteIndex Q) (evKVs v)"
    by (rule cas_unchanged) (use w assms in \<open>auto simp: queue_ok_def\<close>)
  then show ?thesis using w queue_next_cong [of Q w v] by (simp add: value_at_def)
qed

lemma cas_entry:
  assumes "queue_ok Q v" "queue_steps Q v w" "codec_ok Q" "0 \<le> i" "i \<le> max_index"
    "kv_find (entry_key Q i) (evKVs v) \<noteq> None"
    "cmp_holds (evKVs w) (ModRevisionIs (entry_key Q i) (revision_of (entry_key Q i) v))"
  shows "queue_ok Q w \<and> entry_at Q w i \<noteq> None"
proof -
  have w: "queue_ok Q w" "view_le v w" using queue_steps_ok assms by blast+
  have "kv_find (entry_key Q i) (evKVs w) = kv_find (entry_key Q i) (evKVs v)"
    by (rule cas_unchanged) (use w assms in \<open>auto simp: queue_ok_def\<close>)
  then show ?thesis using w assms queue_key_entry [of Q w i] by fastforce
qed

lemma moves_pre: "queue_steps Q u v \<Longrightarrow> moves Q v w \<Longrightarrow> moves Q u w"
  by (auto simp: moves_def intro: rtranclp_trans)

lemma moves_step: "queue_steps Q u v \<Longrightarrow> queue_step Q v w \<Longrightarrow> moves Q u w"
  by (simp add: moves_def rtranclp.rtrancl_into_rtrancl)

lemma andThen_moves:
  assumes "R (view s) (view (snd (m s)))" "\<And>x s'. m s = (Ok x, s') \<Longrightarrow> R (view s) (view (snd (f x s')))"
  shows "R (view s) (view (snd (andThen m f s)))"
  using assms by (cases "m s"; cases "fst (m s)") auto

lemma get_moves: "etcd_ok rely view E \<Longrightarrow> rely (view s) (view (snd (etcd_Do E (OpGet k) s)))"
  by (rule etcd_ok_Do [of rely view E s "OpGet k"])
    (auto simp: do_ok_def etcd_Do_def split: prod.splits sum.splits)

lemma txn_moves:
  assumes "etcd_ok rely view E"
  obtains w where "rely (view s) w" "view (snd (etcd_Txn E cs ops s)) = w \<or>
    list_all (cmp_holds (evKVs w)) cs \<and> view (snd (etcd_Txn E cs ops s)) = exec_ops ops w"
proof -
  obtain v where v: "rely (view s) v"
    "txn_ok cs ops v (fst (ecTxn E cs ops s)) (view (snd (ecTxn E cs ops s)))"
    by (rule etcd_ok_Txn [OF assms])
  have "snd (etcd_Txn E cs ops s) = snd (ecTxn E cs ops s)"
    by (simp add: etcd_Txn_def split: prod.split sum.split)
  with v(2) have "view (snd (etcd_Txn E cs ops s)) = v \<or>
      list_all (cmp_holds (evKVs v)) cs \<and> view (snd (etcd_Txn E cs ops s)) = exec_ops ops v"
    by (cases "fst (ecTxn E cs ops s)") (auto simp: txn_ok_def split: if_splits prod.splits)
  with v(1) that show ?thesis by blast
qed

lemma list_all_one: "list_all P [x] = P x"
  by simp

text \<open>The entries in the keys of a queue.\<close>

lemma unmarshal_all_docs:
  assumes "\<forall>e. dest (doc e) = Some e" "\<forall>x \<in> set kvs. \<exists>e. kvValue x = Json (doc e)"
  shows "\<exists>es. unmarshal_all dest kvs = (return_ok es :: ('s, 'e list) action) \<and>
    map kvValue kvs = map (\<lambda>e. Json (doc e)) es"
  using assms(2)
proof (induction kvs)
  case (Cons x xs)
  then obtain es where es: "unmarshal_all dest xs = (return_ok es :: ('s, 'e list) action)"
      "map kvValue xs = map (\<lambda>e. Json (doc e)) es"
    by force
  from Cons.prems obtain e where e: "kvValue x = Json (doc e)" by force
  have "unmarshal_all dest (x # xs) = (return_ok (e # es) :: ('s, 'e list) action)"
    using es e assms(1) by (simp add: unmarshal_def fun_eq_iff)
  with es(2) e show ?case by (intro exI [of _ "e # es"]) simp
qed simp

text \<open>The keys of a queue carry the indices of their entries, in ascending order.\<close>

lemma doc_inj: "codec_ok Q \<Longrightarrow> qcDoc Q d = qcDoc Q e \<longleftrightarrow> d = e"
  by (metis codec_ok_def option.inject)

lemma queue_keys:
  assumes ok: "queue_ok Q v" and coding: "codec_ok Q" and sub: "set kvs \<subseteq> set (kv_prefix (qcPrefix Q) (evKVs v))"
    and es: "map kvValue kvs = map (\<lambda>e. Json (qcDoc Q e)) es"
  shows "map kvKey kvs = map (entry_key Q \<circ> qcIndex Q) es"
  using sub es
proof (induction kvs arbitrary: es)
  case (Cons x xs)
  then obtain e es' where e: "es = e # es'" "kvValue x = Json (qcDoc Q e)" by auto
  from Cons.prems have "queue_kv_ok Q (queue_next Q v) x" using ok by (auto simp: queue_ok_def)
  then have "kvKey x = entry_key Q (qcIndex Q e)"
    using e(2) doc_inj [OF coding] by (auto simp: queue_kv_ok_def)
  with Cons e show ?case by simp
qed simp

lemma queue_index_range:
  assumes ok: "queue_ok Q v" and coding: "codec_ok Q" and x: "x \<in> set (kv_prefix (qcPrefix Q) (evKVs v))"
    and e: "kvValue x = Json (qcDoc Q e)"
  shows "0 \<le> qcIndex Q e \<and> qcIndex Q e \<le> max_index"
proof -
  have "queue_kv_ok Q (queue_next Q v) x" "queue_next Q v \<le> max_index"
    using ok x by (auto simp: queue_ok_def)
  then show ?thesis using e doc_inj [OF coding] by (auto simp: queue_kv_ok_def)
qed

lemma entry_key_less:
  "0 \<le> i \<Longrightarrow> i \<le> max_index \<Longrightarrow> 0 \<le> j \<Longrightarrow> j \<le> max_index \<Longrightarrow> entry_key Q i < entry_key Q j \<longleftrightarrow> i < j"
  by (simp add: entry_key_def max_index_def append_less_cancel hex016_less)

lemma kv_find_mem: "sorted_wrt (<) (map kvKey kvs) \<Longrightarrow> x \<in> set kvs \<Longrightarrow> kv_find (kvKey x) kvs = Some x"
  by (induction kvs) (auto simp: kv_find_def)

lemma queue_listing:
  assumes ok: "queue_ok Q v" and coding: "codec_ok Q"
    and es: "map kvValue (kv_prefix (qcPrefix Q) (evKVs v)) = map (\<lambda>e. Json (qcDoc Q e)) es"
  shows "sorted_wrt (<) (map (qcIndex Q) es)"
    "entry_at Q v i = Some e \<longleftrightarrow> e \<in> set es \<and> qcIndex Q e = i"
proof -
  let ?kvs = "kv_prefix (qcPrefix Q) (evKVs v)"
  have sorted: "sorted_wrt (<) (map kvKey (evKVs v))" using ok by (auto simp: queue_ok_def)
  have keys: "map kvKey ?kvs = map (entry_key Q \<circ> qcIndex Q) es"
    by (rule queue_keys [OF ok coding _ es]) simp
  have mem: "\<exists>x \<in> set ?kvs. kvValue x = Json (qcDoc Q e) \<and> kvKey x = entry_key Q (qcIndex Q e)"
    if "e \<in> set es" for e
  proof -
    from that obtain j where "j < length es" "e = es ! j" by (auto simp: in_set_conv_nth)
    moreover have "length es = length ?kvs" using es by (metis length_map)
    ultimately show ?thesis
      using arg_cong [OF es, of "\<lambda>l. l ! j"] arg_cong [OF keys, of "\<lambda>l. l ! j"] nth_mem by fastforce
  qed
  have range: "0 \<le> qcIndex Q e \<and> qcIndex Q e \<le> max_index" if "e \<in> set es" for e
    using mem [OF that] queue_index_range [OF ok coding] by blast
  have "sorted_wrt (\<lambda>d e. entry_key Q (qcIndex Q d) < entry_key Q (qcIndex Q e)) es"
    using kv_prefix_sorted [OF sorted, of "qcPrefix Q"] unfolding keys by (simp add: sorted_wrt_map)
  then show "sorted_wrt (<) (map (qcIndex Q) es)"
    unfolding sorted_wrt_map
    by (rule sorted_wrt_mono_rel [rotated]) (use range entry_key_less [of _ _ Q] in blast)
  show "entry_at Q v i = Some e \<longleftrightarrow> e \<in> set es \<and> qcIndex Q e = i"
  proof
    assume e: "entry_at Q v i = Some e"
    have i: "0 \<le> i" "i \<le> max_index" using entry_at_value [of Q v i] e by auto
    obtain x where x: "kv_find (entry_key Q i) (evKVs v) = Some x"
      using entry_at_value [of Q v i] e by (auto simp: value_at_def)
    have "x \<in> set ?kvs" using kv_find_Some [OF x] by (auto simp: kv_prefix_def)
    then have "kvValue x \<in> set (map kvValue ?kvs)" by simp
    then obtain d where "d \<in> set es" "kvValue x = Json (qcDoc Q d)" unfolding es by auto
    then show "e \<in> set es \<and> qcIndex Q e = i"
      using queue_key_entry [OF ok coding i x] e doc_inj [OF coding] by auto
  next
    assume e: "e \<in> set es \<and> qcIndex Q e = i"
    then obtain x where "x \<in> set ?kvs" "kvValue x = Json (qcDoc Q e)" "kvKey x = entry_key Q i"
      using mem by blast
    moreover from this have "kv_find (entry_key Q i) (evKVs v) = Some x"
      using kv_find_mem [OF sorted, of x] by (simp add: kv_prefix_def)
    ultimately show "entry_at Q v i = Some e"
      using range e coding by (auto simp: entry_at_def value_at_def codec_ok_def)
  qed
qed

context queue_storage
begin

lemma register_round:
  assumes E: "etcd_ok (queue_steps Q) view E" and ok: "queue_ok Q (view s)"
    and get: "etcd_Do E (OpGet (qcWriteIndex Q)) s = (Ok kvs, s1)"
  shows "queue_steps Q (view s) (view s1) \<and> queue_ok Q (view s1) \<and>
    write_index E kvs = Some (queue_next Q (view s1), revision_of (qcWriteIndex Q) (view s1))"
proof -
  obtain v where v: "queue_steps Q (view s) v" "kvs = filter (\<lambda>x. kvKey x = qcWriteIndex Q) (evKVs v)"
    "view s1 = v"
    by (rule get_answer [OF E get])
  have "queue_ok Q v" using queue_steps_ok [OF v(1) coding ok] by simp
  then show ?thesis using v write_index_ok by simp
qed

lemma register_unfold:
  assumes "etcd_Do E (OpGet (qcWriteIndex Q)) s = (Ok kvs, s1)"
    "write_index E kvs = Some (i, revision_of (qcWriteIndex Q) (view s1))"
  shows "register (Suc n) E r s =
    andThen (etcd_Txn E [ModRevisionIs (qcWriteIndex Q) (revision_of (qcWriteIndex Q) (view s1))]
       (register_ops Q i r))
      (\<lambda>(succeeded, _). if \<not> succeeded then register n E r else return_ok (qcSetIndex Q i r)) s1"
  using assms by (simp add: register_Suc register_ops_def)

lemma register_law:
  assumes E: "etcd_ok (queue_steps Q) view E"
  shows "queue_ok Q (view s) \<Longrightarrow> register n E r s = (Ok r', s') \<Longrightarrow>
      \<exists>v. queue_steps Q (view s) v \<and> r' = qcSetIndex Q (queue_next Q v) r \<and>
        (queue_next Q v < max_index \<longrightarrow>
           queue_step Q v (view s') \<and> abs_queue Q (view s') = aq_register r' (abs_queue Q v))"
proof (induction n arbitrary: s)
  case 0
  then show ?case by (simp add: register_0)
next
  case (Suc n)
  obtain kvs s1 where get: "etcd_Do E (OpGet (qcWriteIndex Q)) s = (Ok kvs, s1)"
    using Suc.prems(2) unfolding register_Suc andThen_Ok by blast
  note r1 = register_round [OF E Suc.prems(1) get]
  let ?i = "queue_next Q (view s1)" and ?m = "revision_of (qcWriteIndex Q) (view s1)"
  have unf: "register (Suc n) E r s =
      andThen (etcd_Txn E [ModRevisionIs (qcWriteIndex Q) ?m] (register_ops Q ?i r))
        (\<lambda>(succeeded, _). if \<not> succeeded then register n E r else return_ok (qcSetIndex Q ?i r)) s1"
    by (rule register_unfold [OF get]) (use r1 in simp)
  obtain b rs s2 where txn: "etcd_Txn E [ModRevisionIs (qcWriteIndex Q) ?m] (register_ops Q ?i r) s1 = (Ok (b, rs), s2)"
    and rest: "(if \<not> b then register n E r else return_ok (qcSetIndex Q ?i r)) s2 = (Ok r', s')"
    using Suc.prems(2) [unfolded unf andThen_Ok] by (auto split: prod.splits)
  obtain w where w: "queue_steps Q (view s1) w" "b = cmp_holds (evKVs w) (ModRevisionIs (qcWriteIndex Q) ?m)"
    "view s2 = (if b then exec_ops (register_ops Q ?i r) w else w)"
    by (rule etcd_Txn_Ok [OF E txn]) (simp only: list_all_one simp_thms)
  have sw: "queue_steps Q (view s) w"
    using r1 w(1) rtranclp_trans [of "queue_step Q" "view s" "view s1" w] by simp
  show ?case
  proof (cases b)
    case True
    then have w': "queue_ok Q w" "queue_next Q w = ?i"
      using cas_next [OF _ w(1) coding] r1 w(2) by blast+
    have "r' = qcSetIndex Q (queue_next Q w) r" "view s' = exec_ops (register_ops Q ?i r) w"
      using True rest w(3) w'(2) by simp_all
    with sw w' show ?thesis
      using register_ops_step [OF w'(1) coding] by metis
  next
    case False
    then have "view s2 = w" using w(3) by simp
    then have "queue_ok Q (view s2)" "queue_steps Q (view s) (view s2)"
      using queue_steps_ok [OF sw coding Suc.prems(1)] sw by simp_all
    moreover have "register n E r s2 = (Ok r', s')" using rest False by simp
    ultimately show ?thesis
      using Suc.IH [of s2] rtranclp_trans [of "queue_step Q" "view s" "view s2"] by fast
  qed
qed

lemma register_put_moves:
  assumes E: "etcd_ok (queue_steps Q) view E" and ok: "queue_ok Q (view s)"
  shows "moves Q (view s) (view (snd (etcd_Txn E
    [ModRevisionIs (qcWriteIndex Q) (revision_of (qcWriteIndex Q) (view s))]
    (register_ops Q (queue_next Q (view s)) r) s)))" (is "moves Q _ ?v'")
proof -
  let ?i = "queue_next Q (view s)"
  obtain w where w: "queue_steps Q (view s) w" "?v' = w \<or>
      cmp_holds (evKVs w) (ModRevisionIs (qcWriteIndex Q) (revision_of (qcWriteIndex Q) (view s))) \<and>
      ?v' = exec_ops (register_ops Q ?i r) w"
    by (rule txn_moves [OF E, of s]) (auto simp del: cmp_holds.simps)
  then show ?thesis
  proof (elim disjE conjE)
    assume cmp: "cmp_holds (evKVs w) (ModRevisionIs (qcWriteIndex Q) (revision_of (qcWriteIndex Q) (view s)))"
      and v': "?v' = exec_ops (register_ops Q ?i r) w"
    have w': "queue_ok Q w" "queue_next Q w = ?i" using cas_next [OF ok w(1) coding cmp] by auto
    show ?thesis
    proof (cases "?i < max_index")
      case True
      with w' have "queue_step Q w ?v'" unfolding v' using register_ops_step [OF w'(1) coding] by metis
      with w(1) show ?thesis by (rule moves_step)
    next
      case False
      then have "?i = max_index" using w' by (simp add: queue_ok_def)
      then show ?thesis using w' w(1) v' by (auto simp: moves_def)
    qed
  qed (simp add: moves_def w(1))
qed

lemma register_moves:
  assumes E: "etcd_ok (queue_steps Q) view E"
  shows "queue_ok Q (view s) \<Longrightarrow> moves Q (view s) (view (snd (register n E r s)))"
proof (induction n arbitrary: s)
  case 0
  then show ?case by (simp add: register_0 moves_def)
next
  case (Suc n)
  show ?case
    unfolding register_Suc
  proof (rule andThen_moves)
    show "moves Q (view s) (view (snd (etcd_Do E (OpGet (qcWriteIndex Q)) s)))"
      using get_moves [OF E] by (simp add: moves_def)
    fix kvs s1 assume get: "etcd_Do E (OpGet (qcWriteIndex Q)) s = (Ok kvs, s1)"
    note r1 = register_round [OF E Suc.prems get]
    let ?i = "queue_next Q (view s1)" and ?m = "revision_of (qcWriteIndex Q) (view s1)"
    have "moves Q (view s1) (view (snd (andThen (etcd_Txn E [ModRevisionIs (qcWriteIndex Q) ?m]
        (register_ops Q ?i r)) (\<lambda>(b, _). if \<not> b then register n E r else return_ok (qcSetIndex Q ?i r)) s1)))"
    proof (rule andThen_moves)
      show put: "moves Q (view s1) (view (snd (etcd_Txn E [ModRevisionIs (qcWriteIndex Q) ?m]
          (register_ops Q ?i r) s1)))"
        using register_put_moves [OF E] r1 by blast
      fix res s2 assume txn: "etcd_Txn E [ModRevisionIs (qcWriteIndex Q) ?m] (register_ops Q ?i r) s1 = (Ok res, s2)"
      have retry: "moves Q (view s1) (view (snd (register n E r s2)))" if "res = (False, rs)" for rs
      proof -
        have "etcd_Txn E [ModRevisionIs (qcWriteIndex Q) ?m] (register_ops Q ?i r) s1 = (Ok (False, rs), s2)"
          using txn that by simp
        then obtain w where "queue_steps Q (view s1) w" "view s2 = w"
          by (rule etcd_Txn_Ok [OF E]) simp
        then show ?thesis
          using Suc.IH [of s2] queue_steps_ok [OF _ coding] r1 moves_pre by blast
      qed
      from put txn have "moves Q (view s1) (view s2)" by simp
      with retry show "moves Q (view s1) (view (snd ((case res of (b, _) \<Rightarrow>
          if \<not> b then register n E r else return_ok (qcSetIndex Q ?i r)) s2)))"
        by (cases res) auto
    qed
    then show "moves Q (view s) (view (snd ((case write_index E kvs of
          None \<Rightarrow> return_err (ErrOther ''invalid write index'')
        | Some (i, m) \<Rightarrow> andThen (etcd_Txn E [ModRevisionIs (qcWriteIndex Q) m]
              [OpPut (entry_key Q i) (Json (qcDoc Q (qcSetIndex Q i r))),
               OpPut (qcWriteIndex Q) (Text (Itoa (wrap64 (i + 1))))])
            (\<lambda>(succeeded, _). if \<not> succeeded then register n E r else return_ok (qcSetIndex Q i r))) s1)))"
      using r1 moves_pre [of Q "view s" "view s1"] by (simp add: register_ops_def)
  qed
qed

lemma update_round:
  assumes E: "etcd_ok (queue_steps Q) view E" and ok: "queue_ok Q (view s)"
    and get: "etcd_Do E (OpGet (entry_key Q i)) s = (Ok kvs, s1)"
  shows "queue_steps Q (view s) (view s1)" "queue_ok Q (view s1)"
    "kvs = (case kv_find (entry_key Q i) (evKVs (view s1)) of None \<Rightarrow> [] | Some x \<Rightarrow> [x])"
proof -
  obtain v where v: "queue_steps Q (view s) v" "kvs = filter (\<lambda>x. kvKey x = entry_key Q i) (evKVs v)"
    "view s1 = v"
    by (rule get_answer [OF E get])
  have "queue_ok Q v" using queue_steps_ok [OF v(1) coding ok] by simp
  then show "queue_steps Q (view s) (view s1)" "queue_ok Q (view s1)"
    "kvs = (case kv_find (entry_key Q i) (evKVs (view s1)) of None \<Rightarrow> [] | Some x \<Rightarrow> [x])"
    using v by (auto simp: filter_key_find queue_ok_def wf_view_sorted)
qed

lemma missing_entry: "kv_find (entry_key Q i) (evKVs v) = None \<Longrightarrow> entry_at Q v i = None"
  by (simp add: entry_at_def value_at_def)

text \<open>The put of an update round, when the compare on the entry succeeds.\<close>

lemma update_put:
  assumes ok: "queue_ok Q v" and i: "0 \<le> qcIndex Q e" "qcIndex Q e \<le> max_index"
    and x: "kv_find (entry_key Q (qcIndex Q e)) (evKVs v) = Some x" and w: "queue_steps Q v w"
    and cmp: "cmp_holds (evKVs w) (ModRevisionIs (entry_key Q (qcIndex Q e)) (kvModRevision x))"
  shows "entry_at Q w (qcIndex Q e) \<noteq> None"
    "queue_step Q w (exec_ops [OpPut (entry_key Q (qcIndex Q e)) (Json (qcDoc Q e))] w)"
    "abs_queue Q (exec_ops [OpPut (entry_key Q (qcIndex Q e)) (Json (qcDoc Q e))] w) =
       aq_update (qcIndex Q e) e (abs_queue Q w)"
proof -
  have "kvModRevision x = revision_of (entry_key Q (qcIndex Q e)) v"
    using x by (simp add: revision_of_def)
  with cas_entry [OF ok w coding i] x cmp
  have "queue_ok Q w" "entry_at Q w (qcIndex Q e) \<noteq> None" by simp_all
  then show "entry_at Q w (qcIndex Q e) \<noteq> None"
    "queue_step Q w (exec_ops [OpPut (entry_key Q (qcIndex Q e)) (Json (qcDoc Q e))] w)"
    "abs_queue Q (exec_ops [OpPut (entry_key Q (qcIndex Q e)) (Json (qcDoc Q e))] w) =
       aq_update (qcIndex Q e) e (abs_queue Q w)"
    using queue_step.update [of Q w e] abs_update [OF _ coding] by blast+
qed

lemma update_law:
  assumes E: "etcd_ok (queue_steps Q) view E" and i: "0 \<le> qcIndex Q e" "qcIndex Q e \<le> max_index"
  shows "queue_ok Q (view s) \<Longrightarrow> update n E e s = (Ok (), s') \<Longrightarrow>
    \<exists>v. queue_steps Q (view s) v \<and> entry_at Q v (qcIndex Q e) \<noteq> None \<and>
      abs_queue Q (view s') = aq_update (qcIndex Q e) e (abs_queue Q v)"
proof (induction n arbitrary: s)
  case 0
  then show ?case by (simp add: update_0)
next
  case (Suc n)
  let ?k = "entry_key Q (qcIndex Q e)"
  obtain kvs s1 where get: "etcd_Do E (OpGet ?k) s = (Ok kvs, s1)"
    using Suc.prems(2) unfolding update_Suc andThen_Ok by blast
  note r1 = update_round [OF E Suc.prems(1) get]
  obtain x where x: "kv_find ?k (evKVs (view s1)) = Some x" "kvs = [x]"
    using r1(3) Suc.prems(2) get by (cases "kv_find ?k (evKVs (view s1))") (simp_all add: update_Suc)
  obtain b rs s2 where txn: "etcd_Txn E [ModRevisionIs ?k (kvModRevision x)] [OpPut ?k (Json (qcDoc Q e))] s1 =
      (Ok (b, rs), s2)"
    and rest: "(if \<not> b then update n E e else return_ok ()) s2 = (Ok (), s')"
    using Suc.prems(2) get x(2) by (auto simp: update_Suc andThen_Ok)
  obtain w where w: "queue_steps Q (view s1) w" "b = cmp_holds (evKVs w) (ModRevisionIs ?k (kvModRevision x))"
    "view s2 = (if b then exec_ops [OpPut ?k (Json (qcDoc Q e))] w else w)"
    by (rule etcd_Txn_Ok [OF E txn]) (simp only: list_all_one simp_thms)
  have sw: "queue_steps Q (view s) w"
    using r1(1) w(1) by (rule rtranclp_trans)
  show ?case
  proof (cases b)
    case True
    note put = update_put [OF r1(2) i x(1) w(1)]
    have "view s' = exec_ops [OpPut ?k (Json (qcDoc Q e))] w" using True rest w(3) by simp
    with put(1,3) True w(2) sw show ?thesis by metis
  next
    case False
    then have "view s2 = w" using w(3) by simp
    then have "queue_ok Q (view s2)" "queue_steps Q (view s) (view s2)"
      using queue_steps_ok [OF sw coding Suc.prems(1)] sw by simp_all
    moreover have "update n E e s2 = (Ok (), s')" using rest False by simp
    ultimately show ?thesis
      using Suc.IH [of s2] rtranclp_trans [of "queue_step Q" "view s" "view s2"] by fast
  qed
qed

lemma update_moves:
  assumes E: "etcd_ok (queue_steps Q) view E" and i: "0 \<le> qcIndex Q e" "qcIndex Q e \<le> max_index"
  shows "queue_ok Q (view s) \<Longrightarrow> queue_steps Q (view s) (view (snd (update n E e s)))"
proof (induction n arbitrary: s)
  case 0
  then show ?case by (simp add: update_0)
next
  case (Suc n)
  let ?k = "entry_key Q (qcIndex Q e)"
  show ?case
    unfolding update_Suc
  proof (rule andThen_moves)
    show "queue_steps Q (view s) (view (snd (etcd_Do E (OpGet ?k) s)))" by (rule get_moves [OF E])
    fix kvs s1 assume get: "etcd_Do E (OpGet ?k) s = (Ok kvs, s1)"
    note r1 = update_round [OF E Suc.prems get]
    show "queue_steps Q (view s) (view (snd ((case kvs of [] \<Rightarrow> return_err ErrNotFound
        | kv # _ \<Rightarrow> andThen (etcd_Txn E [ModRevisionIs ?k (kvModRevision kv)] [OpPut ?k (Json (qcDoc Q e))])
            (\<lambda>(succeeded, _). if \<not> succeeded then update n E e else return_ok ())) s1)))"
    proof (cases "kv_find ?k (evKVs (view s1))")
      case (Some x)
      have "queue_steps Q (view s1) (view (snd (andThen
          (etcd_Txn E [ModRevisionIs ?k (kvModRevision x)] [OpPut ?k (Json (qcDoc Q e))])
          (\<lambda>(succeeded, _). if \<not> succeeded then update n E e else return_ok ()) s1)))"
      proof (rule andThen_moves)
        obtain w where w: "queue_steps Q (view s1) w"
          "view (snd (etcd_Txn E [ModRevisionIs ?k (kvModRevision x)] [OpPut ?k (Json (qcDoc Q e))] s1)) = w \<or>
           cmp_holds (evKVs w) (ModRevisionIs ?k (kvModRevision x)) \<and>
           view (snd (etcd_Txn E [ModRevisionIs ?k (kvModRevision x)] [OpPut ?k (Json (qcDoc Q e))] s1)) =
             exec_ops [OpPut ?k (Json (qcDoc Q e))] w"
          by (rule txn_moves [OF E, of s1]) (auto simp del: cmp_holds.simps)
        then show put: "queue_steps Q (view s1) (view (snd (etcd_Txn E [ModRevisionIs ?k (kvModRevision x)]
            [OpPut ?k (Json (qcDoc Q e))] s1)))"
          using update_put(2) [OF r1(2) i Some w(1)] by (metis rtranclp.rtrancl_into_rtrancl)
        fix res s2 assume "etcd_Txn E [ModRevisionIs ?k (kvModRevision x)] [OpPut ?k (Json (qcDoc Q e))] s1 = (Ok res, s2)"
        with put have s2: "queue_steps Q (view s1) (view s2)" by simp
        then have "queue_ok Q (view s2)" using queue_steps_ok [OF _ coding r1(2)] by blast
        with s2 show "queue_steps Q (view s1) (view (snd ((case res of (b, _) \<Rightarrow>
            if \<not> b then update n E e else return_ok ()) s2)))"
          using Suc.IH [of s2] rtranclp_trans [of "queue_step Q" "view s1" "view s2"]
          by (simp split: prod.split)
      qed
      then show ?thesis
        using r1(1,3) Some rtranclp_trans [of "queue_step Q" "view s" "view s1"] by simp
    qed (use r1 in simp)
  qed
qed

lemma update_missing_law:
  assumes E: "etcd_ok (queue_steps Q) view E"
  shows "queue_ok Q (view s) \<Longrightarrow> update n E e s = (Err ErrNotFound, s') \<Longrightarrow>
    queue_steps Q (view s) (view s') \<and> entry_at Q (view s') (qcIndex Q e) = None"
proof (induction n arbitrary: s)
  case 0
  then show ?case by (simp add: update_0)
next
  case (Suc n)
  let ?k = "entry_key Q (qcIndex Q e)"
  obtain kvs s1 where get: "etcd_Do E (OpGet ?k) s = (Ok kvs, s1)"
    using Suc.prems(2) unfolding update_Suc
    by (cases "etcd_Do E (OpGet ?k) s"; cases "fst (etcd_Do E (OpGet ?k) s)")
      (auto simp: etcd_Do_def split: prod.splits sum.splits)
  note r1 = update_round [OF E Suc.prems(1) get]
  show ?case
  proof (cases "kv_find ?k (evKVs (view s1))")
    case None
    then have "s' = s1" using r1(3) Suc.prems(2) get by (simp add: update_Suc)
    with None show ?thesis using r1(1) missing_entry by simp
  next
    case (Some x)
    let ?cs = "[ModRevisionIs ?k (kvModRevision x)]" and ?ops = "[OpPut ?k (Json (qcDoc Q e))]"
    have run: "andThen (etcd_Txn E ?cs ?ops) (\<lambda>(b, _). if \<not> b then update n E e else return_ok ()) s1 =
        (Err ErrNotFound, s')"
      using r1(3) Suc.prems(2) get Some by (simp add: update_Suc)
    obtain rs s2 where txn: "etcd_Txn E ?cs ?ops s1 = (Ok (False, rs), s2)"
      and rest: "update n E e s2 = (Err ErrNotFound, s')"
      using run by (cases "etcd_Txn E ?cs ?ops s1"; cases "fst (etcd_Txn E ?cs ?ops s1)")
        (auto simp: etcd_Txn_def split: prod.splits sum.splits if_splits)
    obtain w where w: "queue_steps Q (view s1) w" "view s2 = w"
      by (rule etcd_Txn_Ok [OF E txn]) simp
    have sw: "queue_steps Q (view s) (view s2)" using r1(1) w by (metis rtranclp_trans)
    then have "queue_ok Q (view s2)" using queue_steps_ok [OF _ coding Suc.prems(1)] by blast
    from Suc.IH [OF this rest] sw show ?thesis by (metis rtranclp_trans)
  qed
qed

lemma get_json_law:
  assumes E: "etcd_ok (queue_steps Q) view E" and ok: "queue_ok Q (view s)"
  shows "0 \<le> i \<Longrightarrow> i \<le> max_index \<Longrightarrow> get E i s = (Ok e, s') \<Longrightarrow>
      queue_steps Q (view s) (view s') \<and> entry_at Q (view s') i = Some e"
    "get E i s = (Err ErrNotFound, s') \<Longrightarrow>
      queue_steps Q (view s) (view s') \<and> entry_at Q (view s') i = None"
proof -
  assume i: "0 \<le> i" "i \<le> max_index" and run: "get E i s = (Ok e, s')"
  obtain kvs s1 where get: "etcd_Do E (OpGet (entry_key Q i)) s = (Ok kvs, s1)"
    using run unfolding get_eq get_json_def andThen_Ok by blast
  note r1 = update_round [OF E ok get]
  obtain x where x: "kv_find (entry_key Q i) (evKVs (view s1)) = Some x" "kvs = [x]"
    using r1(3) run get by (cases "kv_find (entry_key Q i) (evKVs (view s1))") (simp_all add: get_eq get_json_def)
  obtain d where d: "kvValue x = Json (qcDoc Q d)" "entry_at Q (view s1) i = Some d"
    using queue_key_entry [OF r1(2) coding i x(1)] by blast
  have "qcDest Q (qcDoc Q d) = Some d" using coding by (simp add: codec_ok_def)
  then have "e = d" "s' = s1"
    using run get x(2) d(1) by (simp_all add: get_eq get_json_def unmarshal_def)
  with d r1(1) show "queue_steps Q (view s) (view s') \<and> entry_at Q (view s') i = Some e" by simp
next
  assume run: "get E i s = (Err ErrNotFound, s')"
  obtain kvs s1 where get: "etcd_Do E (OpGet (entry_key Q i)) s = (Ok kvs, s1)"
    using run unfolding get_eq get_json_def
    by (cases "etcd_Do E (OpGet (entry_key Q i)) s"; cases "fst (etcd_Do E (OpGet (entry_key Q i)) s)")
      (auto simp: etcd_Do_def split: prod.splits sum.splits)
  note r1 = update_round [OF E ok get]
  have "kvs = []" "s' = s1"
    using run get r1(3)
    by (auto simp: get_eq get_json_def unmarshal_def split: option.splits etcd_value.splits)
  then show "queue_steps Q (view s) (view s') \<and> entry_at Q (view s') i = None"
    using r1 missing_entry by (auto split: option.splits)
qed

lemma get_moves_law:
  assumes E: "etcd_ok (queue_steps Q) view E"
  shows "queue_steps Q (view s) (view (snd (get E i s)))"
  unfolding get_eq get_json_def
proof (rule andThen_moves)
  show "queue_steps Q (view s) (view (snd (etcd_Do E (OpGet (entry_key Q i)) s)))" by (rule get_moves [OF E])
  fix kvs s1 assume get: "etcd_Do E (OpGet (entry_key Q i)) s = (Ok kvs, s1)"
  then show "queue_steps Q (view s) (view (snd ((case kvs of [] \<Rightarrow> return_err ErrNotFound
      | kv # _ \<Rightarrow> unmarshal (qcDest Q) (kvValue kv)) s1)))"
    using get_moves [OF E, of s "entry_key Q i"]
    by (simp add: unmarshal_def split: list.split etcd_value.split option.split)
qed

lemma delete_law:
  assumes E: "etcd_ok (queue_steps Q) view E" and ok: "queue_ok Q (view s)"
    and i: "0 \<le> i" "i \<le> max_index" and run: "delete E leaderKey i s = (Ok (), s')"
  shows "\<exists>v. queue_steps Q (view s) v \<and> kv_find leaderKey (evKVs v) \<noteq> None \<and>
    abs_queue Q (view s') = aq_delete i (abs_queue Q v)"
proof -
  obtain v where v: "queue_steps Q (view s) v" "kv_find leaderKey (evKVs v) \<noteq> None"
    "view s' = exec_ops [OpDelete (entry_key Q i)] v"
    using run unfolding delete_eq by (rule leader_txn_Ok [OF E])
  have "queue_ok Q v" using queue_steps_ok [OF v(1) coding ok] by simp
  from abs_delete [OF this coding i] v show ?thesis by auto
qed

lemma delete_no_leader_law:
  assumes E: "etcd_ok (queue_steps Q) view E" and run: "delete E leaderKey i s = (Err ErrNoLeader, s')"
  shows "queue_steps Q (view s) (view s') \<and> kv_find leaderKey (evKVs (view s')) = None"
proof -
  obtain v where "queue_steps Q (view s) v" "kv_find leaderKey (evKVs v) = None" "view s' = v"
    using run unfolding delete_eq by (rule leader_txn_NoLeader [OF E])
  then show ?thesis by simp
qed

lemma delete_moves:
  assumes E: "etcd_ok (queue_steps Q) view E"
  shows "queue_steps Q (view s) (view (snd (delete E leaderKey i s)))"
  unfolding delete_eq leader_txn_def
proof (rule andThen_moves)
  let ?ops = "[OpDelete (entry_key Q i)]"
  obtain w where w: "queue_steps Q (view s) w"
    "view (snd (etcd_Txn E [KeyExists leaderKey] ?ops s)) = w \<or>
     view (snd (etcd_Txn E [KeyExists leaderKey] ?ops s)) = exec_ops ?ops w"
    by (rule txn_moves [OF E, of s "[KeyExists leaderKey]" ?ops]) blast
  then show put: "queue_steps Q (view s) (view (snd (etcd_Txn E [KeyExists leaderKey] ?ops s)))"
    using queue_step.delete [of Q w i] by (metis rtranclp.rtrancl_into_rtrancl)
  fix res s' assume "etcd_Txn E [KeyExists leaderKey] ?ops s = (Ok res, s')"
  with put show "queue_steps Q (view s) (view (snd ((case res of (b, _) \<Rightarrow>
      if \<not> b then return_err ErrNoLeader else return_ok ()) s')))"
    by (simp split: prod.split)
qed

lemma entries_law:
  assumes E: "etcd_ok (queue_steps Q) view E" and ok: "queue_ok Q (view s)"
    and run: "entries E s = (Ok es, s')"
  shows "queue_steps Q (view s) (view s') \<and> sorted_wrt (<) (map (qcIndex Q) es) \<and>
    (\<forall>i e. entry_at Q (view s') i = Some e \<longleftrightarrow> e \<in> set es \<and> qcIndex Q e = i)"
proof -
  obtain kvs s1 where get: "etcd_Do E (OpGetPrefix (qcPrefix Q) SortAscend 0) s = (Ok kvs, s1)"
    and all: "unmarshal_all (qcDest Q) kvs s1 = (Ok es, s')"
    using run unfolding entries_eq andThen_Ok by blast
  obtain v where v: "queue_steps Q (view s) v" "kvs = kv_prefix (qcPrefix Q) (evKVs v)" "view s1 = v"
    by (rule etcd_Do_Ok [OF E get]) (simp add: limited_def)
  have okv: "queue_ok Q v" using queue_steps_ok [OF v(1) coding ok] by simp
  have docs: "\<forall>x \<in> set kvs. \<exists>e. kvValue x = Json (qcDoc Q e)"
    using okv v(2) by (auto simp: queue_ok_def queue_kv_ok_def)
  have dest: "\<forall>e. qcDest Q (qcDoc Q e) = Some e" using coding by (simp add: codec_ok_def)
  obtain ds where ds: "unmarshal_all (qcDest Q) kvs = (return_ok ds :: ('s, 'e list) action)"
    "map kvValue kvs = map (\<lambda>e. Json (qcDoc Q e)) ds"
    using unmarshal_all_docs [OF dest docs] by blast
  have es: "map kvValue kvs = map (\<lambda>e. Json (qcDoc Q e)) es" "s' = s1"
    using all ds by simp_all
  show ?thesis
    using v es(2) queue_listing [OF okv coding es(1) [unfolded v(2)]] by simp
qed

end

sublocale queue_storage \<subseteq> queue_contract
  by unfold_locales
    (rule coding register_law register_moves update_law update_missing_law update_moves
      get_json_law get_moves_law entries_law delete_law delete_no_leader_law delete_moves; assumption)+

lemma reboots_sel:
  "qcPrefix reboots = KeyRebootsPrefix" "qcWriteIndex reboots = KeyRebootsWriteIndex"
  "qcIndex reboots r = rqIndex r" "qcSetIndex reboots i r = r\<lparr>rqIndex := i\<rparr>" "qcDoc reboots r = JReboot r"
  "qcDest reboots = as_reboot" "entry_key reboots i = rebootsEntryKey i"
  by (simp_all add: reboots_def entry_key_def rebootsEntryKey_def)

lemma repairs_sel:
  "qcPrefix repairs = KeyRepairsPrefix" "qcWriteIndex repairs = KeyRepairsWriteIndex"
  "qcIndex repairs r = reIndex r" "qcSetIndex repairs i r = r\<lparr>reIndex := i\<rparr>" "qcDoc repairs r = JRepair r"
  "qcDest repairs = as_repair" "entry_key repairs i = repairsEntryKey i"
  by (simp_all add: repairs_def entry_key_def repairsEntryKey_def)

lemma codec_reboots: "codec_ok reboots"
  by (simp add: codec_ok_def reboots_sel as_defs HasPrefix_def storage_keys)

lemma codec_repairs: "codec_ok repairs"
  by (simp add: codec_ok_def repairs_sel as_defs HasPrefix_def storage_keys)

interpretation reboots_store: queue_storage reboots RegisterRebootsEntry UpdateRebootsEntry
  GetRebootsEntry GetRebootsEntries DeleteRebootsEntry
  by unfold_locales
    (unfold reboots_sel RegisterRebootsEntry.simps UpdateRebootsEntry.simps GetRebootsEntry_def
      GetRebootsEntries_def DeleteRebootsEntry_def, simp_all add: codec_reboots)

interpretation repairs_store: queue_storage repairs RegisterRepairsEntry UpdateRepairsEntry
  GetRepairsEntry GetRepairsEntries DeleteRepairsEntry
  by unfold_locales
    (unfold repairs_sel RegisterRepairsEntry.simps UpdateRepairsEntry.simps GetRepairsEntry_def
      GetRepairsEntries_def DeleteRepairsEntry_def, simp_all add: codec_repairs)

end
