(* ===== verification/CKE_QueueLive.thy ===== *)
theory CKE_QueueLive
  imports CKE_QueueOps
begin

text \<open>
  What the two queues promise: their operations refine atomic operations on an abstract queue, the
  invariant holds whatever happens, a listing is complete and in the order of registration, and the
  retry loops end once the other clients pause.
\<close>

section \<open>Retry loops end\<close>

text \<open>
  \<open>\<mu> s\<close> bounds how many more times other clients change the store: a request that finds the store
  changed since the previous one uses up a part of it.
\<close>

definition etcd_settles :: "('s \<Rightarrow> nat) \<Rightarrow> ('s \<Rightarrow> etcd_view) \<Rightarrow> 's etcd_client \<Rightarrow> bool" where
  "etcd_settles \<mu> view E \<longleftrightarrow>
     (\<forall>op s. \<exists>v. do_ok op v (fst (ecDo E op s)) (view (snd (ecDo E op s))) \<and>
        \<mu> (snd (ecDo E op s)) \<le> \<mu> s \<and> (v = view s \<or> \<mu> (snd (ecDo E op s)) < \<mu> s)) \<and>
     (\<forall>cs ops s. \<exists>v. txn_ok cs ops v (fst (ecTxn E cs ops s)) (view (snd (ecTxn E cs ops s))) \<and>
        \<mu> (snd (ecTxn E cs ops s)) \<le> \<mu> s \<and> (v = view s \<or> \<mu> (snd (ecTxn E cs ops s)) < \<mu> s))"

lemma settles_Get:
  assumes E: "etcd_settles \<mu> view E" and run: "etcd_Do E (OpGet k) s = (Ok kvs, s')"
  shows "kvs = filter (\<lambda>x. kvKey x = k) (evKVs (view s')) \<and> \<mu> s' \<le> \<mu> s"
proof -
  have do: "ecDo E (OpGet k) s = (Inr kvs, s')"
    using run by (auto simp: etcd_Do_def split: prod.splits sum.splits)
  from E obtain v where "do_ok (OpGet k) v (fst (ecDo E (OpGet k) s)) (view (snd (ecDo E (OpGet k) s)))"
    "\<mu> (snd (ecDo E (OpGet k) s)) \<le> \<mu> s"
    unfolding etcd_settles_def by blast
  then show ?thesis by (simp add: do do_ok_def)
qed

lemma settles_Txn:
  assumes E: "etcd_settles \<mu> view E" and run: "etcd_Txn E cs ops s = (Ok (False, rs), s')"
    and hold: "list_all (cmp_holds (evKVs (view s))) cs"
  shows "\<mu> s' < \<mu> s"
proof -
  have do: "ecTxn E cs ops s = (Inr (False, rs), s')"
    using run by (auto simp: etcd_Txn_def split: prod.splits sum.splits)
  from E obtain v where "txn_ok cs ops v (fst (ecTxn E cs ops s)) (view (snd (ecTxn E cs ops s)))"
    "v = view s \<or> \<mu> (snd (ecTxn E cs ops s)) < \<mu> s"
    unfolding etcd_settles_def by blast
  then show ?thesis using hold by (auto simp: do txn_ok_def)
qed

lemma first_revision_holds:
  "cmp_holds kvs (ModRevisionIs k (case filter (\<lambda>x. kvKey x = k) kvs of [] \<Rightarrow> 0 | x # _ \<Rightarrow> kvModRevision x))"
  by (induction kvs) (auto simp: kv_find_def split: list.splits)

lemma Do_Retrying:
  assumes "fst (andThen (etcd_Do E op) f s) = Retrying"
  obtains kvs s' where "etcd_Do E op s = (Ok kvs, s')" "fst (f kvs s') = Retrying"
  using assms by (cases "ecDo E op s"; cases "fst (ecDo E op s)") (simp_all add: etcd_Do_def andThen_def)

lemma Txn_Retrying:
  assumes "fst (andThen (etcd_Txn E cs ops) f s) = Retrying"
  obtains b rs s' where "etcd_Txn E cs ops s = (Ok (b, rs), s')" "fst (f (b, rs) s') = Retrying"
  using assms by (cases "ecTxn E cs ops s"; cases "fst (ecTxn E cs ops s)") (auto simp: etcd_Txn_def andThen_def)

context queue_storage
begin

lemma register_ends:
  assumes E: "etcd_settles \<mu> view E"
  shows "\<mu> s < n \<Longrightarrow> fst (register n E r s) \<noteq> Retrying"
proof (induction n arbitrary: s)
  case (Suc n)
  show ?case
  proof
    assume "fst (register (Suc n) E r s) = Retrying"
    then obtain kvs s1 where get: "etcd_Do E (OpGet (qcWriteIndex Q)) s = (Ok kvs, s1)"
      and rest: "fst ((case write_index E kvs of
          None \<Rightarrow> return_err (ErrOther ''invalid write index'')
        | Some (i, m) \<Rightarrow> andThen (etcd_Txn E [ModRevisionIs (qcWriteIndex Q) m]
                [OpPut (entry_key Q i) (Json (qcDoc Q (qcSetIndex Q i r))),
                 OpPut (qcWriteIndex Q) (Text (Itoa (wrap64 (i + 1))))])
              (\<lambda>(succeeded, _). if \<not> succeeded then register n E r else return_ok (qcSetIndex Q i r))) s1) = Retrying"
      unfolding register_Suc by (rule Do_Retrying)
    from rest obtain i m where im: "write_index E kvs = Some (i, m)" by (cases "write_index E kvs") auto
    let ?cs = "[ModRevisionIs (qcWriteIndex Q) m]"
    let ?ops = "[OpPut (entry_key Q i) (Json (qcDoc Q (qcSetIndex Q i r))),
      OpPut (qcWriteIndex Q) (Text (Itoa (wrap64 (i + 1))))]"
    have "fst (andThen (etcd_Txn E ?cs ?ops) (\<lambda>(succeeded, _).
        if \<not> succeeded then register n E r else return_ok (qcSetIndex Q i r)) s1) = Retrying"
      using rest im by simp
    then obtain rs s2 where txn: "etcd_Txn E ?cs ?ops s1 = (Ok (False, rs), s2)"
      and again: "fst (register n E r s2) = Retrying"
      by (rule Txn_Retrying) (simp split: if_splits)
    have kvs: "kvs = filter (\<lambda>x. kvKey x = qcWriteIndex Q) (evKVs (view s1))" "\<mu> s1 \<le> \<mu> s"
      using settles_Get [OF E get] by simp_all
    have "m = (case kvs of [] \<Rightarrow> 0 | x # _ \<Rightarrow> kvModRevision x)"
      using im by (auto simp: write_index_def split: list.splits option.splits)
    then have "list_all (cmp_holds (evKVs (view s1))) ?cs"
      using first_revision_holds [of "evKVs (view s1)" "qcWriteIndex Q"] kvs(1) by simp
    from settles_Txn [OF E txn this] have "\<mu> s2 < n" using kvs(2) Suc.prems by simp
    from Suc.IH [OF this] again show False by simp
  qed
qed simp

lemma update_ends:
  assumes E: "etcd_settles \<mu> view E"
  shows "\<mu> s < n \<Longrightarrow> fst (update n E e s) \<noteq> Retrying"
proof (induction n arbitrary: s)
  case (Suc n)
  let ?k = "entry_key Q (qcIndex Q e)"
  show ?case
  proof
    assume "fst (update (Suc n) E e s) = Retrying"
    then obtain kvs s1 where get: "etcd_Do E (OpGet ?k) s = (Ok kvs, s1)"
      and rest: "fst ((case kvs of [] \<Rightarrow> return_err ErrNotFound
        | kv # _ \<Rightarrow> andThen (etcd_Txn E [ModRevisionIs ?k (kvModRevision kv)] [OpPut ?k (Json (qcDoc Q e))])
            (\<lambda>(succeeded, _). if \<not> succeeded then update n E e else return_ok ())) s1) = Retrying"
      unfolding update_Suc by (rule Do_Retrying)
    from rest obtain kv kvs' where kv: "kvs = kv # kvs'" by (cases kvs) auto
    let ?cs = "[ModRevisionIs ?k (kvModRevision kv)]" and ?ops = "[OpPut ?k (Json (qcDoc Q e))]"
    have "fst (andThen (etcd_Txn E ?cs ?ops) (\<lambda>(succeeded, _).
        if \<not> succeeded then update n E e else return_ok ()) s1) = Retrying"
      using rest kv by simp
    then obtain rs s2 where txn: "etcd_Txn E ?cs ?ops s1 = (Ok (False, rs), s2)"
      and again: "fst (update n E e s2) = Retrying"
      by (rule Txn_Retrying) (simp split: if_splits)
    have kvs: "kvs = filter (\<lambda>x. kvKey x = ?k) (evKVs (view s1))" "\<mu> s1 \<le> \<mu> s"
      using settles_Get [OF E get] by simp_all
    have "list_all (cmp_holds (evKVs (view s1))) ?cs"
      using first_revision_holds [of "evKVs (view s1)" ?k, folded kvs(1)] kv by (simp del: cmp_holds.simps)
    from settles_Txn [OF E txn this] have "\<mu> s2 < n" using kvs(2) Suc.prems by simp
    from Suc.IH [OF this] again show False by simp
  qed
qed simp

end

section \<open>Properties\<close>

text \<open>
  C26. The reboot queue in etcd is a queue with atomic operations, although every operation is several
  requests and other clients (of this queue or of other keys) act between them. When
  \<^verbatim>\<open>RegisterRebootsEntry\<close> succeeds, the entry was added at one instant under the next index, which no
  entry had, and nothing else changed; an index below the last 64-bit number is presupposed. A
  successful \<^verbatim>\<open>UpdateRebootsEntry\<close> replaced one entry that was there; a successful
  \<^verbatim>\<open>DeleteRebootsEntry\<close> removed one entry while the leader key existed.
\<close>
theorem reboot_queue_refines:
  assumes E: "etcd_ok (queue_steps reboots) view E" and ok: "queue_ok reboots (view s)"
  shows "(RegisterRebootsEntry n E r s = (Ok r', s') \<and> rqIndex r' < max_index \<longrightarrow>
      (\<exists>v. queue_steps reboots (view s) v \<and> aqEntries (abs_queue reboots v) (rqIndex r') = None \<and>
         r' = r\<lparr>rqIndex := aqNext (abs_queue reboots v)\<rparr> \<and>
         abs_queue reboots (view s') = aq_register r' (abs_queue reboots v))) \<and>
    (UpdateRebootsEntry n E r s = (Ok (), s') \<and> 0 \<le> rqIndex r \<and> rqIndex r \<le> max_index \<longrightarrow>
      (\<exists>v. queue_steps reboots (view s) v \<and> aqEntries (abs_queue reboots v) (rqIndex r) \<noteq> None \<and>
         abs_queue reboots (view s') = aq_update (rqIndex r) r (abs_queue reboots v))) \<and>
    (DeleteRebootsEntry E leaderKey i s = (Ok (), s') \<and> 0 \<le> i \<and> i \<le> max_index \<longrightarrow>
      (\<exists>v. queue_steps reboots (view s) v \<and> kv_find leaderKey (evKVs v) \<noteq> None \<and>
         abs_queue reboots (view s') = aq_delete i (abs_queue reboots v)))"
  using reboots_store.register_fresh [OF E ok, of n r r' s'] reboots_store.update_ok [OF E ok, of r n s']
    reboots_store.delete_ok [OF E ok, of i leaderKey s']
  unfolding reboots_sel abs_queue_sel by blast

text \<open>
  C27. The invariant of the repair queue (every key carries the index of its entry, and all indices are
  below the write index) is kept by every operation of the queue whatever its outcome, even when a
  request failed halfway and other clients were active. Only a registration under the very last 64-bit
  index breaks it, and that one leaves a negative write index.
\<close>
theorem repair_queue_invariant:
  assumes E: "etcd_ok (queue_steps repairs) view E" and ok: "queue_ok repairs (view s)"
  shows "(0 \<le> queue_next repairs (view (snd (RegisterRepairsEntry n E r s))) \<longrightarrow>
      queue_ok repairs (view (snd (RegisterRepairsEntry n E r s)))) \<and>
    (0 \<le> reIndex r \<and> reIndex r \<le> max_index \<longrightarrow> queue_ok repairs (view (snd (UpdateRepairsEntry n E r s)))) \<and>
    queue_ok repairs (view (snd (DeleteRepairsEntry E leaderKey i s))) \<and>
    queue_ok repairs (view (snd (GetRepairsEntry E i s)))"
  using repairs_store.operations_keep_invariant [OF E ok] unfolding repairs_sel by blast

text \<open>
  C28. \<^verbatim>\<open>GetRebootsEntries\<close> lists every entry of the reboot queue at one instant, each once, in the order
  in which they were registered: the keys are zero-padded hexadecimal numbers, so their order as
  strings is the order of the indices.
\<close>
theorem reboot_entries_in_order:
  assumes E: "etcd_ok (queue_steps reboots) view E" and ok: "queue_ok reboots (view s)"
    and run: "GetRebootsEntries E s = (Ok es, s')"
  shows "queue_steps reboots (view s) (view s') \<and> sorted_wrt (<) (map rqIndex es) \<and>
    (\<forall>i e. aqEntries (abs_queue reboots (view s')) i = Some e \<longleftrightarrow> e \<in> set es \<and> rqIndex e = i)"
proof -
  have "qcIndex reboots = rqIndex" by (simp add: reboots_def)
  then show ?thesis
    using reboots_store.entries_ok [OF E ok run] by simp
qed

text \<open>
  C29. The compare-and-swap loops of both queues end: if other clients change the store at most
  \<open>\<mu> s\<close> more times, one round more than that is enough for registration and for update.
\<close>
theorem queue_retries_end:
  assumes "etcd_settles \<mu> view E"
  shows "fst (RegisterRebootsEntry (Suc (\<mu> s)) E r s) \<noteq> Retrying \<and>
    fst (UpdateRebootsEntry (Suc (\<mu> s)) E r s) \<noteq> Retrying \<and>
    fst (RegisterRepairsEntry (Suc (\<mu> s)) E e s) \<noteq> Retrying \<and>
    fst (UpdateRepairsEntry (Suc (\<mu> s)) E e s) \<noteq> Retrying"
  using reboots_store.register_ends [OF assms] reboots_store.update_ends [OF assms]
    repairs_store.register_ends [OF assms] repairs_store.update_ends [OF assms] by blast

text \<open>
  C30. The errors of the queues mean what they say: \<^verbatim>\<open>ErrNotFound\<close> of an update or a lookup means that
  the entry did not exist at the end of the call, and \<^verbatim>\<open>ErrNoLeader\<close> of a deletion that the leader key
  did not; up to that moment the store went through steps of the queue only.
\<close>
theorem queue_errors_exact:
  assumes E: "etcd_ok (queue_steps repairs) view E" and ok: "queue_ok repairs (view s)"
  shows "(UpdateRepairsEntry n E r s = (Err ErrNotFound, s') \<longrightarrow>
      queue_steps repairs (view s) (view s') \<and> aqEntries (abs_queue repairs (view s')) (reIndex r) = None) \<and>
    (GetRepairsEntry E i s = (Err ErrNotFound, s') \<longrightarrow>
      queue_steps repairs (view s) (view s') \<and> aqEntries (abs_queue repairs (view s')) i = None) \<and>
    (DeleteRepairsEntry E leaderKey i s = (Err ErrNoLeader, s') \<longrightarrow>
      queue_steps repairs (view s) (view s') \<and> kv_find leaderKey (evKVs (view s')) = None)"
  using repairs_store.update_missing [OF E ok, of n r s'] repairs_store.get_missing [OF E ok, of i s']
    repairs_store.delete_no_leader [OF E, of leaderKey i s s']
  unfolding repairs_sel abs_queue_sel by blast

section \<open>Witnesses\<close>

lemma queue_alone: "etcd_ok (queue_steps Q) (\<lambda>v. v) mem_client"
  by (rule mem_client_ok) simp

lemma mem_requests:
  "etcd_Do mem_client op v = (Ok (op_answer op (evKVs v)), exec_ops [op] v)"
  "etcd_Txn mem_client cs ops v =
     (if list_all (cmp_holds (evKVs v)) cs
      then (Ok (True, map (\<lambda>op. op_answer op (evKVs v)) ops), exec_ops ops v) else (Ok (False, []), v))"
  by (simp_all add: etcd_Do_def etcd_Txn_def mem_client_def)

lemma queue_ok_leader_view: "queue_ok reboots leader_view" "queue_ok repairs leader_view"
  by (simp_all add: queue_ok_def queue_next_def value_at_def kv_find_def leader_view_def leader_key_def
      reboots_sel repairs_sel kv_prefix_def HasPrefix_def storage_keys max_index_def wf_view_def)

text \<open>The queue after the first registration.\<close>

definition first_reboot :: RebootQueueEntry where
  "first_reboot = NewRebootQueueEntry ''10.0.0.11''"

definition one_reboot :: etcd_view where
  "one_reboot = exec_ops [OpPut (rebootsEntryKey 0) (Json (JReboot first_reboot)),
     OpPut KeyRebootsWriteIndex (Text (Itoa 1))] leader_view"

lemma register_first:
  "RegisterRebootsEntry 1 mem_client first_reboot leader_view = (Ok first_reboot, one_reboot)"
proof -
  have "first_reboot\<lparr>rqIndex := 0\<rparr> = first_reboot" by (simp add: first_reboot_def NewRebootQueueEntry_def)
  moreover have "wrap64 1 = 1" by (simp add: wrap64_def)
  ultimately show ?thesis
    by (simp add: andThen_def mem_requests write_index_def one_reboot_def kv_find_def leader_view_def
        leader_key_def storage_keys)
qed

theorem reboot_queue_refines_witness:
  "RegisterRebootsEntry 1 mem_client first_reboot leader_view = (Ok first_reboot, one_reboot) \<and>
   (\<exists>v. queue_steps reboots leader_view v \<and> aqEntries (abs_queue reboots v) 0 = None \<and>
      abs_queue reboots one_reboot = aq_register first_reboot (abs_queue reboots v))"
  using reboot_queue_refines [OF queue_alone queue_ok_leader_view(1), of 1 first_reboot first_reboot one_reboot]
    register_first
  by (auto simp: first_reboot_def NewRebootQueueEntry_def max_index_def)

theorem repair_queue_invariant_witness:
  "queue_ok repairs (snd (GetRepairsEntry mem_client 3 leader_view)) \<and>
   queue_ok repairs (snd (DeleteRepairsEntry mem_client leader_key 3 leader_view))"
  using repair_queue_invariant [OF queue_alone queue_ok_leader_view(2)] by blast

lemma listed_first: "GetRebootsEntries mem_client one_reboot = (Ok [first_reboot], one_reboot)"
proof -
  have "kv_prefix KeyRebootsPrefix (evKVs one_reboot) =
      [new_kv 2 (rebootsEntryKey 0) (Json (JReboot first_reboot))]"
  proof -
    have "\<not> HasPrefix KeyRebootsWriteIndex KeyRebootsPrefix" "HasPrefix (rebootsEntryKey 0) KeyRebootsPrefix"
      "kv_prefix KeyRebootsPrefix (evKVs leader_view) = []"
      by (simp_all add: rebootsEntryKey_def)
        (simp_all add: HasPrefix_def storage_keys kv_prefix_def leader_view_def leader_key_def)
    then show ?thesis
      using wf_leader_view
      by (simp add: one_reboot_def exec_ops_def kv_prefix_put kv_put_sorted wf_view_sorted new_kv_def
          leader_view_def [THEN arg_cong, of evRevision])
  qed
  then show ?thesis
    by (simp add: GetRebootsEntries_def andThen_def mem_requests limited_def new_kv_def unmarshal_def as_defs)
qed

lemma queue_ok_one_reboot: "queue_ok reboots one_reboot"
proof -
  have "queue_step reboots leader_view one_reboot"
    using queue_step.register [of reboots leader_view first_reboot]
    by (simp add: reboots_sel one_reboot_def first_reboot_def NewRebootQueueEntry_def max_index_def
        queue_next_def value_at_def kv_find_def leader_view_def leader_key_def storage_keys)
  then show ?thesis
    using queue_step_ok queue_ok_leader_view(1) codec_reboots by blast
qed

theorem reboot_entries_in_order_witness:
  "GetRebootsEntries mem_client one_reboot = (Ok [first_reboot], one_reboot) \<and>
   aqEntries (abs_queue reboots one_reboot) 0 = Some first_reboot"
  using reboot_entries_in_order [OF queue_alone queue_ok_one_reboot listed_first] listed_first
  by (simp add: first_reboot_def NewRebootQueueEntry_def)

text \<open>A store that other clients change before each of the next requests, as a script says.\<close>

definition interfere :: "etcd_view \<times> etcd_op list list \<Rightarrow> etcd_view \<times> etcd_op list list" where
  "interfere s = (case snd s of [] \<Rightarrow> s | ops # rest \<Rightarrow> (exec_ops ops (fst s), rest))"

definition busy_client :: "(etcd_view \<times> etcd_op list list) etcd_client" where
  "busy_client = \<lparr>
     ecDo = (\<lambda>op s. let (v, rest) = interfere s in
        (fst (ecDo mem_client op v), (snd (ecDo mem_client op v), rest))),
     ecTxn = (\<lambda>cs ops s. let (v, rest) = interfere s in
        (fst (ecTxn mem_client cs ops v), (snd (ecTxn mem_client cs ops v), rest))),
     ecText = (\<lambda>d. [])\<rparr>"

lemma busy_settles: "etcd_settles (length \<circ> snd) fst busy_client"
proof -
  have "\<exists>v. do_ok op v (fst (ecDo mem_client op v)) (snd (ecDo mem_client op v)) \<and>
      txn_ok cs ops v (fst (ecTxn mem_client cs ops v)) (snd (ecTxn mem_client cs ops v))"
    and mem: "do_ok op v (fst (ecDo mem_client op v)) (snd (ecDo mem_client op v))"
    "txn_ok cs ops v (fst (ecTxn mem_client cs ops v)) (snd (ecTxn mem_client cs ops v))" for op cs ops v
    using mem_alone by (auto simp: etcd_ok_def)
  show ?thesis
    unfolding etcd_settles_def
  proof (intro conjI allI)
    fix op and s :: "etcd_view \<times> etcd_op list list"
    show "\<exists>v. do_ok op v (fst (ecDo busy_client op s)) (fst (snd (ecDo busy_client op s))) \<and>
        (length \<circ> snd) (snd (ecDo busy_client op s)) \<le> (length \<circ> snd) s \<and>
        (v = fst s \<or> (length \<circ> snd) (snd (ecDo busy_client op s)) < (length \<circ> snd) s)"
      using mem(1) [of op "fst (interfere s)"]
      by (intro exI [of _ "fst (interfere s)"])
        (auto simp: busy_client_def interfere_def split: prod.splits list.splits)
  next
    fix cs ops and s :: "etcd_view \<times> etcd_op list list"
    show "\<exists>v. txn_ok cs ops v (fst (ecTxn busy_client cs ops s)) (fst (snd (ecTxn busy_client cs ops s))) \<and>
        (length \<circ> snd) (snd (ecTxn busy_client cs ops s)) \<le> (length \<circ> snd) s \<and>
        (v = fst s \<or> (length \<circ> snd) (snd (ecTxn busy_client cs ops s)) < (length \<circ> snd) s)"
      using mem(2) [of cs ops "fst (interfere s)"]
      by (intro exI [of _ "fst (interfere s)"])
        (auto simp: busy_client_def interfere_def split: prod.splits list.splits)
  qed
qed

text \<open>Another client takes the first index between the read and the write.\<close>

definition contended :: "etcd_view \<times> etcd_op list list" where
  "contended = (leader_view, [[], [OpPut (rebootsEntryKey 0) (Json (JReboot first_reboot)),
     OpPut KeyRebootsWriteIndex (Text (Itoa 1))]])"

theorem queue_retries_end_witness:
  "fst (RegisterRebootsEntry 1 busy_client first_reboot contended) = Retrying \<and>
   fst (RegisterRebootsEntry 3 busy_client first_reboot contended) \<noteq> Retrying"
proof -
  have "Suc ((length \<circ> snd) contended) = 3" by (simp add: contended_def)
  then have "fst (RegisterRebootsEntry 3 busy_client first_reboot contended) \<noteq> Retrying"
    using queue_retries_end [OF busy_settles, of contended first_reboot] by metis
  moreover have "fst (RegisterRebootsEntry 1 busy_client first_reboot contended) = Retrying"
    by (simp add: contended_def busy_client_def interfere_def mem_client_def andThen_def etcd_Do_def
        etcd_Txn_def write_index_def leader_view_def leader_key_def exec_ops_def kv_find_def
        rebootsEntryKey_def storage_keys)
  ultimately show ?thesis by simp
qed

theorem queue_errors_exact_witness:
  "GetRepairsEntry mem_client 3 leader_view = (Err ErrNotFound, leader_view) \<and>
   aqEntries (abs_queue repairs leader_view) 3 = None"
proof -
  have "GetRepairsEntry mem_client 3 leader_view = (Err ErrNotFound, leader_view)"
    by (simp add: GetRepairsEntry_def get_json_def andThen_def mem_requests leader_view_def leader_key_def
        repairsEntryKey_def storage_keys)
  then show ?thesis
    using queue_errors_exact [OF queue_alone queue_ok_leader_view(2), where i = 3 and s' = leader_view] by blast
qed

end
