(* ===== verification/Spec2Isabelle.thy ===== *)
theory Spec2Isabelle
  imports CKE_Steady CKE_QueueLive
begin

text \<open>
  CKE (Cybozu Kubernetes Engine) builds and maintains Kubernetes clusters. A server, elected leader
  through etcd, runs a loop: it reads the cluster definition from etcd, observes the machines, the etcd
  cluster and Kubernetes, decides the next operations with one pure function (\<^verbatim>\<open>DecideOps\<close> in
  \<^verbatim>\<open>server/strategy.go\<close>), and runs them command by command, keeping a record of each in etcd.
  Administrators put machines into a reboot queue and a repair queue, which the decision also serves.

  \<^bold>\<open>Theories and sources.\<close>
  \<^item> \<open>CKE_Prelude\<close>, \<open>CKE_Text\<close>: Go constructs (panics as \<open>None\<close>, maps as association lists, 64-bit
    wrap-around, time in nanoseconds, decimal and hexadecimal numbers as text) and generic lemmas.
  \<^item> \<open>CKE_Cluster\<close>, \<open>CKE_Queue\<close>, \<open>CKE_Status\<close>, \<open>CKE_Record\<close>: the data of \<^verbatim>\<open>cluster.go\<close>, \<^verbatim>\<open>collections.go\<close>,
    \<^verbatim>\<open>constraints.go\<close>, \<^verbatim>\<open>reboot.go\<close>, \<^verbatim>\<open>repair.go\<close>, \<^verbatim>\<open>status.go\<close>, \<^verbatim>\<open>resource.go\<close> and \<^verbatim>\<open>record.go\<close>, with their
    functions.
  \<^item> \<open>CKE_Params\<close>: the built-in parameters of every service (\<^verbatim>\<open>op/**\<close>).
  \<^item> \<open>CKE_NodeFilter\<close>, \<open>CKE_NodeAttrs\<close>: the filters of \<^verbatim>\<open>server/node_filter.go\<close>. The locale \<open>node_filter\<close>
    is the contract of a filter; every filter interprets it.
  \<^item> \<open>CKE_Ops\<close>, \<open>CKE_Operator\<close>: the operators of \<^verbatim>\<open>op/**\<close> as state machines that hand out commands; the
    locale \<open>operator_machine\<close> is their contract.
  \<^item> \<open>CKE_DNS\<close>, \<open>CKE_Endpoints\<close>, \<open>CKE_Repair\<close>, \<open>CKE_Strategy\<close>: \<^verbatim>\<open>server/strategy.go\<close>, from the functions
    for DNS, endpoints and repairs to \<^verbatim>\<open>DecideOps\<close>; \<^verbatim>\<open>phase.go\<close>.
  \<^item> \<open>CKE_Decide\<close>, \<open>CKE_Safety\<close>, \<open>CKE_Phases\<close>, \<open>CKE_Converged\<close>, \<open>CKE_Steady\<close>: what \<^verbatim>\<open>DecideOps\<close> guarantees,
    with concrete clusters (\<open>CKE_Samples\<close> and the last theory) on which the theorems are applied.
  \<^item> \<open>CKE_Etcd\<close>, \<open>CKE_Storage\<close>, \<open>CKE_Records\<close>, \<open>CKE_QueueStore\<close>, \<open>CKE_QueueOps\<close>, \<open>CKE_QueueLive\<close>:
    \<^verbatim>\<open>storage.go\<close> over an etcd client that is a parameter; the log of records; the two queues under
    concurrent clients. The locale \<open>queue_contract\<close> is what a queue promises, \<open>queue_storage\<close> the way
    \<^verbatim>\<open>storage.go\<close> implements it; both queues interpret them.

  \<^bold>\<open>What the theorems show.\<close>
  \<^item> Deciding never panics on a status that the status collection can produce; operators work on
    reachable machines, on at most the configured number at a time; every operator belongs to the
    reported phase; a completed cluster runs what its definition says, and such a cluster is left
    alone. API servers are restarted one by one, etcd members change only while etcd is good, repairs,
    reboots and uncordons keep their guards. One theorem exhibits a status on which an operator with a
    nil API server is decided.
  \<^item> Node attributes converge and foreign ones are kept; endpoints settle and none is overlooked.
  \<^item> Repairs respect the limits on concurrency and wait for drains; every entry is settled at its end;
    one theorem shows that a machine with two entries is repaired twice at a time.
  \<^item> Every operator ends, and pulls images before it runs them.
  \<^item> A stored cluster definition is read back; the log of records stays within its bound. The
    queues behave as atomic queues under concurrent clients, keep their invariant, list their entries in
    order, and their retry loops end.

  \<^bold>\<open>Parameters and hypotheses.\<close> Third-party code is a parameter: \<open>third_party\<close> in \<open>CKE_Cluster\<close> for the
  Kubernetes libraries (decoding, deep equality, semantic comparison), \<open>etcd_client\<close> in \<open>CKE_Etcd\<close> for
  etcd, whose documented behaviour is \<open>etcd_ok\<close>. Other clients of etcd act between any two requests;
  the relation \<open>rely\<close> says what they may do. Retry loops take a number of rounds and return \<open>Retrying\<close>
  when it is used up.

  \<^bold>\<open>Not modelled.\<close> The commands that talk to machines over SSH, to the Docker engine, Kubernetes and
  Vault; the status collection (the theorems quantify over its result); leader election, tickers and
  goroutines; certificates; the generation of cluster definitions from sabakan; the command-line tools,
  metrics, the local proxy and the load balancer. They are I/O around the modelled core.
\<close>

end
